(* ===== verification/Prelude.thy ===== *)
theory Prelude
  imports Main "HOL-Library.Word" "HOL-Library.Signed_Division"
begin

text \<open>
  The shared vocabulary of the development: the machine types of the Rust sources, the outcome
  of a contract call (a value, a returned error, or a panic), the state-passing actions the
  contract functions are written in, Rust's arithmetic as it is compiled here
  (\<^verbatim>\<open>overflow-checks = true\<close> in the release profile of the root \<^verbatim>\<open>Cargo.toml\<close>, so an
  overflow panics), the runs of a step relation, and the two interfaces the component theories
  share: a keyed store of values and a machine with an invariant.
\<close>

named_theorems act_simps \<open>inversion of an action that ended in a given outcome\<close>
named_theorems run_simps \<open>evaluation of an action on a known state\<close>
named_theorems op_defs \<open>definitions of the contract operations\<close>

section \<open>Machine types\<close>

type_synonym u32 = "32 word"
type_synonym u64 = "64 word"

text \<open>\<^verbatim>\<open>i128\<close> is an integer whose arithmetic is checked to stay in the 128-bit range.\<close>

type_synonym i128 = int

text \<open>An \<^verbatim>\<open>Address\<close> is opaque to the contracts: they only compare and store it.\<close>

type_synonym address = string

definition i128_range :: "int \<Rightarrow> bool" where
  "i128_range x \<longleftrightarrow> - (2 ^ 127) \<le> x \<and> x < 2 ^ 127"

section \<open>Outcomes and actions\<close>

text \<open>Why a call can panic: the host then discards everything the call did.\<close>

datatype trap =
    Overflow
  | AuthMissing
  | NotInitialised
  | BadConversion
  | HostCallFailed

datatype ('e, 'a) outcome = Done 'a | Err 'e | Trap trap

type_synonym ('s, 'e, 'a) act = "'s \<Rightarrow> ('e, 'a) outcome \<times> 's"

definition ret :: "'a \<Rightarrow> ('s, 'e, 'a) act" where
  "ret a s = (Done a, s)"

definition fail :: "'e \<Rightarrow> ('s, 'e, 'a) act" where
  "fail e s = (Err e, s)"

definition panic :: "trap \<Rightarrow> ('s, 'e, 'a) act" where
  "panic t s = (Trap t, s)"

text \<open>Sequencing; it stops at the first error (the operator \<^verbatim>\<open>?\<close>) and at a panic.\<close>

definition bindS :: "('s, 'e, 'a) act \<Rightarrow> ('a \<Rightarrow> ('s, 'e, 'b) act) \<Rightarrow> ('s, 'e, 'b) act" where
  "bindS m f s = (case m s of
      (Done a, s') \<Rightarrow> f a s'
    | (Err e, s') \<Rightarrow> (Err e, s')
    | (Trap t, s') \<Rightarrow> (Trap t, s'))"

definition thenS :: "('s, 'e, 'a) act \<Rightarrow> ('s, 'e, 'b) act \<Rightarrow> ('s, 'e, 'b) act" where
  "thenS m n = bindS m (\<lambda>_. n)"

text \<open>The early return \<^verbatim>\<open>if b { return Err(e); }\<close>.\<close>

definition fail_if :: "bool \<Rightarrow> 'e \<Rightarrow> ('s, 'e, unit) act" where
  "fail_if b e = (if b then fail e else ret ())"

definition gets :: "('s \<Rightarrow> 'a) \<Rightarrow> ('s, 'e, 'a) act" where
  "gets f s = (Done (f s), s)"

definition modify :: "('s \<Rightarrow> 's) \<Rightarrow> ('s, 'e, unit) act" where
  "modify f s = (Done (), f s)"

text \<open>\<^verbatim>\<open>Option::expect\<close> and \<^verbatim>\<open>unwrap\<close>: panic on \<^verbatim>\<open>None\<close>.\<close>

definition expect :: "trap \<Rightarrow> 'a option \<Rightarrow> ('s, 'e, 'a) act" where
  "expect t x = (case x of None \<Rightarrow> panic t | Some a \<Rightarrow> ret a)"

text \<open>\<^verbatim>\<open>Option::ok_or(e)?\<close>: return the error on \<^verbatim>\<open>None\<close>.\<close>

definition ok_or :: "'e \<Rightarrow> 'a option \<Rightarrow> ('s, 'e, 'a) act" where
  "ok_or e x = (case x of None \<Rightarrow> fail e | Some a \<Rightarrow> ret a)"

lemma bindS_ret [simp]: "bindS (ret a) f = f a"
  by (simp add: bindS_def ret_def fun_eq_iff)

lemma bindS_ret_right [simp]: "bindS m ret = m"
  by (auto simp: bindS_def ret_def fun_eq_iff split: prod.splits outcome.splits)

lemma bindS_fail [simp]: "bindS (fail e) f = fail e"
  by (simp add: bindS_def fail_def fun_eq_iff)

lemma bindS_panic [simp]: "bindS (panic t) f = panic t"
  by (simp add: bindS_def panic_def fun_eq_iff)

lemma bindS_assoc: "bindS (bindS m f) g = bindS m (\<lambda>a. bindS (f a) g)"
  by (simp add: bindS_def fun_eq_iff split: prod.splits outcome.splits)

lemma bindS_cong_state: "m s = n s \<Longrightarrow> bindS m f s = bindS n f s"
  by (simp add: bindS_def)

subsection \<open>Inversion\<close>

lemma bindS_Done [act_simps]:
  "bindS m f s = (Done b, s'') \<longleftrightarrow> (\<exists>a s'. m s = (Done a, s') \<and> f a s' = (Done b, s''))"
  by (auto simp: bindS_def split: prod.splits outcome.splits)

lemma bindS_Err [act_simps]:
  "bindS m f s = (Err e, s'') \<longleftrightarrow>
     m s = (Err e, s'') \<or> (\<exists>a s'. m s = (Done a, s') \<and> f a s' = (Err e, s''))"
  by (auto simp: bindS_def split: prod.splits outcome.splits)

lemma bindS_Trap [act_simps]:
  "bindS m f s = (Trap t, s'') \<longleftrightarrow>
     m s = (Trap t, s'') \<or> (\<exists>a s'. m s = (Done a, s') \<and> f a s' = (Trap t, s''))"
  by (auto simp: bindS_def split: prod.splits outcome.splits)

lemma ret_eq [act_simps]: "ret a s = (r, s') \<longleftrightarrow> r = Done a \<and> s' = s"
  by (auto simp: ret_def)

lemma fail_eq [act_simps]: "fail e s = (r, s') \<longleftrightarrow> r = Err e \<and> s' = s"
  by (auto simp: fail_def)

lemma panic_eq [act_simps]: "panic t s = (r, s') \<longleftrightarrow> r = Trap t \<and> s' = s"
  by (auto simp: panic_def)

lemma gets_eq [act_simps]: "gets f s = (r, s') \<longleftrightarrow> r = Done (f s) \<and> s' = s"
  by (auto simp: gets_def)

lemma modify_eq [act_simps]: "modify f s = (r, s') \<longleftrightarrow> r = Done () \<and> s' = f s"
  by (auto simp: modify_def)

lemma fail_if_eq [act_simps]:
  "fail_if b e s = (Done u, s') \<longleftrightarrow> \<not> b \<and> s' = s"
  "fail_if b e s = (Err x, s') \<longleftrightarrow> b \<and> x = e \<and> s' = s"
  "fail_if b e s \<noteq> (Trap t, s')"
  by (auto simp: fail_if_def ret_def fail_def)

lemma expect_eq [act_simps]:
  "expect t x s = (Done a, s') \<longleftrightarrow> x = Some a \<and> s' = s"
  "expect t x s \<noteq> (Err e, s')"
  "expect t x s = (Trap t', s') \<longleftrightarrow> x = None \<and> t' = t \<and> s' = s"
  by (auto simp: expect_def ret_def panic_def split: option.splits)

lemma ok_or_eq [act_simps]:
  "ok_or e x s = (Done a, s') \<longleftrightarrow> x = Some a \<and> s' = s"
  "ok_or e x s = (Err e', s') \<longleftrightarrow> x = None \<and> e' = e \<and> s' = s"
  "ok_or e x s \<noteq> (Trap t, s')"
  by (auto simp: ok_or_def ret_def fail_def split: option.splits)

lemmas thenS_unfold [act_simps] = thenS_def

subsection \<open>Evaluation\<close>

lemma ret_run [run_simps]: "ret a s = (Done a, s)"
  by (simp add: ret_def)

lemma fail_run [run_simps]: "fail e s = (Err e, s)"
  by (simp add: fail_def)

lemma panic_run [run_simps]: "panic t s = (Trap t, s)"
  by (simp add: panic_def)

lemma gets_run [run_simps]: "gets f s = (Done (f s), s)"
  by (simp add: gets_def)

lemma modify_run [run_simps]: "modify f s = (Done (), f s)"
  by (simp add: modify_def)

lemmas [run_simps] = bindS_def thenS_def fail_if_def expect_def ok_or_def

section \<open>Rust arithmetic\<close>

text \<open>\<^verbatim>\<open>i128\<close> arithmetic with overflow checks; division truncates towards zero.\<close>

definition i128_add :: "i128 \<Rightarrow> i128 \<Rightarrow> ('s, 'e, i128) act" where
  "i128_add a b = (if i128_range (a + b) then ret (a + b) else panic Overflow)"

definition i128_sub :: "i128 \<Rightarrow> i128 \<Rightarrow> ('s, 'e, i128) act" where
  "i128_sub a b = (if i128_range (a - b) then ret (a - b) else panic Overflow)"

definition i128_mul :: "i128 \<Rightarrow> i128 \<Rightarrow> ('s, 'e, i128) act" where
  "i128_mul a b = (if i128_range (a * b) then ret (a * b) else panic Overflow)"

definition word_add :: "'w::len word \<Rightarrow> 'w word \<Rightarrow> ('s, 'e, 'w word) act" where
  "word_add a b = (if uint a + uint b < 2 ^ LENGTH('w) then ret (a + b) else panic Overflow)"

definition word_mul :: "'w::len word \<Rightarrow> 'w word \<Rightarrow> ('s, 'e, 'w word) act" where
  "word_mul a b = (if uint a * uint b < 2 ^ LENGTH('w) then ret (a * b) else panic Overflow)"

definition saturating_add :: "'w::len word \<Rightarrow> 'w word \<Rightarrow> 'w word" where
  "saturating_add a b = (if uint a + uint b < 2 ^ LENGTH('w) then a + b else - 1)"

definition saturating_sub :: "'w::len word \<Rightarrow> 'w word \<Rightarrow> 'w word" where
  "saturating_sub a b = (if a < b then 0 else a - b)"

lemma i128_add_eq [act_simps]:
  "i128_add a b s = (Done c, s') \<longleftrightarrow> i128_range (a + b) \<and> c = a + b \<and> s' = s"
  "i128_add a b s \<noteq> (Err e, s')"
  "i128_add a b s = (Trap t, s') \<longleftrightarrow> \<not> i128_range (a + b) \<and> t = Overflow \<and> s' = s"
  by (auto simp: i128_add_def ret_def panic_def)

lemma i128_sub_eq [act_simps]:
  "i128_sub a b s = (Done c, s') \<longleftrightarrow> i128_range (a - b) \<and> c = a - b \<and> s' = s"
  "i128_sub a b s \<noteq> (Err e, s')"
  "i128_sub a b s = (Trap t, s') \<longleftrightarrow> \<not> i128_range (a - b) \<and> t = Overflow \<and> s' = s"
  by (auto simp: i128_sub_def ret_def panic_def)

lemma i128_mul_eq [act_simps]:
  "i128_mul a b s = (Done c, s') \<longleftrightarrow> i128_range (a * b) \<and> c = a * b \<and> s' = s"
  "i128_mul a b s \<noteq> (Err e, s')"
  "i128_mul a b s = (Trap t, s') \<longleftrightarrow> \<not> i128_range (a * b) \<and> t = Overflow \<and> s' = s"
  by (auto simp: i128_mul_def ret_def panic_def)

lemma word_add_eq [act_simps]:
  "word_add a b s = (Done c, s') \<longleftrightarrow> uint a + uint b < 2 ^ LENGTH('w) \<and> c = a + b \<and> s' = s"
  "word_add a b s \<noteq> (Err e, s')"
  "word_add a b s = (Trap t, s') \<longleftrightarrow> \<not> uint a + uint b < 2 ^ LENGTH('w) \<and> t = Overflow \<and> s' = s"
  for a b :: "'w::len word"
  by (auto simp: word_add_def ret_def panic_def)

lemma word_mul_eq [act_simps]:
  "word_mul a b s = (Done c, s') \<longleftrightarrow> uint a * uint b < 2 ^ LENGTH('w) \<and> c = a * b \<and> s' = s"
  "word_mul a b s \<noteq> (Err e, s')"
  "word_mul a b s = (Trap t, s') \<longleftrightarrow> \<not> uint a * uint b < 2 ^ LENGTH('w) \<and> t = Overflow \<and> s' = s"
  for a b :: "'w::len word"
  by (auto simp: word_mul_def ret_def panic_def)

lemmas [run_simps] = i128_add_def i128_sub_def i128_mul_def word_add_def word_mul_def

lemma uint_add_exact:
  "uint a + uint b < 2 ^ LENGTH('w) \<Longrightarrow> uint (a + b) = uint a + uint b"
  for a b :: "'w::len word"
  by (simp add: uint_word_ariths take_bit_eq_mod)

lemma uint_mul_exact:
  "uint a * uint b < 2 ^ LENGTH('w) \<Longrightarrow> uint (a * b) = uint a * uint b"
  for a b :: "'w::len word"
  by (simp add: uint_word_ariths take_bit_eq_mod)

lemma uint_saturating_add:
  "uint (saturating_add a b) = min (uint a + uint b) (2 ^ LENGTH('w) - 1)"
  for a b :: "'w::len word"
proof (cases "uint a + uint b < 2 ^ LENGTH('w)")
  case True
  then show ?thesis by (simp add: saturating_add_def uint_add_exact)
next
  case False
  have "uint (- 1 :: 'w word) = 2 ^ LENGTH('w) - 1"
    by (simp add: unsigned_minus_1_eq_mask mask_eq_exp_minus_1)
  with False show ?thesis by (simp add: saturating_add_def)
qed

lemma uint_saturating_sub: "uint (saturating_sub a b) = max 0 (uint a - uint b)"
  for a b :: "'w::len word"
proof (cases "a < b")
  case True
  then show ?thesis by (simp add: saturating_sub_def word_less_def)
next
  case False
  then have "uint b \<le> uint a" by (simp add: word_less_def)
  with False show ?thesis by (simp add: saturating_sub_def uint_sub_lem)
qed

lemma sdiv_nonneg: "0 \<le> a \<Longrightarrow> 0 < b \<Longrightarrow> a sdiv b = a div b" for a b :: int
  by (cases "a = 0") (simp_all add: signed_divide_int_def)

lemma div_mult_le_int: "0 < b \<Longrightarrow> a div b * b \<le> a" for a b :: int
  using div_mult_mod_eq [of a b] pos_mod_sign [of b a] by linarith

lemma less_div_mult_int: "0 < b \<Longrightarrow> a < (a div b + 1) * b" for a b :: int
  unfolding distrib_right using div_mult_mod_eq [of a b] pos_mod_bound [of b a] by linarith

lemma i128_range_between: "i128_range b \<Longrightarrow> 0 \<le> a \<Longrightarrow> a \<le> b \<Longrightarrow> i128_range a"
  by (simp add: i128_range_def)

section \<open>Lists\<close>

lemma sum_list_nonneg_member:
  "\<forall>x \<in> set xs. 0 \<le> f x \<Longrightarrow> x \<in> set xs \<Longrightarrow> f x \<le> sum_list (map f xs)" for f :: "'a \<Rightarrow> int"
  by (metis (mono_tags, lifting) member_le_sum_list imageE image_set imageI)

lemma sum_list_map_update:
  "i < length xs \<Longrightarrow> sum_list (map f (xs[i := y])) = sum_list (map f xs) - f (xs ! i) + f y"
  for f :: "'a \<Rightarrow> int"
proof (induction xs arbitrary: i)
  case Nil
  then show ?case by simp
next
  case (Cons x xs)
  then show ?case by (cases i) auto
qed

section \<open>Runs of a step relation\<close>

inductive run :: "('s \<Rightarrow> 'l \<Rightarrow> 's \<Rightarrow> bool) \<Rightarrow> 's \<Rightarrow> 'l list \<Rightarrow> 's \<Rightarrow> bool" for step where
  run_nil: "run step s [] s"
| run_cons: "step s l s' \<Longrightarrow> run step s' ls s'' \<Longrightarrow> run step s (l # ls) s''"

inductive_simps run_Nil_iff [simp]: "run step s [] s'"
inductive_simps run_Cons_iff: "run step s (l # ls) s'"

lemma run_append: "run step s (ls @ ms) s'' \<longleftrightarrow> (\<exists>s'. run step s ls s' \<and> run step s' ms s'')"
  by (induction ls arbitrary: s) (auto simp: run_Cons_iff)

lemma run_trans: "run step s ls s' \<Longrightarrow> run step s' ms s'' \<Longrightarrow> run step s (ls @ ms) s''"
  by (auto simp: run_append)

lemma run_single: "step s l s' \<Longrightarrow> run step s [l] s'"
  by (simp add: run_Cons_iff)

lemma run_snoc: "run step s ls s' \<Longrightarrow> step s' l s'' \<Longrightarrow> run step s (ls @ [l]) s''"
  by (auto simp: run_append run_Cons_iff)

section \<open>Interfaces\<close>

text \<open>A keyed store: what a read returns after a write, for the key written and for the others.\<close>

locale keyed_store =
  fixes get :: "'s \<Rightarrow> 'k \<Rightarrow> 'v option"
    and put :: "'k \<Rightarrow> 'v \<Rightarrow> 's \<Rightarrow> 's"
  assumes get_put_same: "get (put k v s) k = Some v"
    and get_put_other: "k' \<noteq> k \<Longrightarrow> get (put k v s) k' = get s k'"
begin

lemma get_put: "get (put k v s) = (get s)(k \<mapsto> v)"
  by (auto simp: get_put_same get_put_other)

lemma dom_get_put: "dom (get (put k v s)) = insert k (dom (get s))"
  by (simp add: get_put)

lemma get_put_overwrite: "get (put k v (put k u s)) = get (put k v s)"
  by (simp add: get_put)

lemma get_put_commute:
  "k \<noteq> k' \<Longrightarrow> get (put k v (put k' u s)) = get (put k' u (put k v s))"
  by (simp add: get_put fun_upd_twist)

end

text \<open>A machine whose steps keep an invariant: so does every run.\<close>

locale machine =
  fixes step :: "'s \<Rightarrow> 'l \<Rightarrow> 's \<Rightarrow> bool"
    and inv :: "'s \<Rightarrow> bool"
  assumes inv_step: "inv s \<Longrightarrow> step s l s' \<Longrightarrow> inv s'"
begin

lemma run_inv: "run step s ls s' \<Longrightarrow> inv s \<Longrightarrow> inv s'"
  by (induction rule: run.induct) (auto intro: inv_step)

end

text \<open>
  A machine whose steps, on states of the invariant, also respect a preorder: the two ends of
  a run are related by it. Monotonicity properties of whole histories are instances.
\<close>

locale monotone_machine = machine step inv
  for step :: "'s \<Rightarrow> 'l \<Rightarrow> 's \<Rightarrow> bool" and inv :: "'s \<Rightarrow> bool" +
  fixes le :: "'s \<Rightarrow> 's \<Rightarrow> bool"
  assumes le_refl: "le s s"
    and le_trans: "le s t \<Longrightarrow> le t u \<Longrightarrow> le s u"
    and le_step: "inv s \<Longrightarrow> step s l s' \<Longrightarrow> le s s'"
begin

lemma run_le: "run step s ls s' \<Longrightarrow> inv s \<Longrightarrow> le s s'"
proof (induction rule: run.induct)
  case (run_nil s)
  show ?case by (rule le_refl)
next
  case (run_cons s l s' ls s'')
  then show ?case by (blast intro: le_trans le_step inv_step)
qed

end

end
