(* ===== verification/Soroban.thy ===== *)
theory Soroban
  imports Prelude
begin

text \<open>
  The contract side of the Soroban host: the invocation context a contract function runs in,
  the state one contract instance owns (its instance storage, the time-to-live of that storage,
  the events it has published) together with the rest of the ledger, and the host calls the
  sources make. Code that lives outside the repository stays a parameter: the other contracts
  (token, yield protocol) and the rule that extends a time-to-live are the fields of
  \<open>host\<close>, functions on a state \<open>'w\<close> the model never looks into, and whether an address has
  authorised the invocation is part of the context. The documented behaviour of a token
  contract is the predicate \<open>token_laws\<close>, a hypothesis of the theorems that need it.
\<close>

section \<open>Context, host and instance state\<close>

text \<open>
  \<^verbatim>\<open>env.current_contract_address()\<close>, \<^verbatim>\<open>env.ledger().timestamp()\<close> and the addresses whose
  \<^verbatim>\<open>require_auth()\<close> the host accepts in this invocation.
\<close>

record ctx =
  ctx_self :: address
  ctx_now :: u64
  ctx_auth :: "address set"

text \<open>
  The calls into code outside the repository. \<open>None\<close> is a call that panicked.
  \<open>h_transfer h c token from to amount\<close> is \<^verbatim>\<open>token::Client::transfer\<close>, \<open>h_deposit\<close> and
  \<open>h_withdraw\<close> are the two functions of the trait \<^verbatim>\<open>YieldProtocol\<close>,
  \<open>h_extend_ttl h threshold extend_to ttl\<close> is the time-to-live after \<^verbatim>\<open>extend_ttl\<close>.
\<close>

record 'w host =
  h_transfer :: "ctx \<Rightarrow> address \<Rightarrow> address \<Rightarrow> address \<Rightarrow> i128 \<Rightarrow> 'w \<Rightarrow> 'w option"
  h_deposit :: "ctx \<Rightarrow> address \<Rightarrow> i128 \<Rightarrow> 'w \<Rightarrow> 'w option"
  h_withdraw :: "ctx \<Rightarrow> address \<Rightarrow> i128 \<Rightarrow> 'w \<Rightarrow> ((i128 \<times> i128) \<times> 'w) option"
  h_extend_ttl :: "u32 \<Rightarrow> u32 \<Rightarrow> u32 \<Rightarrow> u32"

text \<open>
  Keys of the instance storage. A \<^verbatim>\<open>#[contracttype]\<close> enum used as a key is stored as its
  variant name followed by the payload; the name of the Rust enum is not part of the key.
\<close>

datatype raw_arg = ArgU64 u64 | ArgAddress address

datatype raw_key = RawKey string "raw_arg list"

record ('v, 'ev, 'w) chain =
  inst_store :: "raw_key \<Rightarrow> 'v option"
  inst_ttl :: u32
  ev_log :: "'ev list"
  ledger :: 'w

section \<open>Host operations\<close>

text \<open>
  \<^verbatim>\<open>storage().instance().get(key)\<close>: \<open>None\<close> when the key is absent; a stored value of
  another type makes the conversion panic.
\<close>

definition store_get ::
  "raw_key \<Rightarrow> ('v \<Rightarrow> 'a option) \<Rightarrow> (('v, 'ev, 'w) chain, 'e, 'a option) act" where
  "store_get k dec s = (case inst_store s k of
      None \<Rightarrow> (Done None, s)
    | Some v \<Rightarrow> (case dec v of None \<Rightarrow> (Trap BadConversion, s) | Some a \<Rightarrow> (Done (Some a), s)))"

definition store_put :: "raw_key \<Rightarrow> 'v \<Rightarrow> ('v, 'ev, 'w) chain \<Rightarrow> ('v, 'ev, 'w) chain" where
  "store_put k v s = s\<lparr>inst_store := (inst_store s)(k \<mapsto> v)\<rparr>"

definition store_set :: "raw_key \<Rightarrow> 'v \<Rightarrow> (('v, 'ev, 'w) chain, 'e, unit) act" where
  "store_set k v = modify (store_put k v)"

definition store_has :: "raw_key \<Rightarrow> (('v, 'ev, 'w) chain, 'e, bool) act" where
  "store_has k = gets (\<lambda>s. inst_store s k \<noteq> None)"

definition require_auth :: "ctx \<Rightarrow> address \<Rightarrow> (('v, 'ev, 'w) chain, 'e, unit) act" where
  "require_auth env a = (if a \<in> ctx_auth env then ret () else panic AuthMissing)"

definition publish :: "'ev \<Rightarrow> (('v, 'ev, 'w) chain, 'e, unit) act" where
  "publish ev = modify (\<lambda>s. s\<lparr>ev_log := ev_log s @ [ev]\<rparr>)"

definition instance_extend_ttl ::
  "'w host \<Rightarrow> u32 \<Rightarrow> u32 \<Rightarrow> (('v, 'ev, 'w) chain, 'e, unit) act" where
  "instance_extend_ttl h lo hi = modify (\<lambda>s. s\<lparr>inst_ttl := h_extend_ttl h lo hi (inst_ttl s)\<rparr>)"

definition token_transfer ::
  "'w host \<Rightarrow> ctx \<Rightarrow> address \<Rightarrow> address \<Rightarrow> address \<Rightarrow> i128 \<Rightarrow> (('v, 'ev, 'w) chain, 'e, unit) act"
where
  "token_transfer h env t src dst n s = (case h_transfer h env t src dst n (ledger s) of
      None \<Rightarrow> (Trap HostCallFailed, s)
    | Some w \<Rightarrow> (Done (), s\<lparr>ledger := w\<rparr>))"

text \<open>
  A whole call as the host runs it: a call that returns an error or panics leaves no trace.
\<close>

definition transact :: "('s, 'e, 'a) act \<Rightarrow> ('s, 'e, 'a) act" where
  "transact m s = (case m s of
      (Done a, s') \<Rightarrow> (Done a, s')
    | (Err e, s') \<Rightarrow> (Err e, s)
    | (Trap t, s') \<Rightarrow> (Trap t, s))"

section \<open>Inversion and evaluation\<close>

lemma store_get_eq [act_simps]:
  "store_get k dec s = (Done r, s') \<longleftrightarrow> s' = s \<and>
     (case inst_store s k of None \<Rightarrow> r = None | Some v \<Rightarrow> dec v \<noteq> None \<and> r = dec v)"
  "store_get k dec s \<noteq> (Err e, s')"
  "store_get k dec s = (Trap t, s') \<longleftrightarrow> s' = s \<and> t = BadConversion \<and>
     (\<exists>v. inst_store s k = Some v \<and> dec v = None)"
  by (auto simp: store_get_def split: option.splits)

lemma store_set_eq [act_simps]: "store_set k v s = (r, s') \<longleftrightarrow> r = Done () \<and> s' = store_put k v s"
  by (simp add: store_set_def modify_eq)

lemma store_has_eq [act_simps]:
  "store_has k s = (r, s') \<longleftrightarrow> s' = s \<and> r = Done (inst_store s k \<noteq> None)"
  by (auto simp: store_has_def gets_def)

lemma require_auth_eq [act_simps]:
  "require_auth env a s = (Done u, s') \<longleftrightarrow> a \<in> ctx_auth env \<and> s' = s"
  "require_auth env a s \<noteq> (Err e, s')"
  "require_auth env a s = (Trap t, s') \<longleftrightarrow> a \<notin> ctx_auth env \<and> t = AuthMissing \<and> s' = s"
  by (auto simp: require_auth_def ret_def panic_def)

lemma publish_eq [act_simps]:
  "publish ev s = (r, s') \<longleftrightarrow> r = Done () \<and> s' = s\<lparr>ev_log := ev_log s @ [ev]\<rparr>"
  by (simp add: publish_def modify_eq)

lemma instance_extend_ttl_eq [act_simps]:
  "instance_extend_ttl h lo hi s = (r, s') \<longleftrightarrow>
     r = Done () \<and> s' = s\<lparr>inst_ttl := h_extend_ttl h lo hi (inst_ttl s)\<rparr>"
  by (simp add: instance_extend_ttl_def modify_eq)

lemma token_transfer_Done [act_simps]:
  "token_transfer h env t src dst n s = (Done u, s') \<longleftrightarrow>
     (\<exists>w. h_transfer h env t src dst n (ledger s) = Some w \<and> s' = s\<lparr>ledger := w\<rparr>)"
  by (auto simp: token_transfer_def split: option.splits)

lemma token_transfer_Err [act_simps]: "token_transfer h env t src dst n s \<noteq> (Err e, s')"
  by (auto simp: token_transfer_def split: option.splits)

lemma token_transfer_Trap [act_simps]:
  "token_transfer h env t src dst n s = (Trap x, s') \<longleftrightarrow>
     h_transfer h env t src dst n (ledger s) = None \<and> x = HostCallFailed \<and> s' = s"
  by (auto simp: token_transfer_def split: option.splits)

lemmas [run_simps] =
  store_get_def store_set_def store_has_def require_auth_def publish_def
  instance_extend_ttl_def token_transfer_def store_put_def

lemma transact_Done [act_simps]: "transact m s = (Done a, s') \<longleftrightarrow> m s = (Done a, s')"
  by (auto simp: transact_def split: prod.splits outcome.splits)

lemma transact_failed: "transact m s = (r, s') \<Longrightarrow> (\<And>a. r \<noteq> Done a) \<Longrightarrow> s' = s"
  by (auto simp: transact_def split: prod.splits outcome.splits)

lemma store_put_sel [simp]:
  "inst_store (store_put k v s) = (inst_store s)(k \<mapsto> v)"
  "inst_ttl (store_put k v s) = inst_ttl s"
  "ev_log (store_put k v s) = ev_log s"
  "ledger (store_put k v s) = ledger s"
  by (simp_all add: store_put_def)

interpretation instance_store: keyed_store inst_store store_put
  by unfold_locales simp_all

section \<open>Documented behaviour of a token contract\<close>

text \<open>
  \<open>bal w t a\<close> is the balance of \<open>a\<close> in the token \<open>t\<close>. A transfer that succeeds moves a
  non-negative amount the sender had (the token interface SEP-41).
\<close>

type_synonym 'w balances = "'w \<Rightarrow> address \<Rightarrow> address \<Rightarrow> int"

definition moved :: "(address \<Rightarrow> int) \<Rightarrow> address \<Rightarrow> address \<Rightarrow> int \<Rightarrow> (address \<Rightarrow> int)" where
  "moved b src dst n = (let b' = b(src := b src - n) in b'(dst := b' dst + n))"

definition token_laws :: "'w host \<Rightarrow> 'w balances \<Rightarrow> address \<Rightarrow> bool" where
  "token_laws h bal t \<longleftrightarrow>
     (\<forall>w a. 0 \<le> bal w t a) \<and>
     (\<forall>env src dst n w w'. h_transfer h env t src dst n w = Some w' \<longrightarrow>
        0 \<le> n \<and> n \<le> bal w t src \<and> bal w' t = moved (bal w t) src dst n)"

text \<open>
  The other direction: the token serves a covered transfer out of the calling contract or out
  of an account that has authorised the call.
\<close>

definition token_serves :: "'w host \<Rightarrow> 'w balances \<Rightarrow> address \<Rightarrow> bool" where
  "token_serves h bal t \<longleftrightarrow>
     (\<forall>env src dst n w. (src = ctx_self env \<or> src \<in> ctx_auth env) \<longrightarrow> 0 \<le> n \<longrightarrow> n \<le> bal w t src \<longrightarrow>
        i128_range (bal w t dst + n) \<longrightarrow> h_transfer h env t src dst n w \<noteq> None)"

lemma moved_simps [simp]:
  "src \<noteq> dst \<Longrightarrow> moved b src dst n src = b src - n"
  "src \<noteq> dst \<Longrightarrow> moved b src dst n dst = b dst + n"
  "a \<noteq> src \<Longrightarrow> a \<noteq> dst \<Longrightarrow> moved b src dst n a = b a"
  "moved b src src n = b"
  by (auto simp: moved_def)

lemma moved_lower: "0 \<le> n \<Longrightarrow> b a - n \<le> moved b src dst n a"
  by (auto simp: moved_def Let_def)

lemma moved_other: "0 \<le> n \<Longrightarrow> a \<noteq> src \<Longrightarrow> b a \<le> moved b src dst n a"
  by (auto simp: moved_def Let_def)

lemma token_laws_nonneg: "token_laws h bal t \<Longrightarrow> 0 \<le> bal w t a"
  by (simp add: token_laws_def)

lemma token_laws_transfer:
  assumes "token_laws h bal t" and "h_transfer h env t src dst n w = Some w'"
  shows "0 \<le> n" and "n \<le> bal w t src" and "bal w' t = moved (bal w t) src dst n"
  using assms unfolding token_laws_def by blast+

text \<open>
  What contracts that share a ledger rely on. \<open>standard_tokens\<close>: a call of \<^verbatim>\<open>transfer\<close> of the token
  interface succeeds only with the authorisation of the sender, moves a non-negative amount to the
  receiver and touches no other token. \<open>deposits_confined\<close>: a deposit in a yield protocol takes nothing
  from those contracts among \<open>C\<close> that have not made the call; they give no allowances.
\<close>

definition standard_tokens :: "'w host \<Rightarrow> 'w balances \<Rightarrow> bool" where
  "standard_tokens h bal \<longleftrightarrow>
     (\<forall>env t src dst n w w'. h_transfer h env t src dst n w = Some w' \<longrightarrow>
        src \<in> insert (ctx_self env) (ctx_auth env) \<and> 0 \<le> n \<and> bal w' t = moved (bal w t) src dst n \<and>
        (\<forall>u. u \<noteq> t \<longrightarrow> bal w' u = bal w u))"

definition deposits_confined :: "'w host \<Rightarrow> 'w balances \<Rightarrow> address set \<Rightarrow> bool" where
  "deposits_confined h bal C \<longleftrightarrow>
     (\<forall>env p n w w'. h_deposit h env p n w = Some w' \<longrightarrow>
        (\<forall>u. \<forall>a \<in> C. a \<noteq> ctx_self env \<longrightarrow> bal w u a \<le> bal w' u a))"

lemma standard_tokens_debit:
  assumes "standard_tokens h bal" and "h_transfer h env t src dst n w = Some w'"
    and "a \<notin> insert (ctx_self env) (ctx_auth env)"
  shows "bal w u a \<le> bal w' u a"
proof -
  from assms(1,2) have "src \<in> insert (ctx_self env) (ctx_auth env)" and n: "0 \<le> n"
    and t: "bal w' t = moved (bal w t) src dst n" and other: "u \<noteq> t \<Longrightarrow> bal w' u = bal w u"
    unfolding standard_tokens_def by blast+
  then have "a \<noteq> src" using assms(3) by blast
  then show ?thesis
    using moved_other [OF n] t other by (cases "u = t") simp_all
qed

lemma deposits_confinedD:
  "deposits_confined h bal C \<Longrightarrow> h_deposit h env p n w = Some w' \<Longrightarrow> a \<in> C \<Longrightarrow>
     a \<notin> insert (ctx_self env) (ctx_auth env) \<Longrightarrow> bal w u a \<le> bal w' u a"
  unfolding deposits_confined_def by blast

text \<open>
  The interface between the code of a contract and the ledger it shares with others: whatever is
  called, no contract loses tokens but the one that runs and those who have authorised the call.
\<close>

locale contract_code =
  fixes exec :: "'w host \<Rightarrow> ctx \<Rightarrow> 'c \<Rightarrow> (('v, 'ev, 'w) chain, 'e, 'a) act"
  assumes exec_debits: "standard_tokens h bal \<Longrightarrow> deposits_confined h bal C \<Longrightarrow>
    exec h env c s = (Done v, s') \<Longrightarrow> a \<in> C \<Longrightarrow> a \<notin> insert (ctx_self env) (ctx_auth env) \<Longrightarrow>
    bal (ledger s) t a \<le> bal (ledger s') t a"
begin

lemma transact_debits:
  assumes "standard_tokens h bal" and "deposits_confined h bal C"
    and "transact (exec h env c) s = (r, s')" and "a \<in> C" and "a \<notin> insert (ctx_self env) (ctx_auth env)"
  shows "bal (ledger s) t a \<le> bal (ledger s') t a"
proof (cases r)
  case (Done v)
  then show ?thesis using assms exec_debits by (simp add: transact_Done)
qed (use transact_failed [OF assms(3)] in simp_all)

text \<open>A call of one contract, signed by no contract, takes nothing from the others.\<close>

lemma others_unharmed:
  assumes "standard_tokens h bal" and "deposits_confined h bal C"
    and "transact (exec h env c) s = (r, s')" and "ctx_auth env \<inter> C = {}" and "a \<in> C"
    and "a \<noteq> ctx_self env"
  shows "\<forall>t. bal (ledger s) t a \<le> bal (ledger s') t a"
  using transact_debits [OF assms(1-3,5)] assms(4-6) by blast

end

section \<open>A concrete ledger\<close>

text \<open>
  A ledger of plain balances that satisfies the documented behaviour; the theorems about token
  balances are shown to have instances on it. Its yield protocol accepts a deposit without
  moving anything and returns the principal without yield.
\<close>

type_synonym table = "address \<Rightarrow> address \<Rightarrow> nat"

definition table_balance :: "table balances" where
  "table_balance w t a = int (w t a)"

definition table_transfer ::
  "ctx \<Rightarrow> address \<Rightarrow> address \<Rightarrow> address \<Rightarrow> i128 \<Rightarrow> table \<Rightarrow> table option" where
  "table_transfer env t src dst n w =
     (if (src = ctx_self env \<or> src \<in> ctx_auth env) \<and> 0 \<le> n \<and> n \<le> int (w t src)
      then Some (w(t := (\<lambda>a. nat (moved (table_balance w t) src dst n a)))) else None)"

definition table_host :: "table host" where
  "table_host = \<lparr>h_transfer = table_transfer,
     h_deposit = (\<lambda>env p n w. Some w),
     h_withdraw = (\<lambda>env p n w. Some ((n, 0), w)),
     h_extend_ttl = (\<lambda>lo hi ttl. if ttl < lo then hi else ttl)\<rparr>"

lemma moved_table_nonneg:
  "0 \<le> n \<Longrightarrow> n \<le> table_balance w t src \<Longrightarrow> 0 \<le> moved (table_balance w t) src dst n a"
  by (simp add: moved_def Let_def table_balance_def)

lemma table_transfer_Some:
  assumes "table_transfer env t src dst n w = Some w'"
  shows "0 \<le> n" and "n \<le> table_balance w t src"
    and "table_balance w' t = moved (table_balance w t) src dst n"
proof -
  from assms have b: "0 \<le> n" "n \<le> table_balance w t src"
    and w': "w' = w(t := (\<lambda>a. nat (moved (table_balance w t) src dst n a)))"
    by (auto simp: table_transfer_def table_balance_def split: if_splits)
  show "0 \<le> n" "n \<le> table_balance w t src" by (fact b)+
  show "table_balance w' t = moved (table_balance w t) src dst n"
    using moved_table_nonneg [OF b] by (simp add: fun_eq_iff table_balance_def w')
qed

lemma table_host_laws: "token_laws table_host table_balance t"
  using table_transfer_Some by (simp add: token_laws_def table_host_def table_balance_def)

lemma table_host_serves: "token_serves table_host table_balance t"
  by (auto simp: token_serves_def table_host_def table_balance_def table_transfer_def)

lemma table_host_standard: "standard_tokens table_host table_balance"
proof -
  have "table_transfer env t src dst n w = Some w' \<Longrightarrow> src \<in> insert (ctx_self env) (ctx_auth env) \<and>
      (\<forall>u. u \<noteq> t \<longrightarrow> table_balance w' u = table_balance w u)" for env t src dst n w w'
    by (auto simp: table_transfer_def table_balance_def fun_eq_iff split: if_splits)
  then show ?thesis using table_transfer_Some by (simp add: standard_tokens_def table_host_def)
qed

lemma table_host_confined: "deposits_confined table_host table_balance C"
  by (simp add: deposits_confined_def table_host_def)

end
