(* ===== verification/Escrow_Storage.thy ===== *)
theory Escrow_Storage
  imports Soroban
begin

text \<open>
  \<^verbatim>\<open>contracts/escrow/src/storage.rs\<close> and \<^verbatim>\<open>errors.rs\<close>: the data the escrow contract keeps, its
  errors, its storage keys and the typed accessors of its instance storage. The last part
  proves what the accessors return after each other: the store is a \<open>keyed_store\<close> under each
  typed view, and a write through one accessor is invisible to the others.
\<close>

section \<open>Data\<close>

datatype escrow_status = Active | WorkSubmitted | Completed | Cancelled | Expired

datatype yield_recipient = Payer | Freelancer

datatype milestone_status = Pending | Submitted | Approved

record milestone =
  ms_description :: string
  ms_amount :: i128
  ms_status :: milestone_status

record escrow_data =
  ed_payer :: address
  ed_freelancer :: address
  ed_token :: address
  ed_total_amount :: i128
  ed_milestones :: "milestone list"
  ed_status :: escrow_status
  ed_deadline :: "u64 option"
  ed_yield_protocol :: "address option"
  ed_principal_deposited :: i128
  ed_yield_recipient :: yield_recipient
  ed_interval :: u64
  ed_recurrence_count :: u32
  ed_releases_made :: u32
  ed_last_release_time :: u64

record rate_limit_config =
  rl_admin :: address
  rl_max_per_window :: u32
  rl_window_duration :: u64
  rl_min_amount :: i128
  rl_max_amount :: i128

record payer_stats =
  ps_window_start :: u64
  ps_count :: u32

record protocol_config =
  pc_admin :: address
  pc_paused :: bool
  pc_fee_bps :: u32
  pc_fee_collector :: address

datatype escrow_error =
    AlreadyExists
  | NotActive
  | WorkNotSubmitted
  | InvalidAmount
  | DeadlineNotPassed
  | NotExpired
  | Unauthorized
  | Paused
  | TokenNotAllowed
  | IntervalNotElapsed
  | RecurrenceComplete
  | NotRecurring
  | MilestoneInvalidIndex
  | MilestoneNotPending
  | MilestoneNotSubmitted
  | MilestoneAlreadyApproved
  | InvalidDeadline

text \<open>The numeric code \<^verbatim>\<open>#[contracterror]\<close> gives each error.\<close>

fun error_code :: "escrow_error \<Rightarrow> u32" where
  "error_code AlreadyExists = 1"
| "error_code NotActive = 2"
| "error_code WorkNotSubmitted = 3"
| "error_code InvalidAmount = 4"
| "error_code DeadlineNotPassed = 5"
| "error_code NotExpired = 6"
| "error_code Unauthorized = 7"
| "error_code Paused = 8"
| "error_code TokenNotAllowed = 9"
| "error_code IntervalNotElapsed = 10"
| "error_code RecurrenceComplete = 11"
| "error_code NotRecurring = 12"
| "error_code MilestoneInvalidIndex = 13"
| "error_code MilestoneNotPending = 14"
| "error_code MilestoneNotSubmitted = 15"
| "error_code MilestoneAlreadyApproved = 16"
| "error_code InvalidDeadline = 17"

text \<open>The order in which a milestone goes through its states.\<close>

fun milestone_rank :: "milestone_status \<Rightarrow> nat" where
  "milestone_rank Pending = 0"
| "milestone_rank Submitted = 1"
| "milestone_rank Approved = 2"

lemma milestone_rank_inj: "milestone_rank a = milestone_rank b \<Longrightarrow> a = b"
  by (cases a; cases b) simp_all

instantiation milestone_status :: linorder
begin

definition less_eq_milestone_status :: "milestone_status \<Rightarrow> milestone_status \<Rightarrow> bool" where
  "less_eq_milestone_status a b \<longleftrightarrow> milestone_rank a \<le> milestone_rank b"

definition less_milestone_status :: "milestone_status \<Rightarrow> milestone_status \<Rightarrow> bool" where
  "less_milestone_status a b \<longleftrightarrow> milestone_rank a < milestone_rank b"

instance
  by standard
    (auto simp: less_eq_milestone_status_def less_milestone_status_def intro: milestone_rank_inj)

end

lemma Approved_top [simp]: "a \<le> Approved" "Approved \<le> a \<longleftrightarrow> a = Approved"
  by (cases a; simp add: less_eq_milestone_status_def)+

lemma Pending_least [simp]: "Pending \<le> a"
  by (simp add: less_eq_milestone_status_def)

lemma Submitted_not_le_Pending [simp]: "\<not> Submitted \<le> Pending" "Submitted \<le> Approved"
  by (simp_all add: less_eq_milestone_status_def)

section \<open>Keys and stored values\<close>

datatype data_key = DataEscrow u64 | DataConfig | DataReputationContract

datatype rate_key = RateConfig | RatePayerStats address

datatype allow_list_key = AllowTokens

fun data_key_raw :: "data_key \<Rightarrow> raw_key" where
  "data_key_raw (DataEscrow i) = RawKey ''Escrow'' [ArgU64 i]"
| "data_key_raw DataConfig = RawKey ''Config'' []"
| "data_key_raw DataReputationContract = RawKey ''ReputationContract'' []"

fun rate_key_raw :: "rate_key \<Rightarrow> raw_key" where
  "rate_key_raw RateConfig = RawKey ''Config'' []"
| "rate_key_raw (RatePayerStats a) = RawKey ''PayerStats'' [ArgAddress a]"

fun allow_list_key_raw :: "allow_list_key \<Rightarrow> raw_key" where
  "allow_list_key_raw AllowTokens = RawKey ''Tokens'' []"

datatype escrow_val =
    VEscrow escrow_data
  | VConfig protocol_config
  | VRateConfig rate_limit_config
  | VStats payer_stats
  | VTokens "address list"
  | VAddress address

fun as_escrow :: "escrow_val \<Rightarrow> escrow_data option" where
  "as_escrow (VEscrow d) = Some d"
| "as_escrow _ = None"

fun as_config :: "escrow_val \<Rightarrow> protocol_config option" where
  "as_config (VConfig c) = Some c"
| "as_config _ = None"

fun as_rate_config :: "escrow_val \<Rightarrow> rate_limit_config option" where
  "as_rate_config (VRateConfig c) = Some c"
| "as_rate_config _ = None"

fun as_stats :: "escrow_val \<Rightarrow> payer_stats option" where
  "as_stats (VStats p) = Some p"
| "as_stats _ = None"

fun as_tokens :: "escrow_val \<Rightarrow> address list option" where
  "as_tokens (VTokens ts) = Some ts"
| "as_tokens _ = None"

fun as_address :: "escrow_val \<Rightarrow> address option" where
  "as_address (VAddress a) = Some a"
| "as_address _ = None"

definition DEFAULT_ESCROW_ID :: u64 where
  "DEFAULT_ESCROW_ID = 0"

definition TTL_MIN_LEDGERS :: u32 where
  "TTL_MIN_LEDGERS = 17280"

definition TTL_MAX_LEDGERS :: u32 where
  "TTL_MAX_LEDGERS = 518400"

section \<open>Accessors\<close>

definition extend_ttl :: "'w host \<Rightarrow> ((escrow_val, 'ev, 'w) chain, 'e, unit) act" where
  "extend_ttl h = instance_extend_ttl h TTL_MIN_LEDGERS TTL_MAX_LEDGERS"

definition save_escrow :: "escrow_data \<Rightarrow> ((escrow_val, 'ev, 'w) chain, 'e, unit) act" where
  "save_escrow data = store_set (data_key_raw (DataEscrow DEFAULT_ESCROW_ID)) (VEscrow data)"

definition load_escrow :: "((escrow_val, 'ev, 'w) chain, 'e, escrow_data) act" where
  "load_escrow =
     bindS (store_get (data_key_raw (DataEscrow DEFAULT_ESCROW_ID)) as_escrow)
       (expect NotInitialised)"

definition has_escrow :: "((escrow_val, 'ev, 'w) chain, 'e, bool) act" where
  "has_escrow = store_has (data_key_raw (DataEscrow DEFAULT_ESCROW_ID))"

definition read_config :: "((escrow_val, 'ev, 'w) chain, 'e, rate_limit_config option) act" where
  "read_config = store_get (rate_key_raw RateConfig) as_rate_config"

definition write_config :: "rate_limit_config \<Rightarrow> ((escrow_val, 'ev, 'w) chain, 'e, unit) act" where
  "write_config config = store_set (rate_key_raw RateConfig) (VRateConfig config)"

definition read_payer_stats ::
  "address \<Rightarrow> ((escrow_val, 'ev, 'w) chain, 'e, payer_stats option) act" where
  "read_payer_stats payer = store_get (rate_key_raw (RatePayerStats payer)) as_stats"

definition write_payer_stats ::
  "address \<Rightarrow> payer_stats \<Rightarrow> ((escrow_val, 'ev, 'w) chain, 'e, unit) act" where
  "write_payer_stats payer stats = store_set (rate_key_raw (RatePayerStats payer)) (VStats stats)"

definition read_allowed_tokens :: "((escrow_val, 'ev, 'w) chain, 'e, address list) act" where
  "read_allowed_tokens =
     bindS (store_get (allow_list_key_raw AllowTokens) as_tokens)
       (\<lambda>ts. ret (case ts of None \<Rightarrow> [] | Some ts \<Rightarrow> ts))"

definition write_allowed_tokens ::
  "address list \<Rightarrow> ((escrow_val, 'ev, 'w) chain, 'e, unit) act" where
  "write_allowed_tokens tokens = store_set (allow_list_key_raw AllowTokens) (VTokens tokens)"

definition save_config :: "protocol_config \<Rightarrow> ((escrow_val, 'ev, 'w) chain, 'e, unit) act" where
  "save_config config = store_set (data_key_raw DataConfig) (VConfig config)"

definition load_config :: "((escrow_val, 'ev, 'w) chain, 'e, protocol_config) act" where
  "load_config = bindS (store_get (data_key_raw DataConfig) as_config) (expect NotInitialised)"

definition has_config :: "((escrow_val, 'ev, 'w) chain, 'e, bool) act" where
  "has_config = store_has (data_key_raw DataConfig)"

definition save_reputation_contract ::
  "address \<Rightarrow> ((escrow_val, 'ev, 'w) chain, 'e, unit) act" where
  "save_reputation_contract addr = store_set (data_key_raw DataReputationContract) (VAddress addr)"

definition load_reputation_contract :: "((escrow_val, 'ev, 'w) chain, 'e, address option) act" where
  "load_reputation_contract = store_get (data_key_raw DataReputationContract) as_address"

section \<open>Typed views of the store\<close>

text \<open>What the accessors read, as functions of the state.\<close>

definition escrow_at :: "(escrow_val, 'ev, 'w) chain \<Rightarrow> u64 \<Rightarrow> escrow_data option" where
  "escrow_at s i = Option.bind (inst_store s (data_key_raw (DataEscrow i))) as_escrow"

definition escrow_rec :: "(escrow_val, 'ev, 'w) chain \<Rightarrow> escrow_data option" where
  "escrow_rec s = escrow_at s DEFAULT_ESCROW_ID"

definition config_rec :: "(escrow_val, 'ev, 'w) chain \<Rightarrow> protocol_config option" where
  "config_rec s = Option.bind (inst_store s (data_key_raw DataConfig)) as_config"

definition stats_at :: "(escrow_val, 'ev, 'w) chain \<Rightarrow> address \<Rightarrow> payer_stats option" where
  "stats_at s a = Option.bind (inst_store s (rate_key_raw (RatePayerStats a))) as_stats"

definition allowed_tokens :: "(escrow_val, 'ev, 'w) chain \<Rightarrow> address list" where
  "allowed_tokens s =
     (case Option.bind (inst_store s (allow_list_key_raw AllowTokens)) as_tokens of
        None \<Rightarrow> [] | Some ts \<Rightarrow> ts)"

text \<open>Every key the contract reads holds a value of the type the contract reads it at.\<close>

definition store_typed :: "(escrow_val, 'ev, 'w) chain \<Rightarrow> bool" where
  "store_typed s \<longleftrightarrow>
     (\<forall>v. inst_store s (data_key_raw (DataEscrow DEFAULT_ESCROW_ID)) = Some v \<longrightarrow> as_escrow v \<noteq> None) \<and>
     (\<forall>v. inst_store s (data_key_raw DataConfig) = Some v \<longrightarrow> as_config v \<noteq> None) \<and>
     (\<forall>v. inst_store s (allow_list_key_raw AllowTokens) = Some v \<longrightarrow> as_tokens v \<noteq> None)"

declare data_key_raw.simps [simp del] rate_key_raw.simps [simp del] allow_list_key_raw.simps [simp del]

lemma data_key_raw_eq [simp]: "data_key_raw a = data_key_raw b \<longleftrightarrow> a = b"
  by (cases a; cases b) (simp_all add: data_key_raw.simps)

lemma rate_key_raw_eq [simp]: "rate_key_raw a = rate_key_raw b \<longleftrightarrow> a = b"
  by (cases a; cases b) (simp_all add: rate_key_raw.simps)

lemma data_rate_key_eq [simp]:
  "data_key_raw a = rate_key_raw b \<longleftrightarrow> a = DataConfig \<and> b = RateConfig"
  "rate_key_raw b = data_key_raw a \<longleftrightarrow> a = DataConfig \<and> b = RateConfig"
  by (cases a; cases b; auto simp: data_key_raw.simps rate_key_raw.simps)+

lemma allow_key_distinct [simp]:
  "data_key_raw a \<noteq> allow_list_key_raw c" "allow_list_key_raw c \<noteq> data_key_raw a"
  "rate_key_raw b \<noteq> allow_list_key_raw c" "allow_list_key_raw c \<noteq> rate_key_raw b"
  by (cases a; cases b; cases c;
      simp add: data_key_raw.simps rate_key_raw.simps allow_list_key_raw.simps)+

interpretation escrow_records: keyed_store
    escrow_at "\<lambda>i d. store_put (data_key_raw (DataEscrow i)) (VEscrow d)"
  by unfold_locales (simp_all add: escrow_at_def)

interpretation payer_stats_records: keyed_store
    stats_at "\<lambda>a p. store_put (rate_key_raw (RatePayerStats a)) (VStats p)"
  by unfold_locales (simp_all add: stats_at_def)

text \<open>A view depends on the store alone, and each write changes one view.\<close>

lemma views_frame [simp]:
  "escrow_rec (s\<lparr>ledger := w\<rparr>) = escrow_rec s" "config_rec (s\<lparr>ledger := w\<rparr>) = config_rec s"
  "allowed_tokens (s\<lparr>ledger := w\<rparr>) = allowed_tokens s" "stats_at (s\<lparr>ledger := w\<rparr>) = stats_at s"
  "escrow_rec (s\<lparr>ev_log := l\<rparr>) = escrow_rec s" "config_rec (s\<lparr>ev_log := l\<rparr>) = config_rec s"
  "allowed_tokens (s\<lparr>ev_log := l\<rparr>) = allowed_tokens s" "stats_at (s\<lparr>ev_log := l\<rparr>) = stats_at s"
  "escrow_rec (s\<lparr>inst_ttl := x\<rparr>) = escrow_rec s" "config_rec (s\<lparr>inst_ttl := x\<rparr>) = config_rec s"
  "allowed_tokens (s\<lparr>inst_ttl := x\<rparr>) = allowed_tokens s" "stats_at (s\<lparr>inst_ttl := x\<rparr>) = stats_at s"
  by (simp_all add: escrow_rec_def escrow_at_def config_rec_def allowed_tokens_def stats_at_def
      fun_eq_iff)

lemma views_save_escrow [simp]:
  "escrow_rec (store_put (data_key_raw (DataEscrow DEFAULT_ESCROW_ID)) (VEscrow d) s) = Some d"
  "config_rec (store_put (data_key_raw (DataEscrow i)) v s) = config_rec s"
  "allowed_tokens (store_put (data_key_raw (DataEscrow i)) v s) = allowed_tokens s"
  "stats_at (store_put (data_key_raw (DataEscrow i)) v s) = stats_at s"
  by (simp_all add: escrow_rec_def escrow_at_def config_rec_def allowed_tokens_def stats_at_def
      fun_eq_iff)

lemma views_save_config [simp]:
  "config_rec (store_put (data_key_raw DataConfig) (VConfig c) s) = Some c"
  "escrow_rec (store_put (data_key_raw DataConfig) v s) = escrow_rec s"
  "allowed_tokens (store_put (data_key_raw DataConfig) v s) = allowed_tokens s"
  "stats_at (store_put (data_key_raw DataConfig) v s) = stats_at s"
  by (simp_all add: escrow_rec_def escrow_at_def config_rec_def allowed_tokens_def stats_at_def
      fun_eq_iff)

lemma views_write_tokens [simp]:
  "allowed_tokens (store_put (allow_list_key_raw AllowTokens) (VTokens ts) s) = ts"
  "escrow_rec (store_put (allow_list_key_raw AllowTokens) v s) = escrow_rec s"
  "config_rec (store_put (allow_list_key_raw AllowTokens) v s) = config_rec s"
  by (simp_all add: escrow_rec_def escrow_at_def config_rec_def allowed_tokens_def)

lemma store_typed_frame [simp]:
  "store_typed (s\<lparr>ledger := w\<rparr>) = store_typed s"
  "store_typed (s\<lparr>ev_log := l\<rparr>) = store_typed s"
  "store_typed (s\<lparr>inst_ttl := x\<rparr>) = store_typed s"
  by (simp_all add: store_typed_def)

lemma store_typed_put [simp]:
  "store_typed s \<Longrightarrow> store_typed (store_put (data_key_raw (DataEscrow i)) (VEscrow d) s)"
  "store_typed s \<Longrightarrow> store_typed (store_put (data_key_raw DataConfig) (VConfig c) s)"
  "store_typed s \<Longrightarrow> store_typed (store_put (allow_list_key_raw AllowTokens) (VTokens ts) s)"
  by (auto simp: store_typed_def)

lemma store_typed_present:
  assumes "store_typed s"
  shows "inst_store s (data_key_raw (DataEscrow DEFAULT_ESCROW_ID)) = None \<longleftrightarrow> escrow_rec s = None"
    and "inst_store s (data_key_raw DataConfig) = None \<longleftrightarrow> config_rec s = None"
  using assms
  by (cases "inst_store s (data_key_raw (DataEscrow DEFAULT_ESCROW_ID))";
      cases "inst_store s (data_key_raw DataConfig)";
      simp add: store_typed_def escrow_rec_def escrow_at_def config_rec_def)+

lemma absent_views:
  "inst_store s (data_key_raw (DataEscrow DEFAULT_ESCROW_ID)) = None \<Longrightarrow> escrow_rec s = None"
  "inst_store s (data_key_raw DataConfig) = None \<Longrightarrow> config_rec s = None"
  by (simp_all add: escrow_rec_def escrow_at_def config_rec_def)

subsection \<open>Accessors in terms of the views\<close>

lemma extend_ttl_eq [act_simps]:
  "extend_ttl h s = (r, s') \<longleftrightarrow> r = Done () \<and>
     s' = s\<lparr>inst_ttl := h_extend_ttl h TTL_MIN_LEDGERS TTL_MAX_LEDGERS (inst_ttl s)\<rparr>"
  by (simp add: extend_ttl_def act_simps)

lemma save_escrow_eq [act_simps]:
  "save_escrow d s = (r, s') \<longleftrightarrow>
     r = Done () \<and> s' = store_put (data_key_raw (DataEscrow DEFAULT_ESCROW_ID)) (VEscrow d) s"
  by (simp add: save_escrow_def act_simps)

lemma save_config_eq [act_simps]:
  "save_config c s = (r, s') \<longleftrightarrow>
     r = Done () \<and> s' = store_put (data_key_raw DataConfig) (VConfig c) s"
  by (simp add: save_config_def act_simps)

lemma load_escrow_Done [act_simps]:
  "load_escrow s = (Done d, s') \<longleftrightarrow> s' = s \<and> escrow_rec s = Some d"
  by (auto simp: load_escrow_def escrow_rec_def escrow_at_def act_simps split: option.splits)

lemma load_escrow_Err [act_simps]: "load_escrow s \<noteq> (Err e, s')"
  by (auto simp: load_escrow_def act_simps split: option.splits)

lemma load_escrow_Trap [act_simps]:
  "load_escrow s = (Trap t, s') \<longleftrightarrow> s' = s \<and> escrow_rec s = None \<and>
     t = (if inst_store s (data_key_raw (DataEscrow DEFAULT_ESCROW_ID)) = None
          then NotInitialised else BadConversion)"
  by (auto simp: load_escrow_def escrow_rec_def escrow_at_def act_simps split: option.splits)

lemma load_config_Done [act_simps]:
  "load_config s = (Done c, s') \<longleftrightarrow> s' = s \<and> config_rec s = Some c"
  by (auto simp: load_config_def config_rec_def act_simps split: option.splits)

lemma load_config_Err [act_simps]: "load_config s \<noteq> (Err e, s')"
  by (auto simp: load_config_def act_simps split: option.splits)

lemma load_config_Trap [act_simps]:
  "load_config s = (Trap t, s') \<longleftrightarrow> s' = s \<and> config_rec s = None \<and>
     t = (if inst_store s (data_key_raw DataConfig) = None then NotInitialised else BadConversion)"
  by (auto simp: load_config_def config_rec_def act_simps split: option.splits)

lemma has_escrow_eq [act_simps]:
  "has_escrow s = (r, s') \<longleftrightarrow> s' = s \<and>
     r = Done (inst_store s (data_key_raw (DataEscrow DEFAULT_ESCROW_ID)) \<noteq> None)"
  by (simp add: has_escrow_def act_simps)

lemma has_config_eq [act_simps]:
  "has_config s = (r, s') \<longleftrightarrow> s' = s \<and> r = Done (inst_store s (data_key_raw DataConfig) \<noteq> None)"
  by (simp add: has_config_def act_simps)

definition tokens_readable :: "(escrow_val, 'ev, 'w) chain \<Rightarrow> bool" where
  "tokens_readable s \<longleftrightarrow>
     (\<forall>v. inst_store s (allow_list_key_raw AllowTokens) = Some v \<longrightarrow> as_tokens v \<noteq> None)"

lemma read_allowed_tokens_eq [act_simps]:
  "read_allowed_tokens s = (Done ts, s') \<longleftrightarrow>
     tokens_readable s \<and> ts = allowed_tokens s \<and> s' = s"
  "read_allowed_tokens s \<noteq> (Err e, s')"
  "read_allowed_tokens s = (Trap t, s') \<longleftrightarrow> \<not> tokens_readable s \<and> t = BadConversion \<and> s' = s"
  by (cases "inst_store s (allow_list_key_raw AllowTokens)";
      auto simp: read_allowed_tokens_def allowed_tokens_def tokens_readable_def bindS_def
        store_get_def ret_def split: option.splits)+

lemma store_typed_tokens: "store_typed s \<Longrightarrow> tokens_readable s"
  by (simp add: store_typed_def tokens_readable_def)

end
