(* ===== verification/Escrow_Events.thy ===== *)
theory Escrow_Events
  imports Escrow_Storage
begin

text \<open>
  \<^verbatim>\<open>contracts/escrow/src/events.rs\<close>: one constructor per event, carrying the tuple the Rust
  function publishes, the topic symbol of each, and the functions themselves. Also the client
  stubs of the trait in \<^verbatim>\<open>yield.rs\<close>, whose implementation is another contract.
\<close>

datatype escrow_event =
    EscrowCreated address address i128 "milestone list"
  | MilestoneSubmitted address u32 string
  | MilestoneApproved address u32 string i128
  | WorkSubmittedEvent address
  | PaymentReleased address i128
  | EscrowCancelled address i128
  | EscrowExpired address i128
  | FreelancerTransferred address address
  | PayerTransferred address address
  | DeadlineExtended u64 u64
  | ContractPaused address
  | ContractUnpaused address
  | YieldDeposited address i128
  | RecurringReleased address i128 u32

fun event_topic :: "escrow_event \<Rightarrow> string" where
  "event_topic (EscrowCreated _ _ _ _) = ''escrow_created''"
| "event_topic (MilestoneSubmitted _ _ _) = ''milestone_submitted''"
| "event_topic (MilestoneApproved _ _ _ _) = ''milestone_approved''"
| "event_topic (WorkSubmittedEvent _) = ''work_submitted''"
| "event_topic (PaymentReleased _ _) = ''payment_released''"
| "event_topic (EscrowCancelled _ _) = ''escrow_cancelled''"
| "event_topic (EscrowExpired _ _) = ''escrow_expired''"
| "event_topic (FreelancerTransferred _ _) = ''freelancer_transferred''"
| "event_topic (PayerTransferred _ _) = ''payer_transferred''"
| "event_topic (DeadlineExtended _ _) = ''deadline_extended''"
| "event_topic (ContractPaused _) = ''contract_paused''"
| "event_topic (ContractUnpaused _) = ''contract_unpaused''"
| "event_topic (YieldDeposited _ _) = ''yield_deposited''"
| "event_topic (RecurringReleased _ _ _) = ''recurring_released''"

type_synonym 'w escrow_chain = "(escrow_val, escrow_event, 'w) chain"

definition escrow_created ::
  "address \<Rightarrow> address \<Rightarrow> i128 \<Rightarrow> milestone list \<Rightarrow> ('w escrow_chain, 'e, unit) act" where
  [op_defs]: "escrow_created payer freelancer total_amount milestones =
     publish (EscrowCreated payer freelancer total_amount milestones)"

definition milestone_submitted ::
  "address \<Rightarrow> u32 \<Rightarrow> string \<Rightarrow> ('w escrow_chain, 'e, unit) act" where
  [op_defs]: "milestone_submitted freelancer idx description =
     publish (MilestoneSubmitted freelancer idx description)"

definition milestone_approved ::
  "address \<Rightarrow> u32 \<Rightarrow> string \<Rightarrow> i128 \<Rightarrow> ('w escrow_chain, 'e, unit) act" where
  [op_defs]: "milestone_approved freelancer idx description amount =
     publish (MilestoneApproved freelancer idx description amount)"

definition work_submitted :: "address \<Rightarrow> ('w escrow_chain, 'e, unit) act" where
  [op_defs]: "work_submitted freelancer = publish (WorkSubmittedEvent freelancer)"

definition payment_released :: "address \<Rightarrow> i128 \<Rightarrow> ('w escrow_chain, 'e, unit) act" where
  [op_defs]: "payment_released freelancer amount = publish (PaymentReleased freelancer amount)"

definition escrow_cancelled :: "address \<Rightarrow> i128 \<Rightarrow> ('w escrow_chain, 'e, unit) act" where
  [op_defs]: "escrow_cancelled payer amount = publish (EscrowCancelled payer amount)"

definition escrow_expired :: "address \<Rightarrow> i128 \<Rightarrow> ('w escrow_chain, 'e, unit) act" where
  [op_defs]: "escrow_expired payer amount = publish (EscrowExpired payer amount)"

definition freelancer_transferred :: "address \<Rightarrow> address \<Rightarrow> ('w escrow_chain, 'e, unit) act" where
  [op_defs]: "freelancer_transferred old new = publish (FreelancerTransferred old new)"

definition payer_transferred :: "address \<Rightarrow> address \<Rightarrow> ('w escrow_chain, 'e, unit) act" where
  [op_defs]: "payer_transferred old_payer new_payer = publish (PayerTransferred old_payer new_payer)"

definition deadline_extended :: "u64 \<Rightarrow> u64 \<Rightarrow> ('w escrow_chain, 'e, unit) act" where
  [op_defs]: "deadline_extended old_deadline new_deadline =
     publish (DeadlineExtended old_deadline new_deadline)"

definition contract_paused :: "address \<Rightarrow> ('w escrow_chain, 'e, unit) act" where
  [op_defs]: "contract_paused admin = publish (ContractPaused admin)"

definition contract_unpaused :: "address \<Rightarrow> ('w escrow_chain, 'e, unit) act" where
  [op_defs]: "contract_unpaused admin = publish (ContractUnpaused admin)"

definition yield_deposited :: "address \<Rightarrow> i128 \<Rightarrow> ('w escrow_chain, 'e, unit) act" where
  [op_defs]: "yield_deposited protocol amount = publish (YieldDeposited protocol amount)"

definition recurring_released :: "address \<Rightarrow> i128 \<Rightarrow> u32 \<Rightarrow> ('w escrow_chain, 'e, unit) act" where
  [op_defs]: "recurring_released freelancer amount release_num =
     publish (RecurringReleased freelancer amount release_num)"

section \<open>The yield protocol client\<close>

definition yield_deposit ::
  "'w host \<Rightarrow> ctx \<Rightarrow> address \<Rightarrow> i128 \<Rightarrow> (('v, 'ev, 'w) chain, 'e, unit) act" where
  "yield_deposit h env protocol amount s = (case h_deposit h env protocol amount (ledger s) of
      None \<Rightarrow> (Trap HostCallFailed, s)
    | Some w \<Rightarrow> (Done (), s\<lparr>ledger := w\<rparr>))"

definition yield_withdraw ::
  "'w host \<Rightarrow> ctx \<Rightarrow> address \<Rightarrow> i128 \<Rightarrow> (('v, 'ev, 'w) chain, 'e, i128 \<times> i128) act" where
  "yield_withdraw h env protocol requested s =
     (case h_withdraw h env protocol requested (ledger s) of
        None \<Rightarrow> (Trap HostCallFailed, s)
      | Some (r, w) \<Rightarrow> (Done r, s\<lparr>ledger := w\<rparr>))"

lemma yield_deposit_Done [act_simps]:
  "yield_deposit h env p n s = (Done u, s') \<longleftrightarrow>
     (\<exists>w. h_deposit h env p n (ledger s) = Some w \<and> s' = s\<lparr>ledger := w\<rparr>)"
  by (auto simp: yield_deposit_def split: option.splits)

lemma yield_deposit_Err [act_simps]: "yield_deposit h env p n s \<noteq> (Err e, s')"
  by (auto simp: yield_deposit_def split: option.splits)

lemma yield_withdraw_Done [act_simps]:
  "yield_withdraw h env p n s = (Done r, s') \<longleftrightarrow>
     (\<exists>w. h_withdraw h env p n (ledger s) = Some (r, w) \<and> s' = s\<lparr>ledger := w\<rparr>)"
  by (auto simp: yield_withdraw_def split: option.splits)

lemma yield_withdraw_Err [act_simps]: "yield_withdraw h env p n s \<noteq> (Err e, s')"
  by (auto simp: yield_withdraw_def split: option.splits)

lemmas [run_simps] = yield_deposit_def yield_withdraw_def

end
