(* ===== verification/Escrow_Contract.thy ===== *)
theory Escrow_Contract
  imports Escrow_Events
begin

text \<open>
  \<^verbatim>\<open>contracts/escrow/src/lib.rs\<close>: every function of \<^verbatim>\<open>EscrowContract\<close>, in the order of its
  statements. Some places of the source do not type-check and are read as follows.
  \<^verbatim>\<open>data.amount\<close> (in \<^verbatim>\<open>release_recurring\<close>, \<^verbatim>\<open>cancel\<close> and \<^verbatim>\<open>expire\<close>) names a field that
  \<^verbatim>\<open>EscrowData\<close> does not declare: it is the argument \<open>amt\<close> of the definitions that read it, and
  their theorems hold whatever it is. In \<^verbatim>\<open>approve\<close> the variable \<^verbatim>\<open>freelancer_amount\<close> is bound
  to the pair \<^verbatim>\<open>(amount - fee, fee)\<close> and then passed where an \<^verbatim>\<open>i128\<close> is expected: its first
  component is meant, as in \<^verbatim>\<open>release_recurring\<close>, which destructures the same pair.
  \<^verbatim>\<open>&mut data.milestones[i]\<close> is read as an update of the element in place, the record being saved
  afterwards.
\<close>

section \<open>Helpers\<close>

definition assert_not_paused :: "('w escrow_chain, escrow_error, unit) act" where
  "assert_not_paused =
     bindS has_config (\<lambda>present.
       if present then bindS load_config (\<lambda>config. fail_if (pc_paused config) Paused)
       else ret ())"

text \<open>The loop of \<^verbatim>\<open>create\<close> over the milestones.\<close>

fun create_total ::
  "milestone list \<Rightarrow> i128 \<Rightarrow> ('w escrow_chain, escrow_error, i128) act" where
  "create_total [] total_amount = ret total_amount"
| "create_total (m # ms) total_amount =
     thenS (fail_if (ms_amount m \<le> 0) InvalidAmount)
       (bindS (i128_add total_amount (ms_amount m)) (create_total ms))"

text \<open>
  The fee of one payment: nothing without a configuration; otherwise the fee is sent to the
  collector when positive. The result is the pair of what is left for the freelancer and the fee.
\<close>

definition split_fee ::
  "'w host \<Rightarrow> ctx \<Rightarrow> address \<Rightarrow> i128 \<Rightarrow> ('w escrow_chain, escrow_error, i128 \<times> i128) act" where
  "split_fee h env token amount =
     bindS has_config (\<lambda>present.
       if present then
         bindS load_config (\<lambda>config.
         bindS (i128_mul amount (uint (pc_fee_bps config))) (\<lambda>product.
         let fee = product sdiv 10000 in
         thenS (if 0 < fee
                then token_transfer h env token (ctx_self env) (pc_fee_collector config) fee
                else ret ())
           (bindS (i128_sub amount fee) (\<lambda>net. ret (net, fee)))))
       else ret (amount, 0))"

text \<open>\<^verbatim>\<open>iter().map(..).sum()\<close> over the approved milestones.\<close>

fun released_sum :: "milestone list \<Rightarrow> i128 \<Rightarrow> ('w escrow_chain, escrow_error, i128) act" where
  "released_sum [] acc = ret acc"
| "released_sum (m # ms) acc =
     bindS (i128_add acc (if ms_status m = Approved then ms_amount m else 0)) (released_sum ms)"

definition remaining_refund ::
  "(escrow_data \<Rightarrow> i128) \<Rightarrow> escrow_data \<Rightarrow> ('w escrow_chain, escrow_error, i128) act" where
  "remaining_refund amt data =
     bindS (released_sum (ed_milestones data) 0) (\<lambda>released_amount.
     bindS (i128_sub (ed_total_amount data) released_amount) (\<lambda>unreleased.
     bindS (if 0 < ed_recurrence_count data
            then i128_mul (amt data) (uint (ed_releases_made data)) else ret 0) (\<lambda>recurring.
     i128_add unreleased recurring)))"

section \<open>Configuration\<close>

definition init ::
  "'w host \<Rightarrow> ctx \<Rightarrow> address \<Rightarrow> u32 \<Rightarrow> address \<Rightarrow> ('w escrow_chain, escrow_error, unit) act" where
  "init h env admin fee_bps fee_collector =
     bindS has_config (\<lambda>present.
     thenS (fail_if present AlreadyExists)
     (thenS (require_auth env admin)
     (thenS (save_config \<lparr>pc_admin = admin, pc_paused = False, pc_fee_bps = fee_bps,
        pc_fee_collector = fee_collector\<rparr>)
     (extend_ttl h))))"

definition pause :: "'w host \<Rightarrow> ctx \<Rightarrow> ('w escrow_chain, escrow_error, unit) act" where
  "pause h env =
     bindS load_config (\<lambda>config.
     thenS (require_auth env (pc_admin config))
     (let config = config\<lparr>pc_paused := True\<rparr> in
      thenS (contract_paused (pc_admin config))
     (thenS (save_config config)
     (extend_ttl h))))"

definition unpause :: "'w host \<Rightarrow> ctx \<Rightarrow> ('w escrow_chain, escrow_error, unit) act" where
  "unpause h env =
     bindS load_config (\<lambda>config.
     thenS (require_auth env (pc_admin config))
     (let config = config\<lparr>pc_paused := False\<rparr> in
      thenS (contract_unpaused (pc_admin config))
     (thenS (save_config config)
     (extend_ttl h))))"

section \<open>Life cycle of the escrow\<close>

definition create ::
  "'w host \<Rightarrow> ctx \<Rightarrow> address \<Rightarrow> address \<Rightarrow> address \<Rightarrow> milestone list \<Rightarrow> u64 option \<Rightarrow>
   address option \<Rightarrow> yield_recipient \<Rightarrow> u64 \<Rightarrow> u32 \<Rightarrow> ('w escrow_chain, escrow_error, unit) act"
where
  "create h env payer freelancer token milestones deadline yield_protocol recipient interval
     recurrence_count =
     thenS assert_not_paused
     (bindS has_escrow (\<lambda>present.
      thenS (fail_if present AlreadyExists)
     (thenS (fail_if (milestones = []) InvalidAmount)
     (bindS (create_total milestones 0) (\<lambda>total_amount.
      thenS (fail_if (total_amount \<le> 0) InvalidAmount)
     (bindS read_allowed_tokens (\<lambda>allowed.
      thenS (fail_if (allowed \<noteq> [] \<and> token \<notin> set allowed) TokenNotAllowed)
     (thenS (require_auth env payer)
     (thenS (token_transfer h env token payer (ctx_self env) total_amount)
     (let data = \<lparr>ed_payer = payer, ed_freelancer = freelancer, ed_token = token,
            ed_total_amount = total_amount, ed_milestones = milestones, ed_status = Active,
            ed_deadline = deadline, ed_yield_protocol = yield_protocol,
            ed_principal_deposited = 0, ed_yield_recipient = recipient,
            ed_interval = interval, ed_recurrence_count = recurrence_count,
            ed_releases_made = 0, ed_last_release_time = ctx_now env\<rparr> in
      bindS (case yield_protocol of
               None \<Rightarrow> ret data
             | Some protocol \<Rightarrow>
                 thenS (yield_deposit h env protocol total_amount)
                 (thenS (yield_deposited protocol total_amount)
                 (ret (data\<lparr>ed_principal_deposited := total_amount\<rparr>)))) (\<lambda>data.
      thenS (save_escrow data)
     (thenS (escrow_created payer freelancer total_amount milestones)
     (extend_ttl h)))))))))))))"

definition submit_work :: "'w host \<Rightarrow> ctx \<Rightarrow> u32 \<Rightarrow> ('w escrow_chain, escrow_error, unit) act" where
  "submit_work h env milestone_idx =
     thenS assert_not_paused
     (bindS load_escrow (\<lambda>data.
      thenS (fail_if (ed_status data \<noteq> Active) NotActive)
     (thenS (fail_if (length (ed_milestones data) \<le> unat milestone_idx) MilestoneInvalidIndex)
     (let milestone = ed_milestones data ! unat milestone_idx in
      thenS (fail_if (ms_status milestone \<noteq> Pending) MilestoneNotPending)
     (thenS (require_auth env (ed_freelancer data))
     (let milestone = milestone\<lparr>ms_status := Submitted\<rparr>;
          data = data\<lparr>ed_milestones := (ed_milestones data)[unat milestone_idx := milestone]\<rparr> in
      thenS (save_escrow data)
     (thenS (milestone_submitted (ed_freelancer data) milestone_idx (ms_description milestone))
     (extend_ttl h))))))))"

definition approve :: "'w host \<Rightarrow> ctx \<Rightarrow> u32 \<Rightarrow> ('w escrow_chain, escrow_error, unit) act" where
  "approve h env milestone_idx =
     thenS assert_not_paused
     (bindS load_escrow (\<lambda>data.
      thenS (fail_if (length (ed_milestones data) \<le> unat milestone_idx) MilestoneInvalidIndex)
     (let milestone = ed_milestones data ! unat milestone_idx in
      thenS (fail_if (ms_status milestone \<noteq> Submitted) MilestoneNotSubmitted)
     (thenS (require_auth env (ed_payer data))
     (bindS (split_fee h env (ed_token data) (ms_amount milestone)) (\<lambda>freelancer_amount.
      thenS (token_transfer h env (ed_token data) (ctx_self env) (ed_freelancer data)
               (fst freelancer_amount))
     (thenS (milestone_approved (ed_freelancer data) milestone_idx (ms_description milestone)
               (fst freelancer_amount))
     (let milestone = milestone\<lparr>ms_status := Approved\<rparr>;
          data = data\<lparr>ed_milestones := (ed_milestones data)[unat milestone_idx := milestone]\<rparr>;
          data = (if list_all (\<lambda>m. ms_status m = Approved) (ed_milestones data)
                  then data\<lparr>ed_status := Completed\<rparr> else data) in
      thenS (save_escrow data)
     (extend_ttl h)))))))))"

definition release_recurring ::
  "'w host \<Rightarrow> (escrow_data \<Rightarrow> i128) \<Rightarrow> ctx \<Rightarrow> ('w escrow_chain, escrow_error, unit) act" where
  "release_recurring h amt env =
     thenS assert_not_paused
     (bindS load_escrow (\<lambda>data.
      thenS (fail_if (ed_interval data = 0 \<or> ed_recurrence_count data = 0) NotRecurring)
     (thenS (fail_if (ed_status data \<noteq> Active) NotActive)
     (thenS (fail_if (ed_recurrence_count data \<le> ed_releases_made data) RecurrenceComplete)
     (bindS (word_add (ed_last_release_time data) (ed_interval data)) (\<lambda>due.
      thenS (fail_if (ctx_now env < due) IntervalNotElapsed)
     (bindS (split_fee h env (ed_token data) (amt data)) (\<lambda>(release_amount, fee_amount).
      thenS (token_transfer h env (ed_token data) (ctx_self env) (ed_freelancer data)
               release_amount)
     (bindS (word_add (ed_releases_made data) 1) (\<lambda>releases_made.
      let data = data\<lparr>ed_releases_made := releases_made, ed_last_release_time := ctx_now env\<rparr> in
      thenS (recurring_released (ed_freelancer data) release_amount (ed_releases_made data))
     (bindS (if ed_recurrence_count data \<le> ed_releases_made data
             then thenS (payment_released (ed_freelancer data) release_amount)
                    (ret (data\<lparr>ed_status := Completed\<rparr>))
             else ret data) (\<lambda>data.
      save_escrow data))))))))))))"

definition cancel ::
  "'w host \<Rightarrow> (escrow_data \<Rightarrow> i128) \<Rightarrow> ctx \<Rightarrow> ('w escrow_chain, escrow_error, unit) act" where
  "cancel h amt env =
     thenS assert_not_paused
     (bindS load_escrow (\<lambda>data.
      thenS (fail_if (ed_status data \<noteq> Active) NotActive)
     (thenS (require_auth env (ed_payer data))
     (bindS (remaining_refund amt data) (\<lambda>remaining.
      thenS (token_transfer h env (ed_token data) (ctx_self env) (ed_payer data) remaining)
     (thenS (escrow_cancelled (ed_payer data) remaining)
     (thenS (save_escrow (data\<lparr>ed_status := Cancelled\<rparr>))
     (extend_ttl h))))))))"

definition expire ::
  "'w host \<Rightarrow> (escrow_data \<Rightarrow> i128) \<Rightarrow> ctx \<Rightarrow> ('w escrow_chain, escrow_error, unit) act" where
  "expire h amt env =
     thenS assert_not_paused
     (bindS load_escrow (\<lambda>data.
      thenS (fail_if (ed_status data \<noteq> Active) NotActive)
     (bindS (ok_or NotExpired (ed_deadline data)) (\<lambda>deadline.
      thenS (fail_if (ctx_now env \<le> deadline) DeadlineNotPassed)
     (thenS (require_auth env (ed_payer data))
     (bindS (remaining_refund amt data) (\<lambda>remaining.
      thenS (token_transfer h env (ed_token data) (ctx_self env) (ed_payer data) remaining)
     (thenS (escrow_expired (ed_payer data) remaining)
     (thenS (save_escrow (data\<lparr>ed_status := Expired\<rparr>))
     (extend_ttl h))))))))))"

section \<open>Roles and deadline\<close>

definition transfer_freelancer ::
  "'w host \<Rightarrow> ctx \<Rightarrow> address \<Rightarrow> ('w escrow_chain, escrow_error, unit) act" where
  "transfer_freelancer h env new_freelancer =
     thenS assert_not_paused
     (bindS load_escrow (\<lambda>data.
      thenS (require_auth env (ed_freelancer data))
     (let old = ed_freelancer data in
      thenS (save_escrow (data\<lparr>ed_freelancer := new_freelancer\<rparr>))
     (thenS (freelancer_transferred old new_freelancer)
     (extend_ttl h)))))"

definition transfer_payer ::
  "'w host \<Rightarrow> ctx \<Rightarrow> address \<Rightarrow> ('w escrow_chain, escrow_error, unit) act" where
  "transfer_payer h env new_payer =
     thenS assert_not_paused
     (bindS load_escrow (\<lambda>data.
      thenS (require_auth env (ed_payer data))
     (let old = ed_payer data in
      thenS (save_escrow (data\<lparr>ed_payer := new_payer\<rparr>))
     (thenS (payer_transferred old new_payer)
     (extend_ttl h)))))"

definition extend_deadline ::
  "'w host \<Rightarrow> ctx \<Rightarrow> u64 \<Rightarrow> ('w escrow_chain, escrow_error, unit) act" where
  "extend_deadline h env new_deadline =
     thenS assert_not_paused
     (bindS load_escrow (\<lambda>data.
      thenS (require_auth env (ed_payer data))
     (bindS (ok_or InvalidDeadline (ed_deadline data)) (\<lambda>current.
      thenS (fail_if (new_deadline \<le> current) InvalidDeadline)
     (let old_deadline = current in
      thenS (save_escrow (data\<lparr>ed_deadline := Some new_deadline\<rparr>))
     (thenS (deadline_extended old_deadline new_deadline)
     (extend_ttl h)))))))"

section \<open>Queries\<close>

definition get_status :: "('w escrow_chain, escrow_error, escrow_status) act" where
  "get_status = bindS load_escrow (\<lambda>data. ret (ed_status data))"

definition get_escrow :: "('w escrow_chain, escrow_error, escrow_data) act" where
  "get_escrow = load_escrow"

section \<open>The private function no entry point calls\<close>

definition withdraw_funds ::
  "'w host \<Rightarrow> ctx \<Rightarrow> escrow_data \<Rightarrow> address \<Rightarrow> ('w escrow_chain, escrow_error, unit) act" where
  "withdraw_funds h env data recipient =
     bindS (case ed_yield_protocol data of
              None \<Rightarrow> ret (ed_total_amount data)
            | Some protocol \<Rightarrow>
                bindS (yield_withdraw h env protocol (ed_principal_deposited data))
                  (\<lambda>(principal, yield_accrued).
                  thenS (if 0 < yield_accrued
                         then token_transfer h env (ed_token data) (ctx_self env)
                                (case ed_yield_recipient data of
                                   Payer \<Rightarrow> ed_payer data | Freelancer \<Rightarrow> ed_freelancer data)
                                yield_accrued
                         else ret ())
                    (ret principal))) (\<lambda>total.
     token_transfer h env (ed_token data) (ctx_self env) recipient total)"

section \<open>The entry points that change the state, as one function\<close>

text \<open>
  One constructor for each entry point but the two queries \<open>get_status\<close> and \<open>get_escrow\<close>, which change
  nothing. This is the interface of the step relation, not code of its own.
\<close>

datatype escrow_call =
    Init address u32 address
  | Pause
  | Unpause
  | Create address address address "milestone list" "u64 option" "address option"
      yield_recipient u64 u32
  | SubmitWork u32
  | Approve u32
  | ReleaseRecurring
  | Cancel
  | Expire
  | TransferFreelancer address
  | TransferPayer address
  | ExtendDeadline u64

fun exec_call ::
  "'w host \<Rightarrow> (escrow_data \<Rightarrow> i128) \<Rightarrow> ctx \<Rightarrow> escrow_call \<Rightarrow>
   ('w escrow_chain, escrow_error, unit) act" where
  "exec_call h amt env (Init admin bps collector) = init h env admin bps collector"
| "exec_call h amt env Pause = pause h env"
| "exec_call h amt env Unpause = unpause h env"
| "exec_call h amt env (Create p f t ms dl yp yr iv rc) = create h env p f t ms dl yp yr iv rc"
| "exec_call h amt env (SubmitWork i) = submit_work h env i"
| "exec_call h amt env (Approve i) = approve h env i"
| "exec_call h amt env ReleaseRecurring = release_recurring h amt env"
| "exec_call h amt env Cancel = cancel h amt env"
| "exec_call h amt env Expire = expire h amt env"
| "exec_call h amt env (TransferFreelancer a) = transfer_freelancer h env a"
| "exec_call h amt env (TransferPayer a) = transfer_payer h env a"
| "exec_call h amt env (ExtendDeadline d) = extend_deadline h env d"

end
