(* ===== verification/Escrow_Facts.thy ===== *)
theory Escrow_Facts
  imports Escrow_Contract
begin

text \<open>
  What each function of the escrow contract does, as lemmas the properties share: the helpers in
  closed form, then for every function the exact condition of its success with the state it
  leaves (\<open>_Done\<close>), and the errors it can return (\<open>_Err\<close>), each with the state unchanged.
\<close>

section \<open>Helpers in closed form\<close>

definition running :: "'w escrow_chain \<Rightarrow> bool" where
  "running s \<longleftrightarrow> inst_store s (data_key_raw DataConfig) = None \<or>
     (\<exists>c. config_rec s = Some c \<and> \<not> pc_paused c)"

definition is_paused :: "'w escrow_chain \<Rightarrow> bool" where
  "is_paused s = (case config_rec s of None \<Rightarrow> False | Some c \<Rightarrow> pc_paused c)"

lemma running_typed: "store_typed s \<Longrightarrow> running s \<longleftrightarrow> \<not> is_paused s"
  by (auto simp: running_def is_paused_def store_typed_present split: option.splits)

lemma is_paused_not_running: "is_paused s \<Longrightarrow> \<not> running s"
  using absent_views(2) [of s] by (auto simp: running_def is_paused_def split: option.splits)

lemma assert_not_paused_run:
  "assert_not_paused s =
     (if running s then Done () else if is_paused s then Err Paused else Trap BadConversion, s)"
proof (cases "inst_store s (data_key_raw DataConfig)")
  case None
  then show ?thesis
    by (auto simp: assert_not_paused_def running_def bindS_def has_config_def store_has_def
        gets_def ret_def)
next
  case (Some v)
  then show ?thesis
    by (cases "as_config v")
      (auto simp: assert_not_paused_def running_def is_paused_def config_rec_def bindS_def
        has_config_def store_has_def gets_def load_config_def store_get_def expect_def ret_def
        fail_if_def fail_def)
qed

lemma assert_not_paused_eq [act_simps]:
  "assert_not_paused s = (Done u, s') \<longleftrightarrow> running s \<and> s' = s"
  "assert_not_paused s = (Err e, s') \<longleftrightarrow> is_paused s \<and> e = Paused \<and> s' = s"
  "assert_not_paused s = (Trap t, s') \<longleftrightarrow>
     \<not> running s \<and> \<not> is_paused s \<and> t = BadConversion \<and> s' = s"
  by (auto simp: assert_not_paused_run is_paused_not_running)

definition milestone_total :: "milestone list \<Rightarrow> int" where
  "milestone_total ms = sum_list (map ms_amount ms)"

definition approved_total :: "milestone list \<Rightarrow> int" where
  "approved_total ms = sum_list (map (\<lambda>m. if ms_status m = Approved then ms_amount m else 0) ms)"

lemma milestone_total_simps [simp]:
  "milestone_total [] = 0"
  "milestone_total (m # ms) = ms_amount m + milestone_total ms"
  by (simp_all add: milestone_total_def)

lemma approved_total_simps [simp]:
  "approved_total [] = 0"
  "approved_total (m # ms) = (if ms_status m = Approved then ms_amount m else 0) + approved_total ms"
  by (simp_all add: approved_total_def)

lemma milestone_total_nonneg: "\<forall>m \<in> set ms. 0 < ms_amount m \<Longrightarrow> 0 \<le> milestone_total ms"
  by (induction ms) auto

lemma milestone_total_pos:
  "\<forall>m \<in> set ms. 0 < ms_amount m \<Longrightarrow> ms \<noteq> [] \<Longrightarrow> 0 < milestone_total ms"
  using milestone_total_nonneg by (cases ms) (auto simp: add_pos_nonneg)

lemma approved_total_bounds:
  "\<forall>m \<in> set ms. 0 < ms_amount m \<Longrightarrow> 0 \<le> approved_total ms \<and> approved_total ms \<le> milestone_total ms"
  by (induction ms) auto

lemma create_total_Done:
  assumes "0 \<le> acc" and "i128_range acc"
  shows "create_total ms acc s = (Done n, s') \<longleftrightarrow> s' = s \<and>
     (\<forall>m \<in> set ms. 0 < ms_amount m) \<and> n = acc + milestone_total ms \<and> i128_range n"
  using assms
proof (induction ms arbitrary: acc)
  case Nil
  then show ?case by (auto simp: act_simps)
next
  case (Cons m ms)
  show ?case
  proof (cases "0 < ms_amount m \<and> i128_range (acc + ms_amount m)")
    case True
    then show ?thesis using Cons.IH [of "acc + ms_amount m"] Cons.prems
      by (auto simp: act_simps add.assoc)
  next
    case False
    have "i128_range (acc + ms_amount m)"
      if "0 < ms_amount m" "\<forall>x \<in> set ms. 0 < ms_amount x"
        "i128_range (acc + (ms_amount m + milestone_total ms))"
      using that Cons.prems(1) milestone_total_nonneg [OF that(2)]
      by (intro i128_range_between [OF that(3)]) auto
    with False show ?thesis by (auto simp: act_simps)
  qed
qed

lemma create_total_Err:
  "create_total ms acc s = (Err e, s') \<Longrightarrow> s' = s \<and> e = InvalidAmount"
  by (induction ms arbitrary: acc) (auto simp: act_simps split: if_splits)

lemma create_total_state: "create_total ms acc s = (r, s') \<Longrightarrow> s' = s"
  by (induction ms arbitrary: acc) (auto simp: thenS_def bindS_def fail_if_def ret_def fail_def
      i128_add_def panic_def split: if_splits prod.splits outcome.splits)

lemma released_sum_Done:
  assumes "0 \<le> acc" and "i128_range acc" and "\<forall>m \<in> set ms. 0 < ms_amount m"
  shows "released_sum ms acc s = (Done n, s') \<longleftrightarrow>
     s' = s \<and> n = acc + approved_total ms \<and> i128_range n"
  using assms
proof (induction ms arbitrary: acc)
  case Nil
  then show ?case by (auto simp: act_simps)
next
  case (Cons m ms)
  let ?x = "if ms_status m = Approved then ms_amount m else 0"
  have pos: "0 \<le> ?x" "\<forall>x \<in> set ms. 0 < ms_amount x" using Cons.prems(3) by auto
  show ?case
  proof (cases "i128_range (acc + ?x)")
    case True
    then show ?thesis using Cons.IH [of "acc + ?x"] Cons.prems(1) pos
      by (auto simp: act_simps add.assoc)
  next
    case False
    have "i128_range (acc + ?x)" if "i128_range (acc + (?x + approved_total ms))"
      using pos Cons.prems(1) approved_total_bounds [OF pos(2)]
      by (intro i128_range_between [OF that]) auto
    with False show ?thesis by (auto simp: act_simps)
  qed
qed

lemma released_sum_noErr: "released_sum ms acc s \<noteq> (Err e, s')"
  by (induction ms arbitrary: acc) (auto simp: act_simps)

lemma released_sum_state: "released_sum ms acc s = (r, s') \<Longrightarrow> s' = s"
  by (induction ms arbitrary: acc) (auto simp: bindS_def ret_def i128_add_def panic_def
      split: if_splits prod.splits outcome.splits)

lemma remaining_refund_state: "remaining_refund amt d s = (r, s') \<Longrightarrow> s' = s"
  by (auto simp: remaining_refund_def bindS_def ret_def i128_add_def i128_sub_def i128_mul_def
      panic_def split: if_splits prod.splits outcome.splits dest!: released_sum_state)

lemma remaining_refund_pair [act_simps]:
  "remaining_refund amt d s = (r, s') \<longleftrightarrow> fst (remaining_refund amt d s) = r \<and> s' = s"
  by (cases "remaining_refund amt d s") (auto dest: remaining_refund_state)

lemma remaining_refund_noErr [simp]: "fst (remaining_refund amt d s) \<noteq> Err e"
proof -
  have "remaining_refund amt d s \<noteq> (Err e, s')" for s'
    by (auto simp: remaining_refund_def act_simps released_sum_noErr split: if_splits
        simp del: remaining_refund_pair)
  then show ?thesis by (metis prod.collapse)
qed

text \<open>The fee of a payment under a rate in basis points, rounded towards zero.\<close>

definition fee_of :: "u32 \<Rightarrow> int \<Rightarrow> int" where
  "fee_of bps amount = (amount * uint bps) sdiv 10000"

definition fee_rate :: "'w escrow_chain \<Rightarrow> u32" where
  "fee_rate s = (case config_rec s of None \<Rightarrow> 0 | Some c \<Rightarrow> pc_fee_bps c)"

lemma split_fee_Done [act_simps]:
  "split_fee h env t a s = (Done r, s') \<longleftrightarrow>
     (inst_store s (data_key_raw DataConfig) = None \<and> r = (a, 0) \<and> s' = s) \<or>
     (\<exists>c. config_rec s = Some c \<and> i128_range (a * uint (pc_fee_bps c)) \<and>
        r = (a - fee_of (pc_fee_bps c) a, fee_of (pc_fee_bps c) a) \<and>
        i128_range (a - fee_of (pc_fee_bps c) a) \<and>
        (if 0 < fee_of (pc_fee_bps c) a
         then \<exists>w. h_transfer h env t (ctx_self env) (pc_fee_collector c) (fee_of (pc_fee_bps c) a)
                (ledger s) = Some w \<and> s' = s\<lparr>ledger := w\<rparr>
         else s' = s))"
  by (auto simp: split_fee_def fee_of_def Let_def act_simps absent_views split: if_splits)

lemma split_fee_noErr [act_simps]: "split_fee h env t a s \<noteq> (Err e, s')"
  by (auto simp: split_fee_def Let_def act_simps split: if_splits)

text \<open>Only the ledger can change, through transfers out of the contract.\<close>

lemma split_fee_frame:
  "split_fee h env t a s = (Done r, s') \<Longrightarrow> \<exists>w. s' = s\<lparr>ledger := w\<rparr>"
  by (auto simp: split_fee_Done split: if_splits) (metis chain.surjective chain.update_convs(4))+

lemma fee_of_zero [simp]: "fee_of bps 0 = 0" "fee_of 0 a = 0"
  by (simp_all add: fee_of_def signed_divide_int_def)

lemma fee_of_nonneg: "0 \<le> a \<Longrightarrow> fee_of bps a = (a * uint bps) div 10000"
  by (simp add: fee_of_def sdiv_nonneg)

lemma fee_of_ge_0: "0 \<le> a \<Longrightarrow> 0 \<le> fee_of bps a"
  by (simp add: fee_of_nonneg pos_imp_zdiv_nonneg_iff)

section \<open>The functions of the contract\<close>

text \<open>The record after one milestone has changed its state.\<close>

definition set_milestone :: "nat \<Rightarrow> milestone_status \<Rightarrow> escrow_data \<Rightarrow> escrow_data" where
  "set_milestone i st d =
     d\<lparr>ed_milestones := (ed_milestones d)[i := (ed_milestones d ! i)\<lparr>ms_status := st\<rparr>]\<rparr>"

definition all_approved :: "escrow_data \<Rightarrow> bool" where
  "all_approved d \<longleftrightarrow> (\<forall>m \<in> set (ed_milestones d). ms_status m = Approved)"

definition new_escrow ::
  "ctx \<Rightarrow> address \<Rightarrow> address \<Rightarrow> address \<Rightarrow> milestone list \<Rightarrow> u64 option \<Rightarrow>
   address option \<Rightarrow> yield_recipient \<Rightarrow> u64 \<Rightarrow> u32 \<Rightarrow> escrow_data" where
  "new_escrow env p f t ms dl yp yr iv rc =
     \<lparr>ed_payer = p, ed_freelancer = f, ed_token = t, ed_total_amount = milestone_total ms,
       ed_milestones = ms, ed_status = Active, ed_deadline = dl, ed_yield_protocol = yp,
       ed_principal_deposited = (if yp = None then 0 else milestone_total ms),
       ed_yield_recipient = yr, ed_interval = iv, ed_recurrence_count = rc,
       ed_releases_made = 0, ed_last_release_time = ctx_now env\<rparr>"

text \<open>The state after a function has saved the record \<open>d\<close>, as far as the views tell.\<close>

definition saved :: "escrow_data \<Rightarrow> 'w escrow_chain \<Rightarrow> 'w escrow_chain \<Rightarrow> bool" where
  "saved d s s' \<longleftrightarrow> escrow_rec s' = Some d \<and> config_rec s' = config_rec s \<and>
     allowed_tokens s' = allowed_tokens s \<and> stats_at s' = stats_at s \<and>
     (store_typed s \<longrightarrow> store_typed s')"

lemma init_Done:
  "init h env a b f s = (Done u, s') \<longleftrightarrow>
     inst_store s (data_key_raw DataConfig) = None \<and> a \<in> ctx_auth env \<and>
     s' = (store_put (data_key_raw DataConfig) (VConfig \<lparr>pc_admin = a, pc_paused = False,
             pc_fee_bps = b, pc_fee_collector = f\<rparr>) s)
            \<lparr>inst_ttl := h_extend_ttl h TTL_MIN_LEDGERS TTL_MAX_LEDGERS (inst_ttl s)\<rparr>"
  by (auto simp: init_def act_simps split: if_splits)

lemma pause_Done:
  "pause h env s = (Done u, s') \<longleftrightarrow> (\<exists>c. config_rec s = Some c \<and> pc_admin c \<in> ctx_auth env \<and>
     s' = (store_put (data_key_raw DataConfig) (VConfig (c\<lparr>pc_paused := True\<rparr>))
            (s\<lparr>ev_log := ev_log s @ [ContractPaused (pc_admin c)]\<rparr>))
            \<lparr>inst_ttl := h_extend_ttl h TTL_MIN_LEDGERS TTL_MAX_LEDGERS (inst_ttl s)\<rparr>)"
  by (auto simp: pause_def op_defs Let_def act_simps split: if_splits)

lemma unpause_Done:
  "unpause h env s = (Done u, s') \<longleftrightarrow> (\<exists>c. config_rec s = Some c \<and> pc_admin c \<in> ctx_auth env \<and>
     s' = (store_put (data_key_raw DataConfig) (VConfig (c\<lparr>pc_paused := False\<rparr>))
            (s\<lparr>ev_log := ev_log s @ [ContractUnpaused (pc_admin c)]\<rparr>))
            \<lparr>inst_ttl := h_extend_ttl h TTL_MIN_LEDGERS TTL_MAX_LEDGERS (inst_ttl s)\<rparr>)"
  by (auto simp: unpause_def op_defs Let_def act_simps split: if_splits)

lemma submit_work_Done:
  "submit_work h env i s = (Done u, s') \<longleftrightarrow> running s \<and> (\<exists>d. escrow_rec s = Some d \<and>
     ed_status d = Active \<and> unat i < length (ed_milestones d) \<and>
     ms_status (ed_milestones d ! unat i) = Pending \<and> ed_freelancer d \<in> ctx_auth env \<and>
     s' = (store_put (data_key_raw (DataEscrow DEFAULT_ESCROW_ID))
             (VEscrow (set_milestone (unat i) Submitted d)) s)
            \<lparr>ev_log := ev_log s @ [MilestoneSubmitted (ed_freelancer d) i
                (ms_description (ed_milestones d ! unat i))],
             inst_ttl := h_extend_ttl h TTL_MIN_LEDGERS TTL_MAX_LEDGERS (inst_ttl s)\<rparr>)"
  by (auto simp: submit_work_def set_milestone_def op_defs Let_def act_simps split: if_splits)

lemma transfer_freelancer_Done:
  "transfer_freelancer h env a s = (Done u, s') \<longleftrightarrow> running s \<and> (\<exists>d. escrow_rec s = Some d \<and>
     ed_freelancer d \<in> ctx_auth env \<and>
     s' = (store_put (data_key_raw (DataEscrow DEFAULT_ESCROW_ID))
             (VEscrow (d\<lparr>ed_freelancer := a\<rparr>)) s)
            \<lparr>ev_log := ev_log s @ [FreelancerTransferred (ed_freelancer d) a],
             inst_ttl := h_extend_ttl h TTL_MIN_LEDGERS TTL_MAX_LEDGERS (inst_ttl s)\<rparr>)"
  by (auto simp: transfer_freelancer_def op_defs Let_def act_simps split: if_splits)

lemma transfer_payer_Done:
  "transfer_payer h env a s = (Done u, s') \<longleftrightarrow> running s \<and> (\<exists>d. escrow_rec s = Some d \<and>
     ed_payer d \<in> ctx_auth env \<and>
     s' = (store_put (data_key_raw (DataEscrow DEFAULT_ESCROW_ID))
             (VEscrow (d\<lparr>ed_payer := a\<rparr>)) s)
            \<lparr>ev_log := ev_log s @ [PayerTransferred (ed_payer d) a],
             inst_ttl := h_extend_ttl h TTL_MIN_LEDGERS TTL_MAX_LEDGERS (inst_ttl s)\<rparr>)"
  by (auto simp: transfer_payer_def op_defs Let_def act_simps split: if_splits)

lemma extend_deadline_Done:
  "extend_deadline h env n s = (Done u, s') \<longleftrightarrow> running s \<and> (\<exists>d c. escrow_rec s = Some d \<and>
     ed_payer d \<in> ctx_auth env \<and> ed_deadline d = Some c \<and> c < n \<and>
     s' = (store_put (data_key_raw (DataEscrow DEFAULT_ESCROW_ID))
             (VEscrow (d\<lparr>ed_deadline := Some n\<rparr>)) s)
            \<lparr>ev_log := ev_log s @ [DeadlineExtended c n],
             inst_ttl := h_extend_ttl h TTL_MIN_LEDGERS TTL_MAX_LEDGERS (inst_ttl s)\<rparr>)"
  by (auto simp: extend_deadline_def op_defs Let_def act_simps not_le split: if_splits option.splits)

text \<open>What \<open>cancel\<close> and \<open>expire\<close> pay back.\<close>

definition refund_of :: "(escrow_data \<Rightarrow> i128) \<Rightarrow> escrow_data \<Rightarrow> int" where
  "refund_of amt d = ed_total_amount d - approved_total (ed_milestones d) +
     (if 0 < ed_recurrence_count d then amt d * uint (ed_releases_made d) else 0)"

definition refund_fits :: "(escrow_data \<Rightarrow> i128) \<Rightarrow> escrow_data \<Rightarrow> bool" where
  "refund_fits amt d \<longleftrightarrow>
     i128_range (approved_total (ed_milestones d)) \<and>
     i128_range (ed_total_amount d - approved_total (ed_milestones d)) \<and>
     (0 < ed_recurrence_count d \<longrightarrow> i128_range (amt d * uint (ed_releases_made d))) \<and>
     i128_range (refund_of amt d)"

lemma i128_range_0 [simp]: "i128_range 0"
  by (simp add: i128_range_def)

lemma remaining_refund_Done:
  assumes "\<forall>m \<in> set (ed_milestones d). 0 < ms_amount m"
  shows "fst (remaining_refund amt d s) = Done n \<longleftrightarrow> n = refund_of amt d \<and> refund_fits amt d"
proof -
  have "fst (remaining_refund amt d s) = Done n \<longleftrightarrow> (\<exists>s'. remaining_refund amt d s = (Done n, s'))"
    by (cases "remaining_refund amt d s") auto
  also have "\<dots> \<longleftrightarrow> n = refund_of amt d \<and> refund_fits amt d"
    unfolding remaining_refund_def
    by (auto simp: refund_of_def refund_fits_def bindS_Done i128_add_eq i128_sub_eq i128_mul_eq
        ret_eq released_sum_Done [OF _ _ assms] split: if_splits)
  finally show ?thesis .
qed

lemma create_Done:
  "create h env p f t ms dl yp yr iv rc s = (Done u, s') \<longleftrightarrow>
     running s \<and> inst_store s (data_key_raw (DataEscrow DEFAULT_ESCROW_ID)) = None \<and>
     ms \<noteq> [] \<and> (\<forall>m \<in> set ms. 0 < ms_amount m) \<and> i128_range (milestone_total ms) \<and>
     tokens_readable s \<and> (allowed_tokens s = [] \<or> t \<in> set (allowed_tokens s)) \<and>
     p \<in> ctx_auth env \<and>
     (\<exists>w. h_transfer h env t p (ctx_self env) (milestone_total ms) (ledger s) = Some w \<and>
       (\<exists>w' evs. (case yp of None \<Rightarrow> w' = w \<and> evs = []
          | Some q \<Rightarrow> h_deposit h env q (milestone_total ms) w = Some w' \<and>
              evs = [YieldDeposited q (milestone_total ms)]) \<and>
          s' = (store_put (data_key_raw (DataEscrow DEFAULT_ESCROW_ID))
                  (VEscrow (new_escrow env p f t ms dl yp yr iv rc)) s)
               \<lparr>ledger := w',
                ev_log := ev_log s @ evs @ [EscrowCreated p f (milestone_total ms) ms],
                inst_ttl := h_extend_ttl h TTL_MIN_LEDGERS TTL_MAX_LEDGERS (inst_ttl s)\<rparr>))"
  (is "?L \<longleftrightarrow> ?R")
proof -
  have pos: "0 < milestone_total ms" if "ms \<noteq> []" "\<forall>m \<in> set ms. 0 < ms_amount m"
    using that by (rule milestone_total_pos [rotated])
  show ?thesis
    by (cases yp) (auto simp: create_def new_escrow_def op_defs Let_def act_simps
        create_total_Done store_put_def dest: pos)
qed

text \<open>The record after the approval of milestone \<open>i\<close>.\<close>

definition approved_record :: "nat \<Rightarrow> escrow_data \<Rightarrow> escrow_data" where
  "approved_record i d = (let d' = set_milestone i Approved d in
     if all_approved d' then d'\<lparr>ed_status := Completed\<rparr> else d')"

lemma approve_alt:
  "approve h env i =
     thenS assert_not_paused
     (bindS load_escrow (\<lambda>d.
      thenS (fail_if (length (ed_milestones d) \<le> unat i) MilestoneInvalidIndex)
     (thenS (fail_if (ms_status (ed_milestones d ! unat i) \<noteq> Submitted) MilestoneNotSubmitted)
     (thenS (require_auth env (ed_payer d))
     (bindS (split_fee h env (ed_token d) (ms_amount (ed_milestones d ! unat i))) (\<lambda>pay.
      thenS (token_transfer h env (ed_token d) (ctx_self env) (ed_freelancer d) (fst pay))
     (thenS (publish (MilestoneApproved (ed_freelancer d) i
               (ms_description (ed_milestones d ! unat i)) (fst pay)))
     (thenS (save_escrow (approved_record (unat i) d))
     (extend_ttl h)))))))))"
  by (simp add: approve_def approved_record_def set_milestone_def all_approved_def op_defs
      Let_def list_all_iff)

lemma approve_Done:
  "approve h env i s = (Done u, s') \<longleftrightarrow> running s \<and> (\<exists>d. escrow_rec s = Some d \<and>
     unat i < length (ed_milestones d) \<and>
     ms_status (ed_milestones d ! unat i) = Submitted \<and> ed_payer d \<in> ctx_auth env \<and>
     (\<exists>net fee s1 w. split_fee h env (ed_token d) (ms_amount (ed_milestones d ! unat i)) s
         = (Done (net, fee), s1) \<and>
       h_transfer h env (ed_token d) (ctx_self env) (ed_freelancer d) net (ledger s1) = Some w \<and>
       s' = (store_put (data_key_raw (DataEscrow DEFAULT_ESCROW_ID))
                (VEscrow (approved_record (unat i) d)) s1)
              \<lparr>ledger := w, ev_log := ev_log s1 @ [MilestoneApproved (ed_freelancer d) i
                  (ms_description (ed_milestones d ! unat i)) net],
               inst_ttl := h_extend_ttl h TTL_MIN_LEDGERS TTL_MAX_LEDGERS (inst_ttl s1)\<rparr>))"
  unfolding approve_alt
  by (auto simp: act_simps store_put_def not_le simp del: split_fee_Done)

text \<open>The record after a recurring release.\<close>

definition released_record :: "u64 \<Rightarrow> escrow_data \<Rightarrow> escrow_data" where
  "released_record now d =
     (let d' = d\<lparr>ed_releases_made := ed_releases_made d + 1, ed_last_release_time := now\<rparr> in
      if ed_recurrence_count d \<le> ed_releases_made d + 1 then d'\<lparr>ed_status := Completed\<rparr> else d')"

lemma release_recurring_Done:
  "release_recurring h amt env s = (Done u, s') \<longleftrightarrow> running s \<and> (\<exists>d. escrow_rec s = Some d \<and>
     ed_interval d \<noteq> 0 \<and> ed_recurrence_count d \<noteq> 0 \<and> ed_status d = Active \<and>
     ed_releases_made d < ed_recurrence_count d \<and>
     uint (ed_last_release_time d) + uint (ed_interval d) < 2 ^ 64 \<and>
     ed_last_release_time d + ed_interval d \<le> ctx_now env \<and>
     uint (ed_releases_made d) + 1 < 2 ^ 32 \<and>
     (\<exists>net fee s1 w. split_fee h env (ed_token d) (amt d) s = (Done (net, fee), s1) \<and>
       h_transfer h env (ed_token d) (ctx_self env) (ed_freelancer d) net (ledger s1) = Some w \<and>
       s' = (store_put (data_key_raw (DataEscrow DEFAULT_ESCROW_ID))
                (VEscrow (released_record (ctx_now env) d)) s1)
              \<lparr>ledger := w, ev_log := ev_log s1 @
                 [RecurringReleased (ed_freelancer d) net (ed_releases_made d + 1)] @
                 (if ed_recurrence_count d \<le> ed_releases_made d + 1
                  then [PaymentReleased (ed_freelancer d) net] else [])\<rparr>))"
proof (cases "escrow_rec s")
  case None
  then show ?thesis by (simp add: release_recurring_def act_simps)
next
  case (Some d)
  then show ?thesis
    by (cases "ed_recurrence_count d \<le> ed_releases_made d + 1")
      (auto simp: release_recurring_def released_record_def op_defs Let_def act_simps not_le
        not_less store_put_def simp del: split_fee_Done split: prod.splits)
qed

lemma cancel_Done:
  "cancel h amt env s = (Done u, s') \<longleftrightarrow> running s \<and> (\<exists>d. escrow_rec s = Some d \<and>
     ed_status d = Active \<and> ed_payer d \<in> ctx_auth env \<and>
     (\<exists>n w. fst (remaining_refund amt d s) = Done n \<and>
       h_transfer h env (ed_token d) (ctx_self env) (ed_payer d) n (ledger s) = Some w \<and>
       s' = (store_put (data_key_raw (DataEscrow DEFAULT_ESCROW_ID))
                (VEscrow (d\<lparr>ed_status := Cancelled\<rparr>)) s)
              \<lparr>ledger := w, ev_log := ev_log s @ [EscrowCancelled (ed_payer d) n],
               inst_ttl := h_extend_ttl h TTL_MIN_LEDGERS TTL_MAX_LEDGERS (inst_ttl s)\<rparr>))"
  by (cases "escrow_rec s")
    (auto simp: cancel_def op_defs act_simps store_put_def)

lemma expire_Done:
  "expire h amt env s = (Done u, s') \<longleftrightarrow> running s \<and> (\<exists>d c. escrow_rec s = Some d \<and>
     ed_status d = Active \<and> ed_deadline d = Some c \<and> c < ctx_now env \<and>
     ed_payer d \<in> ctx_auth env \<and>
     (\<exists>n w. fst (remaining_refund amt d s) = Done n \<and>
       h_transfer h env (ed_token d) (ctx_self env) (ed_payer d) n (ledger s) = Some w \<and>
       s' = (store_put (data_key_raw (DataEscrow DEFAULT_ESCROW_ID))
                (VEscrow (d\<lparr>ed_status := Expired\<rparr>)) s)
              \<lparr>ledger := w, ev_log := ev_log s @ [EscrowExpired (ed_payer d) n],
               inst_ttl := h_extend_ttl h TTL_MIN_LEDGERS TTL_MAX_LEDGERS (inst_ttl s)\<rparr>))"
  by (cases "escrow_rec s")
    (auto simp: expire_def op_defs act_simps store_put_def not_le)

end
