(* ===== verification/Escrow_Errors.thy ===== *)
theory Escrow_Errors
  imports Escrow_Facts
begin

text \<open>
  The errors of the escrow contract: for every function the exact condition under which it
  returns each of its errors. In every case the state is the one the call found, so the
  contract never relies on the host to undo a partial change when it returns an error.
\<close>

lemma init_Err:
  "init h env a b f s = (Err e, s') \<longleftrightarrow>
     s' = s \<and> e = AlreadyExists \<and> inst_store s (data_key_raw DataConfig) \<noteq> None"
  by (auto simp: init_def act_simps)

lemma pause_Err: "pause h env s \<noteq> (Err e, s')"
  by (auto simp: pause_def op_defs Let_def act_simps)

lemma unpause_Err: "unpause h env s \<noteq> (Err e, s')"
  by (auto simp: unpause_def op_defs Let_def act_simps)

lemma create_total_Err_cause:
  "create_total ms acc s = (Err e, s') \<Longrightarrow>
     s' = s \<and> e = InvalidAmount \<and> (\<exists>m \<in> set ms. ms_amount m \<le> 0)"
  by (induction ms arbitrary: acc) (auto simp: act_simps)

lemma create_Err:
  assumes "create h env p f t ms dl yp yr iv rc s = (Err e, s')"
  shows "s' = s \<and>
    (is_paused s \<and> e = Paused \<or>
     running s \<and> e = AlreadyExists \<and>
       inst_store s (data_key_raw (DataEscrow DEFAULT_ESCROW_ID)) \<noteq> None \<or>
     running s \<and> inst_store s (data_key_raw (DataEscrow DEFAULT_ESCROW_ID)) = None \<and>
      (e = InvalidAmount \<and> (ms = [] \<or> (\<exists>m \<in> set ms. ms_amount m \<le> 0)) \<or>
       e = TokenNotAllowed \<and> ms \<noteq> [] \<and> (\<forall>m \<in> set ms. 0 < ms_amount m) \<and>
         allowed_tokens s \<noteq> [] \<and> t \<notin> set (allowed_tokens s)))"
  using assms milestone_total_pos [of ms]
  by (cases yp) (auto simp: create_def op_defs Let_def act_simps create_total_Done
      dest!: create_total_Err_cause)

lemma submit_work_Err:
  "submit_work h env i s = (Err e, s') \<longleftrightarrow> s' = s \<and>
    (is_paused s \<and> e = Paused \<or>
     running s \<and> (\<exists>d. escrow_rec s = Some d \<and>
      (ed_status d \<noteq> Active \<and> e = NotActive \<or>
       ed_status d = Active \<and> length (ed_milestones d) \<le> unat i \<and> e = MilestoneInvalidIndex \<or>
       ed_status d = Active \<and> unat i < length (ed_milestones d) \<and>
         ms_status (ed_milestones d ! unat i) \<noteq> Pending \<and> e = MilestoneNotPending)))"
  by (cases "escrow_rec s") (auto simp: submit_work_def op_defs Let_def act_simps not_le)

lemma approve_Err:
  "approve h env i s = (Err e, s') \<longleftrightarrow> s' = s \<and>
    (is_paused s \<and> e = Paused \<or>
     running s \<and> (\<exists>d. escrow_rec s = Some d \<and>
      (length (ed_milestones d) \<le> unat i \<and> e = MilestoneInvalidIndex \<or>
       unat i < length (ed_milestones d) \<and> ms_status (ed_milestones d ! unat i) \<noteq> Submitted \<and>
         e = MilestoneNotSubmitted)))"
  by (cases "escrow_rec s")
    (auto simp: approve_alt act_simps not_le simp del: split_fee_Done)

lemma release_recurring_Err:
  "release_recurring h amt env s = (Err e, s') \<longleftrightarrow> s' = s \<and>
    (is_paused s \<and> e = Paused \<or>
     running s \<and> (\<exists>d. escrow_rec s = Some d \<and>
      ((ed_interval d = 0 \<or> ed_recurrence_count d = 0) \<and> e = NotRecurring \<or>
       ed_interval d \<noteq> 0 \<and> ed_recurrence_count d \<noteq> 0 \<and>
        (ed_status d \<noteq> Active \<and> e = NotActive \<or>
         ed_status d = Active \<and>
          (ed_recurrence_count d \<le> ed_releases_made d \<and> e = RecurrenceComplete \<or>
           ed_releases_made d < ed_recurrence_count d \<and>
            uint (ed_last_release_time d) + uint (ed_interval d) < 2 ^ 64 \<and>
            ctx_now env < ed_last_release_time d + ed_interval d \<and> e = IntervalNotElapsed)))))"
  by (cases "escrow_rec s")
    (auto simp: release_recurring_def op_defs Let_def act_simps not_le
      simp del: split_fee_Done split: prod.splits if_splits)

lemma cancel_Err:
  "cancel h amt env s = (Err e, s') \<longleftrightarrow> s' = s \<and>
    (is_paused s \<and> e = Paused \<or>
     running s \<and> (\<exists>d. escrow_rec s = Some d \<and> ed_status d \<noteq> Active \<and> e = NotActive))"
  by (cases "escrow_rec s") (auto simp: cancel_def op_defs act_simps)

lemma expire_Err:
  "expire h amt env s = (Err e, s') \<longleftrightarrow> s' = s \<and>
    (is_paused s \<and> e = Paused \<or>
     running s \<and> (\<exists>d. escrow_rec s = Some d \<and>
      (ed_status d \<noteq> Active \<and> e = NotActive \<or>
       ed_status d = Active \<and> ed_deadline d = None \<and> e = NotExpired \<or>
       ed_status d = Active \<and>
        (\<exists>c. ed_deadline d = Some c \<and> ctx_now env \<le> c \<and> e = DeadlineNotPassed))))"
  by (cases "escrow_rec s") (auto simp: expire_def op_defs act_simps)

lemma transfer_freelancer_Err:
  "transfer_freelancer h env a s = (Err e, s') \<longleftrightarrow> s' = s \<and> is_paused s \<and> e = Paused"
  by (cases "escrow_rec s") (auto simp: transfer_freelancer_def op_defs Let_def act_simps)

lemma transfer_payer_Err:
  "transfer_payer h env a s = (Err e, s') \<longleftrightarrow> s' = s \<and> is_paused s \<and> e = Paused"
  by (cases "escrow_rec s") (auto simp: transfer_payer_def op_defs Let_def act_simps)

lemma extend_deadline_Err:
  "extend_deadline h env n s = (Err e, s') \<longleftrightarrow> s' = s \<and>
    (is_paused s \<and> e = Paused \<or>
     running s \<and> (\<exists>d. escrow_rec s = Some d \<and> ed_payer d \<in> ctx_auth env \<and> e = InvalidDeadline \<and>
       (case ed_deadline d of None \<Rightarrow> True | Some c \<Rightarrow> n \<le> c)))"
  by (cases "escrow_rec s")
    (auto simp: extend_deadline_def op_defs Let_def act_simps split: option.splits)

lemmas escrow_Err =
  init_Err pause_Err unpause_Err submit_work_Err approve_Err release_recurring_Err cancel_Err
  expire_Err transfer_freelancer_Err transfer_payer_Err extend_deadline_Err

lemmas escrow_Done =
  init_Done pause_Done unpause_Done create_Done submit_work_Done approve_Done
  release_recurring_Done cancel_Done expire_Done transfer_freelancer_Done transfer_payer_Done
  extend_deadline_Done

text \<open>An error of any entry point leaves the state as it was.\<close>

lemma exec_call_Err_state: "exec_call h amt env c s = (Err e, s') \<Longrightarrow> s' = s"
  by (cases c) (simp_all add: escrow_Err, use create_Err in blast)

text \<open>The entry points the pause flag guards: all but the administration of the flag itself.\<close>

fun pausable :: "escrow_call \<Rightarrow> bool" where
  "pausable (Init _ _ _) = False"
| "pausable Pause = False"
| "pausable Unpause = False"
| "pausable _ = True"

lemma exec_call_paused:
  assumes "is_paused s" and "pausable c"
  shows "exec_call h amt env c s = (Err Paused, s)"
proof -
  have "assert_not_paused s = (Err Paused, s)"
    using assms(1) by (simp add: assert_not_paused_eq)
  then have stop: "thenS assert_not_paused m s = (Err Paused, s)" for m
    by (simp add: run_simps)
  show ?thesis
    using assms(2)
    by (cases c) (simp_all add: stop create_def submit_work_def approve_def release_recurring_def
        cancel_def expire_def transfer_freelancer_def transfer_payer_def extend_deadline_def)
qed

text \<open>The queries read the key of the escrow alone.\<close>

lemma queries_answer:
  assumes "escrow_rec s = Some d"
  shows "get_escrow s = (Done d, s) \<and> get_status s = (Done (ed_status d), s)"
proof -
  have "load_escrow s = ((Done d :: (escrow_error, escrow_data) outcome), s)"
    using assms by (simp add: load_escrow_Done)
  then show ?thesis by (simp add: get_escrow_def get_status_def bindS_def ret_def)
qed

end
