(* ===== verification/Escrow_Life.thy ===== *)
theory Escrow_Life
  imports Escrow_Errors
begin

text \<open>
  The life of one escrow record, as a specification: the relation \<open>life\<close> says how each call may
  change the record, with the guards and the required signature. The contract refines it
  (\<open>exec_call_life\<close>). Everything about the history of a record (its terms never change, the
  milestones only move forward, the deadline only moves later, releases keep their distance) is
  proved on \<open>life\<close> through the interface \<open>monotone_machine\<close> and transferred to the contract.
\<close>

section \<open>Specification of the life of a record\<close>

inductive life :: "escrow_data option \<Rightarrow> ctx \<times> escrow_call \<Rightarrow> escrow_data option \<Rightarrow> bool" where
  life_init: "life r (env, Init a b f) r"
| life_pause: "life r (env, Pause) r"
| life_unpause: "life r (env, Unpause) r"
| life_create: "life None (env, Create p f t ms dl yp yr iv rc)
      (Some (new_escrow env p f t ms dl yp yr iv rc))"
    if "ms \<noteq> []" and "\<forall>m \<in> set ms. 0 < ms_amount m" and "i128_range (milestone_total ms)"
      and "p \<in> ctx_auth env"
| life_submit: "life (Some d) (env, SubmitWork i) (Some (set_milestone (unat i) Submitted d))"
    if "ed_status d = Active" and "unat i < length (ed_milestones d)"
      and "ms_status (ed_milestones d ! unat i) = Pending" and "ed_freelancer d \<in> ctx_auth env"
| life_approve: "life (Some d) (env, Approve i) (Some (approved_record (unat i) d))"
    if "unat i < length (ed_milestones d)"
      and "ms_status (ed_milestones d ! unat i) = Submitted" and "ed_payer d \<in> ctx_auth env"
| life_release: "life (Some d) (env, ReleaseRecurring) (Some (released_record (ctx_now env) d))"
    if "ed_interval d \<noteq> 0" and "ed_status d = Active"
      and "ed_releases_made d < ed_recurrence_count d"
      and "uint (ed_last_release_time d) + uint (ed_interval d) < 2 ^ 64"
      and "ed_last_release_time d + ed_interval d \<le> ctx_now env"
| life_cancel: "life (Some d) (env, Cancel) (Some (d\<lparr>ed_status := Cancelled\<rparr>))"
    if "ed_status d = Active" and "ed_payer d \<in> ctx_auth env"
| life_expire: "life (Some d) (env, Expire) (Some (d\<lparr>ed_status := Expired\<rparr>))"
    if "ed_status d = Active" and "ed_payer d \<in> ctx_auth env"
      and "ed_deadline d = Some c" and "c < ctx_now env"
| life_freelancer: "life (Some d) (env, TransferFreelancer a) (Some (d\<lparr>ed_freelancer := a\<rparr>))"
    if "ed_freelancer d \<in> ctx_auth env"
| life_payer: "life (Some d) (env, TransferPayer a) (Some (d\<lparr>ed_payer := a\<rparr>))"
    if "ed_payer d \<in> ctx_auth env"
| life_deadline: "life (Some d) (env, ExtendDeadline n) (Some (d\<lparr>ed_deadline := Some n\<rparr>))"
    if "ed_payer d \<in> ctx_auth env" and "ed_deadline d = Some c" and "c < n"

inductive_cases life_createE: "life r (env, Create p f t ms dl yp yr iv rc) r'"
inductive_cases life_approveE: "life r (env, Approve i) r'"
inductive_cases life_submitE: "life r (env, SubmitWork i) r'"
inductive_cases life_releaseE: "life r (env, ReleaseRecurring) r'"

section \<open>The contract refines it\<close>

lemma split_fee_views:
  assumes "split_fee h env t a s = (Done r, s1)"
  shows "escrow_rec s1 = escrow_rec s" and "config_rec s1 = config_rec s"
    and "allowed_tokens s1 = allowed_tokens s" and "store_typed s1 = store_typed s"
    and "inst_store s1 = inst_store s"
  using split_fee_frame [OF assms] by auto

lemma exec_call_life:
  assumes "exec_call h amt env c s = (Done u, s')"
  shows "life (escrow_rec s) (env, c) (escrow_rec s')"
  using assms
  by (cases c)
    (auto simp: escrow_Done word_neq_0_conv dest!: split_fee_views intro!: life.intros
      dest: absent_views)

section \<open>Well-formed records\<close>

definition escrow_wf :: "escrow_data \<Rightarrow> bool" where
  "escrow_wf d \<longleftrightarrow>
     ed_milestones d \<noteq> [] \<and> (\<forall>m \<in> set (ed_milestones d). 0 < ms_amount m) \<and>
     ed_total_amount d = milestone_total (ed_milestones d) \<and> i128_range (ed_total_amount d) \<and>
     ed_status d \<noteq> WorkSubmitted \<and>
     ed_principal_deposited d = (if ed_yield_protocol d = None then 0 else ed_total_amount d) \<and>
     ed_releases_made d \<le> ed_recurrence_count d \<and>
     (ed_status d = Active \<longrightarrow> 0 < ed_recurrence_count d \<longrightarrow>
        ed_releases_made d < ed_recurrence_count d)"

fun record_wf :: "escrow_data option \<Rightarrow> bool" where
  "record_wf None = True"
| "record_wf (Some d) = escrow_wf d"

text \<open>How a record may have changed in the course of its history.\<close>

definition milestones_progress :: "milestone list \<Rightarrow> milestone list \<Rightarrow> bool" where
  "milestones_progress ms ms' \<longleftrightarrow> list_all2 (\<lambda>m m'. ms_description m' = ms_description m \<and>
     ms_amount m' = ms_amount m \<and> ms_status m \<le> ms_status m') ms ms'"

definition deadline_progress :: "u64 option \<Rightarrow> u64 option \<Rightarrow> bool" where
  "deadline_progress a b \<longleftrightarrow> (case a of None \<Rightarrow> b = None | Some c \<Rightarrow> \<exists>c'. b = Some c' \<and> c \<le> c')"

definition same_terms :: "escrow_data \<Rightarrow> escrow_data \<Rightarrow> bool" where
  "same_terms d d' \<longleftrightarrow> ed_token d' = ed_token d \<and> ed_total_amount d' = ed_total_amount d \<and>
     ed_yield_protocol d' = ed_yield_protocol d \<and>
     ed_principal_deposited d' = ed_principal_deposited d \<and>
     ed_yield_recipient d' = ed_yield_recipient d \<and>
     ed_interval d' = ed_interval d \<and> ed_recurrence_count d' = ed_recurrence_count d"

definition progressed :: "escrow_data \<Rightarrow> escrow_data \<Rightarrow> bool" where
  "progressed d d' \<longleftrightarrow> same_terms d d' \<and>
     milestones_progress (ed_milestones d) (ed_milestones d') \<and>
     deadline_progress (ed_deadline d) (ed_deadline d') \<and>
     (ed_status d \<noteq> Active \<longrightarrow> ed_status d' \<noteq> Active) \<and>
     uint (ed_releases_made d) \<le> uint (ed_releases_made d') \<and>
     (uint (ed_releases_made d') - uint (ed_releases_made d)) * uint (ed_interval d)
       \<le> uint (ed_last_release_time d') - uint (ed_last_release_time d)"

fun record_progress :: "escrow_data option \<Rightarrow> escrow_data option \<Rightarrow> bool" where
  "record_progress None r = True"
| "record_progress (Some d) r = (\<exists>d'. r = Some d' \<and> progressed d d')"

lemma milestones_progress_refl [simp]: "milestones_progress ms ms"
  by (simp add: milestones_progress_def list_all2_refl)

lemma milestones_progress_trans:
  "milestones_progress a b \<Longrightarrow> milestones_progress b c \<Longrightarrow> milestones_progress a c"
  unfolding milestones_progress_def by (rule list_all2_trans) auto

lemma milestones_progress_update:
  "i < length ms \<Longrightarrow> ms_status (ms ! i) \<le> st \<Longrightarrow>
     milestones_progress ms (ms[i := (ms ! i)\<lparr>ms_status := st\<rparr>])"
  by (auto simp: milestones_progress_def list_all2_conv_all_nth nth_list_update)

lemma progressed_refl [simp]: "progressed d d"
  by (auto simp: progressed_def same_terms_def deadline_progress_def split: option.splits)

lemma progressed_trans: "progressed a b \<Longrightarrow> progressed b c \<Longrightarrow> progressed a c"
  by (auto simp: progressed_def same_terms_def deadline_progress_def algebra_simps
      split: option.splits intro: milestones_progress_trans)

lemma milestone_total_update [simp]:
  "i < length ms \<Longrightarrow> milestone_total (ms[i := (ms ! i)\<lparr>ms_status := st\<rparr>]) = milestone_total ms"
  by (simp add: milestone_total_def sum_list_map_update)

lemma set_milestone_sel [simp]:
  "ed_payer (set_milestone i st d) = ed_payer d"
  "ed_freelancer (set_milestone i st d) = ed_freelancer d"
  "ed_token (set_milestone i st d) = ed_token d"
  "ed_total_amount (set_milestone i st d) = ed_total_amount d"
  "ed_milestones (set_milestone i st d) =
     (ed_milestones d)[i := (ed_milestones d ! i)\<lparr>ms_status := st\<rparr>]"
  "ed_status (set_milestone i st d) = ed_status d"
  "ed_deadline (set_milestone i st d) = ed_deadline d"
  "ed_yield_protocol (set_milestone i st d) = ed_yield_protocol d"
  "ed_principal_deposited (set_milestone i st d) = ed_principal_deposited d"
  "ed_yield_recipient (set_milestone i st d) = ed_yield_recipient d"
  "ed_interval (set_milestone i st d) = ed_interval d"
  "ed_recurrence_count (set_milestone i st d) = ed_recurrence_count d"
  "ed_releases_made (set_milestone i st d) = ed_releases_made d"
  "ed_last_release_time (set_milestone i st d) = ed_last_release_time d"
  by (simp_all add: set_milestone_def)

lemma set_milestone_wf:
  "escrow_wf d \<Longrightarrow> i < length (ed_milestones d) \<Longrightarrow> escrow_wf (set_milestone i st d)"
  by (auto simp: escrow_wf_def dest!: set_update_subset_insert [THEN subsetD])

lemma set_milestone_progress:
  "i < length (ed_milestones d) \<Longrightarrow> ms_status (ed_milestones d ! i) \<le> st \<Longrightarrow>
     progressed d (set_milestone i st d)"
  using milestones_progress_update
  by (auto simp: progressed_def same_terms_def deadline_progress_def split: option.splits)

lemma status_wf: "escrow_wf d \<Longrightarrow> st \<noteq> Active \<Longrightarrow> st \<noteq> WorkSubmitted \<Longrightarrow> escrow_wf (d\<lparr>ed_status := st\<rparr>)"
  by (cases st) (auto simp: escrow_wf_def)

lemma status_progress: "progressed d d' \<Longrightarrow> st \<noteq> Active \<Longrightarrow> progressed d (d'\<lparr>ed_status := st\<rparr>)"
  by (simp add: progressed_def same_terms_def)

lemma approved_record_wf:
  "escrow_wf d \<Longrightarrow> i < length (ed_milestones d) \<Longrightarrow> escrow_wf (approved_record i d)"
  by (simp add: approved_record_def Let_def set_milestone_wf status_wf)

lemma approved_record_progress:
  "i < length (ed_milestones d) \<Longrightarrow> progressed d (approved_record i d)"
  by (simp add: approved_record_def Let_def set_milestone_progress status_progress)

lemma released_record_wf:
  assumes "escrow_wf d" and "ed_releases_made d < ed_recurrence_count d"
  shows "escrow_wf (released_record now d)"
proof -
  have "ed_releases_made d + 1 \<le> ed_recurrence_count d"
    using assms(2) by (simp add: inc_le)
  then show ?thesis using assms
    by (auto simp: escrow_wf_def released_record_def Let_def not_le)
qed

lemma released_record_progress:
  assumes "ed_releases_made d < ed_recurrence_count d"
    and "uint (ed_last_release_time d) + uint (ed_interval d) < 2 ^ 64"
    and "ed_last_release_time d + ed_interval d \<le> now" and "ed_status d = Active"
  shows "progressed d (released_record now d)"
proof -
  have "uint (ed_releases_made d) + 1 < 2 ^ 32"
    using assms(1) uint_lt2p [of "ed_recurrence_count d"] by (simp add: word_less_def)
  then have r: "uint (ed_releases_made d + 1) = uint (ed_releases_made d) + 1"
    by (simp add: uint_add_exact)
  have "uint (ed_last_release_time d) + uint (ed_interval d) \<le> uint now"
    using assms(2,3) by (simp add: word_le_def uint_add_exact)
  with r assms(4) show ?thesis
    by (auto simp: progressed_def released_record_def Let_def same_terms_def deadline_progress_def
        split: option.splits)
qed

lemma life_wf: "life r l r' \<Longrightarrow> record_wf r \<Longrightarrow> record_wf r'"
proof (induction rule: life.induct)
  case (life_create ms p env f t dl yp yr iv rc)
  then show ?case by (simp add: escrow_wf_def new_escrow_def)
qed (auto simp: set_milestone_wf approved_record_wf released_record_wf status_wf,
     auto simp: escrow_wf_def)

lemma life_progress: "life r l r' \<Longrightarrow> record_progress r r'"
proof (induction rule: life.induct)
  case (life_init r env a b f)
  show ?case by (cases r) auto
next
  case (life_pause r env)
  show ?case by (cases r) auto
next
  case (life_unpause r env)
  show ?case by (cases r) auto
qed (auto simp: set_milestone_progress approved_record_progress released_record_progress
       status_progress,
     auto simp: progressed_def same_terms_def deadline_progress_def split: option.splits)

interpretation escrow_life: monotone_machine life record_wf record_progress
proof
  show "record_wf r'" if "record_wf r" and "life r l r'" for r l r'
    using that(2,1) by (rule life_wf)
  show "record_progress r r" for r
    by (cases r) auto
  show "record_progress a c" if "record_progress a b" and "record_progress b c" for a b c
    using that by (cases a) (auto, blast intro: progressed_trans)
  show "record_progress r r'" if "record_wf r" and "life r l r'" for r l r'
    using that(2) by (rule life_progress)
qed

end
