(* ===== verification/Escrow_System.thy ===== *)
theory Escrow_System
  imports Escrow_Life
begin

text \<open>
  The escrow contract as a reactive system: transactions on the contract, run by the host and
  rolled back when they fail, interleaved with whatever else happens on the ledger. The rest of
  the world is only assumed never to take tokens out of the contract's own account, which a
  token contract lets nobody but the contract do. Invariants: the store stays typed and the
  record well formed (\<open>chain_inv\<close>); the contract holds the tokens it still owes (\<open>solvent\<close>).
\<close>

section \<open>Steps\<close>

datatype escrow_label = Invoke ctx escrow_call | Outside

inductive escrow_step ::
  "'w host \<Rightarrow> (escrow_data \<Rightarrow> i128) \<Rightarrow> 'w balances \<Rightarrow> address \<Rightarrow>
   'w escrow_chain \<Rightarrow> escrow_label \<Rightarrow> 'w escrow_chain \<Rightarrow> bool"
  for h amt bal self where
  step_invoke: "escrow_step h amt bal self s (Invoke env c) s'"
    if "ctx_self env = self" and "self \<notin> ctx_auth env"
      and "transact (exec_call h amt env c) s = (r, s')"
| step_outside: "escrow_step h amt bal self s Outside (s\<lparr>ledger := w, inst_ttl := x\<rparr>)"
    if "\<forall>t. bal (ledger s) t self \<le> bal w t self"

inductive_cases escrow_step_invokeE: "escrow_step h amt bal self s (Invoke env c) s'"

definition fresh :: "'w escrow_chain \<Rightarrow> bool" where
  "fresh s \<longleftrightarrow> inst_store s = Map.empty"

lemma escrow_step_cases [consumes 1, case_names stay call outside]:
  assumes "escrow_step h amt bal self s l s'"
    and "s' = s \<Longrightarrow> P"
    and "\<And>env c. l = Invoke env c \<Longrightarrow> ctx_self env = self \<Longrightarrow> self \<notin> ctx_auth env \<Longrightarrow>
           exec_call h amt env c s = (Done (), s') \<Longrightarrow> P"
    and "\<And>w x. l = Outside \<Longrightarrow> s' = s\<lparr>ledger := w, inst_ttl := x\<rparr> \<Longrightarrow>
           \<forall>t. bal (ledger s) t self \<le> bal w t self \<Longrightarrow> P"
  shows P
  using assms(1)
proof cases
  case (step_invoke env c r)
  show P
  proof (cases r)
    case (Done u)
    then show P using step_invoke assms(3) [of env c] by (simp add: act_simps)
  qed (use step_invoke transact_failed assms(2) in fastforce)+
next
  case (step_outside w x)
  then show P using assms(4) by blast
qed

section \<open>The store stays typed and the record well formed\<close>

definition chain_inv :: "'w escrow_chain \<Rightarrow> bool" where
  "chain_inv s \<longleftrightarrow> store_typed s \<and> record_wf (escrow_rec s) \<and>
     inst_store s (allow_list_key_raw AllowTokens) = None"

text \<open>The configuration, once written, changes only in its pause flag; events are appended.\<close>

fun config_progress :: "protocol_config option \<Rightarrow> protocol_config option \<Rightarrow> bool" where
  "config_progress None r = True"
| "config_progress (Some c) r = (\<exists>p. r = Some (c\<lparr>pc_paused := p\<rparr>))"

definition chain_progress :: "'w escrow_chain \<Rightarrow> 'w escrow_chain \<Rightarrow> bool" where
  "chain_progress s s' \<longleftrightarrow> record_progress (escrow_rec s) (escrow_rec s') \<and>
     config_progress (config_rec s) (config_rec s') \<and> (\<exists>evs. ev_log s' = ev_log s @ evs)"

lemma config_progress_refl [simp]: "config_progress r r"
proof (cases r)
  case (Some c)
  have "c = c\<lparr>pc_paused := pc_paused c\<rparr>" by simp
  with Some show ?thesis by (metis config_progress.simps(2))
qed simp

lemma config_progress_pause [simp]: "config_progress (Some c) (Some (c\<lparr>pc_paused := p\<rparr>))"
  by auto

lemma config_progress_trans: "config_progress a b \<Longrightarrow> config_progress b c \<Longrightarrow> config_progress a c"
  by (cases a) auto

lemma exec_call_typed: "exec_call h amt env c s = (Done u, s') \<Longrightarrow> store_typed s \<Longrightarrow> store_typed s'"
  by (cases c) (auto simp: escrow_Done dest!: split_fee_frame)

lemma exec_call_tokens:
  "exec_call h amt env c s = (Done u, s') \<Longrightarrow>
     inst_store s' (allow_list_key_raw AllowTokens) = inst_store s (allow_list_key_raw AllowTokens)"
  by (cases c) (auto simp: escrow_Done dest!: split_fee_frame)

lemma exec_call_config:
  "exec_call h amt env c s = (Done u, s') \<Longrightarrow> config_progress (config_rec s) (config_rec s')"
  by (cases c) (auto simp: escrow_Done absent_views dest!: split_fee_frame)

lemma exec_call_log:
  "exec_call h amt env c s = (Done u, s') \<Longrightarrow> \<exists>evs. ev_log s' = ev_log s @ evs"
  by (cases c) (auto simp: escrow_Done dest!: split_fee_frame)

lemma escrow_step_inv:
  assumes "escrow_step h amt bal self s l s'" and "chain_inv s"
  shows "chain_inv s'"
  using assms(1)
proof (cases rule: escrow_step_cases)
  case (call env c)
  then show ?thesis using assms(2) exec_call_typed [OF call(4)] exec_call_tokens [OF call(4)]
      exec_call_life [OF call(4)]
    by (auto simp: chain_inv_def intro: life_wf)
qed (use assms(2) in \<open>auto simp: chain_inv_def\<close>)

lemma chain_progress_refl [simp]: "chain_progress s s"
  by (auto simp: chain_progress_def escrow_life.le_refl)

lemma chain_progress_trans: "chain_progress a b \<Longrightarrow> chain_progress b c \<Longrightarrow> chain_progress a c"
  unfolding chain_progress_def
  by (auto intro: config_progress_trans escrow_life.le_trans)

lemma escrow_step_progress:
  assumes "escrow_step h amt bal self s l s'" and "chain_inv s"
  shows "chain_progress s s'"
  using assms(1)
proof (cases rule: escrow_step_cases)
  case (call env c)
  then show ?thesis
    using life_progress [OF exec_call_life [OF call(4)]] exec_call_config [OF call(4)]
      exec_call_log [OF call(4)]
    by (simp add: chain_progress_def)
qed (auto simp: chain_progress_def escrow_life.le_refl)

interpretation escrow_system: monotone_machine
    "escrow_step h amt bal self" chain_inv chain_progress for h amt bal self
  by unfold_locales (auto intro: escrow_step_inv escrow_step_progress chain_progress_trans)

lemma fresh_inv: "fresh s \<Longrightarrow> chain_inv s"
  by (simp add: fresh_def chain_inv_def store_typed_def escrow_rec_def escrow_at_def)

section \<open>Solvency\<close>

text \<open>What the contract still owes: the milestones that are not paid.\<close>

definition outstanding :: "escrow_data \<Rightarrow> int" where
  "outstanding d = milestone_total (ed_milestones d) - approved_total (ed_milestones d)"

text \<open>The escrows whose funds stay in the contract: one-off payments without a yield protocol.\<close>

definition plain_escrow :: "escrow_data \<Rightarrow> bool" where
  "plain_escrow d \<longleftrightarrow> ed_recurrence_count d = 0 \<and> ed_yield_protocol d = None"

definition solvent :: "'w host \<Rightarrow> 'w balances \<Rightarrow> address \<Rightarrow> 'w escrow_chain \<Rightarrow> bool" where
  "solvent h bal self s \<longleftrightarrow> (\<forall>d. escrow_rec s = Some d \<longrightarrow> token_laws h bal (ed_token d) \<longrightarrow>
     plain_escrow d \<longrightarrow> ed_status d = Active \<longrightarrow> outstanding d \<le> bal (ledger s) (ed_token d) self)"

lemma approved_total_update:
  "i < length ms \<Longrightarrow> ms_status (ms ! i) \<noteq> Approved \<Longrightarrow>
     approved_total (ms[i := (ms ! i)\<lparr>ms_status := st\<rparr>]) =
     approved_total ms + (if st = Approved then ms_amount (ms ! i) else 0)"
  by (simp add: approved_total_def sum_list_map_update)

lemma outstanding_set_milestone:
  assumes "i < length (ed_milestones d)" and "ms_status (ed_milestones d ! i) \<noteq> Approved"
  shows "outstanding (set_milestone i st d) =
    outstanding d - (if st = Approved then ms_amount (ed_milestones d ! i) else 0)"
  using assms by (simp add: outstanding_def approved_total_update)

lemma transfer_out:
  assumes "token_laws h bal t" and "h_transfer h env t (ctx_self env) dst n w = Some w'"
  shows "bal w t (ctx_self env) - n \<le> bal w' t (ctx_self env)" and "0 \<le> n"
    and "n \<le> bal w t (ctx_self env)"
  using token_laws_transfer [OF assms] moved_lower by (simp_all add: moved_lower)

lemma split_fee_balance:
  assumes "token_laws h bal t" and "split_fee h env t a s = (Done (net, fee), s1)" and "0 \<le> a"
  shows "net + fee = a" and "0 \<le> fee"
    and "bal (ledger s) t (ctx_self env) - fee \<le> bal (ledger s1) t (ctx_self env)"
  using assms(2,3) transfer_out(1) [OF assms(1)] fee_of_ge_0
  by (auto simp: split_fee_Done split: if_splits)

text \<open>A payment out of the contract costs it exactly the gross amount.\<close>

lemma payment_balance:
  assumes "token_laws h bal t" and "0 \<le> a"
    and "split_fee h env t a s = (Done (net, fee), s1)"
    and "h_transfer h env t (ctx_self env) dst net (ledger s1) = Some w"
  shows "bal (ledger s) t (ctx_self env) - a \<le> bal w t (ctx_self env)"
  using split_fee_balance [OF assms(1,3,2)] transfer_out [OF assms(1,4)] by linarith

lemma approved_record_sel [simp]:
  "ed_token (approved_record i d) = ed_token d"
  "ed_milestones (approved_record i d) = ed_milestones (set_milestone i Approved d)"
  "ed_recurrence_count (approved_record i d) = ed_recurrence_count d"
  "ed_yield_protocol (approved_record i d) = ed_yield_protocol d"
  by (simp_all add: approved_record_def Let_def)

lemma released_record_sel [simp]:
  "ed_recurrence_count (released_record now d) = ed_recurrence_count d"
  "ed_token (released_record now d) = ed_token d"
  "ed_milestones (released_record now d) = ed_milestones d"
  by (simp_all add: released_record_def Let_def)

lemma approved_record_status:
  "ed_status (approved_record i d) = Active \<Longrightarrow> ed_status d = Active"
  by (auto simp: approved_record_def Let_def split: if_splits)

lemma create_solvent:
  assumes "create h env p f t ms dl yp yr iv rc s = (Done u, s')" and "ctx_self env \<notin> ctx_auth env"
  shows "solvent h bal (ctx_self env) s'"
proof -
  let ?d = "new_escrow env p f t ms dl yp yr iv rc"
  from assms have d: "escrow_rec s' = Some ?d" and pos: "\<forall>m \<in> set ms. 0 < ms_amount m"
    and p: "p \<noteq> ctx_self env"
    by (auto simp: create_Done)
  from assms(1) obtain w where
    w: "h_transfer h env t p (ctx_self env) (milestone_total ms) (ledger s) = Some w"
    and w': "yp = None \<Longrightarrow> ledger s' = w"
    by (auto simp: create_Done split: option.splits)
  show ?thesis
    unfolding solvent_def
  proof (intro allI impI)
    fix e assume e: "escrow_rec s' = Some e" "token_laws h bal (ed_token e)" "plain_escrow e"
    then have "e = ?d" using d by simp
    with e have yp: "yp = None" and laws: "token_laws h bal t"
      by (simp_all add: plain_escrow_def new_escrow_def)
    have "bal w t (ctx_self env) = bal (ledger s) t (ctx_self env) + milestone_total ms"
      using token_laws_transfer(3) [OF laws w] p by simp
    moreover have "0 \<le> bal (ledger s) t (ctx_self env)" using laws by (rule token_laws_nonneg)
    ultimately show "outstanding e \<le> bal (ledger s') (ed_token e) (ctx_self env)"
      using approved_total_bounds [OF pos] \<open>e = ?d\<close> w' [OF yp]
      by (simp add: outstanding_def new_escrow_def)
  qed
qed

lemma approve_solvent:
  assumes "approve h env i s = (Done u, s')" and "solvent h bal (ctx_self env) s"
    and "record_wf (escrow_rec s)"
  shows "solvent h bal (ctx_self env) s'"
proof -
  from assms(1) obtain d net fee s1 where d: "escrow_rec s = Some d"
    and i: "unat i < length (ed_milestones d)" "ms_status (ed_milestones d ! unat i) = Submitted"
    and fee: "split_fee h env (ed_token d) (ms_amount (ed_milestones d ! unat i)) s
       = (Done (net, fee), s1)"
    and pay: "h_transfer h env (ed_token d) (ctx_self env) (ed_freelancer d) net (ledger s1)
       = Some (ledger s')"
    and d': "escrow_rec s' = Some (approved_record (unat i) d)"
    by (auto simp: approve_Done)
  have amount: "0 \<le> ms_amount (ed_milestones d ! unat i)"
    using assms(3) d i(1) nth_mem by (fastforce simp: escrow_wf_def)
  show ?thesis
    unfolding solvent_def
  proof (intro allI impI)
    fix e assume e: "escrow_rec s' = Some e" "token_laws h bal (ed_token e)" "plain_escrow e"
      "ed_status e = Active"
    then have eq: "e = approved_record (unat i) d" using d' by simp
    with e have "outstanding d \<le> bal (ledger s) (ed_token d) (ctx_self env)"
      using assms(2) d approved_record_status by (simp add: solvent_def plain_escrow_def)
    moreover have "outstanding e = outstanding d - ms_amount (ed_milestones d ! unat i)"
      using i eq outstanding_set_milestone [of "unat i" d Approved]
      by (simp add: outstanding_def)
    ultimately show "outstanding e \<le> bal (ledger s') (ed_token e) (ctx_self env)"
      using payment_balance [OF _ amount fee pay, of bal] e(2) eq by simp
  qed
qed

lemma exec_call_solvent:
  assumes "exec_call h amt env c s = (Done u, s')" and "solvent h bal (ctx_self env) s"
    and "chain_inv s" and "ctx_self env \<notin> ctx_auth env"
  shows "solvent h bal (ctx_self env) s'"
proof (cases c)
  case (Create p f t ms dl yp yr iv rc)
  then show ?thesis using assms(1,4) create_solvent by simp
next
  case (SubmitWork i)
  then show ?thesis using assms(1,2)
    by (auto simp: submit_work_Done solvent_def plain_escrow_def outstanding_set_milestone)
next
  case (Approve i)
  then show ?thesis using assms approve_solvent by (fastforce simp: chain_inv_def)
next
  case ReleaseRecurring
  then show ?thesis using assms(1)
    by (auto simp: release_recurring_Done solvent_def plain_escrow_def)
qed (use assms(1,2) in \<open>auto simp: escrow_Done solvent_def plain_escrow_def outstanding_def\<close>)

lemma solvent_outside:
  assumes "solvent h bal self s" and "\<forall>t. bal (ledger s) t self \<le> bal w t self"
  shows "solvent h bal self (s\<lparr>ledger := w, inst_ttl := x\<rparr>)"
  using assms by (auto simp: solvent_def intro: order_trans)

interpretation escrow_funds: machine
    "escrow_step h amt bal self" "\<lambda>s. chain_inv s \<and> solvent h bal self s" for h amt bal self
proof
  fix s l s' assume inv: "chain_inv s \<and> solvent h bal self s"
    and step: "escrow_step h amt bal self s l s'"
  from step have "solvent h bal self s'"
  proof (cases rule: escrow_step_cases)
    case (call env c)
    then show ?thesis using inv exec_call_solvent by blast
  next
    case (outside w x)
    then show ?thesis using inv by (auto intro: solvent_outside)
  qed (use inv in simp)
  with inv step show "chain_inv s' \<and> solvent h bal self s'" by (blast intro: escrow_step_inv)
qed

lemma fresh_solvent: "fresh s \<Longrightarrow> solvent h bal self s"
  by (simp add: fresh_def solvent_def escrow_rec_def escrow_at_def)

section \<open>The ledger of the others\<close>

text \<open>No call takes tokens from another contract that has not signed it.\<close>

lemma split_fee_debits:
  assumes "standard_tokens h bal" and "split_fee h env t a s = (Done r, s')"
    and "x \<notin> insert (ctx_self env) (ctx_auth env)"
  shows "bal (ledger s) u x \<le> bal (ledger s') u x"
  using assms(2) standard_tokens_debit [OF assms(1) _ assms(3)] by (auto simp: split_fee_Done split: if_splits)

lemma create_debits:
  assumes "standard_tokens h bal" and "deposits_confined h bal C"
    and "create h env p f t ms dl yp yr iv rc s = (Done r, s')"
    and "x \<in> C" and "x \<notin> insert (ctx_self env) (ctx_auth env)"
  shows "bal (ledger s) u x \<le> bal (ledger s') u x"
proof -
  from assms(3) obtain w where
    w: "h_transfer h env t p (ctx_self env) (milestone_total ms) (ledger s) = Some w"
    and w': "ledger s' = w \<or> (\<exists>q. h_deposit h env q (milestone_total ms) w = Some (ledger s'))"
    by (cases yp; force simp: create_Done)
  have "bal w u x \<le> bal (ledger s') u x" using w' deposits_confinedD [OF assms(2) _ assms(4,5)] by auto
  then show ?thesis using standard_tokens_debit [OF assms(1) w assms(5), of u] by linarith
qed

lemma exec_call_debits:
  assumes "standard_tokens h bal" and "deposits_confined h bal C"
    and "exec_call h amt env c s = (Done r, s')"
    and "x \<in> C" and "x \<notin> insert (ctx_self env) (ctx_auth env)"
  shows "bal (ledger s) u x \<le> bal (ledger s') u x"
proof -
  note tr = standard_tokens_debit [OF assms(1) _ assms(5)] and fee = split_fee_debits [OF assms(1) _ assms(5)]
  have two: "bal (ledger s) u x \<le> bal w u x"
    if "split_fee h env t a s = (Done y, s1)" "h_transfer h env t' src dst n (ledger s1) = Some w"
    for t a y s1 t' src dst n w
    using order_trans [OF fee [OF that(1)] tr [OF that(2)]] .
  show ?thesis
  proof (cases c)
    case (Create p f t ms dl yp yr iv rc)
    then show ?thesis using assms create_debits by fastforce
  qed (use assms(3) tr two in \<open>auto simp: escrow_Done simp del: split_fee_Done\<close>)
qed

interpretation escrow_code: contract_code "\<lambda>h. exec_call h amt" for amt
  by unfold_locales (rule exec_call_debits)

end
