(* ===== verification/Escrow_Payments.thy ===== *)
theory Escrow_Payments
  imports Escrow_System
begin

text \<open>
  The payments of the escrow contract over whole runs: which milestones the event log says were
  paid (\<open>payments_inv\<close>: none twice, and exactly the ones the record marks), and what a reachable
  state guarantees to a payer who cancels or approves (\<open>reachable_refund\<close>, \<open>approve_succeeds\<close>).
\<close>

section \<open>The payments in the event log\<close>

definition paid_milestones :: "escrow_event list \<Rightarrow> nat list" where
  "paid_milestones log =
     concat (map (\<lambda>ev. case ev of MilestoneApproved _ i _ _ \<Rightarrow> [unat i] | _ \<Rightarrow> []) log)"

lemma paid_milestones_simps [simp]:
  "paid_milestones [] = []"
  "paid_milestones (xs @ ys) = paid_milestones xs @ paid_milestones ys"
  "paid_milestones [MilestoneApproved f i ds n] = [unat i]"
  by (simp_all add: paid_milestones_def)

definition is_approved :: "escrow_data option \<Rightarrow> nat \<Rightarrow> bool" where
  "is_approved r i \<longleftrightarrow> (\<exists>d. r = Some d \<and> i < length (ed_milestones d) \<and>
     ms_status (ed_milestones d ! i) = Approved)"

definition payments_inv :: "'w escrow_chain \<Rightarrow> bool" where
  "payments_inv s \<longleftrightarrow> distinct (paid_milestones (ev_log s)) \<and>
     (\<forall>i \<in> set (paid_milestones (ev_log s)). is_approved (escrow_rec s) i)"

lemma is_approved_mono:
  assumes "record_progress r r'" and "is_approved r i"
  shows "is_approved r' i"
proof -
  from assms obtain d d' where r: "r = Some d" "r' = Some d'"
    and i: "i < length (ed_milestones d)" "ms_status (ed_milestones d ! i) = Approved"
    and p: "milestones_progress (ed_milestones d) (ed_milestones d')"
    by (cases r) (auto simp: is_approved_def progressed_def)
  from p i have "i < length (ed_milestones d')" "Approved \<le> ms_status (ed_milestones d' ! i)"
    by (auto simp: milestones_progress_def list_all2_conv_all_nth)
  with r show ?thesis by (simp add: is_approved_def)
qed

text \<open>Only \<open>approve\<close> adds a payment, and only of a milestone that was not paid.\<close>

lemma exec_call_paid:
  assumes "exec_call h amt env c s = (Done u, s')"
  shows "paid_milestones (ev_log s') = paid_milestones (ev_log s) \<or>
    (\<exists>i. paid_milestones (ev_log s') = paid_milestones (ev_log s) @ [i] \<and>
       \<not> is_approved (escrow_rec s) i \<and> is_approved (escrow_rec s') i)"
proof (cases c)
  case (Approve i)
  with assms obtain d s1 f ds n where d: "escrow_rec s = Some d" "unat i < length (ed_milestones d)"
      "ms_status (ed_milestones d ! unat i) = Submitted"
    and s': "escrow_rec s' = Some (approved_record (unat i) d)"
      "ev_log s' = ev_log s @ [MilestoneApproved f i ds n]"
    by (auto simp: approve_Done dest!: split_fee_frame)
  then show ?thesis by (auto simp: is_approved_def)
next
  case (Create p f t ms dl yp yr iv rc)
  with assms show ?thesis
    by (auto simp: create_Done paid_milestones_def split: option.splits)
qed (use assms in \<open>auto simp: escrow_Done paid_milestones_def dest!: split_fee_frame\<close>)

lemma escrow_step_payments:
  assumes "escrow_step h amt bal self s l s'" and "chain_inv s" and "payments_inv s"
  shows "payments_inv s'"
  using assms(1)
proof (cases rule: escrow_step_cases)
  case (call env c)
  have "is_approved (escrow_rec s') i" if "i \<in> set (paid_milestones (ev_log s))" for i
    using that assms(3) is_approved_mono [OF life_progress [OF exec_call_life [OF call(4)]]]
    by (simp add: payments_inv_def)
  then show ?thesis
    using exec_call_paid [OF call(4)] assms(3) by (auto simp: payments_inv_def)
qed (use assms(3) in \<open>auto simp: payments_inv_def\<close>)

interpretation escrow_payments: machine
    "escrow_step h amt bal self" "\<lambda>s. chain_inv s \<and> payments_inv s" for h amt bal self
  by unfold_locales (blast intro: escrow_step_inv escrow_step_payments)

section \<open>What a reachable state guarantees\<close>

lemma reachable_inv:
  assumes "fresh s0" and "run (escrow_step h amt bal self) s0 ls s"
  shows "chain_inv s" and "solvent h bal self s"
  using escrow_funds.run_inv [OF assms(2)] fresh_inv fresh_solvent assms(1) by blast+

lemma reachable_wf:
  assumes "chain_inv s" and "escrow_rec s = Some d"
  shows "escrow_wf d" and "\<forall>m \<in> set (ed_milestones d). 0 < ms_amount m"
  using assms by (auto simp: chain_inv_def escrow_wf_def)

lemma outstanding_bounds:
  assumes "escrow_wf d"
  shows "0 \<le> outstanding d" and "outstanding d \<le> ed_total_amount d"
    and "0 \<le> approved_total (ed_milestones d)"
    and "approved_total (ed_milestones d) \<le> ed_total_amount d"
    and "ed_total_amount d - approved_total (ed_milestones d) = outstanding d"
  using approved_total_bounds [of "ed_milestones d"] assms
  by (auto simp: escrow_wf_def outstanding_def)

lemma plain_refund:
  assumes "escrow_wf d" and "plain_escrow d"
  shows "refund_of amt d = outstanding d" and "refund_fits amt d"
  using assms outstanding_bounds [OF assms(1)] i128_range_between [of "ed_total_amount d"]
  by (auto simp: refund_of_def refund_fits_def plain_escrow_def escrow_wf_def)

text \<open>The transfer a refund makes goes through.\<close>

lemma reachable_refund:
  assumes "chain_inv s" and "solvent h bal self s"
    and "escrow_rec s = Some d" and "plain_escrow d" and "ed_status d = Active"
    and "token_laws h bal (ed_token d)" and "token_serves h bal (ed_token d)"
    and "ctx_self env = self"
    and "i128_range (bal (ledger s) (ed_token d) (ed_payer d) + outstanding d)"
  obtains w where "fst (remaining_refund amt d s) = Done (outstanding d)"
    and "h_transfer h env (ed_token d) self (ed_payer d) (outstanding d) (ledger s) = Some w"
    and "bal w (ed_token d) = moved (bal (ledger s) (ed_token d)) self (ed_payer d) (outstanding d)"
proof -
  note wf = reachable_wf [OF assms(1,3)]
  have "outstanding d \<le> bal (ledger s) (ed_token d) self"
    using assms(2-6) by (simp add: solvent_def)
  then obtain w where
    w: "h_transfer h env (ed_token d) self (ed_payer d) (outstanding d) (ledger s) = Some w"
    using assms(7-9) outstanding_bounds(1) [OF wf(1)] unfolding token_serves_def by fastforce
  have "fst (remaining_refund amt d s) = Done (outstanding d)"
    by (simp add: remaining_refund_Done [OF wf(2)] plain_refund [OF wf(1) assms(4)])
  then show thesis using w token_laws_transfer(3) [OF assms(6) w] by (rule that)
qed

section \<open>Approving goes through\<close>

text \<open>The balances once the fee is paid; nobody is paid without a configuration.\<close>

definition fee_paid ::
  "address \<Rightarrow> protocol_config option \<Rightarrow> int \<Rightarrow> (address \<Rightarrow> int) \<Rightarrow> address \<Rightarrow> int" where
  "fee_paid self c fee b =
     (case c of None \<Rightarrow> b | Some cfg \<Rightarrow> moved b self (pc_fee_collector cfg) fee)"

lemma moved_zero [simp]: "moved b src dst 0 = b"
  by (simp add: moved_def)

lemma moved_range:
  assumes "0 \<le> n" and "n \<le> m" and "\<And>a. i128_range (b a + m)" and "\<And>a. 0 \<le> b a"
    and "n \<le> b src"
  shows "i128_range (moved b src dst n a + (m - n))"
proof -
  have "i128_range (b x + m)" "0 \<le> b x" for x by (fact assms)+
  from this [of a] this [of dst] this [of src] assms(1,2,5) show ?thesis
    by (auto simp: moved_def Let_def i128_range_def)
qed

lemma fee_of_le:
  assumes "0 \<le> a" and "uint bps \<le> 10000"
  shows "fee_of bps a \<le> a"
proof -
  have "a * uint bps \<le> a * 10000" using assms by (simp add: mult_left_mono)
  then have "(a * uint bps) div 10000 \<le> (a * 10000) div 10000" by (rule zdiv_mono1) simp
  then show ?thesis using assms(1) by (simp add: fee_of_nonneg)
qed

lemma split_fee_serves:
  assumes "token_laws h bal t" and "token_serves h bal t" and "store_typed s"
    and "0 \<le> a" and "a \<le> bal (ledger s) t (ctx_self env)" and "i128_range a"
    and "uint (fee_rate s) \<le> 10000" and "i128_range (a * uint (fee_rate s))"
    and "\<And>x. i128_range (bal (ledger s) t x + a)"
  obtains w where
    "split_fee h env t a s =
       (Done (a - fee_of (fee_rate s) a, fee_of (fee_rate s) a), s\<lparr>ledger := w\<rparr>)"
    and "bal w t = fee_paid (ctx_self env) (config_rec s) (fee_of (fee_rate s) a) (bal (ledger s) t)"
proof (cases "config_rec s")
  case None
  then show thesis
    using that [of "ledger s"] store_typed_present(2) [OF assms(3)]
    by (simp add: split_fee_Done fee_rate_def fee_paid_def)
next
  case (Some c)
  let ?f = "fee_of (fee_rate s) a"
  have rate: "fee_rate s = pc_fee_bps c" using Some by (simp add: fee_rate_def)
  have f: "0 \<le> ?f" "?f \<le> a" using assms(4,7) by (simp_all add: fee_of_ge_0 fee_of_le)
  have r: "i128_range (a - ?f)" "i128_range (bal (ledger s) t x + ?f)" for x
    using f assms(6) assms(9) [of x] token_laws_nonneg [OF assms(1), of "ledger s" x]
    by (auto simp: i128_range_def)
  obtain w where w: "h_transfer h env t (ctx_self env) (pc_fee_collector c) ?f (ledger s) = Some w"
    using assms(2,5) f r(2) unfolding token_serves_def by fastforce
  show thesis
  proof (cases "0 < ?f")
    case True
    then show thesis
      using that [of w] Some r(1) w token_laws_transfer(3) [OF assms(1) w] assms(8)
      by (simp add: split_fee_Done fee_paid_def rate)
  next
    case False
    then have "?f = 0" using f(1) by simp
    then show thesis
      using that [of "ledger s"] Some r(1) assms(8)
      by (simp add: split_fee_Done fee_paid_def rate)
  qed
qed

lemma split_fee_paid:
  assumes "token_laws h bal t" and "split_fee h env t a s = (Done (net, fee), s1)" and "0 \<le> a"
  shows "net = a - fee_of (fee_rate s) a" and "fee = fee_of (fee_rate s) a"
    and "bal (ledger s1) t = fee_paid (ctx_self env) (config_rec s) fee (bal (ledger s) t)"
proof -
  show net: "net = a - fee_of (fee_rate s) a" and fee: "fee = fee_of (fee_rate s) a"
    using assms(2) by (auto simp: split_fee_Done fee_rate_def absent_views)
  show "bal (ledger s1) t = fee_paid (ctx_self env) (config_rec s) fee (bal (ledger s) t)"
  proof (cases "0 < fee")
    case True
    then show ?thesis using assms(2) fee token_laws_transfer(3) [OF assms(1)]
      by (auto simp: split_fee_Done fee_rate_def fee_paid_def absent_views)
  next
    case False
    then have zero: "fee = 0" using fee fee_of_ge_0 [OF assms(3), of "fee_rate s"] by linarith
    then show ?thesis using assms(2) False
      by (auto simp: split_fee_Done fee_paid_def split: option.splits if_splits)
  qed
qed

lemma fee_paid_self:
  "0 \<le> fee \<Longrightarrow> b self - fee \<le> fee_paid self c fee b self"
  by (simp add: fee_paid_def moved_lower split: option.split)

lemma fee_paid_range:
  assumes "0 \<le> fee" and "fee \<le> m" and "\<And>a. i128_range (b a + m)" and "\<And>a. 0 \<le> b a"
    and "fee \<le> b self"
  shows "i128_range (fee_paid self c fee b a + (m - fee))"
proof (cases c)
  case None
  then show ?thesis using assms(1,2) assms(3) [of a] assms(4) [of a]
    by (simp add: fee_paid_def i128_range_def)
next
  case (Some cfg)
  then show ?thesis using moved_range [where b = b and n = fee and m = m and src = self] assms
    by (simp add: fee_paid_def)
qed

lemma unpaid_amount:
  assumes "\<forall>m \<in> set ms. 0 < ms_amount m" and "i < length ms" and "ms_status (ms ! i) \<noteq> Approved"
  shows "approved_total ms + ms_amount (ms ! i) \<le> milestone_total ms"
proof -
  let ?ms = "ms[i := (ms ! i)\<lparr>ms_status := Approved\<rparr>]"
  have "\<forall>m \<in> set ?ms. 0 < ms_amount m"
    using assms(1,2) by (auto dest!: set_update_subset_insert [THEN subsetD])
  then show ?thesis
    using approved_total_bounds [of ?ms] assms(2,3) by (simp add: approved_total_update)
qed

text \<open>
  Approving a submitted milestone that the contract can cover goes through, whatever the status of
  the escrow; a reachable active escrow of the plain kind covers all of its milestones.
\<close>

lemma approve_covered:
  assumes "chain_inv s" and "running s" and "escrow_rec s = Some d"
    and "unat i < length (ed_milestones d)" and "ms_status (ed_milestones d ! unat i) = Submitted"
    and "ed_payer d \<in> ctx_auth env" and "ctx_self env = self"
    and "token_laws h bal (ed_token d)" and "token_serves h bal (ed_token d)"
    and "a = ms_amount (ed_milestones d ! unat i)" and "a \<le> bal (ledger s) (ed_token d) self"
    and "uint (fee_rate s) \<le> 10000" and "i128_range (a * uint (fee_rate s))"
    and "\<And>x. i128_range (bal (ledger s) (ed_token d) x + a)"
  shows "\<exists>s'. approve h env i s = (Done (), s') \<and>
     escrow_rec s' = Some (approved_record (unat i) d) \<and> config_rec s' = config_rec s \<and>
     bal (ledger s') (ed_token d) =
       moved (fee_paid self (config_rec s) (fee_of (fee_rate s) a) (bal (ledger s) (ed_token d)))
         self (ed_freelancer d) (a - fee_of (fee_rate s) a)"
proof -
  let ?t = "ed_token d" and ?f = "fee_of (fee_rate s) a"
  note wf = reachable_wf [OF assms(1,3)]
  have pos: "0 < a" using wf(2) assms(4,10) by simp
  have "approved_total (ed_milestones d) + a \<le> milestone_total (ed_milestones d)"
    using unpaid_amount [OF wf(2) assms(4)] assms(5,10) by simp
  then have "a \<le> ed_total_amount d" using outstanding_bounds(3) [OF wf(1)] wf(1) by (simp add: escrow_wf_def)
  moreover have "i128_range (ed_total_amount d)" using wf(1) unfolding escrow_wf_def by blast
  ultimately have ra: "i128_range a" using pos i128_range_between [of "ed_total_amount d" a] by simp
  have f: "0 \<le> ?f" "?f \<le> a" using pos assms(12) by (simp_all add: fee_of_ge_0 fee_of_le)
  have typed: "store_typed s" using assms(1) by (simp add: chain_inv_def)
  obtain w where sf: "split_fee h env ?t a s = (Done (a - ?f, ?f), s\<lparr>ledger := w\<rparr>)"
    and b: "bal w ?t = fee_paid self (config_rec s) ?f (bal (ledger s) ?t)"
    using split_fee_serves [OF assms(8,9) typed, of a env] pos ra assms(7,11-14) by auto
  have "a - ?f \<le> bal w ?t self"
    using fee_paid_self [OF f(1), of "bal (ledger s) ?t" self "config_rec s"] assms(11) b by simp
  moreover have "i128_range (bal w ?t (ed_freelancer d) + (a - ?f))"
    unfolding b using f assms(11,14) token_laws_nonneg [OF assms(8)]
    by (intro fee_paid_range) auto
  ultimately obtain w' where
    w': "h_transfer h env ?t (ctx_self env) (ed_freelancer d) (a - ?f) w = Some w'"
    using assms(7,9) f unfolding token_serves_def by fastforce
  show ?thesis
    using assms(2-7,10) sf w' token_laws_transfer(3) [OF assms(8) w'] b
    by (simp add: approve_Done)
qed

lemma approve_succeeds:
  assumes "chain_inv s" and "solvent h bal self s" and "running s"
    and "escrow_rec s = Some d" and "plain_escrow d" and "ed_status d = Active"
    and "unat i < length (ed_milestones d)" and "ms_status (ed_milestones d ! unat i) = Submitted"
    and "ed_payer d \<in> ctx_auth env" and "ctx_self env = self"
    and "token_laws h bal (ed_token d)" and "token_serves h bal (ed_token d)"
    and "a = ms_amount (ed_milestones d ! unat i)"
    and "uint (fee_rate s) \<le> 10000" and "i128_range (a * uint (fee_rate s))"
    and "\<And>x. i128_range (bal (ledger s) (ed_token d) x + a)"
  shows "\<exists>s'. approve h env i s = (Done (), s') \<and>
     escrow_rec s' = Some (approved_record (unat i) d) \<and> config_rec s' = config_rec s \<and>
     bal (ledger s') (ed_token d) =
       moved (fee_paid self (config_rec s) (fee_of (fee_rate s) a) (bal (ledger s) (ed_token d)))
         self (ed_freelancer d) (a - fee_of (fee_rate s) a)"
proof -
  have "approved_total (ed_milestones d) + a \<le> milestone_total (ed_milestones d)"
    using unpaid_amount [OF reachable_wf(2) [OF assms(1,4)] assms(7)] assms(8,13) by simp
  then have "a \<le> bal (ledger s) (ed_token d) self"
    using assms(2,4-6,11) by (auto simp: solvent_def outstanding_def)
  from approve_covered [OF assms(1,3,4,7-13) this assms(14-16)] show ?thesis .
qed

end
