(* ===== verification/Escrow_Completion.thy ===== *)
theory Escrow_Completion
  imports Escrow_Payments
begin

text \<open>
  An active escrow is never stuck: from every state that satisfies the invariants the parties
  can submit and approve the milestones that are left, one by one, until the escrow is
  completed. The measure is the amount still owed (\<open>outstanding\<close>).
\<close>

definition party_env :: "address \<Rightarrow> address \<Rightarrow> ctx" where
  "party_env self who = \<lparr>ctx_self = self, ctx_now = 0, ctx_auth = {who}\<rparr>"

lemma party_env_sel [simp]:
  "ctx_self (party_env self who) = self" "ctx_auth (party_env self who) = {who}"
  by (simp_all add: party_env_def)

definition fee_safe :: "'w escrow_chain \<Rightarrow> escrow_data \<Rightarrow> bool" where
  "fee_safe s d \<longleftrightarrow> uint (fee_rate s) \<le> 10000 \<and> i128_range (ed_total_amount d * uint (fee_rate s))"

definition healthy :: "'w host \<Rightarrow> 'w balances \<Rightarrow> address \<Rightarrow> 'w escrow_chain \<Rightarrow> escrow_data \<Rightarrow> bool" where
  "healthy h bal self s d \<longleftrightarrow> chain_inv s \<and> solvent h bal self s \<and> running s \<and>
     escrow_rec s = Some d \<and> plain_escrow d \<and> ed_status d = Active \<and>
     token_laws h bal (ed_token d) \<and> token_serves h bal (ed_token d) \<and>
     length (ed_milestones d) \<le> 2 ^ 32 \<and> fee_safe s d \<and>
     (\<forall>x. i128_range (bal (ledger s) (ed_token d) x + outstanding d)) \<and>
     ed_payer d \<noteq> self \<and> ed_freelancer d \<noteq> self"

lemma approved_record_more [simp]:
  "ed_payer (approved_record i d) = ed_payer d"
  "ed_freelancer (approved_record i d) = ed_freelancer d"
  "ed_total_amount (approved_record i d) = ed_total_amount d"
  by (simp_all add: approved_record_def Let_def)

lemma call_step:
  assumes "exec_call h amt env c s = (Done (), s')" and "ctx_self env = self"
    and "self \<notin> ctx_auth env"
  shows "escrow_step h amt bal self s (Invoke env c) s'"
  using assms by (intro step_invoke [where r = "Done ()"]) (simp_all add: act_simps)

lemma healthy_step:
  assumes "healthy h bal self s d" and "escrow_step h amt bal self s l s'"
  shows "chain_inv s'" and "solvent h bal self s'"
  using escrow_funds.inv_step [OF _ assms(2)] assms(1) by (auto simp: healthy_def)

lemma running_same_config:
  assumes "chain_inv s" and "chain_inv s'" and "config_rec s' = config_rec s"
  shows "running s' = running s"
proof -
  have "store_typed s" "store_typed s'" using assms by (simp_all add: chain_inv_def)
  then show ?thesis using assms(3) by (simp add: running_typed is_paused_def)
qed

lemma submit_healthy:
  assumes "healthy h bal self s d" and "unat i < length (ed_milestones d)"
    and "ms_status (ed_milestones d ! unat i) = Pending"
  obtains s' where
    "escrow_step h amt bal self s (Invoke (party_env self (ed_freelancer d)) (SubmitWork i)) s'"
    and "healthy h bal self s' (set_milestone (unat i) Submitted d)"
proof -
  let ?env = "party_env self (ed_freelancer d)"
  obtain s' where call: "exec_call h amt ?env (SubmitWork i) s = (Done (), s')"
    and s': "escrow_rec s' = Some (set_milestone (unat i) Submitted d)"
      "config_rec s' = config_rec s" "ledger s' = ledger s"
    using assms by (simp add: submit_work_Done healthy_def)
  have step: "escrow_step h amt bal self s (Invoke ?env (SubmitWork i)) s'"
    by (rule call_step [OF call]) (use assms(1) in \<open>auto simp: healthy_def\<close>)
  note inv = healthy_step [OF assms(1) step]
  have "running s'"
    using assms(1) running_same_config [OF _ inv(1) s'(2)] by (simp add: healthy_def)
  then have "healthy h bal self s' (set_milestone (unat i) Submitted d)"
    using assms inv s'
    by (simp add: healthy_def outstanding_set_milestone plain_escrow_def fee_safe_def fee_rate_def)
  with step show thesis by (rule that)
qed

lemma moved_upper: "0 \<le> n \<Longrightarrow> moved b src dst n a \<le> b a + n"
  by (auto simp: moved_def Let_def)

lemma fee_paid_upper: "0 \<le> fee \<Longrightarrow> fee_paid self c fee b a \<le> b a + fee"
  by (simp add: fee_paid_def moved_upper split: option.split)

lemma approve_healthy:
  assumes "healthy h bal self s d" and "unat i < length (ed_milestones d)"
    and "ms_status (ed_milestones d ! unat i) = Submitted"
  obtains s' where
    "escrow_step h amt bal self s (Invoke (party_env self (ed_payer d)) (Approve i)) s'"
    and "escrow_rec s' = Some (approved_record (unat i) d)"
    and "ed_status (approved_record (unat i) d) = Active \<Longrightarrow>
           healthy h bal self s' (approved_record (unat i) d)"
proof -
  let ?env = "party_env self (ed_payer d)" and ?a = "ms_amount (ed_milestones d ! unat i)"
  let ?f = "fee_of (fee_rate s) ?a" and ?b = "bal (ledger s) (ed_token d)"
  let ?d = "approved_record (unat i) d"
  have h: "chain_inv s" "solvent h bal self s" "running s" "escrow_rec s = Some d" "plain_escrow d"
    "ed_status d = Active" "token_laws h bal (ed_token d)" "token_serves h bal (ed_token d)"
    "fee_safe s d" "\<And>x. i128_range (?b x + outstanding d)" "ed_payer d \<noteq> self"
    using assms(1) by (simp_all add: healthy_def)
  note wf = reachable_wf [OF h(1,4)]
  have pos: "0 < ?a" using wf(2) assms(2) by simp
  have le: "?a \<le> outstanding d" using unpaid_amount [OF wf(2) assms(2)] assms(3)
    by (simp add: outstanding_def)
  have nonneg: "0 \<le> bal w (ed_token d) x" for w x using token_laws_nonneg [OF h(7)] .
  have fits: "i128_range (?b x + ?a)" for x
    using h(10) [of x] le pos nonneg [of "ledger s" x] by (auto simp: i128_range_def)
  have "?a * uint (fee_rate s) \<le> ed_total_amount d * uint (fee_rate s)"
    using le outstanding_bounds(2) [OF wf(1)] by (simp add: mult_right_mono)
  then have prod: "i128_range (?a * uint (fee_rate s))"
    using h(9) pos i128_range_between [of "ed_total_amount d * uint (fee_rate s)" "?a * uint (fee_rate s)"]
    by (simp add: fee_safe_def)
  have rate: "uint (fee_rate s) \<le> 10000" using h(9) by (simp add: fee_safe_def)
  obtain s' where call: "exec_call h amt ?env (Approve i) s = (Done (), s')"
    and s': "escrow_rec s' = Some ?d" "config_rec s' = config_rec s"
    and b': "bal (ledger s') (ed_token d) =
      moved (fee_paid self (config_rec s) ?f ?b) self (ed_freelancer d) (?a - ?f)"
    using approve_succeeds [OF h(1-6) assms(2,3) _ _ h(7,8) refl rate prod fits, of ?env] by auto
  have step: "escrow_step h amt bal self s (Invoke ?env (Approve i)) s'"
    by (rule call_step [OF call]) (use h(11) in auto)
  note inv = healthy_step [OF assms(1) step]
  have "running s'"
    using h(3) running_same_config [OF h(1) inv(1) s'(2)] by simp
  moreover have out: "outstanding ?d = outstanding d - ?a"
    using outstanding_set_milestone [OF assms(2), of Approved] assms(3)
    by (simp add: outstanding_def)
  moreover have "i128_range (bal (ledger s') (ed_token d) x + (outstanding d - ?a))" for x
  proof -
    have f: "0 \<le> ?f" "?f \<le> ?a" using pos rate by (simp_all add: fee_of_ge_0 fee_of_le)
    have "bal (ledger s') (ed_token d) x \<le> fee_paid self (config_rec s) ?f ?b x + (?a - ?f)"
      unfolding b' using f by (intro moved_upper) simp
    also have "\<dots> \<le> ?b x + ?a" using fee_paid_upper [OF f(1), of self "config_rec s" ?b x] by simp
    finally show ?thesis using h(10) [of x] nonneg [of "ledger s'" x] le
      by (auto simp: i128_range_def)
  qed
  ultimately have "healthy h bal self s' ?d" if "ed_status ?d = Active"
    using that assms(1) inv s' by (simp add: healthy_def plain_escrow_def fee_safe_def fee_rate_def)
  with step s'(1) show thesis by (rule that)
qed

text \<open>The submissions signed by the freelancer alone and the approvals signed by the payer alone.\<close>

inductive party_call :: "address \<Rightarrow> escrow_data \<Rightarrow> escrow_label \<Rightarrow> bool" for self d where
  party_submits: "party_call self d (Invoke (party_env self (ed_freelancer d)) (SubmitWork i))"
| party_approves: "party_call self d (Invoke (party_env self (ed_payer d)) (Approve i))"

lemma party_call_same:
  "party_call self d l \<Longrightarrow> ed_payer d' = ed_payer d \<Longrightarrow> ed_freelancer d' = ed_freelancer d \<Longrightarrow>
     party_call self d' l"
  by (metis party_call.simps)

lemma healthy_completes:
  assumes "healthy h bal self s d" and "\<not> all_approved d"
  shows "\<exists>ls s' d'. run (escrow_step h amt bal self) s ls s' \<and> (\<forall>l \<in> set ls. party_call self d l) \<and>
    escrow_rec s' = Some d' \<and> ed_status d' = Completed \<and> all_approved d'"
  using assms
proof (induction "nat (outstanding d)" arbitrary: s d rule: less_induct)
  case less
  let ?run = "run (escrow_step h amt bal self)"
  from less.prems(2) obtain k where k: "k < length (ed_milestones d)"
    and unpaid: "ms_status (ed_milestones d ! k) \<noteq> Approved"
    by (auto simp: all_approved_def in_set_conv_nth)
  define i :: u32 where "i = of_nat k"
  have i: "unat i = k"
    using less.prems(1) k by (simp add: healthy_def i_def unsigned_of_nat take_bit_nat_eq_self)
  obtain ls1 s1 d1 where r1: "?run s ls1 s1" and h1: "healthy h bal self s1 d1"
    and d1: "length (ed_milestones d1) = length (ed_milestones d)" "outstanding d1 = outstanding d"
      "ms_status (ed_milestones d1 ! k) = Submitted"
      "ed_payer d1 = ed_payer d" "ed_freelancer d1 = ed_freelancer d" "\<forall>l \<in> set ls1. party_call self d l"
      "ms_amount (ed_milestones d1 ! k) = ms_amount (ed_milestones d ! k)"
  proof (cases "ms_status (ed_milestones d ! k) = Submitted")
    case True
    then show thesis using that [of "[]" s d] less.prems(1) by simp
  next
    case False
    then have "ms_status (ed_milestones d ! unat i) = Pending"
      using unpaid i by (cases "ms_status (ed_milestones d ! k)") auto
    then obtain s1 where
      "escrow_step h amt bal self s (Invoke (party_env self (ed_freelancer d)) (SubmitWork i)) s1"
      and "healthy h bal self s1 (set_milestone k Submitted d)"
      using submit_healthy [OF less.prems(1), where i = i and amt = amt and thesis = thesis] k i by auto
    then show thesis
      using that [of _ s1 "set_milestone k Submitted d"] k unpaid run_single
      by (fastforce simp: outstanding_set_milestone intro: party_submits)
  qed
  obtain s2 where
    st: "escrow_step h amt bal self s1 (Invoke (party_env self (ed_payer d1)) (Approve i)) s2"
    and rec2: "escrow_rec s2 = Some (approved_record k d1)"
    and h2: "ed_status (approved_record k d1) = Active \<Longrightarrow> healthy h bal self s2 (approved_record k d1)"
    using approve_healthy [OF h1, where i = i and amt = amt and thesis = thesis] k i d1(1,3) by auto
  note r2 = run_snoc [OF r1 st]
  have calls: "\<forall>l \<in> set (ls1 @ [Invoke (party_env self (ed_payer d1)) (Approve i)]). party_call self d l"
    using d1(4,6) party_approves [of self d i] by simp
  show ?case
  proof (cases "all_approved (set_milestone k Approved d1)")
    case True
    then have "ed_status (approved_record k d1) = Completed" "all_approved (approved_record k d1)"
      by (simp_all add: approved_record_def all_approved_def)
    then show ?thesis using r2 rec2 calls by blast
  next
    case False
    then have rec: "approved_record k d1 = set_milestone k Approved d1"
      by (simp add: approved_record_def)
    have "0 < ms_amount (ed_milestones d ! k)"
      using reachable_wf(2) [of s d] less.prems(1) k by (simp add: healthy_def)
    moreover have "outstanding (approved_record k d1) = outstanding d - ms_amount (ed_milestones d ! k)"
      using outstanding_set_milestone [of k d1 Approved] k d1 by (simp add: rec)
    moreover have "healthy h bal self s2 (approved_record k d1)"
      using h2 h1 rec by (simp add: healthy_def)
    moreover have "0 < outstanding d"
    proof -
      note wf = reachable_wf [of s d]
      have "approved_total (ed_milestones d) + ms_amount (ed_milestones d ! k)
          \<le> milestone_total (ed_milestones d)"
        using unpaid_amount [OF _ k unpaid] wf less.prems(1) by (simp add: healthy_def)
      then show ?thesis using \<open>0 < ms_amount (ed_milestones d ! k)\<close> by (simp add: outstanding_def)
    qed
    ultimately obtain ls s' d' where "?run s2 ls s'" "escrow_rec s' = Some d'" "ed_status d' = Completed"
      "all_approved d'" and more: "\<forall>l \<in> set ls. party_call self (approved_record k d1) l"
      using less.hyps [of "approved_record k d1" s2] False rec by auto
    moreover have "\<forall>l \<in> set ls. party_call self d l"
      using more d1(4,5) party_call_same [of self "approved_record k d1" _ d] by simp
    ultimately show ?thesis
      using run_trans [OF r2] calls by (intro exI [of _ "(ls1 @ [_]) @ ls"] exI [of _ s'] exI [of _ d']) auto
  qed
qed

end
