(* ===== verification/Escrow_Recurring.thy ===== *)
theory Escrow_Recurring
  imports Escrow_Completion
begin

text \<open>
  Recurring escrows over whole runs. While the contract is funded and the fee is at most one
  hundred percent, a release goes through as soon as the interval has elapsed, whoever calls and
  without any signature (\<open>payable_release\<close>), and is refused before (\<open>payable_early\<close>); the calls one
  interval apart pay one instalment each until the escrow is completed (\<open>releases_on_time\<close>).
\<close>

definition keeper_env :: "address \<Rightarrow> u64 \<Rightarrow> ctx" where
  "keeper_env self now = \<lparr>ctx_self = self, ctx_now = now, ctx_auth = {}\<rparr>"

definition keeper_call :: "address \<Rightarrow> u64 \<Rightarrow> escrow_label" where
  "keeper_call self now = Invoke (keeper_env self now) ReleaseRecurring"

lemma keeper_env_sel [simp]:
  "ctx_self (keeper_env self now) = self" "ctx_now (keeper_env self now) = now"
  "ctx_auth (keeper_env self now) = {}"
  by (simp_all add: keeper_env_def)

text \<open>The releases that are left, and an instalment that depends on the agreed terms alone.\<close>

definition releases_left :: "escrow_data \<Rightarrow> int" where
  "releases_left d = uint (ed_recurrence_count d) - uint (ed_releases_made d)"

definition fixed_instalment :: "(escrow_data \<Rightarrow> i128) \<Rightarrow> escrow_data \<Rightarrow> i128 \<Rightarrow> bool" where
  "fixed_instalment amt d a \<longleftrightarrow> (\<forall>d'. same_terms d d' \<longrightarrow> amt d' = a)"

definition recurring_active :: "escrow_data \<Rightarrow> bool" where
  "recurring_active d \<longleftrightarrow> ed_status d = Active \<and> ed_interval d \<noteq> 0 \<and> ed_recurrence_count d \<noteq> 0"

text \<open>The contract can pay all the releases that are left, and there is time for them.\<close>

definition funded :: "'w balances \<Rightarrow> address \<Rightarrow> i128 \<Rightarrow> 'w escrow_chain \<Rightarrow> escrow_data \<Rightarrow> bool" where
  "funded bal self a s d \<longleftrightarrow>
     0 \<le> a \<and> releases_left d * a \<le> bal (ledger s) (ed_token d) self \<and>
     (\<forall>x. i128_range (bal (ledger s) (ed_token d) x + releases_left d * a)) \<and>
     uint (fee_rate s) \<le> 10000 \<and> i128_range (a * uint (fee_rate s)) \<and>
     uint (ed_last_release_time d) + releases_left d * uint (ed_interval d) < 2 ^ 64"

definition due :: "escrow_data \<Rightarrow> u64" where
  "due d = ed_last_release_time d + ed_interval d"

lemma released_record_more [simp]:
  "ed_freelancer (released_record now d) = ed_freelancer d"
  "ed_interval (released_record now d) = ed_interval d"
  "ed_releases_made (released_record now d) = ed_releases_made d + 1"
  "ed_last_release_time (released_record now d) = now"
  by (simp_all add: released_record_def Let_def)

lemma released_same_terms: "same_terms d (released_record now d)"
  by (simp add: same_terms_def released_record_def Let_def)

lemma same_terms_trans: "same_terms a b \<Longrightarrow> same_terms b c \<Longrightarrow> same_terms a c"
  by (simp add: same_terms_def)

lemma releases_left_released:
  assumes "ed_releases_made d < ed_recurrence_count d"
  shows "uint (ed_releases_made d + 1) = uint (ed_releases_made d) + 1"
    and "releases_left (released_record now d) = releases_left d - 1" and "0 < releases_left d"
proof -
  have lt: "uint (ed_releases_made d) < uint (ed_recurrence_count d)"
    using assms by (simp add: word_less_def)
  have bound: "uint (ed_recurrence_count d) < 2 ^ 32" using uint_lt2p [of "ed_recurrence_count d"] by simp
  from lt bound show made: "uint (ed_releases_made d + 1) = uint (ed_releases_made d) + 1"
    by (intro uint_add_exact [where b = 1, simplified]) simp
  from lt show "0 < releases_left d" by (simp add: releases_left_def)
  from made show "releases_left (released_record now d) = releases_left d - 1"
    by (simp add: releases_left_def)
qed

section \<open>One release\<close>

lemma release_effect:
  assumes "release_recurring h amt env s = (Done (), s')" and "escrow_rec s = Some d"
    and "token_laws h bal (ed_token d)" and "0 \<le> amt d"
  shows "escrow_rec s' = Some (released_record (ctx_now env) d)" and "config_rec s' = config_rec s"
    and "bal (ledger s') (ed_token d) =
      moved (fee_paid (ctx_self env) (config_rec s) (fee_of (fee_rate s) (amt d))
        (bal (ledger s) (ed_token d))) (ctx_self env) (ed_freelancer d)
        (amt d - fee_of (fee_rate s) (amt d))"
proof -
  from assms(1,2) obtain net fee s1 w where
    sf: "split_fee h env (ed_token d) (amt d) s = (Done (net, fee), s1)"
    and tr: "h_transfer h env (ed_token d) (ctx_self env) (ed_freelancer d) net (ledger s1) = Some w"
    and s': "escrow_rec s' = Some (released_record (ctx_now env) d)" "config_rec s' = config_rec s1"
      "ledger s' = w"
    by (auto simp: release_recurring_Done)
  show "escrow_rec s' = Some (released_record (ctx_now env) d)" "config_rec s' = config_rec s"
    using s' split_fee_views(2) [OF sf] by simp_all
  show "bal (ledger s') (ed_token d) =
      moved (fee_paid (ctx_self env) (config_rec s) (fee_of (fee_rate s) (amt d))
        (bal (ledger s) (ed_token d))) (ctx_self env) (ed_freelancer d)
        (amt d - fee_of (fee_rate s) (amt d))"
    using token_laws_transfer(3) [OF assms(3) tr] split_fee_paid [OF assms(3) sf assms(4)] s'(3) by simp
qed

text \<open>What a release that succeeds has checked and changed.\<close>

lemma release_pays:
  assumes "release_recurring h amt env s = (Done (), s')" and "escrow_rec s = Some d"
    and "token_laws h bal (ed_token d)" and "0 \<le> amt d"
  shows "uint (ed_last_release_time d) + uint (ed_interval d) \<le> uint (ctx_now env) \<and>
    escrow_rec s' = Some (d\<lparr>ed_releases_made := ed_releases_made d + 1,
      ed_last_release_time := ctx_now env,
      ed_status := (if ed_recurrence_count d \<le> ed_releases_made d + 1 then Completed else Active)\<rparr>) \<and>
    bal (ledger s') (ed_token d) =
      moved (fee_paid (ctx_self env) (config_rec s) (fee_of (fee_rate s) (amt d))
        (bal (ledger s) (ed_token d))) (ctx_self env) (ed_freelancer d)
        (amt d - fee_of (fee_rate s) (amt d))"
proof -
  from assms(1,2) have "ed_status d = Active"
    and "uint (ed_last_release_time d) + uint (ed_interval d) < 2 ^ 64"
    and "ed_last_release_time d + ed_interval d \<le> ctx_now env"
    by (auto simp: release_recurring_Done)
  moreover note release_effect [OF assms]
  ultimately show ?thesis
    by (simp add: word_le_def uint_add_exact released_record_def Let_def)
qed

lemma release_succeeds:
  assumes "chain_inv s" and "running s" and "escrow_rec s = Some d" and "recurring_active d"
    and "funded bal (ctx_self env) a s d" and "amt d = a"
    and "token_laws h bal (ed_token d)" and "token_serves h bal (ed_token d)"
    and "due d \<le> ctx_now env"
  shows "\<exists>s'. release_recurring h amt env s = (Done (), s')"
proof -
  let ?t = "ed_token d" and ?f = "fee_of (fee_rate s) a" and ?self = "ctx_self env"
  have made: "ed_releases_made d < ed_recurrence_count d"
    using reachable_wf(1) [OF assms(1,3)] assms(4)
    by (simp add: escrow_wf_def recurring_active_def word_neq_0_conv)
  note left = releases_left_released [OF made]
  have f: "0 \<le> a" "releases_left d * a \<le> bal (ledger s) ?t ?self"
    "\<And>x. i128_range (bal (ledger s) ?t x + releases_left d * a)" "uint (fee_rate s) \<le> 10000"
    "i128_range (a * uint (fee_rate s))"
    "uint (ed_last_release_time d) + releases_left d * uint (ed_interval d) < 2 ^ 64"
    using assms(5) by (simp_all add: funded_def)
  have one: "x \<le> releases_left d * x" if "0 \<le> x" for x
    using mult_right_mono [of 1 "releases_left d" x] that left(3) by simp
  have time: "uint (ed_last_release_time d) + uint (ed_interval d) < 2 ^ 64"
    using f(6) one [of "uint (ed_interval d)"] by simp
  have b: "0 \<le> bal w ?t x" for w x using token_laws_nonneg [OF assms(7)] .
  have cover: "a \<le> bal (ledger s) ?t ?self" using f(2) one [OF f(1)] by linarith
  have fits: "i128_range (bal (ledger s) ?t x + a)" for x
    using f(3) [of x] one [OF f(1)] b [of "ledger s" x] f(1) by (auto simp: i128_range_def)
  have ra: "i128_range a" using fits [of ?self] b [of "ledger s" ?self] f(1) by (auto simp: i128_range_def)
  have fee: "0 \<le> ?f" "?f \<le> a" using f(1,4) by (simp_all add: fee_of_ge_0 fee_of_le)
  have typed: "store_typed s" using assms(1) by (simp add: chain_inv_def)
  obtain w where sf: "split_fee h env ?t a s = (Done (a - ?f, ?f), s\<lparr>ledger := w\<rparr>)"
    and bw: "bal w ?t = fee_paid ?self (config_rec s) ?f (bal (ledger s) ?t)"
    using split_fee_serves [OF assms(7,8) typed f(1) cover ra f(4,5) fits] by blast
  have "a - ?f \<le> bal w ?t ?self"
    using fee_paid_self [OF fee(1), of "bal (ledger s) ?t" ?self "config_rec s"] cover bw by simp
  moreover have "i128_range (bal w ?t (ed_freelancer d) + (a - ?f))"
    unfolding bw using fee cover fits b by (intro fee_paid_range) auto
  ultimately obtain w' where
    "h_transfer h env ?t ?self (ed_freelancer d) (a - ?f) w = Some w'"
    using assms(8) fee unfolding token_serves_def by fastforce
  then show ?thesis
    using assms(2-4,6,9) made sf time left(1) uint_lt2p [of "ed_releases_made d + 1"]
    by (simp add: release_recurring_Done recurring_active_def due_def)
qed

lemma funded_released:
  assumes "funded bal self a s d" and "ed_releases_made d < ed_recurrence_count d"
    and "token_laws h bal (ed_token d)" and "config_rec s' = config_rec s"
    and "f = fee_of (fee_rate s) a"
    and "bal (ledger s') (ed_token d) = moved (fee_paid self (config_rec s) f
        (bal (ledger s) (ed_token d))) self (ed_freelancer d) (a - f)"
  shows "funded bal self a s' (released_record (due d) d)"
proof -
  let ?b = "bal (ledger s) (ed_token d)" and ?b' = "bal (ledger s') (ed_token d)"
  note left = releases_left_released [OF assms(2)]
  have fd: "0 \<le> a" "releases_left d * a \<le> ?b self" "\<And>x. i128_range (?b x + releases_left d * a)"
    "uint (fee_rate s) \<le> 10000" "i128_range (a * uint (fee_rate s))"
    "uint (ed_last_release_time d) + releases_left d * uint (ed_interval d) < 2 ^ 64"
    using assms(1) by (simp_all add: funded_def)
  have fee: "0 \<le> f" "f \<le> a" using fd(1,4) assms(5) by (simp_all add: fee_of_ge_0 fee_of_le)
  have "fee_paid self (config_rec s) f ?b self - (a - f) \<le> ?b' self"
    unfolding assms(6) using fee by (intro moved_lower) simp
  then have lower: "?b self - a \<le> ?b' self" using fee_paid_self [OF fee(1), of ?b self "config_rec s"] by simp
  have upper: "?b' x \<le> ?b x + a" for x
    using moved_upper [of "a - f" "fee_paid self (config_rec s) f ?b" self "ed_freelancer d" x]
      fee_paid_upper [OF fee(1), of self "config_rec s" ?b x] fee assms(6) by simp
  have split: "(releases_left d - 1) * x = releases_left d * x - x" for x by (simp add: left_diff_distrib)
  have "0 \<le> (releases_left d - 1) * uint (ed_interval d)" using left(3) by simp
  then have time: "uint (ed_last_release_time d) + uint (ed_interval d) < 2 ^ 64"
    using fd(6) split [of "uint (ed_interval d)"] by linarith
  then have "uint (due d) = uint (ed_last_release_time d) + uint (ed_interval d)"
    by (simp add: due_def uint_add_exact)
  then have "uint (due d) + (releases_left d - 1) * uint (ed_interval d) < 2 ^ 64"
    using fd(6) split [of "uint (ed_interval d)"] by linarith
  moreover have "(releases_left d - 1) * a \<le> ?b' self" using lower fd(2) split [of a] by linarith
  moreover have "i128_range (?b' x + (releases_left d - 1) * a)" for x
  proof -
    have "0 \<le> ?b' x" using token_laws_nonneg [OF assms(3)] .
    moreover have "0 \<le> (releases_left d - 1) * a" using fd(1) left(3) by simp
    ultimately show ?thesis using fd(3) [of x] upper [of x] split [of a] by (auto simp: i128_range_def)
  qed
  moreover have "fee_rate s' = fee_rate s" using assms(4) by (simp add: fee_rate_def)
  ultimately show ?thesis using fd(1,4,5) by (simp add: funded_def left(2))
qed

section \<open>All the releases\<close>

text \<open>What the freelancer gets, when neither the contract nor the collector is the freelancer.\<close>

definition separate_freelancer :: "address \<Rightarrow> 'w escrow_chain \<Rightarrow> escrow_data \<Rightarrow> bool" where
  "separate_freelancer self s d \<longleftrightarrow> ed_freelancer d \<noteq> self \<and>
     (\<forall>c. config_rec s = Some c \<longrightarrow> pc_fee_collector c \<noteq> ed_freelancer d)"

lemma separate_paid:
  assumes "separate_freelancer self s d"
  shows "moved (fee_paid self (config_rec s) f b) self (ed_freelancer d) n (ed_freelancer d) =
    b (ed_freelancer d) + n"
  using assms by (auto simp: separate_freelancer_def fee_paid_def split: option.split)

text \<open>An active recurring escrow that can be paid out to its end.\<close>

definition payable :: "'w host \<Rightarrow> 'w balances \<Rightarrow> address \<Rightarrow> (escrow_data \<Rightarrow> i128) \<Rightarrow> i128 \<Rightarrow>
    'w escrow_chain \<Rightarrow> escrow_data \<Rightarrow> bool" where
  "payable h bal self amt a s d \<longleftrightarrow> chain_inv s \<and> running s \<and> escrow_rec s = Some d \<and>
     recurring_active d \<and> funded bal self a s d \<and> fixed_instalment amt d a \<and>
     token_laws h bal (ed_token d) \<and> token_serves h bal (ed_token d) \<and> separate_freelancer self s d"

lemma payable_made:
  assumes "payable h bal self amt a s d"
  shows "ed_releases_made d < ed_recurrence_count d"
    and "uint (ed_last_release_time d) + uint (ed_interval d) < 2 ^ 64" and "0 < releases_left d"
proof -
  show made: "ed_releases_made d < ed_recurrence_count d"
    using assms reachable_wf(1) [of s d]
    by (simp add: payable_def escrow_wf_def recurring_active_def word_neq_0_conv)
  note left = releases_left_released(3) [OF made]
  show "0 < releases_left d" by (rule left)
  have "1 * uint (ed_interval d) \<le> releases_left d * uint (ed_interval d)"
    using left by (intro mult_right_mono) simp_all
  then show "uint (ed_last_release_time d) + uint (ed_interval d) < 2 ^ 64"
    using assms by (simp add: payable_def funded_def)
qed

text \<open>Too early is refused; in time goes through.\<close>

lemma payable_early:
  assumes "payable h bal self amt a s d" and "ctx_now env < due d"
  shows "release_recurring h amt env s = (Err IntervalNotElapsed, s)"
  using assms payable_made [OF assms(1)]
  by (simp add: release_recurring_Err payable_def recurring_active_def due_def)

lemma payable_release:
  assumes "payable h bal self amt a s d"
  shows "\<exists>s'. escrow_step h amt bal self s (keeper_call self (due d)) s' \<and>
    escrow_rec s' = Some (released_record (due d) d) \<and> config_rec s' = config_rec s \<and>
    bal (ledger s') (ed_token d) (ed_freelancer d) =
      bal (ledger s) (ed_token d) (ed_freelancer d) + (a - fee_of (fee_rate s) a) \<and>
    (if releases_left d = 1 then ed_status (released_record (due d) d) = Completed
     else payable h bal self amt a s' (released_record (due d) d))"
proof -
  let ?env = "keeper_env self (due d)" and ?d = "released_record (due d) d" and ?t = "ed_token d"
  have p: "chain_inv s" "running s" "escrow_rec s = Some d" "recurring_active d" "funded bal self a s d"
    "fixed_instalment amt d a" "token_laws h bal ?t" "token_serves h bal ?t" "separate_freelancer self s d"
    using assms by (simp_all add: payable_def)
  note made = payable_made [OF assms] and left = releases_left_released [OF payable_made(1) [OF assms]]
  have a: "amt d = a" "0 \<le> amt d"
    using p(5,6) by (auto simp: fixed_instalment_def same_terms_def funded_def)
  obtain s1 where call: "release_recurring h amt ?env s = (Done (), s1)"
    using release_succeeds [OF p(1-4), where env = ?env and bal = bal and a = a] p(5,7,8) a(1) by auto
  note eff = release_effect [OF call p(3,7) a(2), unfolded a(1) keeper_env_sel]
  have step: "escrow_step h amt bal self s (keeper_call self (due d)) s1"
    unfolding keeper_call_def by (rule call_step) (simp_all add: call)
  then have inv1: "chain_inv s1" using escrow_step_inv p(1) by blast
  have "payable h bal self amt a s1 ?d" if "releases_left d \<noteq> 1"
  proof -
    have "\<not> ed_recurrence_count d \<le> ed_releases_made d + 1"
      using that left(1) made(1,3) by (simp add: releases_left_def word_le_def)
    then have "recurring_active ?d"
      using p(4) by (simp add: recurring_active_def released_record_def Let_def)
    moreover have "fixed_instalment amt ?d a"
      using p(6) same_terms_trans [OF released_same_terms] by (auto simp: fixed_instalment_def)
    moreover have "running s1" using p(2) running_same_config [OF p(1) inv1 eff(2)] by simp
    moreover have "funded bal self a s1 ?d"
      by (rule funded_released [OF p(5) made(1) p(7) eff(2) refl eff(3)])
    moreover have "separate_freelancer self s1 ?d"
      using p(9) eff(2) by (simp add: separate_freelancer_def)
    ultimately show ?thesis using inv1 eff(1) p(7,8) by (simp add: payable_def)
  qed
  moreover have "ed_status ?d = Completed" if "releases_left d = 1"
  proof -
    have "ed_recurrence_count d \<le> ed_releases_made d + 1"
      using that left(1) by (simp add: releases_left_def word_le_def)
    then show ?thesis by (simp add: released_record_def Let_def)
  qed
  ultimately show ?thesis
    using step eff separate_paid [OF p(9)] by (intro exI [of _ s1]) simp
qed

text \<open>The time of the \<open>k\<close>-th release after the last one, and the calls up to it.\<close>

definition due_at :: "escrow_data \<Rightarrow> nat \<Rightarrow> u64" where
  "due_at d k = word_of_int (uint (ed_last_release_time d) + int k * uint (ed_interval d))"

definition keeper_calls :: "address \<Rightarrow> escrow_data \<Rightarrow> nat \<Rightarrow> escrow_label list" where
  "keeper_calls self d k = map (\<lambda>j. keeper_call self (due_at d (Suc j))) [0..<k]"

lemma due_at_exact:
  assumes "funded bal self a s d" and "int k \<le> releases_left d"
  shows "uint (due_at d k) = uint (ed_last_release_time d) + int k * uint (ed_interval d)"
proof -
  have "int k * uint (ed_interval d) \<le> releases_left d * uint (ed_interval d)"
    using assms(2) by (intro mult_right_mono) simp_all
  then have "uint (ed_last_release_time d) + int k * uint (ed_interval d) < 2 ^ 64"
    using assms(1) by (simp add: funded_def)
  then show ?thesis unfolding due_at_def uint_word_of_int by (intro mod_pos_pos_trivial) simp_all
qed

text \<open>Where the first \<open>k\<close> releases lead.\<close>

definition after_releases :: "'w host \<Rightarrow> 'w balances \<Rightarrow> address \<Rightarrow> (escrow_data \<Rightarrow> i128) \<Rightarrow> i128 \<Rightarrow>
    'w escrow_chain \<Rightarrow> escrow_data \<Rightarrow> nat \<Rightarrow> 'w escrow_chain \<Rightarrow> escrow_data \<Rightarrow> bool" where
  "after_releases h bal self amt a s d k s' d' \<longleftrightarrow> escrow_rec s' = Some d' \<and> same_terms d d' \<and>
     ed_freelancer d' = ed_freelancer d \<and> config_rec s' = config_rec s \<and>
     uint (ed_releases_made d') = uint (ed_releases_made d) + int k \<and>
     uint (ed_last_release_time d') = uint (ed_last_release_time d) + int k * uint (ed_interval d) \<and>
     bal (ledger s') (ed_token d) (ed_freelancer d) =
       bal (ledger s) (ed_token d) (ed_freelancer d) + int k * (a - fee_of (fee_rate s) a) \<and>
     (if int k < releases_left d then payable h bal self amt a s' d' else ed_status d' = Completed)"

lemma after_early:
  assumes "after_releases h bal self amt a s d k s' d'" and "int k < releases_left d"
    and "uint (ctx_now env) < uint (ed_last_release_time d) + (int k + 1) * uint (ed_interval d)"
  shows "release_recurring h amt env s' = (Err IntervalNotElapsed, s')"
proof -
  have p: "payable h bal self amt a s' d'" and "ed_interval d' = ed_interval d"
    and "uint (ed_last_release_time d') = uint (ed_last_release_time d) + int k * uint (ed_interval d)"
    using assms(1,2) by (simp_all add: after_releases_def same_terms_def)
  then have "ctx_now env < due d'"
    using assms(3) payable_made(2) [OF p]
    by (simp add: due_def word_less_def uint_add_exact distrib_right)
  with p show ?thesis by (rule payable_early)
qed

lemma after_status:
  assumes "after_releases h bal self amt a s d k s' d'" and "int k \<le> releases_left d"
  shows "ed_status d' = Completed \<longleftrightarrow> int k = releases_left d"
  using assms by (auto simp: after_releases_def payable_def recurring_active_def split: if_splits)

lemma releases_on_time:
  assumes "payable h bal self amt a s d" and "int k \<le> releases_left d"
  shows "\<exists>s' d'. run (escrow_step h amt bal self) s (keeper_calls self d k) s' \<and>
    after_releases h bal self amt a s d k s' d'"
  using assms(2)
proof (induction k)
  case 0
  then show ?case using assms(1) payable_made(3) [OF assms(1)]
    by (intro exI [of _ s] exI [of _ d])
      (simp add: keeper_calls_def after_releases_def payable_def same_terms_def)
next
  case (Suc k)
  then obtain s1 d1 where r1: "run (escrow_step h amt bal self) s (keeper_calls self d k) s1"
    and "after_releases h bal self amt a s d k s1 d1" by auto
  then have p1: "payable h bal self amt a s1 d1" and t1: "same_terms d d1"
    and same: "ed_freelancer d1 = ed_freelancer d" "config_rec s1 = config_rec s"
    and made1: "uint (ed_releases_made d1) = uint (ed_releases_made d) + int k"
    and time1: "uint (ed_last_release_time d1) = uint (ed_last_release_time d) + int k * uint (ed_interval d)"
    and paid1: "bal (ledger s1) (ed_token d) (ed_freelancer d) =
       bal (ledger s) (ed_token d) (ed_freelancer d) + int k * (a - fee_of (fee_rate s) a)"
    using Suc.prems by (simp_all add: after_releases_def)
  have fund: "funded bal self a s d" using assms(1) by (simp add: payable_def)
  note nxt = due_at_exact [OF fund Suc.prems]
  have terms: "ed_token d1 = ed_token d" "ed_interval d1 = ed_interval d"
    "ed_recurrence_count d1 = ed_recurrence_count d" using t1 by (simp_all add: same_terms_def)
  then have "uint (due d1) = uint (due_at d (Suc k))"
    using nxt payable_made(2) [OF p1] time1 by (simp add: due_def uint_add_exact algebra_simps)
  then have due: "due d1 = due_at d (Suc k)" by (simp only: word_uint_eq_iff)
  have left1: "releases_left d1 = releases_left d - int k"
    using made1 terms by (simp add: releases_left_def)
  have rate: "fee_rate s1 = fee_rate s" using same(2) by (simp add: fee_rate_def)
  obtain s2 where st: "escrow_step h amt bal self s1 (keeper_call self (due d1)) s2"
    and rec2: "escrow_rec s2 = Some (released_record (due d1) d1)" "config_rec s2 = config_rec s1"
    and paid2: "bal (ledger s2) (ed_token d1) (ed_freelancer d1) =
      bal (ledger s1) (ed_token d1) (ed_freelancer d1) + (a - fee_of (fee_rate s1) a)"
    and last: "if releases_left d1 = 1 then ed_status (released_record (due d1) d1) = Completed
     else payable h bal self amt a s2 (released_record (due d1) d1)"
    using payable_release [OF p1] by blast
  have "run (escrow_step h amt bal self) s (keeper_calls self d (Suc k)) s2"
    using run_snoc [OF r1 st] by (simp add: keeper_calls_def due)
  moreover have "after_releases h bal self amt a s d (Suc k) s2 (released_record (due d1) d1)"
    using rec2 same paid1 paid2 last left1 terms rate made1 nxt
      same_terms_trans [OF t1 released_same_terms] releases_left_released(1) [OF payable_made(1) [OF p1]] Suc.prems
    by (auto simp: after_releases_def due algebra_simps)
  ultimately show ?case by blast
qed

end
