(* ===== verification/Escrow_Example.thy ===== *)
theory Escrow_Example
  imports Escrow_System
begin

text \<open>
  One concrete escrow on the concrete ledger of \<open>Soroban\<close>: two milestones of 300 and 200 tokens
  with a deadline, a fee of one percent, created, worked on and cancelled. The theorems with
  hypotheses are shown to have instances on it.
\<close>

definition ex_env :: "address set \<Rightarrow> u64 \<Rightarrow> ctx" where
  "ex_env auth now = \<lparr>ctx_self = ''escrow'', ctx_now = now, ctx_auth = auth\<rparr>"

text \<open>The balances of payer, contract, freelancer and fee collector.\<close>

definition ex_balances :: "nat \<Rightarrow> nat \<Rightarrow> nat \<Rightarrow> nat \<Rightarrow> table" where
  "ex_balances p e f c = (\<lambda>t a. if t = ''tok'' then
     (if a = ''payer'' then p else if a = ''escrow'' then e else if a = ''free'' then f
      else if a = ''fees'' then c else 0) else 0)"

lemma ex_transfers:
  "''payer'' \<in> auth \<Longrightarrow> table_transfer (ex_env auth now) ''tok'' ''payer'' ''escrow'' n (ex_balances p e f c) =
     (if 0 \<le> n \<and> nat n \<le> p then Some (ex_balances (p - nat n) (e + nat n) f c) else None)"
  "table_transfer (ex_env auth now) ''tok'' ''escrow'' ''payer'' n (ex_balances p e f c) =
     (if 0 \<le> n \<and> nat n \<le> e then Some (ex_balances (p + nat n) (e - nat n) f c) else None)"
  "table_transfer (ex_env auth now) ''tok'' ''escrow'' ''free'' n (ex_balances p e f c) =
     (if 0 \<le> n \<and> nat n \<le> e then Some (ex_balances p (e - nat n) (f + nat n) c) else None)"
  "table_transfer (ex_env auth now) ''tok'' ''escrow'' ''fees'' n (ex_balances p e f c) =
     (if 0 \<le> n \<and> nat n \<le> e then Some (ex_balances p (e - nat n) f (c + nat n)) else None)"
  by (simp_all add: table_transfer_def ex_env_def ex_balances_def table_balance_def moved_def
      fun_eq_iff nat_le_iff nat_diff_distrib nat_add_distrib)

lemma ex_balance_sel [simp]:
  "table_balance (ex_balances p e f c) ''tok'' ''payer'' = int p"
  "table_balance (ex_balances p e f c) ''tok'' ''escrow'' = int e"
  "table_balance (ex_balances p e f c) ''tok'' ''free'' = int f"
  "table_balance (ex_balances p e f c) ''tok'' ''fees'' = int c"
  by (simp_all add: ex_balances_def table_balance_def)

lemma ex_env_sel [simp]:
  "ctx_self (ex_env auth now) = ''escrow''" "ctx_now (ex_env auth now) = now"
  "ctx_auth (ex_env auth now) = auth"
  by (simp_all add: ex_env_def)

definition ex_start :: "table escrow_chain" where
  "ex_start = \<lparr>inst_store = Map.empty, inst_ttl = 0, ev_log = [], ledger = ex_balances 10000 0 0 0\<rparr>"

definition ex_milestones :: "milestone_status \<Rightarrow> milestone_status \<Rightarrow> milestone list" where
  "ex_milestones a b = [\<lparr>ms_description = ''design'', ms_amount = 300, ms_status = a\<rparr>,
     \<lparr>ms_description = ''build'', ms_amount = 200, ms_status = b\<rparr>]"

definition ex_record ::
  "milestone_status \<Rightarrow> milestone_status \<Rightarrow> escrow_status \<Rightarrow> u64 \<Rightarrow> u32 \<Rightarrow> u32 \<Rightarrow> u64 \<Rightarrow> escrow_data" where
  "ex_record a b st iv rc made time = \<lparr>ed_payer = ''payer'', ed_freelancer = ''free'', ed_token = ''tok'',
     ed_total_amount = 500, ed_milestones = ex_milestones a b, ed_status = st,
     ed_deadline = Some 500, ed_yield_protocol = None, ed_principal_deposited = 0,
     ed_yield_recipient = Payer, ed_interval = iv, ed_recurrence_count = rc,
     ed_releases_made = made, ed_last_release_time = time\<rparr>"

definition ex_config :: protocol_config where
  "ex_config = \<lparr>pc_admin = ''admin'', pc_paused = False, pc_fee_bps = 100,
     pc_fee_collector = ''fees''\<rparr>"

text \<open>A state of the contract with the configuration, a record and a ledger.\<close>

definition ex_state :: "escrow_data option \<Rightarrow> u32 \<Rightarrow> escrow_event list \<Rightarrow> table \<Rightarrow> table escrow_chain" where
  "ex_state r ttl evs w = \<lparr>inst_store = (\<lambda>k.
       if k = data_key_raw (DataEscrow DEFAULT_ESCROW_ID) then map_option VEscrow r
       else if k = data_key_raw DataConfig then Some (VConfig ex_config) else None),
     inst_ttl = ttl, ev_log = evs, ledger = w\<rparr>"

abbreviation ex_exec :: "ctx \<Rightarrow> escrow_call \<Rightarrow> (table escrow_chain, escrow_error, unit) act" where
  "ex_exec \<equiv> exec_call table_host (\<lambda>_. 100)"

abbreviation ex_create :: "u64 \<Rightarrow> u32 \<Rightarrow> escrow_call" where
  "ex_create iv rc \<equiv> Create ''payer'' ''free'' ''tok'' (ex_milestones Pending Pending) (Some 500)
     None Payer iv rc"

lemma ex_state_sel [simp]:
  "escrow_rec (ex_state r ttl evs w) = r"
  "config_rec (ex_state r ttl evs w) = Some ex_config"
  "ledger (ex_state r ttl evs w) = w" "inst_ttl (ex_state r ttl evs w) = ttl"
  "ev_log (ex_state r ttl evs w) = evs"
  "inst_store (ex_state r ttl evs w) (data_key_raw (DataEscrow DEFAULT_ESCROW_ID)) = map_option VEscrow r"
  "inst_store (ex_state r ttl evs w) (data_key_raw DataConfig) = Some (VConfig ex_config)"
  "inst_store (ex_state r ttl evs w) (allow_list_key_raw AllowTokens) = None"
  by (cases r; simp add: ex_state_def escrow_rec_def escrow_at_def config_rec_def)+

lemma ex_state_update [simp]:
  "(ex_state r ttl evs w)\<lparr>ledger := w'\<rparr> = ex_state r ttl evs w'"
  "(ex_state r ttl evs w)\<lparr>inst_ttl := x\<rparr> = ex_state r x evs w"
  "(ex_state r ttl evs w)\<lparr>ev_log := l\<rparr> = ex_state r ttl l w"
  "store_put (data_key_raw (DataEscrow DEFAULT_ESCROW_ID)) (VEscrow d) (ex_state r ttl evs w) =
     ex_state (Some d) ttl evs w"
  by (auto simp: ex_state_def store_put_def fun_eq_iff)

lemma ex_running [simp]: "running (ex_state r ttl evs w)" "\<not> is_paused (ex_state r ttl evs w)"
  by (simp_all add: running_def is_paused_def ex_config_def)

lemma ex_tokens [simp]: "tokens_readable (ex_state r ttl evs w)" "allowed_tokens (ex_state r ttl evs w) = []"
  by (simp_all add: tokens_readable_def allowed_tokens_def)

lemma ex_host_sel [simp]:
  "h_transfer table_host = table_transfer"
  "h_extend_ttl table_host TTL_MIN_LEDGERS TTL_MAX_LEDGERS x = (if x < 17280 then 518400 else x)"
  by (simp_all add: table_host_def TTL_MIN_LEDGERS_def TTL_MAX_LEDGERS_def)

lemmas ex_eval = ex_transfers escrow_Done split_fee_Done remaining_refund_Done refund_of_def
  refund_fits_def i128_range_def ex_milestones_def ex_record_def set_milestone_def
  approved_record_def released_record_def all_approved_def new_escrow_def fee_of_def Let_def
  signed_divide_int_def ex_config_def

definition ex_configured :: "table escrow_chain" where
  "ex_configured = ex_state None 518400 [] (ex_balances 10000 0 0 0)"

definition ex_active :: "u64 \<Rightarrow> u32 \<Rightarrow> table escrow_chain" where
  "ex_active iv rc = ex_state (Some (ex_record Pending Pending Active iv rc 0 100)) 518400
     [EscrowCreated ''payer'' ''free'' 500 (ex_milestones Pending Pending)] (ex_balances 9500 500 0 0)"

definition ex_submitted :: "table escrow_chain" where
  "ex_submitted = ex_state (Some (ex_record Submitted Pending Active 0 0 0 100)) 518400
     [EscrowCreated ''payer'' ''free'' 500 (ex_milestones Pending Pending),
      MilestoneSubmitted ''free'' 0 ''design''] (ex_balances 9500 500 0 0)"

definition ex_approved :: "table escrow_chain" where
  "ex_approved = ex_state (Some (ex_record Approved Pending Active 0 0 0 100)) 518400
     [EscrowCreated ''payer'' ''free'' 500 (ex_milestones Pending Pending),
      MilestoneSubmitted ''free'' 0 ''design'', MilestoneApproved ''free'' 0 ''design'' 297]
     (ex_balances 9500 200 297 3)"

lemma ex_configured_eq:
  "ex_exec (ex_env {''admin''} 90) (Init ''admin'' 100 ''fees'') ex_start = (Done (), ex_configured)"
  by (auto simp: init_Done ex_start_def ex_configured_def ex_state_def ex_config_def store_put_def
      fun_eq_iff)

lemma ex_active_eq: "ex_exec (ex_env {''payer''} 100) (ex_create iv rc) ex_configured = (Done (), ex_active iv rc)"
  by (simp add: ex_eval ex_configured_def ex_active_def milestone_total_def)

lemma ex_submitted_eq: "ex_exec (ex_env {''free''} 110) (SubmitWork 0) (ex_active 0 0) = (Done (), ex_submitted)"
  by (simp add: ex_eval ex_active_def ex_submitted_def)

lemma ex_approved_eq: "ex_exec (ex_env {''payer''} 120) (Approve 0) ex_submitted = (Done (), ex_approved)"
  by (simp add: ex_eval ex_submitted_def ex_approved_def)

definition ex_released :: "table escrow_chain" where
  "ex_released = ex_state (Some (ex_record Pending Pending Active 10 5 1 120)) 518400
     [EscrowCreated ''payer'' ''free'' 500 (ex_milestones Pending Pending),
      RecurringReleased ''free'' 99 1] (ex_balances 9500 400 99 1)"

lemma ex_released_eq:
  "release_recurring table_host (\<lambda>_. 100) (ex_env {} 120) (ex_active 10 5) = (Done (), ex_released)"
  by (simp add: ex_eval ex_active_def ex_released_def word_le_def)

text \<open>The next release, one interval later.\<close>

definition ex_released_twice :: "table escrow_chain" where
  "ex_released_twice = ex_state (Some (ex_record Pending Pending Active 10 5 2 130)) 518400
     [EscrowCreated ''payer'' ''free'' 500 (ex_milestones Pending Pending),
      RecurringReleased ''free'' 99 1, RecurringReleased ''free'' 99 2] (ex_balances 9500 300 198 (1 + 1))"

lemma ex_released_twice_eq:
  "release_recurring table_host (\<lambda>_. 100) (ex_env {} 130) ex_released = (Done (), ex_released_twice)"
  by (simp add: ex_eval ex_released_def ex_released_twice_def word_le_def)

text \<open>The record once the first milestone is paid, and the views the properties read.\<close>

definition ex_half :: escrow_data where
  "ex_half = ex_record Approved Pending Active 0 0 0 100"

lemma ex_half_paid:
  "ed_token ex_half = ''tok''" "ed_payer ex_half = ''payer''" "ed_status ex_half = Active"
  "ed_deadline ex_half = Some 500" "plain_escrow ex_half" "outstanding ex_half = 200"
  "escrow_rec ex_approved = Some ex_half"
  by (simp_all add: ex_half_def ex_record_def plain_escrow_def outstanding_def ex_milestones_def
      ex_approved_def)

lemma ex_approved_ledger:
  "ledger ex_approved = ex_balances 9500 200 297 3" "\<not> is_paused ex_approved"
  by (simp_all add: ex_approved_def)

lemma ex_submitted_view:
  "escrow_rec ex_submitted = Some (ex_record Submitted Pending Active 0 0 0 100)"
  "config_rec ex_submitted = Some ex_config" "ledger ex_submitted = ex_balances 9500 500 0 0"
  "\<not> is_paused ex_submitted"
  by (simp_all add: ex_submitted_def)

text \<open>The contract once its administrator has paused it.\<close>

definition ex_paused :: "table escrow_chain" where
  "ex_paused = snd (pause table_host (ex_env {''admin''} 95) ex_submitted)"

lemma ex_paused_flag: "is_paused ex_paused"
proof -
  obtain s' where "pause table_host (ex_env {''admin''} 95) ex_submitted = (Done (), s')"
    and "config_rec s' = Some (ex_config\<lparr>pc_paused := True\<rparr>)"
    by (simp add: pause_Done ex_submitted_view ex_config_def)
  then show ?thesis by (simp add: ex_paused_def is_paused_def)
qed

text \<open>The same escrow under a fee of two hundred percent.\<close>

definition ex_overcharged :: "table escrow_chain" where
  "ex_overcharged = store_put (data_key_raw DataConfig)
     (VConfig (ex_config\<lparr>pc_fee_bps := 20000\<rparr>)) ex_submitted"

section \<open>Its runs\<close>

abbreviation ex_machine :: "table escrow_chain \<Rightarrow> escrow_label \<Rightarrow> table escrow_chain \<Rightarrow> bool" where
  "ex_machine \<equiv> escrow_step table_host (\<lambda>_. 100) table_balance ''escrow''"

lemma ex_call_run:
  assumes "ex_exec (ex_env auth now) c s = (Done (), s')" and "''escrow'' \<notin> auth"
  shows "run ex_machine s [Invoke (ex_env auth now) c] s'"
  using assms by (intro run_single step_invoke [where r = "Done ()"]) (simp_all add: act_simps)

lemma ex_start_fresh: "fresh ex_start"
  by (simp add: fresh_def ex_start_def)

lemma ex_run_active:
  "run ex_machine ex_start ([Invoke (ex_env {''admin''} 90) (Init ''admin'' 100 ''fees'')] @
     [Invoke (ex_env {''payer''} 100) (ex_create iv rc)]) (ex_active iv rc)"
  by (rule run_trans; rule ex_call_run, rule ex_configured_eq ex_active_eq, simp)

lemma ex_run_submitted:
  "run ex_machine (ex_active 0 0) [Invoke (ex_env {''free''} 110) (SubmitWork 0)] ex_submitted"
  by (rule ex_call_run [OF ex_submitted_eq]) simp

lemma ex_run_approved:
  "run ex_machine ex_submitted [Invoke (ex_env {''payer''} 120) (Approve 0)] ex_approved"
  by (rule ex_call_run [OF ex_approved_eq]) simp

lemma ex_run_released:
  "run ex_machine (ex_active 10 5) [Invoke (ex_env {} 120) ReleaseRecurring] ex_released"
  by (rule ex_call_run) (simp_all add: ex_released_eq)

lemmas ex_run_to_submitted = run_trans [OF ex_run_active ex_run_submitted]
lemmas ex_run_to_approved = run_trans [OF ex_run_to_submitted ex_run_approved]

end
