(* ===== verification/Escrow_Custody.thy ===== *)
theory Escrow_Custody
  imports Escrow_Recurring Escrow_Example
begin

text \<open>
  The properties about the money in an escrow, each with a witness where it has hypotheses:
  what the contract owes is covered, refunds and payments are exact, a milestone is paid once,
  an active escrow can always be brought to completion, a recurring one by its releases alone, the
  fee is split without loss.
\<close>

text \<open>
  C1. Solvency. Start from an empty contract and let any transactions on it and any activity on
  the rest of the ledger happen. As long as a one-off escrow without a yield protocol is active,
  the contract holds at least the sum of its milestones not marked as approved, whatever was
  submitted, approved, transferred or paused in between.
\<close>

theorem escrow_solvency:
  assumes "fresh s0" and "run (escrow_step h amt bal self) s0 ls s"
    and "escrow_rec s = Some d" and "plain_escrow d" and "ed_status d = Active"
    and "token_laws h bal (ed_token d)"
  shows "outstanding d \<le> bal (ledger s) (ed_token d) self"
proof -
  have "chain_inv s \<and> solvent h bal self s"
    using escrow_funds.run_inv [OF assms(2)] fresh_inv fresh_solvent assms(1) by blast
  with assms(3-) show ?thesis by (simp add: solvent_def)
qed

theorem escrow_solvency_witness:
  "outstanding (ex_record Approved Pending Active 0 0 0 100) = 200 \<and>
   outstanding (ex_record Approved Pending Active 0 0 0 100)
     \<le> table_balance (ledger ex_approved) ''tok'' ''escrow''"
proof -
  have "outstanding (ex_record Approved Pending Active 0 0 0 100)
      \<le> table_balance (ledger ex_approved) (ed_token (ex_record Approved Pending Active 0 0 0 100)) ''escrow''"
    by (rule escrow_solvency [OF ex_start_fresh ex_run_to_approved])
      (simp_all add: ex_approved_def ex_record_def plain_escrow_def table_host_laws)
  then show ?thesis by (simp add: ex_record_def ex_milestones_def outstanding_def)
qed

text \<open>
  C2. Refund on cancellation. In every reachable state in which a one-off escrow without a yield
  protocol is active and the contract is not paused, the payer can cancel, also after work was
  submitted: the call succeeds, moves exactly the sum of the milestones not marked as approved
  from the contract to the payer and closes the escrow. (The token behaves as documented and the
  balance of the payer stays in the range of \<^verbatim>\<open>i128\<close>.)
\<close>

theorem cancel_refunds:
  assumes "fresh s0" and "run (escrow_step h amt bal self) s0 ls s"
    and "escrow_rec s = Some d" and "plain_escrow d" and "ed_status d = Active"
    and "token_laws h bal (ed_token d)" and "token_serves h bal (ed_token d)"
    and "\<not> is_paused s" and "ctx_self env = self" and "ed_payer d \<in> ctx_auth env"
    and "i128_range (bal (ledger s) (ed_token d) (ed_payer d) + outstanding d)"
  shows "\<exists>s'. cancel h amt env s = (Done (), s') \<and>
    escrow_rec s' = Some (d\<lparr>ed_status := Cancelled\<rparr>) \<and>
    bal (ledger s') (ed_token d) =
      moved (bal (ledger s) (ed_token d)) self (ed_payer d) (outstanding d) \<and>
    ev_log s' = ev_log s @ [EscrowCancelled (ed_payer d) (outstanding d)]"
proof -
  note inv = reachable_inv [OF assms(1,2)]
  then have "running s" using assms(8) by (simp add: chain_inv_def running_typed)
  moreover obtain w where "fst (remaining_refund amt d s) = Done (outstanding d)"
    and "h_transfer h env (ed_token d) self (ed_payer d) (outstanding d) (ledger s) = Some w"
    and "bal w (ed_token d) = moved (bal (ledger s) (ed_token d)) self (ed_payer d) (outstanding d)"
    using reachable_refund [OF inv assms(3-7,9,11)] by blast
  ultimately show ?thesis using assms(3,5,9,10) by (simp add: cancel_Done)
qed

theorem cancel_refunds_witness:
  "\<exists>s'. cancel table_host (\<lambda>_. 100) (ex_env {''payer''} 130) ex_approved = (Done (), s') \<and>
     table_balance (ledger s') ''tok'' ''payer'' = 9700"
proof -
  note d = ex_half_paid
  have "\<exists>s'. cancel table_host (\<lambda>_. 100) (ex_env {''payer''} 130) ex_approved = (Done (), s') \<and>
      escrow_rec s' = Some (ex_half\<lparr>ed_status := Cancelled\<rparr>) \<and>
      table_balance (ledger s') (ed_token ex_half) = moved (table_balance (ledger ex_approved) (ed_token ex_half))
        ''escrow'' (ed_payer ex_half) (outstanding ex_half) \<and>
      ev_log s' = ev_log ex_approved @ [EscrowCancelled (ed_payer ex_half) (outstanding ex_half)]"
    by (rule cancel_refunds [OF ex_start_fresh ex_run_to_approved])
      (simp_all add: d ex_approved_ledger table_host_laws table_host_serves i128_range_def)
  then show ?thesis by (auto simp: d ex_approved_ledger)
qed



text \<open>
  C3. Exact payment. In every reachable state in which a one-off escrow without a yield protocol
  is active and not paused and a milestone is submitted, the payer can approve it while the fee
  is at most one hundred percent: the call succeeds, the fee goes to the collector, the rest of
  the milestone's amount to the freelancer, both out of the contract, and only this milestone
  changes; the escrow completes when it was the last one. (The token behaves as documented and no
  balance leaves the range of \<^verbatim>\<open>i128\<close>.)
\<close>

theorem approve_pays:
  assumes "fresh s0" and "run (escrow_step h amt bal self) s0 ls s"
    and "escrow_rec s = Some d" and "plain_escrow d" and "ed_status d = Active"
    and "unat i < length (ed_milestones d)" and "ms_status (ed_milestones d ! unat i) = Submitted"
    and "a = ms_amount (ed_milestones d ! unat i)"
    and "token_laws h bal (ed_token d)" and "token_serves h bal (ed_token d)"
    and "\<not> is_paused s" and "ctx_self env = self" and "ed_payer d \<in> ctx_auth env"
    and "uint (fee_rate s) \<le> 10000" and "i128_range (a * uint (fee_rate s))"
    and "\<And>x. i128_range (bal (ledger s) (ed_token d) x + a)"
  shows "\<exists>s'. approve h env i s = (Done (), s') \<and>
    escrow_rec s' = Some (approved_record (unat i) d) \<and>
    bal (ledger s') (ed_token d) =
      moved (fee_paid self (config_rec s) (fee_of (fee_rate s) a) (bal (ledger s) (ed_token d)))
        self (ed_freelancer d) (a - fee_of (fee_rate s) a)"
proof -
  note inv = reachable_inv [OF assms(1,2)]
  then have "running s" using assms(11) by (simp add: chain_inv_def running_typed)
  from approve_succeeds [OF inv this assms(3-7,13,12,9,10,8,14-16)] show ?thesis by blast
qed

theorem approve_pays_witness:
  "\<exists>s'. approve table_host (ex_env {''payer''} 120) 0 ex_submitted = (Done (), s') \<and>
     table_balance (ledger s') ''tok'' ''free'' = 297 \<and>
     table_balance (ledger s') ''tok'' ''fees'' = 3"
proof -
  let ?d = "ex_record Submitted Pending Active 0 0 0 100"
  have d: "ed_token ?d = ''tok''" "ed_payer ?d = ''payer''" "ed_freelancer ?d = ''free''"
    "plain_escrow ?d" "ed_status ?d = Active" "ed_milestones ?d = ex_milestones Submitted Pending"
    by (simp_all add: ex_record_def plain_escrow_def)
  have m: "ex_milestones Submitted Pending ! 0 = \<lparr>ms_description = ''design'', ms_amount = 300,
    ms_status = Submitted\<rparr>" "length (ex_milestones Submitted Pending) = 2"
    by (simp_all add: ex_milestones_def)
  have fee: "fee_rate ex_submitted = 100" "fee_of 100 300 = 3"
    by (simp_all add: fee_rate_def ex_submitted_def ex_config_def fee_of_nonneg)
  have "\<exists>s'. approve table_host (ex_env {''payer''} 120) 0 ex_submitted = (Done (), s') \<and>
      escrow_rec s' = Some (approved_record (unat (0 :: u32)) ?d) \<and>
      table_balance (ledger s') (ed_token ?d) =
        moved (fee_paid ''escrow'' (config_rec ex_submitted) (fee_of (fee_rate ex_submitted) 300)
          (table_balance (ledger ex_submitted) (ed_token ?d)))
          ''escrow'' (ed_freelancer ?d) (300 - fee_of (fee_rate ex_submitted) 300)"
    by (rule approve_pays [OF ex_start_fresh ex_run_to_submitted])
      (simp_all add: d m fee ex_submitted_view table_host_laws table_host_serves i128_range_def,
       auto simp: ex_balances_def table_balance_def)
  then show ?thesis
    by (auto simp: d fee ex_submitted_view fee_paid_def ex_config_def moved_def)
qed

text \<open>
  C4. A milestone is paid at most once. Over any history that starts from an empty contract, the
  approvals in the event log name pairwise different milestones, and the record marks each of
  them as approved; so no milestone is ever paid twice, whoever calls and in whatever order.
\<close>

theorem milestones_paid_once:
  assumes "fresh s0" and "ev_log s0 = []" and "run (escrow_step h amt bal self) s0 ls s"
  shows "distinct (paid_milestones (ev_log s)) \<and>
    (\<forall>i \<in> set (paid_milestones (ev_log s)). is_approved (escrow_rec s) i)"
proof -
  have "chain_inv s0 \<and> payments_inv s0"
    using assms(1,2) fresh_inv by (simp add: payments_inv_def)
  then show ?thesis
    using escrow_payments.run_inv [OF assms(3)] by (simp add: payments_inv_def)
qed

theorem milestones_paid_once_witness:
  "paid_milestones (ev_log ex_approved) = [0] \<and> is_approved (escrow_rec ex_approved) 0"
proof -
  have p: "paid_milestones (ev_log ex_approved) = [0]"
    by (simp add: ex_approved_def paid_milestones_def)
  have "distinct (paid_milestones (ev_log ex_approved)) \<and>
    (\<forall>i \<in> set (paid_milestones (ev_log ex_approved)). is_approved (escrow_rec ex_approved) i)"
    by (rule milestones_paid_once [OF ex_start_fresh _ ex_run_to_approved]) (simp add: ex_start_def)
  with p show ?thesis by simp
qed

text \<open>
  C5. An active escrow is never stuck. From every reachable state in which a one-off escrow
  without a yield protocol is active, not paused and has a milestone that is not approved, and the
  fee is at most one hundred percent, the two parties can complete it by themselves: there is a
  sequence of submissions, each signed by the freelancer alone, and approvals, each signed by the
  payer alone, after which every milestone is approved and the escrow is completed. (The token
  behaves as documented, no amount is beyond the range of \<^verbatim>\<open>i128\<close>, there are at most \<open>2\<close> to the power
  of \<open>32\<close> milestones, and neither party is the contract itself.)
\<close>

theorem escrow_can_complete:
  assumes "fresh s0" and "run (escrow_step h amt bal self) s0 ls s"
    and "escrow_rec s = Some d" and "plain_escrow d" and "ed_status d = Active"
    and "\<not> all_approved d" and "length (ed_milestones d) \<le> 2 ^ 32"
    and "token_laws h bal (ed_token d)" and "token_serves h bal (ed_token d)"
    and "\<not> is_paused s" and "ed_payer d \<noteq> self" and "ed_freelancer d \<noteq> self"
    and "uint (fee_rate s) \<le> 10000" and "i128_range (ed_total_amount d * uint (fee_rate s))"
    and "\<And>x. i128_range (bal (ledger s) (ed_token d) x + outstanding d)"
  shows "\<exists>more s' d'. run (escrow_step h amt bal self) s more s' \<and> (\<forall>l \<in> set more. party_call self d l) \<and>
    escrow_rec s' = Some d' \<and> ed_status d' = Completed \<and> all_approved d'"
proof -
  note inv = reachable_inv [OF assms(1,2)]
  then have "running s" using assms(10) by (simp add: chain_inv_def running_typed)
  then have "healthy h bal self s d"
    using inv assms by (simp add: healthy_def fee_safe_def)
  from healthy_completes [OF this assms(6)] show ?thesis .
qed

theorem escrow_can_complete_witness:
  "\<exists>more s' d'. run ex_machine ex_submitted more s' \<and>
     (\<forall>l \<in> set more. party_call ''escrow'' (ex_record Submitted Pending Active 0 0 0 100) l) \<and>
     escrow_rec s' = Some d' \<and> ed_status d' = Completed \<and> all_approved d'"
proof -
  let ?d = "ex_record Submitted Pending Active 0 0 0 100"
  have d: "ed_token ?d = ''tok''" "ed_payer ?d = ''payer''" "ed_freelancer ?d = ''free''"
    "plain_escrow ?d" "ed_status ?d = Active" "outstanding ?d = 500" "ed_total_amount ?d = 500"
    "\<not> all_approved ?d" "length (ed_milestones ?d) = 2"
    by (simp_all add: ex_record_def plain_escrow_def ex_milestones_def outstanding_def all_approved_def)
  have fee: "fee_rate ex_submitted = 100"
    by (simp add: fee_rate_def ex_submitted_def ex_config_def)
  show ?thesis
    by (rule escrow_can_complete [OF ex_start_fresh ex_run_to_submitted, of ?d])
      (simp_all add: d fee ex_submitted_view table_host_laws table_host_serves i128_range_def,
       auto simp: ex_balances_def table_balance_def)
qed

text \<open>
  C17. The fee is split without loss. When the fee step of a payment succeeds, what is left for the
  freelancer and the fee add up to the amount of the payment, the fee is the rate in basis
  points rounded down, and at most one hundred percent leaves a payment that is not negative.
\<close>

theorem fee_split_exact:
  assumes "split_fee h env t a s = (Done (net, fee), s')" and "0 \<le> a"
  shows "net + fee = a \<and> fee * 10000 \<le> a * uint (fee_rate s) \<and>
    a * uint (fee_rate s) < (fee + 1) * 10000 \<and> 0 \<le> fee \<and>
    (uint (fee_rate s) \<le> 10000 \<longrightarrow> 0 \<le> net)"
proof (intro conjI)
  from assms(1) have r: "net = a - fee_of (fee_rate s) a" "fee = fee_of (fee_rate s) a"
    by (auto simp: split_fee_Done fee_rate_def absent_views split: if_splits)
  have f: "fee = (a * uint (fee_rate s)) div 10000" using r assms(2) by (simp add: fee_of_nonneg)
  show "net + fee = a" using r by simp
  show "fee * 10000 \<le> a * uint (fee_rate s)" "a * uint (fee_rate s) < (fee + 1) * 10000"
    unfolding f by (simp_all add: div_mult_le_int less_div_mult_int)
  show "0 \<le> fee" using r assms(2) by (simp add: fee_of_ge_0)
  show "uint (fee_rate s) \<le> 10000 \<longrightarrow> 0 \<le> net" using r fee_of_le [OF assms(2)] by simp
qed

theorem fee_split_exact_witness:
  "fst (split_fee table_host (ex_env {} 0) ''tok'' 350 ex_submitted) = Done (347, 3) \<and>
   (347 :: int) + 3 = 350"
proof -
  have e: "split_fee table_host (ex_env {} 0) ''tok'' 350 ex_submitted =
      (Done (347, 3), ex_submitted\<lparr>ledger := ex_balances 9500 497 0 3\<rparr>)"
    by (simp add: split_fee_Done fee_of_nonneg ex_submitted_def ex_config_def i128_range_def ex_transfers)
  from fee_split_exact [THEN conjunct1, OF e] e show ?thesis by simp
qed



end
