(* ===== verification/Escrow_Typing.thy ===== *)
theory Escrow_Typing
  imports Escrow_Payments
begin

text \<open>
  The outcomes of the entry points as a whole. \<open>refusal\<close> is the specification of the errors:
  for every call on an existing escrow the error it returns, in the order of the checks of the
  code, or none. \<open>needs_config\<close> and \<open>needs_escrow\<close> say which calls read a record that may be absent.
  Together with the conditions of success this accounts for all outcomes but the panics, whose
  causes are bounded here: in a typed store no read ever meets a value of the wrong type.
\<close>

section \<open>Errors\<close>

fun refusal :: "bool \<Rightarrow> escrow_data \<Rightarrow> ctx \<Rightarrow> escrow_call \<Rightarrow> escrow_error option" where
  "refusal configured d env (Init _ _ _) = (if configured then Some AlreadyExists else None)"
| "refusal configured d env (Create _ _ _ _ _ _ _ _ _) = Some AlreadyExists"
| "refusal configured d env (SubmitWork i) =
     (if ed_status d \<noteq> Active then Some NotActive
      else if length (ed_milestones d) \<le> unat i then Some MilestoneInvalidIndex
      else if ms_status (ed_milestones d ! unat i) \<noteq> Pending then Some MilestoneNotPending
      else None)"
| "refusal configured d env (Approve i) =
     (if length (ed_milestones d) \<le> unat i then Some MilestoneInvalidIndex
      else if ms_status (ed_milestones d ! unat i) \<noteq> Submitted then Some MilestoneNotSubmitted
      else None)"
| "refusal configured d env ReleaseRecurring =
     (if ed_interval d = 0 \<or> ed_recurrence_count d = 0 then Some NotRecurring
      else if ed_status d \<noteq> Active then Some NotActive
      else if 2 ^ 64 \<le> uint (ed_last_release_time d) + uint (ed_interval d) then None
      else if uint (ctx_now env) < uint (ed_last_release_time d) + uint (ed_interval d)
      then Some IntervalNotElapsed else None)"
| "refusal configured d env Cancel = (if ed_status d \<noteq> Active then Some NotActive else None)"
| "refusal configured d env Expire =
     (if ed_status d \<noteq> Active then Some NotActive
      else (case ed_deadline d of None \<Rightarrow> Some NotExpired
        | Some c \<Rightarrow> if ctx_now env \<le> c then Some DeadlineNotPassed else None))"
| "refusal configured d env (ExtendDeadline n) =
     (if ed_payer d \<notin> ctx_auth env then None
      else (case ed_deadline d of None \<Rightarrow> Some InvalidDeadline
        | Some c \<Rightarrow> if n \<le> c then Some InvalidDeadline else None))"
| "refusal configured d env _ = None"

lemma create_refused:
  assumes "running s" and "inst_store s (data_key_raw (DataEscrow DEFAULT_ESCROW_ID)) \<noteq> None"
  shows "create h env p f t ms dl yp yr iv rc s = (Err AlreadyExists, s)"
  using assms
  by (simp add: create_def thenS_unfold bindS_Err act_simps)

lemma release_refused:
  assumes "chain_inv s" and "running s" and "escrow_rec s = Some d"
  shows "release_recurring h amt env s = (Err e, s') \<longleftrightarrow>
    s' = s \<and> refusal configured d env ReleaseRecurring = Some e"
proof -
  have "ed_releases_made d < ed_recurrence_count d"
    if "ed_recurrence_count d \<noteq> 0" "ed_status d = Active"
    using that reachable_wf(1) [OF assms(1,3)] by (simp add: escrow_wf_def word_neq_0_conv)
  moreover have "\<not> is_paused s" using assms(2) is_paused_not_running by blast
  moreover have "ctx_now env < ed_last_release_time d + ed_interval d \<longleftrightarrow>
      uint (ctx_now env) < uint (ed_last_release_time d) + uint (ed_interval d)"
    if "uint (ed_last_release_time d) + uint (ed_interval d) < 2 ^ 64"
    using that by (simp add: word_less_def uint_add_exact)
  ultimately show ?thesis
    using assms(2,3) by (auto simp: release_recurring_Err not_le)
qed

lemma exec_call_refused:
  assumes "chain_inv s" and "escrow_rec s = Some d" and "\<not> is_paused s"
  shows "exec_call h amt env c s = (Err e, s') \<longleftrightarrow>
    s' = s \<and> refusal (config_rec s \<noteq> None) d env c = Some e"
proof -
  have typed: "store_typed s" using assms(1) by (simp add: chain_inv_def)
  then have run: "running s" using assms(3) by (simp add: running_typed)
  note present = store_typed_present [OF typed]
  show ?thesis
  proof (cases c)
    case (Create p f t ms dl yp yr iv rc)
    have "create h env p f t ms dl yp yr iv rc s = (Err AlreadyExists, s)"
      by (rule create_refused [OF run]) (simp add: present assms(2))
    then show ?thesis using Create by auto
  next
    case ReleaseRecurring
    then show ?thesis using release_refused [OF assms(1) run assms(2)] by simp
  qed (use assms(2,3) run present in
    \<open>auto simp: escrow_Err simp del: refusal.simps(5) split: option.splits\<close>)
qed

section \<open>Panics\<close>

fun needs_config :: "escrow_call \<Rightarrow> bool" where
  "needs_config Pause = True"
| "needs_config Unpause = True"
| "needs_config _ = False"

fun needs_escrow :: "escrow_call \<Rightarrow> bool" where
  "needs_escrow (Create _ _ _ _ _ _ _ _ _) = False"
| "needs_escrow c = pausable c"

text \<open>The panics that are not about the contract's own storage.\<close>

definition runtime_trap :: "trap \<Rightarrow> bool" where
  "runtime_trap x \<longleftrightarrow> x = Overflow \<or> x = AuthMissing \<or> x = HostCallFailed"

lemma runtime_trap_simps [simp]:
  "runtime_trap Overflow" "runtime_trap AuthMissing" "runtime_trap HostCallFailed"
  "\<not> runtime_trap BadConversion" "\<not> runtime_trap NotInitialised"
  by (simp_all add: runtime_trap_def)

lemma create_total_Trap: "create_total ms acc s = (Trap x, s') \<Longrightarrow> runtime_trap x"
  by (induction ms arbitrary: acc) (auto simp: act_simps)

lemma released_sum_Trap: "released_sum ms acc s = (Trap x, s') \<Longrightarrow> runtime_trap x"
  by (induction ms arbitrary: acc) (auto simp: act_simps)

lemma remaining_refund_Trap: "fst (remaining_refund amt d s) = Trap x \<Longrightarrow> runtime_trap x"
proof -
  assume "fst (remaining_refund amt d s) = Trap x"
  then obtain s' where "remaining_refund amt d s = (Trap x, s')" by (metis prod.collapse)
  then show ?thesis
    by (auto simp: remaining_refund_def bindS_Trap i128_add_eq i128_sub_eq i128_mul_eq ret_eq
        split: if_splits dest: released_sum_Trap)
qed

lemma split_fee_Trap:
  assumes "store_typed s" and "split_fee h env t a s = (Trap x, s')"
  shows "runtime_trap x"
  using assms store_typed_present(2) [OF assms(1)]
  by (auto simp: split_fee_def Let_def act_simps split: if_splits)

lemma assert_not_paused_Trap: "store_typed s \<Longrightarrow> assert_not_paused s \<noteq> (Trap x, s')"
  by (simp add: assert_not_paused_eq running_typed)

lemma yield_deposit_Trap: "yield_deposit h env p n s = (Trap x, s') \<Longrightarrow> runtime_trap x"
  by (auto simp: yield_deposit_def split: option.splits)

lemma create_Trap:
  assumes "store_typed s" and "create h env p f t ms dl yp yr iv rc s = (Trap x, s')"
  shows "runtime_trap x"
  using assms(2) store_typed_tokens [OF assms(1)] assert_not_paused_Trap [OF assms(1)]
  by (cases yp)
    (auto simp: create_def op_defs Let_def act_simps
      dest: create_total_Trap dest!: create_total_state [where r = "Done n" for n] yield_deposit_Trap)

lemma typed_traps:
  assumes "store_typed s" and "exec_call h amt env c s = (Trap x, s')"
  shows "runtime_trap x \<or>
    x = NotInitialised \<and> (needs_config c \<and> config_rec s = None \<or> needs_escrow c \<and> escrow_rec s = None)"
proof -
  note present = store_typed_present [OF assms(1)]
  note stop = assert_not_paused_Trap [OF assms(1)]
  show ?thesis
  proof (cases c)
    case (Create p f t ms dl yp yr iv rc)
    then show ?thesis using assms create_Trap by fastforce
  next
    case (Approve i)
    then show ?thesis using assms(2) stop present split_fee_Trap [OF assms(1)]
      by (auto simp: approve_alt act_simps simp del: split_fee_Done)
  next
    case ReleaseRecurring
    then show ?thesis using assms(2) stop present split_fee_Trap [OF assms(1)]
      by (auto simp: release_recurring_def op_defs Let_def act_simps simp del: split_fee_Done
          split: if_splits prod.splits)
  qed (use assms(2) stop present in
    \<open>auto simp: init_def pause_def unpause_def submit_work_def cancel_def expire_def
       transfer_freelancer_def transfer_payer_def extend_deadline_def op_defs Let_def act_simps
       split: if_splits option.splits dest: remaining_refund_Trap\<close>)
qed

end
