(* ===== verification/Escrow_Pacing.thy ===== *)
theory Escrow_Pacing
  imports Escrow_Payments
begin

text \<open>
  The schedule of a recurring escrow, read off a history and not off the record: the time at which
  \<open>create\<close> succeeded, followed by the times at which a release succeeded. The invariant
  \<open>on_schedule\<close> ties the fields \<^verbatim>\<open>releases_made\<close> and \<^verbatim>\<open>last_release_time\<close> to it.
\<close>

fun succeeds :: "('s, 'e, 'a) act \<Rightarrow> 's \<Rightarrow> bool" where
  "succeeds m s = (case fst (m s) of Done a \<Rightarrow> True | Err e \<Rightarrow> False | Trap t \<Rightarrow> False)"

text \<open>What a step adds to the schedule: a successful creation or release, with the time of the call.\<close>

datatype clock_event = CreatedAt u64 | ReleasedAt u64

fun clock_event_of :: "escrow_call \<Rightarrow> u64 \<Rightarrow> clock_event list" where
  "clock_event_of (Create _ _ _ _ _ _ _ _ _) now = [CreatedAt now]"
| "clock_event_of ReleaseRecurring now = [ReleasedAt now]"
| "clock_event_of _ now = []"

fun clocked :: "'w host \<Rightarrow> (escrow_data \<Rightarrow> i128) \<Rightarrow> 'w escrow_chain \<Rightarrow> escrow_label \<Rightarrow> clock_event list" where
  "clocked h amt s (Invoke env c) =
     (if succeeds (exec_call h amt env c) s then clock_event_of c (ctx_now env) else [])"
| "clocked h amt s Outside = []"

inductive schedule ::
  "'w host \<Rightarrow> (escrow_data \<Rightarrow> i128) \<Rightarrow> 'w balances \<Rightarrow> address \<Rightarrow>
   'w escrow_chain \<Rightarrow> clock_event list \<Rightarrow> 'w escrow_chain \<Rightarrow> bool"
  for h amt bal self s0 where
  schedule_start: "schedule h amt bal self s0 [] s0"
| schedule_step: "schedule h amt bal self s0 (ts @ clocked h amt s l) s'"
    if "schedule h amt bal self s0 ts s" and "escrow_step h amt bal self s l s'"

lemma run_has_schedule: "run (escrow_step h amt bal self) s0 ls s \<Longrightarrow> \<exists>ts. schedule h amt bal self s0 ts s"
proof (induction ls arbitrary: s rule: rev_induct)
  case Nil
  then show ?case by (auto intro: schedule_start)
next
  case (snoc l ls)
  then show ?case by (auto simp: run_append run_Cons_iff intro: schedule_step)
qed

text \<open>Successive times of the schedule are one interval apart.\<close>

definition spaced :: "u64 \<Rightarrow> u64 list \<Rightarrow> bool" where
  "spaced iv = successively (\<lambda>t u. uint t + uint iv \<le> uint u)"

text \<open>One creation, then the releases the record counts, the last of them when the record says.\<close>

definition counted :: "u64 \<Rightarrow> u32 \<Rightarrow> u64 \<Rightarrow> clock_event list \<Rightarrow> bool" where
  "counted iv made latest ts \<longleftrightarrow> (\<exists>t rs. ts = CreatedAt t # map ReleasedAt rs \<and>
     int (length rs) = uint made \<and> last (t # rs) = latest \<and> spaced iv (t # rs))"

fun on_schedule :: "escrow_data option \<Rightarrow> clock_event list \<Rightarrow> bool" where
  "on_schedule None ts = (ts = [])"
| "on_schedule (Some d) ts = counted (ed_interval d) (ed_releases_made d) (ed_last_release_time d) ts"

lemma spaced_snoc:
  "spaced iv (t # rs @ [u]) \<longleftrightarrow> spaced iv (t # rs) \<and> uint (last (t # rs)) + uint iv \<le> uint u"
  using successively_append_iff [of "\<lambda>t u. uint t + uint iv \<le> uint u" "t # rs" "[u]"]
  by (simp add: spaced_def)

lemma counted_create: "counted iv 0 t [CreatedAt t]"
  unfolding counted_def by (rule exI [of _ t], rule exI [of _ "[]"]) (simp add: spaced_def)

lemma counted_release:
  assumes "counted iv made latest ts" and "uint latest + uint iv \<le> uint now" and "uint made + 1 < 2 ^ 32"
  shows "counted iv (made + 1) now (ts @ [ReleasedAt now])"
proof -
  from assms(1) obtain t rs where ts: "ts = CreatedAt t # map ReleasedAt rs" and rs: "int (length rs) = uint made"
    "last (t # rs) = latest" "spaced iv (t # rs)" by (auto simp: counted_def)
  have "uint (made + 1) = uint made + 1" using assms(3) by (simp add: uint_add_exact)
  with rs assms(2) have "int (length (rs @ [now])) = uint (made + 1)" "spaced iv (t # rs @ [now])"
    by (simp_all add: spaced_snoc del: last.simps)
  then show ?thesis
    unfolding counted_def ts by (intro exI [of _ t] exI [of _ "rs @ [now]"]) simp
qed

lemma life_on_schedule:
  assumes "life r l r'" and "l = (env, c)" and "on_schedule r ts"
  shows "on_schedule r' (ts @ clock_event_of c (ctx_now env))"
  using assms
proof (induction rule: life.induct)
  case (life_create ms p e f t dl yp yr iv rc)
  then show ?case by (auto simp: new_escrow_def counted_create)
next
  case (life_release d e)
  then have "uint (ed_releases_made d) + 1 < 2 ^ 32"
    using uint_lt2p [of "ed_recurrence_count d"] by (simp add: word_less_def)
  moreover have "uint (ed_last_release_time d) + uint (ed_interval d) \<le> uint (ctx_now e)"
    using life_release.hyps(4,5) by (simp add: word_le_def uint_add_exact)
  ultimately show ?case
    using life_release.prems by (auto simp: released_record_def Let_def counted_release)
qed (auto simp: approved_record_def Let_def)

lemma escrow_step_schedule:
  assumes "escrow_step h amt bal self s l s'" and "on_schedule (escrow_rec s) ts"
  shows "on_schedule (escrow_rec s') (ts @ clocked h amt s l)"
  using assms(1)
proof cases
  case (step_invoke env c r)
  show ?thesis
  proof (cases r)
    case (Done u)
    then have e: "exec_call h amt env c s = (Done (), s')" using step_invoke by (simp add: act_simps)
    show ?thesis
      using life_on_schedule [OF exec_call_life [OF e] refl assms(2)] e step_invoke(1) by simp
  next
    case (Err e)
    then show ?thesis using step_invoke assms(2)
      by (auto simp: transact_def split: prod.splits outcome.splits)
  next
    case (Trap x)
    then show ?thesis using step_invoke assms(2)
      by (auto simp: transact_def split: prod.splits outcome.splits)
  qed
next
  case (step_outside w x)
  then show ?thesis using assms(2) by simp
qed

lemma schedule_kept:
  assumes "schedule h amt bal self s0 ts s" and "on_schedule (escrow_rec s0) []"
  shows "on_schedule (escrow_rec s) ts"
  using assms
proof induction
  case schedule_start
  then show ?case .
next
  case (schedule_step ts s l s')
  then show ?case by (intro escrow_step_schedule) auto
qed

lemma schedule_run: "schedule h amt bal self s0 ts s \<Longrightarrow> \<exists>ls. run (escrow_step h amt bal self) s0 ls s"
proof (induction rule: schedule.induct)
  case schedule_start
  show ?case by (auto intro: run_nil)
next
  case (schedule_step ts s l s')
  then show ?case by (blast intro: run_snoc)
qed

end
