(* ===== verification/Escrow_History.thy ===== *)
theory Escrow_History
  imports Escrow_Example Escrow_Typing Escrow_Pacing
begin

text \<open>
  The properties about the history of an escrow and about who may change it: the contract
  implements the specification \<open>life\<close>, the agreed terms never change and the milestones only
  advance, releases keep their distance, the configuration is fixed up to its pause flag, every
  change carries the signature of the party it belongs to, every call is refused exactly as specified
  without an effect, and no call panics over what is stored.
\<close>

lemma reachable_progress:
  assumes "fresh s0" and "run (escrow_step h amt bal self) s0 ls s"
    and "run (escrow_step h amt bal self) s ls' s'"
  shows "chain_progress s s'"
  using escrow_system.run_le [OF assms(3)] reachable_inv(1) [OF assms(1,2)] by blast

section \<open>The specification is implemented\<close>

text \<open>
  C11. Refinement. Whatever a transaction on the contract does to the escrow record is a step of the
  specification of its life: the guard of the call holds, the required party has signed, and
  the record changes exactly as specified; a call that fails changes nothing at all.
\<close>

theorem contract_refines_life:
  "transact (exec_call h amt env c) s = (r, s') \<Longrightarrow>
     (if r = Done () then life (escrow_rec s) (env, c) (escrow_rec s') else s' = s)"
  using transact_failed [of "exec_call h amt env c" s r s']
  by (cases r) (auto simp: transact_Done intro: exec_call_life)

theorem contract_refines_life_witness:
  "life (escrow_rec (ex_active 0 0)) (ex_env {''free''} 110, SubmitWork 0) (escrow_rec ex_submitted)"
proof -
  have "transact (ex_exec (ex_env {''free''} 110) (SubmitWork 0)) (ex_active 0 0) = (Done (), ex_submitted)"
    using ex_submitted_eq by (simp add: transact_Done)
  from contract_refines_life [OF this] show ?thesis by simp
qed

text \<open>
  C9. Terms are final. Between any two points of a history the escrow record persists; its token,
  total, yield terms, interval and number of releases are the same, each milestone keeps its
  description and amount and moves only forward from pending over submitted to approved, the
  deadline is only moved later, and an escrow that has ended is never active again.
\<close>

theorem terms_final:
  assumes "fresh s0" and "run (escrow_step h amt bal self) s0 ls s"
    and "run (escrow_step h amt bal self) s ls' s'" and "escrow_rec s = Some d"
  shows "\<exists>d'. escrow_rec s' = Some d' \<and> same_terms d d' \<and>
    milestones_progress (ed_milestones d) (ed_milestones d') \<and>
    deadline_progress (ed_deadline d) (ed_deadline d') \<and>
    (ed_status d \<noteq> Active \<longrightarrow> ed_status d' \<noteq> Active)"
  using reachable_progress [OF assms(1-3)] assms(4)
  by (auto simp: chain_progress_def progressed_def)

theorem terms_final_witness:
  "milestones_progress (ex_milestones Submitted Pending) (ex_milestones Approved Pending)"
proof -
  have "\<exists>d'. escrow_rec ex_approved = Some d' \<and> same_terms (ex_record Submitted Pending Active 0 0 0 100) d' \<and>
    milestones_progress (ed_milestones (ex_record Submitted Pending Active 0 0 0 100)) (ed_milestones d') \<and>
    deadline_progress (ed_deadline (ex_record Submitted Pending Active 0 0 0 100)) (ed_deadline d') \<and>
    (ed_status (ex_record Submitted Pending Active 0 0 0 100) \<noteq> Active \<longrightarrow> ed_status d' \<noteq> Active)"
    by (rule terms_final [OF ex_start_fresh ex_run_to_submitted ex_run_approved])
      (simp add: ex_submitted_view)
  then show ?thesis by (simp add: ex_approved_def ex_record_def)
qed

text \<open>
  C14. Releases keep their distance. Take any history of a contract that leads to an escrow and note the
  time of every call of \<open>create\<close> and of \<open>release_recurring\<close> that succeeded. These are one creation
  followed by exactly the releases the record counts, never more than agreed; the first release
  comes at least one interval after the creation and each of the others at least one interval after
  the one before.
\<close>

theorem releases_paced:
  assumes "fresh s0" and "schedule h amt bal self s0 ts s" and "escrow_rec s = Some d"
  shows "\<exists>t rs. ts = CreatedAt t # map ReleasedAt rs \<and>
    length rs = unat (ed_releases_made d) \<and> length rs \<le> unat (ed_recurrence_count d) \<and>
    spaced (ed_interval d) (t # rs)"
proof -
  obtain ls where run: "run (escrow_step h amt bal self) s0 ls s"
    using schedule_run [OF assms(2)] by blast
  have "escrow_wf d" by (rule reachable_wf(1) [OF reachable_inv(1) [OF assms(1) run] assms(3)])
  then have "unat (ed_releases_made d) \<le> unat (ed_recurrence_count d)"
    by (simp add: escrow_wf_def word_le_nat_alt)
  moreover have "on_schedule (Some d) ts"
    using schedule_kept [OF assms(2)] assms(1,3) by (simp add: fresh_def absent_views)
  then obtain t rs where ts: "ts = CreatedAt t # map ReleasedAt rs"
    and count: "int (length rs) = uint (ed_releases_made d)" and apart: "spaced (ed_interval d) (t # rs)"
    by (auto simp: counted_def)
  moreover from arg_cong [OF count, of nat] have "length rs = unat (ed_releases_made d)"
    by (simp only: nat_int unat_eq_nat_uint)
  ultimately show ?thesis by (intro exI [of _ t] exI [of _ rs]) simp
qed

theorem releases_paced_witness:
  "schedule table_host (\<lambda>_. 100) table_balance ''escrow'' ex_start
     [CreatedAt 100, ReleasedAt 120, ReleasedAt 130] ex_released_twice \<and>
   escrow_rec ex_released_twice = Some (ex_record Pending Pending Active 10 5 2 130) \<and>
   spaced 10 [100, 120, 130]"
proof -
  let ?sch = "schedule table_host (\<lambda>_. 100) table_balance ''escrow'' ex_start"
  have call: "?sch (ts @ clock_event_of c now) s'"
    if "?sch ts s" "ex_exec (ex_env auth now) c s = (Done (), s')" "''escrow'' \<notin> auth" for ts s s' auth now c
  proof -
    have "ex_machine s (Invoke (ex_env auth now) c) s'"
      using that(2,3) by (intro step_invoke [where r = "Done ()"]) (simp_all add: act_simps)
    from schedule_step [OF that(1) this] that(2) show ?thesis by simp
  qed
  have "?sch [] ex_configured" using call [OF schedule_start ex_configured_eq] by simp
  then have "?sch [CreatedAt 100] (ex_active 10 5)" using call [OF _ ex_active_eq] by fastforce
  then have "?sch [CreatedAt 100, ReleasedAt 120] ex_released"
    using call [where c = ReleaseRecurring] ex_released_eq by fastforce
  then have run: "?sch [CreatedAt 100, ReleasedAt 120, ReleasedAt 130] ex_released_twice"
    using call [where c = ReleaseRecurring] ex_released_twice_eq by fastforce
  let ?d = "ex_record Pending Pending Active 10 5 2 130"
  have d: "escrow_rec ex_released_twice = Some ?d" "ed_interval ?d = 10"
    by (simp_all add: ex_released_twice_def ex_record_def)
  from releases_paced [OF ex_start_fresh run d(1)] have "spaced 10 [100, 120, 130]"
    by (auto simp: d(2) Cons_eq_map_conv)
  with run d(1) show ?thesis by simp
qed

text \<open>
  C36. One configuration, for good. Once the contract is configured, the administrator, the fee and
  the fee collector never change; only the pause flag does. The event log is only appended to.
\<close>

theorem config_fixed:
  assumes "fresh s0" and "run (escrow_step h amt bal self) s0 ls s"
    and "run (escrow_step h amt bal self) s ls' s'" and "config_rec s = Some c"
  shows "(\<exists>p. config_rec s' = Some (c\<lparr>pc_paused := p\<rparr>)) \<and> (\<exists>evs. ev_log s' = ev_log s @ evs)"
  using reachable_progress [OF assms(1-3)] assms(4) by (simp add: chain_progress_def)

theorem config_fixed_witness:
  "\<exists>p. config_rec ex_approved = Some (ex_config\<lparr>pc_paused := p\<rparr>)"
proof -
  have "(\<exists>p. config_rec ex_approved = Some (ex_config\<lparr>pc_paused := p\<rparr>)) \<and>
      (\<exists>evs. ev_log ex_approved = ev_log ex_submitted @ evs)"
    by (rule config_fixed [OF ex_start_fresh ex_run_to_submitted ex_run_approved])
      (rule ex_submitted_view)
  then show ?thesis by blast
qed

text \<open>
  One contract, one escrow. Once an escrow exists, no later call of \<open>create\<close> succeeds, also
  after the escrow has ended: it reports that the escrow exists, or that the contract is paused.
\<close>

lemma create_only_once:
  assumes "fresh s0" and "run (escrow_step h amt bal self) s0 ls s"
    and "run (escrow_step h amt bal self) s ls' s'" and "escrow_rec s \<noteq> None"
  shows "create h env p f t ms dl yp yr iv rc s' =
    (Err (if is_paused s' then Paused else AlreadyExists), s')"
proof -
  have "escrow_rec s' \<noteq> None"
    using reachable_progress [OF assms(1-3)] assms(4) by (auto simp: chain_progress_def)
  moreover have "store_typed s'"
    using reachable_inv(1) [OF assms(1) run_trans [OF assms(2,3)]] by (simp add: chain_inv_def)
  ultimately show ?thesis
    using store_typed_present(1) [of s'] running_typed [of s']
    by (auto simp: create_def thenS_unfold bindS_Err act_simps)
qed

section \<open>Authority\<close>

text \<open>The party whose signature a call needs; anybody may trigger a recurring release.\<close>

fun required_signer :: "'w escrow_chain \<Rightarrow> escrow_call \<Rightarrow> address option" where
  "required_signer s (Init admin _ _) = Some admin"
| "required_signer s Pause = map_option pc_admin (config_rec s)"
| "required_signer s Unpause = map_option pc_admin (config_rec s)"
| "required_signer s (Create payer _ _ _ _ _ _ _ _) = Some payer"
| "required_signer s (SubmitWork _) = map_option ed_freelancer (escrow_rec s)"
| "required_signer s (TransferFreelancer _) = map_option ed_freelancer (escrow_rec s)"
| "required_signer s ReleaseRecurring = None"
| "required_signer s _ = map_option ed_payer (escrow_rec s)"

text \<open>
  C10. Authority. No call that needs somebody's signature succeeds without it: \<open>init\<close> by the
  administrator it names, \<open>pause\<close> and \<open>unpause\<close> by the configured administrator, \<open>create\<close> by
  the payer who funds the escrow, \<open>submit_work\<close> and \<open>transfer_freelancer\<close> by the freelancer,
  \<open>approve\<close>, \<open>cancel\<close>, \<open>expire\<close>, \<open>transfer_payer\<close> and \<open>extend_deadline\<close> by the payer.
  The failed call leaves no trace.
\<close>

theorem signature_required:
  assumes "required_signer s c = Some a" and "a \<notin> ctx_auth env"
    and "transact (exec_call h amt env c) s = (r, s')"
  shows "r \<noteq> Done () \<and> s' = s"
proof -
  have "r \<noteq> Done ()"
    using assms by (cases c) (auto simp: transact_Done escrow_Done)
  then show ?thesis using transact_failed [OF assms(3)] by fastforce
qed

theorem signature_required_witness:
  "snd (transact (ex_exec (ex_env {''free''} 120) (Approve 0)) ex_submitted) = ex_submitted"
proof -
  obtain r s' where e: "transact (ex_exec (ex_env {''free''} 120) (Approve 0)) ex_submitted = (r, s')"
    by fastforce
  have "r \<noteq> Done () \<and> s' = ex_submitted"
    by (rule signature_required [OF _ _ e, of "''payer''"])
      (simp_all add: ex_submitted_view ex_record_def)
  with e show ?thesis by simp
qed

definition call_signers :: "escrow_label \<Rightarrow> address set" where
  "call_signers l = (case l of Invoke env c \<Rightarrow> ctx_auth env | Outside \<Rightarrow> {})"

definition same_payments :: "escrow_data \<Rightarrow> escrow_data \<Rightarrow> bool" where
  "same_payments d d' \<longleftrightarrow> ed_payer d' = ed_payer d \<and>
     approved_total (ed_milestones d') = approved_total (ed_milestones d) \<and>
     (ed_status d' = ed_status d \<or> ed_status d = Active \<and> ed_status d' = Completed \<and>
        0 < ed_recurrence_count d)"

lemma life_unsigned:
  assumes "life r l r'" and "r = Some d" and "l = (env, c)" and "ed_payer d \<notin> ctx_auth env"
  shows "\<exists>d'. r' = Some d' \<and> same_payments d d' \<and> same_terms d d'"
  using assms
proof (induction rule: life.induct)
  case (life_release e env)
  then have "uint (ed_releases_made e) < uint (ed_recurrence_count e)" by (simp add: word_less_def)
  then have "0 < uint (ed_recurrence_count e)" using uint_ge_0 by (rule le_less_trans [rotated])
  then have "0 < ed_recurrence_count e" by (simp add: word_less_def)
  with life_release show ?case
    by (auto simp: same_payments_def same_terms_def released_record_def Let_def)
qed (auto simp: same_payments_def same_terms_def approved_total_update)

text \<open>
  C20. Nobody but the payer spends the escrow. Over any run in which the payer of the escrow signs
  nothing, the payer and the amount approved for payment stay as they are, and the escrow is
  neither cancelled nor expired nor completed, except that a recurring escrow may complete.
\<close>

theorem payer_controls_payments:
  assumes "run (escrow_step h amt bal self) s ls s'" and "escrow_rec s = Some d"
    and "\<forall>l \<in> set ls. ed_payer d \<notin> call_signers l"
  shows "\<exists>d'. escrow_rec s' = Some d' \<and> same_payments d d' \<and> same_terms d d'"
  using assms
proof (induction arbitrary: d rule: run.induct)
  case (run_nil s)
  then show ?case by (simp add: same_payments_def same_terms_def)
next
  case (run_cons s l s' ls s'')
  from run_cons.hyps(1) have "\<exists>d'. escrow_rec s' = Some d' \<and> same_payments d d' \<and> same_terms d d'"
  proof (cases rule: escrow_step_cases)
    case (call env c)
    then show ?thesis
      using life_unsigned [OF exec_call_life [OF call(4)] run_cons.prems(1) refl] run_cons.prems(2)
      by (simp add: call_signers_def)
  qed (use run_cons.prems(1) in \<open>auto simp: same_payments_def same_terms_def\<close>)
  then obtain d' where d': "escrow_rec s' = Some d'" "same_payments d d'" "same_terms d d'" by blast
  then obtain d'' where "escrow_rec s'' = Some d''" "same_payments d' d''" "same_terms d' d''"
    using run_cons.IH [of d'] run_cons.prems(2) by (auto simp: same_payments_def)
  with d' show ?case by (auto simp: same_payments_def same_terms_def)
qed

theorem payer_controls_payments_witness:
  "approved_total (ed_milestones (ex_record Pending Pending Active 10 5 1 120)) =
   approved_total (ed_milestones (ex_record Pending Pending Active 10 5 0 100))"
proof -
  have "\<exists>d'. escrow_rec ex_released = Some d' \<and>
      same_payments (ex_record Pending Pending Active 10 5 0 100) d' \<and>
      same_terms (ex_record Pending Pending Active 10 5 0 100) d'"
    by (rule payer_controls_payments [OF ex_run_released])
      (simp_all add: ex_active_def call_signers_def)
  then show ?thesis by (simp add: same_payments_def ex_released_def)
qed

text \<open>
  C19. The pause flag. While the contract is paused every entry point that changes the state, but for
  \<open>init\<close>, \<open>pause\<close> and \<open>unpause\<close>, returns the error \<open>Paused\<close> (code 8) and changes nothing, whoever
  calls it with whatever arguments; the two queries \<open>get_escrow\<close> and \<open>get_status\<close> still answer; and
  the administrator can always lift the pause.
\<close>

theorem pause_stops_everything:
  assumes "is_paused s"
  shows "(pausable c \<longrightarrow> exec_call h amt env c s = (Err Paused, s)) \<and>
    (escrow_rec s = Some d \<longrightarrow> get_escrow s = (Done d, s) \<and> get_status s = (Done (ed_status d), s)) \<and>
    (map_option pc_admin (config_rec s) = Some a \<longrightarrow> a \<in> ctx_auth env \<longrightarrow>
      (\<exists>s'. unpause h env s = (Done (), s') \<and> running s' \<and> escrow_rec s' = escrow_rec s \<and>
        ledger s' = ledger s))"
proof (intro conjI)
  show "pausable c \<longrightarrow> exec_call h amt env c s = (Err Paused, s)"
    using assms exec_call_paused by blast
  show "escrow_rec s = Some d \<longrightarrow> get_escrow s = (Done d, s) \<and> get_status s = (Done (ed_status d), s)"
    by (rule impI) (rule queries_answer)
  show "map_option pc_admin (config_rec s) = Some a \<longrightarrow> a \<in> ctx_auth env \<longrightarrow>
      (\<exists>s'. unpause h env s = (Done (), s') \<and> running s' \<and> escrow_rec s' = escrow_rec s \<and>
        ledger s' = ledger s)"
    by (auto simp: unpause_Done running_def)
qed

theorem pause_stops_everything_witness:
  "exec_call table_host (\<lambda>_. 100) (ex_env {''payer''} 130) Cancel ex_paused = (Err Paused, ex_paused) \<and>
   is_paused ex_paused"
proof -
  have p: "is_paused ex_paused" by (rule ex_paused_flag)
  from pause_stops_everything [THEN conjunct1, OF p, of Cancel] p show ?thesis by simp
qed

section \<open>Errors\<close>



text \<open>
  C13. Type safety of the storage. In every reachable state no entry point panics because a stored
  value has another type than the code reads it at, and none panics because a record is missing,
  except \<open>pause\<close> and \<open>unpause\<close> without a configuration and the calls on an escrow without one. The
  panics that are left are an arithmetic overflow, a missing signature and a failed call of
  another contract. The queries return the record whenever there is one.
\<close>

theorem typed_execution:
  assumes "fresh s0" and "run (escrow_step h amt bal self) s0 ls s"
  shows "(exec_call h amt env c s = (Trap x, s') \<longrightarrow> runtime_trap x \<or> x = NotInitialised \<and>
      (needs_config c \<and> config_rec s = None \<or> needs_escrow c \<and> escrow_rec s = None)) \<and>
    get_escrow s = ((case escrow_rec s of None \<Rightarrow> Trap NotInitialised | Some d \<Rightarrow> Done d), s) \<and>
    get_status s = ((case escrow_rec s of None \<Rightarrow> Trap NotInitialised | Some d \<Rightarrow> Done (ed_status d)), s)"
proof -
  have typed: "store_typed s" using reachable_inv(1) [OF assms] by (simp add: chain_inv_def)
  note present = store_typed_present(1) [OF typed]
  have load: "load_escrow s = ((case escrow_rec s of None \<Rightarrow> Trap NotInitialised
      | Some d \<Rightarrow> Done d) :: (escrow_error, escrow_data) outcome, s)"
    using present by (cases "escrow_rec s") (auto simp: load_escrow_Trap load_escrow_Done)
  then have "get_escrow s = ((case escrow_rec s of None \<Rightarrow> Trap NotInitialised | Some d \<Rightarrow> Done d), s)"
    and "get_status s = ((case escrow_rec s of None \<Rightarrow> Trap NotInitialised | Some d \<Rightarrow> Done (ed_status d)), s)"
    by (auto simp: get_escrow_def get_status_def bindS_def ret_def split: option.split)
  with typed_traps [OF typed] show ?thesis by blast
qed

theorem typed_execution_witness:
  "get_status ex_submitted = (Done Active, ex_submitted) \<and>
   (\<forall>s'. ex_exec (ex_env {} 120) (Approve 0) ex_submitted \<noteq> (Trap BadConversion, s'))"
  using typed_execution [OF ex_start_fresh ex_run_to_submitted, of "ex_env {} 120" "Approve 0" BadConversion]
  by (auto simp: ex_submitted_view ex_record_def)

text \<open>
  What \<open>approve\<close> refuses. On an unpaused contract with an escrow, \<open>approve\<close> returns
  \<open>MilestoneInvalidIndex\<close> exactly for an index outside the milestones and
  \<open>MilestoneNotSubmitted\<close> exactly for a milestone that is pending or already approved, before
  any signature is checked, and no other error.
\<close>

lemma approve_errors:
  assumes "running s" and "escrow_rec s = Some d"
  shows "approve h env i s = (Err e, s') \<longleftrightarrow> s' = s \<and>
    e = (if length (ed_milestones d) \<le> unat i then MilestoneInvalidIndex else MilestoneNotSubmitted) \<and>
    (length (ed_milestones d) \<le> unat i \<or> ms_status (ed_milestones d ! unat i) \<noteq> Submitted)"
  using assms is_paused_not_running [of s] by (auto simp: approve_Err not_le)

text \<open>
  What \<open>release_recurring\<close> refuses, with the order of its checks: an escrow that is not
  recurring, then one that is not active, then a release before the interval has elapsed; the
  error \<open>RecurrenceComplete\<close> can never be observed, because the last release ends the escrow.
\<close>

lemma release_errors:
  assumes "chain_inv s" and "running s" and "escrow_rec s = Some d"
    and "uint (ed_last_release_time d) + uint (ed_interval d) < 2 ^ 64"
  shows "release_recurring h amt env s = (Err e, s') \<longleftrightarrow> s' = s \<and>
    (if ed_interval d = 0 \<or> ed_recurrence_count d = 0 then e = NotRecurring
     else if ed_status d \<noteq> Active then e = NotActive
     else e = IntervalNotElapsed \<and>
       uint (ctx_now env) < uint (ed_last_release_time d) + uint (ed_interval d))"
proof -
  have "ed_releases_made d < ed_recurrence_count d"
    if "ed_recurrence_count d \<noteq> 0" "ed_status d = Active"
    using that reachable_wf(1) [OF assms(1,3)] by (simp add: escrow_wf_def word_neq_0_conv)
  moreover have "\<not> is_paused s" using assms(2) is_paused_not_running by blast
  moreover have "ctx_now env < ed_last_release_time d + ed_interval d \<longleftrightarrow>
      uint (ctx_now env) < uint (ed_last_release_time d) + uint (ed_interval d)"
    using assms(4) by (simp add: word_less_def uint_add_exact)
  ultimately show ?thesis
    using assms(2-4) by (auto simp: release_recurring_Err not_le)
qed

text \<open>
  What \<open>expire\<close> refuses, in this order: an escrow that is not active, one without a
  deadline (\<open>NotExpired\<close>), and a call at or before the deadline (\<open>DeadlineNotPassed\<close>); the
  deadline itself still belongs to the freelancer.
\<close>

lemma expire_errors:
  assumes "running s" and "escrow_rec s = Some d"
  shows "expire h amt env s = (Err e, s') \<longleftrightarrow> s' = s \<and>
    (if ed_status d \<noteq> Active then e = NotActive
     else case ed_deadline d of None \<Rightarrow> e = NotExpired
       | Some c \<Rightarrow> e = DeadlineNotPassed \<and> ctx_now env \<le> c)"
  using assms is_paused_not_running [of s] by (auto simp: expire_Err split: option.splits)

text \<open>
  C18. When an escrow can be created, exactly. Whatever the state of the contract, as long as its
  storage holds values of the types the code reads (as in every reachable state), \<open>create\<close>
  succeeds if and only if the contract is not paused, holds no escrow, allows the token (it is listed, or
  no token is), there is at least one milestone, all amounts are positive, their sum fits an
  \<^verbatim>\<open>i128\<close>, the payer has signed, and the token (and the yield protocol, if any) accepts the sum.
  Whenever it succeeds it has stored the record with that sum as the total.
\<close>

theorem create_exactly:
  assumes "store_typed s"
  shows "((\<exists>s'. create h env p f t ms dl yp yr iv rc s = (Done (), s')) \<longleftrightarrow>
      \<not> is_paused s \<and> escrow_rec s = None \<and> (allowed_tokens s = [] \<or> t \<in> set (allowed_tokens s)) \<and>
      ms \<noteq> [] \<and> (\<forall>m \<in> set ms. 0 < ms_amount m) \<and> i128_range (milestone_total ms) \<and> p \<in> ctx_auth env \<and>
      (\<exists>w. h_transfer h env t p (ctx_self env) (milestone_total ms) (ledger s) = Some w \<and>
        (\<forall>q. yp = Some q \<longrightarrow> h_deposit h env q (milestone_total ms) w \<noteq> None))) \<and>
    (\<forall>s'. create h env p f t ms dl yp yr iv rc s = (Done (), s') \<longrightarrow>
      escrow_rec s' = Some (new_escrow env p f t ms dl yp yr iv rc))"
proof (rule conjI)
  note typed = running_typed [OF assms] store_typed_present(1) [OF assms] store_typed_tokens [OF assms]
  show "(\<exists>s'. create h env p f t ms dl yp yr iv rc s = (Done (), s')) \<longleftrightarrow>
      \<not> is_paused s \<and> escrow_rec s = None \<and> (allowed_tokens s = [] \<or> t \<in> set (allowed_tokens s)) \<and>
      ms \<noteq> [] \<and> (\<forall>m \<in> set ms. 0 < ms_amount m) \<and> i128_range (milestone_total ms) \<and> p \<in> ctx_auth env \<and>
      (\<exists>w. h_transfer h env t p (ctx_self env) (milestone_total ms) (ledger s) = Some w \<and>
        (\<forall>q. yp = Some q \<longrightarrow> h_deposit h env q (milestone_total ms) w \<noteq> None))"
    by (cases yp) (auto simp: create_Done typed)
  show "\<forall>s'. create h env p f t ms dl yp yr iv rc s = (Done (), s') \<longrightarrow>
      escrow_rec s' = Some (new_escrow env p f t ms dl yp yr iv rc)"
    by (auto simp: create_Done)
qed

theorem create_exactly_witness:
  "(\<exists>s'. create table_host (ex_env {''payer''} 100) ''payer'' ''free'' ''tok''
      (ex_milestones Pending Pending) None None Payer 0 0 ex_configured = (Done (), s')) \<and>
   \<not> (\<exists>s'. create table_host (ex_env {''payer''} 100) ''payer'' ''free'' ''tok''
      (ex_milestones Pending Pending) None None Payer 0 0 ex_submitted = (Done (), s'))"
proof
  have t: "store_typed ex_configured" "store_typed ex_submitted"
    by (simp_all add: store_typed_def ex_configured_def ex_submitted_def)
  show "\<exists>s'. create table_host (ex_env {''payer''} 100) ''payer'' ''free'' ''tok''
      (ex_milestones Pending Pending) None None Payer 0 0 ex_configured = (Done (), s')"
    by (rule create_exactly [OF t(1), THEN conjunct1, THEN iffD2])
      (simp_all add: ex_configured_def ex_milestones_def i128_range_def ex_transfers)
  show "\<not> (\<exists>s'. create table_host (ex_env {''payer''} 100) ''payer'' ''free'' ''tok''
      (ex_milestones Pending Pending) None None Payer 0 0 ex_submitted = (Done (), s'))"
    unfolding create_exactly [OF t(2), THEN conjunct1] by (simp add: ex_submitted_view)
qed

end
