(* ===== verification/Escrow_Limits.thy ===== *)
theory Escrow_Limits
  imports Escrow_Errors
begin

text \<open>
  The part of \<^verbatim>\<open>storage.rs\<close> no entry point calls yet: the rate limiter of a payer and the two
  functions that change the token allow-list. The limiter counts in fixed windows, so what it
  promises for an arbitrary stretch of time is twice its limit (\<open>rate_attempts_budget\<close>). The last
  section is about the key the limiter's configuration shares with the protocol's.
\<close>

section \<open>The functions\<close>

definition check_and_update_rate_limit ::
  "ctx \<Rightarrow> address \<Rightarrow> rate_limit_config \<Rightarrow> ('w escrow_chain, unit, unit) act" where
  "check_and_update_rate_limit env payer config =
     (let current_time = ctx_now env in
      bindS (read_payer_stats payer) (\<lambda>found.
      let stats = (case found of
            None \<Rightarrow> \<lparr>ps_window_start = current_time, ps_count = 0\<rparr> | Some stats \<Rightarrow> stats);
          stats = (if saturating_add (ps_window_start stats) (rl_window_duration config) \<le> current_time
            then stats\<lparr>ps_window_start := current_time, ps_count := 0\<rparr> else stats) in
      thenS (fail_if (rl_max_per_window config \<le> ps_count stats) ())
     (write_payer_stats payer (stats\<lparr>ps_count := saturating_add (ps_count stats) 1\<rparr>))))"

definition add_to_allowlist :: "address \<Rightarrow> ('w escrow_chain, unit, bool) act" where
  "add_to_allowlist token =
     bindS read_allowed_tokens (\<lambda>tokens.
       if token \<in> set tokens then ret False
       else thenS (write_allowed_tokens (tokens @ [token])) (ret True))"

text \<open>The loop that copies every other token.\<close>

fun without_token :: "address \<Rightarrow> address list \<Rightarrow> address list \<Rightarrow> address list" where
  "without_token token [] new_tokens = new_tokens"
| "without_token token (t # ts) new_tokens =
     without_token token ts (if t \<noteq> token then new_tokens @ [t] else new_tokens)"

definition remove_from_allowlist :: "address \<Rightarrow> ('w escrow_chain, unit, bool) act" where
  "remove_from_allowlist token =
     bindS read_allowed_tokens (\<lambda>tokens.
       let before = length tokens; new_tokens = without_token token tokens [] in
       if length new_tokens < before then thenS (write_allowed_tokens new_tokens) (ret True)
       else ret False)"

section \<open>The allow-list as a set\<close>

lemma without_token_filter: "without_token token ts acc = acc @ filter (\<lambda>t. t \<noteq> token) ts"
  by (induction ts arbitrary: acc) auto

lemma filter_shorter: "length (filter P xs) < length xs \<longleftrightarrow> (\<exists>x \<in> set xs. \<not> P x)"
  by (induction xs) (auto simp: less_Suc_eq_le le_less)

lemma write_allowed_tokens_eq [act_simps]:
  "write_allowed_tokens ts s = (r, s') \<longleftrightarrow>
     r = Done () \<and> s' = store_put (allow_list_key_raw AllowTokens) (VTokens ts) s"
  by (simp add: write_allowed_tokens_def act_simps)

lemma add_to_allowlist_Done:
  "add_to_allowlist t s = (Done b, s') \<longleftrightarrow> tokens_readable s \<and> b = (t \<notin> set (allowed_tokens s)) \<and>
     s' = (if b then store_put (allow_list_key_raw AllowTokens) (VTokens (allowed_tokens s @ [t])) s
           else s)"
  by (auto simp: add_to_allowlist_def act_simps)

lemma remove_from_allowlist_Done:
  "remove_from_allowlist t s = (Done b, s') \<longleftrightarrow> tokens_readable s \<and> b = (t \<in> set (allowed_tokens s)) \<and>
     s' = (if b then store_put (allow_list_key_raw AllowTokens)
                       (VTokens (filter (\<lambda>x. x \<noteq> t) (allowed_tokens s))) s
           else s)"
  by (auto simp: remove_from_allowlist_def without_token_filter filter_shorter Let_def act_simps)

section \<open>The rate limiter\<close>

definition stats_readable :: "'w escrow_chain \<Rightarrow> address \<Rightarrow> bool" where
  "stats_readable s a \<longleftrightarrow>
     (\<forall>v. inst_store s (rate_key_raw (RatePayerStats a)) = Some v \<longrightarrow> as_stats v \<noteq> None)"

text \<open>The window the call at \<open>now\<close> counts in.\<close>

definition current_window :: "rate_limit_config \<Rightarrow> u64 \<Rightarrow> payer_stats option \<Rightarrow> payer_stats" where
  "current_window cfg now r = (case r of
      None \<Rightarrow> \<lparr>ps_window_start = now, ps_count = 0\<rparr>
    | Some st \<Rightarrow> if saturating_add (ps_window_start st) (rl_window_duration cfg) \<le> now
        then \<lparr>ps_window_start = now, ps_count = 0\<rparr> else st)"

lemma read_payer_stats_eq [act_simps]:
  "read_payer_stats a s = (Done r, s') \<longleftrightarrow> stats_readable s a \<and> r = stats_at s a \<and> s' = s"
  "read_payer_stats a s \<noteq> (Err e, s')"
  "read_payer_stats a s = (Trap t, s') \<longleftrightarrow> \<not> stats_readable s a \<and> t = BadConversion \<and> s' = s"
  by (cases "inst_store s (rate_key_raw (RatePayerStats a))";
      auto simp: read_payer_stats_def stats_readable_def stats_at_def act_simps)+

lemma payer_stats_eqI:
  "ps_window_start a = ps_window_start b \<Longrightarrow> ps_count a = ps_count b \<Longrightarrow> a = (b :: payer_stats)"
  by (rule payer_stats.equality) simp_all

lemma check_rate_alt:
  "check_and_update_rate_limit env a cfg =
     bindS (read_payer_stats a) (\<lambda>r. let w = current_window cfg (ctx_now env) r in
       thenS (fail_if (rl_max_per_window cfg \<le> ps_count w) ())
         (store_set (rate_key_raw (RatePayerStats a))
           (VStats (w\<lparr>ps_count := saturating_add (ps_count w) 1\<rparr>))))"
proof -
  have "(let stats = (case r of
            None \<Rightarrow> \<lparr>ps_window_start = now, ps_count = 0\<rparr> | Some stats \<Rightarrow> stats);
          stats = (if saturating_add (ps_window_start stats) (rl_window_duration cfg) \<le> now
            then stats\<lparr>ps_window_start := now, ps_count := 0\<rparr> else stats) in stats) =
     current_window cfg now r" for r now
    by (cases r) (auto simp: current_window_def Let_def intro: payer_stats_eqI)
  then show ?thesis
    by (simp add: check_and_update_rate_limit_def write_payer_stats_def Let_def fun_eq_iff)
qed

lemma check_rate_Done:
  "check_and_update_rate_limit env a cfg s = (Done u, s') \<longleftrightarrow> stats_readable s a \<and>
     (let w = current_window cfg (ctx_now env) (stats_at s a) in
      ps_count w < rl_max_per_window cfg \<and>
      s' = store_put (rate_key_raw (RatePayerStats a))
             (VStats (w\<lparr>ps_count := saturating_add (ps_count w) 1\<rparr>)) s)"
  by (auto simp: check_rate_alt Let_def act_simps not_le)

lemma check_rate_Err:
  "check_and_update_rate_limit env a cfg s = (Err e, s') \<longleftrightarrow> stats_readable s a \<and> s' = s \<and>
     rl_max_per_window cfg \<le> ps_count (current_window cfg (ctx_now env) (stats_at s a))"
  by (auto simp: check_rate_alt Let_def act_simps)

lemma stats_readable_put [simp]:
  "stats_readable (store_put (rate_key_raw (RatePayerStats a)) (VStats w) s) b \<longleftrightarrow>
     b = a \<or> stats_readable s b"
  by (auto simp: stats_readable_def)

subsection \<open>A sequence of calls\<close>

text \<open>The times at which the calls of one payer were accepted.\<close>

fun rate_attempts ::
  "rate_limit_config \<Rightarrow> address \<Rightarrow> ctx list \<Rightarrow> 'w escrow_chain \<Rightarrow> u64 list" where
  "rate_attempts cfg a [] s = []"
| "rate_attempts cfg a (env # envs) s =
     (case transact (check_and_update_rate_limit env a cfg) s of
        (Done _, s') \<Rightarrow> ctx_now env # rate_attempts cfg a envs s'
      | (_, s') \<Rightarrow> rate_attempts cfg a envs s')"

definition in_stretch :: "u64 \<Rightarrow> u64 \<Rightarrow> u64 \<Rightarrow> bool" where
  "in_stretch t len x \<longleftrightarrow> uint t \<le> uint x \<and> uint x < uint t + uint len"

text \<open>
  How many more calls the stretch \<open>[t, t + len)\<close> can still see accepted after a call at \<open>prev\<close>,
  given the window the limiter is in: nothing is lost before the stretch; a window that overlaps
  its start leaves one full window after it; a window that starts in it is the final one.
\<close>

definition stretch_budget :: "rate_limit_config \<Rightarrow> u64 \<Rightarrow> u64 \<Rightarrow> payer_stats option \<Rightarrow> nat" where
  "stretch_budget cfg t prev r = (let n = unat (rl_max_per_window cfg) in
     case r of
       None \<Rightarrow> 2 * n
     | Some w \<Rightarrow>
         if prev < t then 2 * n
         else if ps_window_start w < t then n + (n - unat (ps_count w))
         else if uint (ps_window_start w) < uint t + uint (rl_window_duration cfg)
           then n - unat (ps_count w)
         else 0)"

definition window_started :: "payer_stats option \<Rightarrow> u64 \<Rightarrow> bool" where
  "window_started r prev \<longleftrightarrow> (case r of None \<Rightarrow> True | Some w \<Rightarrow> ps_window_start w \<le> prev)"

lemma current_window_cases:
  assumes "window_started r prev" and "prev \<le> now"
    and "uint now + uint (rl_window_duration cfg) < 2 ^ 64"
  obtains
    (opened) "current_window cfg now r = \<lparr>ps_window_start = now, ps_count = 0\<rparr>"
      and "\<And>w. r = Some w \<Longrightarrow> uint (ps_window_start w) + uint (rl_window_duration cfg) \<le> uint now"
  | (same) w where "r = Some w" and "current_window cfg now r = w"
      and "uint now < uint (ps_window_start w) + uint (rl_window_duration cfg)"
proof (cases r)
  case None
  then show thesis using opened by (simp add: current_window_def)
next
  case (Some w)
  have "uint (ps_window_start w) \<le> uint now"
    using assms(1,2) Some by (auto simp: window_started_def word_le_def)
  then have fits: "uint (ps_window_start w) + uint (rl_window_duration cfg) < 2 ^ 64"
    using assms(3) by linarith
  then have "uint (saturating_add (ps_window_start w) (rl_window_duration cfg)) =
      uint (ps_window_start w) + uint (rl_window_duration cfg)"
    by (simp add: uint_saturating_add)
  then have cond: "saturating_add (ps_window_start w) (rl_window_duration cfg) \<le> now \<longleftrightarrow>
      uint (ps_window_start w) + uint (rl_window_duration cfg) \<le> uint now"
    by (simp add: word_le_def)
  show thesis
  proof (cases "uint (ps_window_start w) + uint (rl_window_duration cfg) \<le> uint now")
    case True
    then show thesis using opened Some cond by (simp add: current_window_def)
  next
    case False
    then show thesis using same [of w] Some cond by (simp add: current_window_def)
  qed
qed

lemma unat_count_up:
  "c < (m :: u32) \<Longrightarrow> unat (saturating_add c 1) = unat c + 1"
proof -
  assume "c < m"
  then have "uint c + 1 < 2 ^ 32" using uint_lt2p [of m] by (simp add: word_less_def)
  then have "uint (saturating_add c 1) = uint c + 1" by (simp add: uint_saturating_add)
  then have "int (unat (saturating_add c 1)) = int (unat c + 1)" by simp
  then show ?thesis by (simp only: of_nat_eq_iff)
qed

lemma stretch_budget_max: "stretch_budget cfg t prev r \<le> 2 * unat (rl_max_per_window cfg)"
  by (cases r) (auto simp: stretch_budget_def Let_def)

lemma stretch_budget_skip:
  "prev \<le> now \<Longrightarrow> stretch_budget cfg t now r \<le> stretch_budget cfg t prev r"
  by (auto simp: stretch_budget_def Let_def split: option.split)

lemma stretch_budget_take:
  assumes "window_started r prev" and "prev \<le> now"
    and "uint now + uint (rl_window_duration cfg) < 2 ^ 64"
    and "w = current_window cfg now r" and "ps_count w < rl_max_per_window cfg"
  shows "(if in_stretch t (rl_window_duration cfg) now then 1 else 0) +
       stretch_budget cfg t now (Some (w\<lparr>ps_count := saturating_add (ps_count w) 1\<rparr>))
     \<le> stretch_budget cfg t prev r"
proof -
  have n: "unat (ps_count w) < unat (rl_max_per_window cfg)"
    using assms(5) by (simp add: word_less_nat_alt)
  note up = unat_count_up [OF assms(5)]
  from assms(1-3) show ?thesis
  proof (cases rule: current_window_cases)
    case opened
    then have w: "ps_window_start w = now" "ps_count w = 0" using assms(4) by simp_all
    show ?thesis
    proof (cases r)
      case None
      then show ?thesis using n up w
        by (auto simp: stretch_budget_def Let_def in_stretch_def word_less_def)
    next
      case (Some v)
      then show ?thesis using n up w opened(2) [OF Some] assms(2)
        by (auto simp: stretch_budget_def Let_def in_stretch_def word_less_def word_le_def)
    qed
  next
    case (same v)
    then show ?thesis using n up assms(1,2,4)
      by (auto simp: stretch_budget_def Let_def in_stretch_def word_less_def word_le_def
          window_started_def)
  qed
qed

lemma current_window_started:
  "window_started r prev \<Longrightarrow> prev \<le> now \<Longrightarrow> ps_window_start (current_window cfg now r) \<le> now"
  by (auto simp: current_window_def window_started_def split: option.splits)

lemma rate_attempts_budget:
  assumes "sorted_wrt (\<le>) (prev # map ctx_now envs)"
    and "\<forall>env \<in> set envs. uint (ctx_now env) + uint (rl_window_duration cfg) < 2 ^ 64"
    and "window_started (stats_at s a) prev"
  shows "length (filter (in_stretch t (rl_window_duration cfg)) (rate_attempts cfg a envs s))
    \<le> stretch_budget cfg t prev (stats_at s a)"
  using assms
proof (induction envs arbitrary: s prev)
  case Nil
  then show ?case by simp
next
  case (Cons env envs)
  let ?now = "ctx_now env" and ?r = "stats_at s a"
  let ?w = "current_window cfg ?now ?r"
  let ?w' = "?w\<lparr>ps_count := saturating_add (ps_count ?w) 1\<rparr>"
  have le: "prev \<le> ?now" and sorted: "sorted_wrt (\<le>) (?now # map ctx_now envs)"
    and fits: "uint ?now + uint (rl_window_duration cfg) < 2 ^ 64"
      "\<forall>env \<in> set envs. uint (ctx_now env) + uint (rl_window_duration cfg) < 2 ^ 64"
    using Cons.prems by auto
  note IH = Cons.IH [OF sorted fits(2)]
  show ?case
  proof (cases "transact (check_and_update_rate_limit env a cfg) s")
    case (Pair r s')
    show ?thesis
    proof (cases r)
      case (Done u)
      then have call: "check_and_update_rate_limit env a cfg s = (Done u, s')"
        using Pair by (simp add: act_simps)
      then have st: "stats_at s' a = Some ?w'" and c: "ps_count ?w < rl_max_per_window cfg"
        by (auto simp: check_rate_Done Let_def payer_stats_records.get_put_same)
      have "window_started (stats_at s' a) ?now"
        using current_window_started [OF Cons.prems(3) le] by (simp add: st window_started_def)
      from IH [OF this] stretch_budget_take [OF Cons.prems(3) le fits(1) refl c, of t]
      show ?thesis using Pair Done by (simp add: st split: if_splits)
    next
      case (Err e)
      then have "s' = s" using Pair transact_failed by fastforce
      moreover have "window_started ?r ?now"
        using Cons.prems(3) le by (auto simp: window_started_def split: option.splits)
      ultimately show ?thesis
        using IH [of s] stretch_budget_skip [OF le, of cfg t ?r] Pair Err by simp
    next
      case (Trap x)
      then have "s' = s" using Pair transact_failed by fastforce
      moreover have "window_started ?r ?now"
        using Cons.prems(3) le by (auto simp: window_started_def split: option.splits)
      ultimately show ?thesis
        using IH [of s] stretch_budget_skip [OF le, of cfg t ?r] Pair Trap by simp
    qed
  qed
qed

section \<open>One key, two configurations\<close>

text \<open>
  \<^verbatim>\<open>RateKey::Config\<close> and \<^verbatim>\<open>DataKey::Config\<close> have the same variant name and no payload, so they
  are one key of the instance storage.
\<close>

lemma config_keys_collide: "rate_key_raw RateConfig = data_key_raw DataConfig"
  by simp

lemma write_config_traps:
  assumes "write_config rc s = (Done u, s')"
  shows "assert_not_paused s' = (Trap BadConversion, s')" and "load_config s' = (Trap BadConversion, s')"
proof -
  have s': "inst_store s' (data_key_raw DataConfig) = Some (VRateConfig rc)"
    using assms config_keys_collide by (simp add: write_config_def act_simps del: data_rate_key_eq)
  show "load_config s' = (Trap BadConversion, s')"
    by (simp add: load_config_Trap config_rec_def s')
  show "assert_not_paused s' = (Trap BadConversion, s')"
    by (simp add: assert_not_paused_eq running_def is_paused_def config_rec_def s')
qed

end
