(* ===== verification/Escrow_Gaps.thy ===== *)
theory Escrow_Gaps
  imports Escrow_Custody Escrow_Limits
begin

text \<open>
  Where the contract departs from its documentation, as theorems about what the code does: ended
  escrows still pay, a recurring escrow cannot be refunded after a release, a fee above one
  hundred percent blocks every payment, milestones created as approved lock their money, deposits
  in a yield protocol are never withdrawn, the allow-list cannot be set. Then the helpers of the
  storage layer that are meant to close some of these gaps, and the trap one of them holds.
\<close>

lemma work_submitted_unreachable:
  assumes "fresh s0" and "run (escrow_step h amt bal self) s0 ls s" and "escrow_rec s = Some d"
  shows "ed_status d \<noteq> WorkSubmitted"
  using reachable_wf(1) [OF reachable_inv(1) [OF assms(1,2)] assms(3)] by (simp add: escrow_wf_def)

section \<open>The time-to-live of the storage\<close>

text \<open>
  Every state-changing entry point that succeeds extends the time-to-live of the instance storage, except
  \<open>release_recurring\<close>: a recurring escrow that is only released over months is never extended.
\<close>

lemma calls_extend_ttl:
  assumes "exec_call h amt env c s = (Done u, s')"
  shows "inst_ttl s' = (if c = ReleaseRecurring then inst_ttl s
    else h_extend_ttl h TTL_MIN_LEDGERS TTL_MAX_LEDGERS (inst_ttl s))"
proof -
  have split: "inst_ttl s1 = inst_ttl s0" if "split_fee h env t a s0 = (Done x, s1)" for t a x s0 s1
    using split_fee_frame [OF that] by auto
  show ?thesis
    using assms
    by (cases c) (auto simp: init_Done pause_Done unpause_Done create_Done submit_work_Done approve_Done
        release_recurring_Done cancel_Done expire_Done transfer_freelancer_Done transfer_payer_Done
        extend_deadline_Done simp del: split_fee_Done dest!: split)
qed

section \<open>Ended escrows\<close>

definition ex_cancelled :: "table escrow_chain" where
  "ex_cancelled = ex_state (Some (ex_record Submitted Pending Cancelled 0 0 0 100)) 518400
     [EscrowCreated ''payer'' ''free'' 500 (ex_milestones Pending Pending),
      MilestoneSubmitted ''free'' 0 ''design'', EscrowCancelled ''payer'' 500] (ex_balances 10000 0 0 0)"

lemma ex_cancelled_eq: "ex_exec (ex_env {''payer''} 120) Cancel ex_submitted = (Done (), ex_cancelled)"
  by (simp add: ex_eval ex_submitted_def ex_cancelled_def)

definition ex_topped_up :: "table escrow_chain" where
  "ex_topped_up = ex_cancelled\<lparr>ledger := ex_balances 9700 300 0 0, inst_ttl := 518400\<rparr>"

lemma ex_run_topped_up:
  "run ex_machine ex_submitted ([Invoke (ex_env {''payer''} 120) Cancel] @ [Outside]) ex_topped_up"
proof (rule run_trans)
  show "run ex_machine ex_submitted [Invoke (ex_env {''payer''} 120) Cancel] ex_cancelled"
    by (rule ex_call_run [OF ex_cancelled_eq]) simp
  show "run ex_machine ex_cancelled [Outside] ex_topped_up"
    unfolding ex_topped_up_def
    by (rule run_single, rule step_outside) (simp add: ex_cancelled_def table_balance_def ex_balances_def)
qed

text \<open>
  C30. An escrow that has ended can still pay. In every reachable state with a submitted
  milestone, whatever the status of the escrow (cancelled, expired and completed included), the
  payer can approve it as soon as the contract, not paused, holds the amount again: the call
  succeeds and pays the fee and the rest out of tokens that are not the escrow's any more. The
  status stays what it is, unless this was the last milestone, which turns an escrow that was
  cancelled or expired into a completed one. (The token behaves as documented, the fee is at most one
  hundred percent and no amount leaves the range of \<^verbatim>\<open>i128\<close>.) The documentation calls the three statuses
  terminal; \<open>approve\<close> does not look at the status.
\<close>

theorem approve_ignores_status:
  assumes "fresh s0" and "run (escrow_step h amt bal self) s0 ls s"
    and "escrow_rec s = Some d" and "\<not> is_paused s"
    and "unat i < length (ed_milestones d)" and "ms_status (ed_milestones d ! unat i) = Submitted"
    and "ed_payer d \<in> ctx_auth env" and "ctx_self env = self"
    and "token_laws h bal (ed_token d)" and "token_serves h bal (ed_token d)"
    and "a = ms_amount (ed_milestones d ! unat i)" and "a \<le> bal (ledger s) (ed_token d) self"
    and "uint (fee_rate s) \<le> 10000" and "i128_range (a * uint (fee_rate s))"
    and "\<And>x. i128_range (bal (ledger s) (ed_token d) x + a)"
  shows "\<exists>s' d'. approve h env i s = (Done (), s') \<and> escrow_rec s' = Some d' \<and>
    ms_status (ed_milestones d' ! unat i) = Approved \<and>
    ed_status d' = (if all_approved (set_milestone (unat i) Approved d) then Completed else ed_status d) \<and>
    bal (ledger s') (ed_token d) =
      moved (fee_paid self (config_rec s) (fee_of (fee_rate s) a) (bal (ledger s) (ed_token d)))
        self (ed_freelancer d) (a - fee_of (fee_rate s) a)"
proof -
  have inv: "chain_inv s" by (rule reachable_inv(1) [OF assms(1,2)])
  then have "running s" using assms(4) by (simp add: chain_inv_def running_typed)
  from approve_covered [OF inv this assms(3,5-15)] obtain s' where s': "approve h env i s = (Done (), s')"
    "escrow_rec s' = Some (approved_record (unat i) d)" "bal (ledger s') (ed_token d) =
      moved (fee_paid self (config_rec s) (fee_of (fee_rate s) a) (bal (ledger s) (ed_token d)))
        self (ed_freelancer d) (a - fee_of (fee_rate s) a)" by blast
  moreover have "ed_status (approved_record (unat i) d) =
      (if all_approved (set_milestone (unat i) Approved d) then Completed else ed_status d)"
    by (simp add: approved_record_def Let_def)
  ultimately show ?thesis using assms(5) by (intro exI [of _ s'] exI [of _ "approved_record (unat i) d"]) simp
qed

theorem approve_ignores_status_witness:
  "\<exists>s' d'. approve table_host (ex_env {''payer''} 120) 0 ex_topped_up = (Done (), s') \<and>
     escrow_rec s' = Some d' \<and> ed_status d' = Cancelled \<and> table_balance (ledger s') ''tok'' ''free'' = 297"
proof -
  let ?d = "ex_record Submitted Pending Cancelled 0 0 0 100"
  have d: "ed_token ?d = ''tok''" "ed_payer ?d = ''payer''" "ed_freelancer ?d = ''free''"
    "ed_milestones ?d = ex_milestones Submitted Pending" "ed_status ?d = Cancelled"
    by (simp_all add: ex_record_def)
  have m: "ex_milestones Submitted Pending ! 0 = \<lparr>ms_description = ''design'', ms_amount = 300,
    ms_status = Submitted\<rparr>" "length (ex_milestones Submitted Pending) = 2"
    "\<not> all_approved (set_milestone 0 Approved ?d)"
    by (simp_all add: ex_milestones_def all_approved_def set_milestone_def ex_record_def)
  have s: "escrow_rec ex_topped_up = Some ?d" "\<not> is_paused ex_topped_up"
    "config_rec ex_topped_up = Some ex_config" "ledger ex_topped_up = ex_balances 9700 300 0 0"
    by (simp_all add: ex_topped_up_def ex_cancelled_def)
  have fee: "fee_rate ex_topped_up = 100" "fee_of 100 300 = 3"
    by (simp_all add: fee_rate_def s ex_config_def fee_of_nonneg)
  have "\<exists>s' d'. approve table_host (ex_env {''payer''} 120) 0 ex_topped_up = (Done (), s') \<and>
      escrow_rec s' = Some d' \<and> ms_status (ed_milestones d' ! unat (0 :: u32)) = Approved \<and>
      ed_status d' = (if all_approved (set_milestone (unat (0 :: u32)) Approved ?d) then Completed else ed_status ?d) \<and>
      table_balance (ledger s') (ed_token ?d) =
        moved (fee_paid ''escrow'' (config_rec ex_topped_up) (fee_of (fee_rate ex_topped_up) 300)
          (table_balance (ledger ex_topped_up) (ed_token ?d)))
          ''escrow'' (ed_freelancer ?d) (300 - fee_of (fee_rate ex_topped_up) 300)"
    by (rule approve_ignores_status [OF ex_start_fresh run_trans [OF ex_run_to_submitted ex_run_topped_up] s(1,2)])
      (simp_all add: d m fee s table_host_laws table_host_serves i128_range_def,
       auto simp: ex_balances_def table_balance_def)
  then show ?thesis
    by (auto simp: d m fee s fee_paid_def ex_config_def moved_def)
qed

section \<open>Recurring refunds\<close>

lemma refund_needs_cover:
  assumes "token_laws h bal (ed_token d)" and "escrow_rec s = Some d"
    and "\<forall>m \<in> set (ed_milestones d). 0 < ms_amount m"
    and "bal (ledger s) (ed_token d) (ctx_self env) < refund_of amt d"
  shows "fst (cancel h amt env s) \<noteq> Done ()" and "fst (expire h amt env s) \<noteq> Done ()"
proof -
  have no: "h_transfer h env (ed_token d) (ctx_self env) a (refund_of amt d) (ledger s) \<noteq> Some w" for a w
    using token_laws_transfer(2) [OF assms(1)] assms(4) by fastforce
  then have "cancel h amt env s \<noteq> (Done (), s')" "expire h amt env s \<noteq> (Done (), s')" for s'
    using assms(2) by (auto simp: cancel_Done expire_Done remaining_refund_Done [OF assms(3)])
  then show "fst (cancel h amt env s) \<noteq> Done ()" "fst (expire h amt env s) \<noteq> Done ()"
    by (metis prod.collapse)+
qed

text \<open>
  C29. The refund of a recurring escrow counts the releases twice. On every state that satisfies the
  invariant of the contract (so on every reachable one), whenever \<open>cancel\<close> or \<open>expire\<close> of a
  recurring escrow succeeds it takes the milestones not marked as approved \<^emph>\<open>plus\<close> the instalment for every release
  already made, where the documentation subtracts what was released. So both fail while the
  contract holds less than that; in particular after a release of a positive instalment, with no
  milestone approved, while it holds no more than the total of the escrow.
\<close>

theorem recurring_refund_blocked:
  assumes "chain_inv s" and "escrow_rec s = Some d" and "token_laws h bal (ed_token d)"
    and "0 < ed_recurrence_count d" and "self = ctx_self env"
    and "r = outstanding d + amt d * uint (ed_releases_made d)"
  shows "(\<forall>s'. cancel h amt env s = (Done (), s') \<or> expire h amt env s = (Done (), s') \<longrightarrow>
      r \<le> bal (ledger s) (ed_token d) self \<and>
      bal (ledger s') (ed_token d) = moved (bal (ledger s) (ed_token d)) self (ed_payer d) r) \<and>
    (0 < ed_releases_made d \<and> 0 < amt d \<and> approved_total (ed_milestones d) = 0 \<and>
        bal (ledger s) (ed_token d) self \<le> ed_total_amount d \<longrightarrow>
      fst (cancel h amt env s) \<noteq> Done () \<and> fst (expire h amt env s) \<noteq> Done ())"
proof -
  note wf = reachable_wf [OF assms(1,2)]
  have r: "refund_of amt d = r"
    using assms(4,6) outstanding_bounds(5) [OF wf(1)] by (simp add: refund_of_def)
  have pays: "r \<le> bal (ledger s) (ed_token d) self \<and>
      bal (ledger s') (ed_token d) = moved (bal (ledger s) (ed_token d)) self (ed_payer d) r"
    if "cancel h amt env s = (Done (), s') \<or> expire h amt env s = (Done (), s')" for s'
    using that assms(2,5) r token_laws_transfer(2,3) [OF assms(3)]
    by (auto simp: cancel_Done expire_Done remaining_refund_Done [OF wf(2)])
  have "fst (cancel h amt env s) \<noteq> Done () \<and> fst (expire h amt env s) \<noteq> Done ()"
    if "0 < ed_releases_made d" "0 < amt d" "approved_total (ed_milestones d) = 0"
      "bal (ledger s) (ed_token d) self \<le> ed_total_amount d"
  proof -
    have "0 < amt d * uint (ed_releases_made d)" using that(1,2) by (simp add: word_less_def)
    then have "bal (ledger s) (ed_token d) (ctx_self env) < refund_of amt d"
      using assms(4,5) that(3,4) by (simp add: refund_of_def)
    then show ?thesis using refund_needs_cover [OF assms(3,2) wf(2)] by blast
  qed
  with pays show ?thesis by blast
qed

theorem recurring_refund_blocked_witness:
  "fst (cancel table_host (\<lambda>_. 100) (ex_env {''payer''} 130) ex_released) \<noteq> Done ()"
proof -
  let ?d = "ex_record Pending Pending Active 10 5 1 120"
  have inv: "chain_inv ex_released"
    by (rule reachable_inv(1) [OF ex_start_fresh run_trans [OF ex_run_active ex_run_released]])
  have d: "escrow_rec ex_released = Some ?d" "0 < ed_recurrence_count ?d" "0 < ed_releases_made ?d"
    "approved_total (ed_milestones ?d) = 0" "ed_token ?d = ''tok''" "ed_total_amount ?d = 500"
    "ledger ex_released = ex_balances 9500 400 99 1"
    by (simp_all add: ex_released_def ex_record_def ex_milestones_def)
  show ?thesis
    using recurring_refund_blocked [OF inv d(1) table_host_laws d(2) refl refl, THEN conjunct2,
        of "\<lambda>_. 100" "ex_env {''payer''} 130"] d(3-7)
    by simp
qed

section \<open>Fees above one hundred percent\<close>

text \<open>
  C32. A fee above one hundred percent blocks every payment. \<open>init\<close> accepts any fee; under one
  that exceeds the amount of a submitted milestone, \<open>approve\<close> cannot succeed, since the rest for
  the freelancer is negative and the token refuses it; no entry point can lower the fee.
\<close>

theorem excessive_fee_blocks:
  assumes "escrow_rec s = Some d" and "token_laws h bal (ed_token d)"
    and "unat i < length (ed_milestones d)" and "a = ms_amount (ed_milestones d ! unat i)"
    and "0 \<le> a" and "a < fee_of (fee_rate s) a"
  shows "fst (approve h env i s) \<noteq> Done ()"
proof -
  have "approve h env i s \<noteq> (Done (), s')" for s'
  proof
    assume "approve h env i s = (Done (), s')"
    then obtain net fee s1 w where
      sf: "split_fee h env (ed_token d) a s = (Done (net, fee), s1)"
      and tr: "h_transfer h env (ed_token d) (ctx_self env) (ed_freelancer d) net (ledger s1) = Some w"
      using assms(1,4) by (auto simp: approve_Done)
    show False
      using split_fee_paid(1) [OF assms(2) sf assms(5)] token_laws_transfer(1) [OF assms(2) tr] assms(6)
      by linarith
  qed
  then show ?thesis by (metis prod.collapse)
qed

theorem excessive_fee_blocks_witness:
  "fst (approve table_host (ex_env {''payer''} 120) 0 ex_overcharged) \<noteq> Done ()"
proof -
  let ?d = "ex_record Submitted Pending Active 0 0 0 100"
  have d: "escrow_rec ex_overcharged = Some ?d" "fee_rate ex_overcharged = 20000"
    by (simp_all add: ex_overcharged_def ex_submitted_view fee_rate_def)
  have "ed_token ?d = ''tok''" by (simp add: ex_record_def)
  show ?thesis
    by (rule excessive_fee_blocks [OF d(1), of table_host table_balance _ 300])
      (simp_all add: table_host_laws d(2) fee_of_nonneg ex_record_def ex_milestones_def)
qed

section \<open>Milestones created as approved\<close>

text \<open>
  C31. Milestones created as approved lock their money. \<open>create\<close> stores the statuses of the
  milestones as given. While all milestones of an active one-off escrow are approved, no call of
  the contract takes its money out: there is nothing to approve, and the refund of \<open>cancel\<close> and
  \<open>expire\<close> is zero.
\<close>

theorem preapproved_money_locked:
  assumes "chain_inv s" and "escrow_rec s = Some d" and "all_approved d" and "plain_escrow d"
    and "token_laws h bal (ed_token d)" and "self = ctx_self env"
    and "exec_call h amt env c s = (Done (), s')"
  shows "bal (ledger s') (ed_token d) self = bal (ledger s) (ed_token d) self"
proof -
  note wf = reachable_wf [OF assms(1,2)]
  have "approved_total (ed_milestones d) = milestone_total (ed_milestones d)"
    using assms(3) by (simp add: all_approved_def approved_total_def milestone_total_def cong: map_cong)
  then have refund: "refund_of amt d = 0"
    using plain_refund(1) [OF wf(1) assms(4)] by (simp add: outstanding_def)
  have zero: "bal w (ed_token d) = bal (ledger s) (ed_token d)"
    if "h_transfer h env (ed_token d) (ctx_self env) a 0 (ledger s) = Some w" for a w
    using token_laws_transfer(3) [OF assms(5) that] by simp
  have typed: "store_typed s" using assms(1) by (simp add: chain_inv_def)
  show ?thesis
  proof (cases c)
    case (Approve i)
    then show ?thesis using assms(2,3,7)
      by (auto simp: approve_Done all_approved_def)
  next
    case (Create p f t ms dl yp yr iv rc)
    then show ?thesis using assms(2,7) store_typed_present(1) [OF typed] by (auto simp: create_Done)
  next
    case ReleaseRecurring
    then show ?thesis using assms(2,4,7) by (auto simp: release_recurring_Done plain_escrow_def)
  next
    case Cancel
    then show ?thesis using assms(2,6,7) refund
      by (auto simp: cancel_Done remaining_refund_Done [OF wf(2)] dest: zero)
  next
    case Expire
    then show ?thesis using assms(2,6,7) refund
      by (auto simp: expire_Done remaining_refund_Done [OF wf(2)] dest: zero)
  qed (use assms(7) in \<open>auto simp: escrow_Done\<close>)
qed

definition ex_locked :: "table escrow_chain" where
  "ex_locked = ex_state (Some (ex_record Approved Approved Active 0 0 0 100)) 518400 []
     (ex_balances 9500 500 0 0)"

lemma ex_locked_inv: "chain_inv ex_locked"
  by (simp add: chain_inv_def store_typed_def ex_locked_def escrow_wf_def ex_record_def
      ex_milestones_def i128_range_def)

lemma ex_locked_cancel:
  "ex_exec (ex_env {''payer''} 120) Cancel ex_locked = (Done (), ex_state
     (Some (ex_record Approved Approved Cancelled 0 0 0 100)) 518400
     [EscrowCancelled ''payer'' 0] (ex_balances 9500 500 0 0))"
  by (simp add: ex_eval ex_locked_def)

theorem preapproved_money_locked_witness:
  "\<exists>s'. ex_exec (ex_env {''payer''} 120) Cancel ex_locked = (Done (), s') \<and>
     table_balance (ledger s') ''tok'' ''escrow'' = 500"
proof -
  let ?d = "ex_record Approved Approved Active 0 0 0 100"
  have d: "escrow_rec ex_locked = Some ?d" "ed_token ?d = ''tok''"
    "all_approved ?d" "plain_escrow ?d"
    by (simp_all add: ex_locked_def ex_record_def all_approved_def plain_escrow_def ex_milestones_def)
  from ex_locked_cancel obtain s' where e: "ex_exec (ex_env {''payer''} 120) Cancel ex_locked = (Done (), s')"
    by blast
  have "table_balance (ledger s') (ed_token ?d) ''escrow'' = table_balance (ledger ex_locked) (ed_token ?d) ''escrow''"
    by (rule preapproved_money_locked [OF ex_locked_inv d(1,3,4) table_host_laws _ e]) simp
  with e show ?thesis by (auto simp: d(2) ex_locked_def)
qed

section \<open>Yield\<close>

lemma host_unused [simp]:
  "token_transfer (h\<lparr>h_withdraw := f\<rparr>) = token_transfer h"
  "yield_deposit (h\<lparr>h_withdraw := f\<rparr>) = yield_deposit h"
  "extend_ttl (h\<lparr>h_withdraw := f\<rparr>) = extend_ttl h"
  by (simp_all add: fun_eq_iff token_transfer_def yield_deposit_def extend_ttl_def
      instance_extend_ttl_def)

text \<open>
  C34. Deposits are never withdrawn. No entry point calls \<^verbatim>\<open>withdraw\<close> of the yield protocol: every
  entry point behaves the same whatever that function does, so the payments and refunds of an
  escrow with a yield protocol come out of the contract's own balance alone.
\<close>

theorem yield_never_withdrawn:
  "exec_call (h\<lparr>h_withdraw := f\<rparr>) amt env c s = exec_call h amt env c s"
  by (cases c)
    (simp_all add: init_def pause_def unpause_def create_def submit_work_def approve_def
      release_recurring_def cancel_def expire_def transfer_freelancer_def transfer_payer_def
      extend_deadline_def split_fee_def cong: if_cong option.case_cong)

section \<open>The allow-list and the rate limiter\<close>

text \<open>
  The allow-list cannot be reached. In no history of a contract does \<open>create\<close> refuse a token:
  no entry point writes the allow-list, so it stays empty.
\<close>

lemma token_never_refused:
  assumes "fresh s0" and "run (escrow_step h amt bal self) s0 ls s"
  shows "allowed_tokens s = [] \<and>
    create h env p f t ms dl yp yr iv rc s \<noteq> (Err TokenNotAllowed, s')"
proof -
  have "inst_store s (allow_list_key_raw AllowTokens) = None"
    using reachable_inv(1) [OF assms] by (simp add: chain_inv_def)
  then have "allowed_tokens s = []" by (simp add: allowed_tokens_def)
  then show ?thesis using create_Err by fastforce
qed

text \<open>
  C35. The allow-list helpers keep a set. Adding a token puts it at the end unless it is there,
  removing one takes out every copy; the results say whether the list changed, and \<open>create\<close> then
  refuses exactly the tokens that are not listed (while any is).
\<close>

theorem allow_list_helpers:
  assumes "tokens_readable s"
  shows "(\<exists>b s'. add_to_allowlist t s = (Done b, s') \<and> (b \<longleftrightarrow> t \<notin> set (allowed_tokens s)) \<and>
      set (allowed_tokens s') = insert t (set (allowed_tokens s)) \<and>
      (distinct (allowed_tokens s) \<longrightarrow> distinct (allowed_tokens s')) \<and>
      (u \<notin> insert t (set (allowed_tokens s)) \<longrightarrow>
        fst (create h env p f u ms dl yp yr iv rc s') \<noteq> Done ())) \<and>
    (\<exists>b s'. remove_from_allowlist t s = (Done b, s') \<and> (b \<longleftrightarrow> t \<in> set (allowed_tokens s)) \<and>
      set (allowed_tokens s') = set (allowed_tokens s) - {t} \<and> t \<notin> set (allowed_tokens s'))"
proof (rule conjI)
  let ?b = "t \<notin> set (allowed_tokens s)"
  let ?s = "if ?b then store_put (allow_list_key_raw AllowTokens) (VTokens (allowed_tokens s @ [t])) s else s"
  have add: "add_to_allowlist t s = (Done ?b, ?s)"
    unfolding add_to_allowlist_Done using assms by simp
  have tokens: "set (allowed_tokens ?s) = insert t (set (allowed_tokens s))" by auto
  have "create h env p f u ms dl yp yr iv rc ?s \<noteq> (Done (), s')"
    if "u \<notin> insert t (set (allowed_tokens s))" for s'
    unfolding create_Done using that tokens by auto
  then have "u \<notin> insert t (set (allowed_tokens s)) \<longrightarrow>
      fst (create h env p f u ms dl yp yr iv rc ?s) \<noteq> Done ()"
    by (metis prod.collapse)
  with add tokens show "\<exists>b s'. add_to_allowlist t s = (Done b, s') \<and> (b \<longleftrightarrow> t \<notin> set (allowed_tokens s)) \<and>
      set (allowed_tokens s') = insert t (set (allowed_tokens s)) \<and>
      (distinct (allowed_tokens s) \<longrightarrow> distinct (allowed_tokens s')) \<and>
      (u \<notin> insert t (set (allowed_tokens s)) \<longrightarrow>
        fst (create h env p f u ms dl yp yr iv rc s') \<noteq> Done ())"
    by (intro exI [of _ ?b] exI [of _ ?s] conjI) auto
  show "\<exists>b s'. remove_from_allowlist t s = (Done b, s') \<and> (b \<longleftrightarrow> t \<in> set (allowed_tokens s)) \<and>
      set (allowed_tokens s') = set (allowed_tokens s) - {t} \<and> t \<notin> set (allowed_tokens s')"
    unfolding remove_from_allowlist_Done using assms by auto
qed

theorem allow_list_helpers_witness:
  "\<exists>s'. add_to_allowlist ''tok'' ex_submitted = (Done True, s') \<and>
     set (allowed_tokens s') = {''tok''}"
proof -
  have t: "tokens_readable ex_submitted" "allowed_tokens ex_submitted = []"
    by (simp_all add: ex_submitted_def)
  from allow_list_helpers [THEN conjunct1, OF t(1), of "''tok''" "''other''" table_host "ex_env {} 0" "''payer''"
      "''free''" "[]" None None Payer 0 0]
  obtain b s' where "add_to_allowlist ''tok'' ex_submitted = (Done b, s')"
    and "b \<longleftrightarrow> ''tok'' \<notin> set (allowed_tokens ex_submitted)"
    and "set (allowed_tokens s') = insert ''tok'' (set (allowed_tokens ex_submitted))"
    by blast
  then show ?thesis by (simp add: t(2))
qed

text \<open>
  C28. The bound of the rate limiter. However the calls of a payer are spread over time, no stretch
  of time as long as the window sees more than twice the configured number of them accepted. The
  instance shows that the configured number itself is no bound.
\<close>

theorem rate_limit_bound:
  assumes "sorted_wrt (\<le>) (map ctx_now envs)" and "stats_at s a = None"
    and "\<forall>env \<in> set envs. uint (ctx_now env) + uint (rl_window_duration cfg) < 2 ^ 64"
  shows "length (filter (in_stretch t (rl_window_duration cfg)) (rate_attempts cfg a envs s))
    \<le> 2 * unat (rl_max_per_window cfg)"
proof (cases envs)
  case Nil
  then show ?thesis by simp
next
  case (Cons env es)
  then have "sorted_wrt (\<le>) (ctx_now env # map ctx_now envs)" using assms(1) by auto
  from rate_attempts_budget [OF this assms(3), of s a t] stretch_budget_max
  show ?thesis using assms(2) by (force simp: window_started_def intro: le_trans)
qed

definition ex_limit :: rate_limit_config where
  "ex_limit = \<lparr>rl_admin = ''admin'', rl_max_per_window = 2, rl_window_duration = 10,
     rl_min_amount = 0, rl_max_amount = 0\<rparr>"

theorem rate_limit_bound_witness:
  "length (filter (in_stretch 105 10)
     (rate_attempts ex_limit ''payer'' (map (ex_env {}) [100, 109, 110, 111]) ex_submitted)) \<le> 4 \<and>
   filter (in_stretch 105 10)
     (rate_attempts ex_limit ''payer'' (map (ex_env {}) [100, 109, 110, 111]) ex_submitted) = [109, 110, 111]"
proof
  have "length (filter (in_stretch 105 (rl_window_duration ex_limit))
      (rate_attempts ex_limit ''payer'' (map (ex_env {}) [100, 109, 110, 111]) ex_submitted))
    \<le> 2 * unat (rl_max_per_window ex_limit)"
    by (rule rate_limit_bound)
      (simp_all add: ex_limit_def ex_submitted_def stats_at_def ex_state_def word_le_def)
  then show "length (filter (in_stretch 105 10)
     (rate_attempts ex_limit ''payer'' (map (ex_env {}) [100, 109, 110, 111]) ex_submitted)) \<le> 4"
    by (simp add: ex_limit_def)
  show "filter (in_stretch 105 10)
     (rate_attempts ex_limit ''payer'' (map (ex_env {}) [100, 109, 110, 111]) ex_submitted) = [109, 110, 111]"
    by (simp add: transact_def check_rate_alt current_window_def saturating_add_def run_simps
        read_payer_stats_def ex_limit_def ex_submitted_def ex_state_def in_stretch_def word_le_def
        Let_def)
qed

text \<open>
  C33. One key for two configurations. The rate limiter's configuration is stored under the key of
  the protocol configuration. After \<open>write_config\<close> no entry point that changes the state works any
  more: \<open>init\<close> reports that the configuration exists and all the others panic, so the administrator
  can neither pause nor unpause the contract. The two queries, which read the escrow alone, still answer.
\<close>

theorem write_config_bricks:
  assumes "write_config rc s = (Done u, s')"
  shows "((pausable c \<or> c = Pause \<or> c = Unpause) \<longrightarrow>
      exec_call h amt env c s' = (Trap BadConversion, s')) \<and>
    init h env a b f s' = (Err AlreadyExists, s') \<and>
    (escrow_rec s = Some d \<longrightarrow> get_escrow s' = (Done d, s') \<and> get_status s' = (Done (ed_status d), s'))"
proof (intro conjI impI)
  note stop = write_config_traps [OF assms]
  have "thenS assert_not_paused m s' = (Trap BadConversion, s')"
    and "bindS load_config k s' = (Trap BadConversion, s')" for m k
    by (simp_all add: thenS_def bindS_def stop)
  then show "exec_call h amt env c s' = (Trap BadConversion, s')" if "pausable c \<or> c = Pause \<or> c = Unpause"
    using that by (cases c) (simp_all add: pause_def unpause_def create_def submit_work_def approve_def
        release_recurring_def cancel_def expire_def transfer_freelancer_def transfer_payer_def
        extend_deadline_def)
  have s': "s' = store_put (rate_key_raw RateConfig) (VRateConfig rc) s"
    using assms by (simp add: write_config_def act_simps)
  show "init h env a b f s' = (Err AlreadyExists, s')"
    unfolding init_Err s' by (simp add: rate_key_raw.simps data_key_raw.simps)
  have "escrow_rec s' = escrow_rec s"
    unfolding s' by (simp add: escrow_rec_def escrow_at_def rate_key_raw.simps data_key_raw.simps)
  then show "get_escrow s' = (Done d, s')" "get_status s' = (Done (ed_status d), s')" if "escrow_rec s = Some d"
    using queries_answer that by auto
qed

theorem write_config_bricks_witness:
  "\<exists>s'. write_config ex_limit ex_submitted = ((Done (), s') :: (unit, unit) outcome \<times> _) \<and>
     exec_call table_host (\<lambda>_. 100) (ex_env {''admin''} 0) Unpause s' = (Trap BadConversion, s')"
proof -
  obtain s' where s': "write_config ex_limit ex_submitted = ((Done (), s') :: (unit, unit) outcome \<times> _)"
    by (simp add: write_config_def store_set_def modify_def)
  from s' write_config_bricks [OF s', of Unpause, THEN conjunct1] show ?thesis by blast
qed

end
