(* ===== verification/Factory.thy ===== *)
theory Factory
  imports Soroban
begin

text \<open>
  \<^verbatim>\<open>contracts/factory/src/lib.rs\<close>: the factory contract, which keeps many single-milestone
  escrows under numeric ids, with an index of ids per payer and per freelancer. First the code,
  then what each function does when it succeeds and the errors it returns.
\<close>

section \<open>Data\<close>

datatype factory_status = FActive | FWorkSubmitted | FCompleted | FCancelled

record factory_record =
  fr_id :: u64
  fr_payer :: address
  fr_freelancer :: address
  fr_token :: address
  fr_amount :: i128
  fr_milestone :: string
  fr_status :: factory_status

datatype factory_key =
    NextId
  | EscrowId u64
  | PayerIndex address
  | FreelancerIndex address

datatype factory_error = NotFound | FNotActive | FWorkNotSubmitted | FInvalidAmount | FUnauthorized

fun factory_error_code :: "factory_error \<Rightarrow> u32" where
  "factory_error_code NotFound = 1"
| "factory_error_code FNotActive = 2"
| "factory_error_code FWorkNotSubmitted = 3"
| "factory_error_code FInvalidAmount = 4"
| "factory_error_code FUnauthorized = 5"

fun factory_key_raw :: "factory_key \<Rightarrow> raw_key" where
  "factory_key_raw NextId = RawKey ''NextId'' []"
| "factory_key_raw (EscrowId i) = RawKey ''Escrow'' [ArgU64 i]"
| "factory_key_raw (PayerIndex a) = RawKey ''PayerIndex'' [ArgAddress a]"
| "factory_key_raw (FreelancerIndex a) = RawKey ''FreelancerIndex'' [ArgAddress a]"

datatype factory_val = FVId u64 | FVRecord factory_record | FVIds "u64 list"

fun as_id :: "factory_val \<Rightarrow> u64 option" where
  "as_id (FVId i) = Some i"
| "as_id _ = None"

fun as_record :: "factory_val \<Rightarrow> factory_record option" where
  "as_record (FVRecord r) = Some r"
| "as_record _ = None"

fun as_ids :: "factory_val \<Rightarrow> u64 list option" where
  "as_ids (FVIds ids) = Some ids"
| "as_ids _ = None"

datatype factory_event =
    FEscrowCreated u64 address address i128
  | FPaymentReleased u64 address i128
  | FEscrowCancelled u64 address i128

type_synonym 'w factory_chain = "(factory_val, factory_event, 'w) chain"

section \<open>Storage helpers and events\<close>

definition next_id :: "('w factory_chain, factory_error, u64) act" where
  "next_id =
     bindS (store_get (factory_key_raw NextId) as_id) (\<lambda>found.
     let i = (case found of None \<Rightarrow> 0 | Some i \<Rightarrow> i) in
     bindS (word_add i 1) (\<lambda>succ.
     thenS (store_set (factory_key_raw NextId) (FVId succ)) (ret i)))"

definition factory_save_escrow :: "factory_record \<Rightarrow> ('w factory_chain, factory_error, unit) act" where
  "factory_save_escrow r = store_set (factory_key_raw (EscrowId (fr_id r))) (FVRecord r)"

definition factory_load_escrow :: "u64 \<Rightarrow> ('w factory_chain, factory_error, factory_record) act" where
  "factory_load_escrow i =
     bindS (store_get (factory_key_raw (EscrowId i)) as_record) (ok_or NotFound)"

definition append_to_index :: "factory_key \<Rightarrow> u64 \<Rightarrow> ('w factory_chain, factory_error, unit) act" where
  "append_to_index k i =
     bindS (store_get (factory_key_raw k) as_ids) (\<lambda>found.
     let ids = (case found of None \<Rightarrow> [] | Some ids \<Rightarrow> ids) in
     store_set (factory_key_raw k) (FVIds (ids @ [i])))"

definition get_index :: "factory_key \<Rightarrow> ('w factory_chain, factory_error, u64 list) act" where
  "get_index k =
     bindS (store_get (factory_key_raw k) as_ids)
       (\<lambda>found. ret (case found of None \<Rightarrow> [] | Some ids \<Rightarrow> ids))"

definition emit_created ::
  "u64 \<Rightarrow> address \<Rightarrow> address \<Rightarrow> i128 \<Rightarrow> ('w factory_chain, factory_error, unit) act" where
  [op_defs]: "emit_created i payer freelancer amount =
     publish (FEscrowCreated i payer freelancer amount)"

definition emit_released :: "u64 \<Rightarrow> address \<Rightarrow> i128 \<Rightarrow> ('w factory_chain, factory_error, unit) act" where
  [op_defs]: "emit_released i freelancer amount = publish (FPaymentReleased i freelancer amount)"

definition emit_cancelled :: "u64 \<Rightarrow> address \<Rightarrow> i128 \<Rightarrow> ('w factory_chain, factory_error, unit) act" where
  [op_defs]: "emit_cancelled i payer amount = publish (FEscrowCancelled i payer amount)"

section \<open>Entry points\<close>

definition create_escrow ::
  "'w host \<Rightarrow> ctx \<Rightarrow> address \<Rightarrow> address \<Rightarrow> address \<Rightarrow> i128 \<Rightarrow> string \<Rightarrow>
   ('w factory_chain, factory_error, u64) act" where
  "create_escrow h env payer freelancer token amount milestone =
     thenS (fail_if (amount \<le> 0) FInvalidAmount)
     (thenS (require_auth env payer)
     (thenS (token_transfer h env token payer (ctx_self env) amount)
     (bindS next_id (\<lambda>i.
      let r = \<lparr>fr_id = i, fr_payer = payer, fr_freelancer = freelancer, fr_token = token,
            fr_amount = amount, fr_milestone = milestone, fr_status = FActive\<rparr> in
      thenS (factory_save_escrow r)
     (thenS (append_to_index (PayerIndex payer) i)
     (thenS (append_to_index (FreelancerIndex freelancer) i)
     (thenS (emit_created i payer freelancer amount)
     (ret i))))))))"

definition factory_submit_work ::
  "ctx \<Rightarrow> u64 \<Rightarrow> ('w factory_chain, factory_error, unit) act" where
  "factory_submit_work env i =
     bindS (factory_load_escrow i) (\<lambda>r.
     thenS (fail_if (fr_status r \<noteq> FActive) FNotActive)
     (thenS (require_auth env (fr_freelancer r))
     (factory_save_escrow (r\<lparr>fr_status := FWorkSubmitted\<rparr>))))"

definition factory_approve ::
  "'w host \<Rightarrow> ctx \<Rightarrow> u64 \<Rightarrow> ('w factory_chain, factory_error, unit) act" where
  "factory_approve h env i =
     bindS (factory_load_escrow i) (\<lambda>r.
     thenS (fail_if (fr_status r \<noteq> FWorkSubmitted) FWorkNotSubmitted)
     (thenS (require_auth env (fr_payer r))
     (thenS (token_transfer h env (fr_token r) (ctx_self env) (fr_freelancer r) (fr_amount r))
     (thenS (emit_released i (fr_freelancer r) (fr_amount r))
     (factory_save_escrow (r\<lparr>fr_status := FCompleted\<rparr>))))))"

definition factory_cancel ::
  "'w host \<Rightarrow> ctx \<Rightarrow> u64 \<Rightarrow> ('w factory_chain, factory_error, unit) act" where
  "factory_cancel h env i =
     bindS (factory_load_escrow i) (\<lambda>r.
     thenS (fail_if (fr_status r \<noteq> FActive) FNotActive)
     (thenS (require_auth env (fr_payer r))
     (thenS (token_transfer h env (fr_token r) (ctx_self env) (fr_payer r) (fr_amount r))
     (thenS (emit_cancelled i (fr_payer r) (fr_amount r))
     (factory_save_escrow (r\<lparr>fr_status := FCancelled\<rparr>))))))"

definition factory_get_escrow :: "u64 \<Rightarrow> ('w factory_chain, factory_error, factory_record) act" where
  "factory_get_escrow i = factory_load_escrow i"

definition list_by_payer :: "address \<Rightarrow> ('w factory_chain, factory_error, u64 list) act" where
  "list_by_payer payer = get_index (PayerIndex payer)"

definition list_by_freelancer :: "address \<Rightarrow> ('w factory_chain, factory_error, u64 list) act" where
  "list_by_freelancer freelancer = get_index (FreelancerIndex freelancer)"

datatype factory_call =
    FCreate address address address i128 string
  | FSubmit u64
  | FApprove u64
  | FCancel u64

fun exec_factory ::
  "'w host \<Rightarrow> ctx \<Rightarrow> factory_call \<Rightarrow> ('w factory_chain, factory_error, u64 option) act" where
  "exec_factory h env (FCreate p f t n m) = bindS (create_escrow h env p f t n m) (\<lambda>i. ret (Some i))"
| "exec_factory h env (FSubmit i) = thenS (factory_submit_work env i) (ret None)"
| "exec_factory h env (FApprove i) = thenS (factory_approve h env i) (ret None)"
| "exec_factory h env (FCancel i) = thenS (factory_cancel h env i) (ret None)"

section \<open>Views\<close>

definition factory_rec :: "(factory_val, 'ev, 'w) chain \<Rightarrow> u64 \<Rightarrow> factory_record option" where
  "factory_rec s i = Option.bind (inst_store s (factory_key_raw (EscrowId i))) as_record"

definition factory_next :: "(factory_val, 'ev, 'w) chain \<Rightarrow> u64" where
  "factory_next s = (case Option.bind (inst_store s (factory_key_raw NextId)) as_id of
     None \<Rightarrow> 0 | Some i \<Rightarrow> i)"

definition factory_index :: "(factory_val, 'ev, 'w) chain \<Rightarrow> factory_key \<Rightarrow> u64 list" where
  "factory_index s k = (case Option.bind (inst_store s (factory_key_raw k)) as_ids of
     None \<Rightarrow> [] | Some ids \<Rightarrow> ids)"

fun is_index :: "factory_key \<Rightarrow> bool" where
  "is_index (PayerIndex _) = True"
| "is_index (FreelancerIndex _) = True"
| "is_index _ = False"

text \<open>Every key holds a value of the type the code reads it at.\<close>

definition factory_typed :: "(factory_val, 'ev, 'w) chain \<Rightarrow> bool" where
  "factory_typed s \<longleftrightarrow>
     (\<forall>v. inst_store s (factory_key_raw NextId) = Some v \<longrightarrow> as_id v \<noteq> None) \<and>
     (\<forall>i v. inst_store s (factory_key_raw (EscrowId i)) = Some v \<longrightarrow> as_record v \<noteq> None) \<and>
     (\<forall>k v. is_index k \<longrightarrow> inst_store s (factory_key_raw k) = Some v \<longrightarrow> as_ids v \<noteq> None)"

declare factory_key_raw.simps [simp del]

lemma factory_key_raw_eq [simp]: "factory_key_raw a = factory_key_raw b \<longleftrightarrow> a = b"
  by (cases a; cases b) (simp_all add: factory_key_raw.simps)

interpretation factory_records: keyed_store
    factory_rec "\<lambda>i r. store_put (factory_key_raw (EscrowId i)) (FVRecord r)"
  by unfold_locales (simp_all add: factory_rec_def)

lemma factory_views_put [simp]:
  "factory_rec (store_put (factory_key_raw (EscrowId i)) (FVRecord r) s) = (factory_rec s)(i \<mapsto> r)"
  "factory_next (store_put (factory_key_raw (EscrowId i)) v s) = factory_next s"
  "is_index k \<Longrightarrow> factory_index (store_put (factory_key_raw (EscrowId i)) v s) k = factory_index s k"
  "factory_rec (store_put (factory_key_raw NextId) v s) = factory_rec s"
  "factory_next (store_put (factory_key_raw NextId) (FVId n) s) = n"
  "is_index k \<Longrightarrow> factory_index (store_put (factory_key_raw NextId) v s) k = factory_index s k"
  "is_index k \<Longrightarrow> factory_rec (store_put (factory_key_raw k) v s) = factory_rec s"
  "is_index k \<Longrightarrow> factory_next (store_put (factory_key_raw k) v s) = factory_next s"
  "factory_index (store_put (factory_key_raw k) (FVIds ids) s) = (factory_index s)(k := ids)"
  by (cases k; auto simp: factory_rec_def factory_next_def factory_index_def fun_eq_iff)+

lemma factory_views_frame [simp]:
  "factory_rec (s\<lparr>ledger := w\<rparr>) = factory_rec s" "factory_next (s\<lparr>ledger := w\<rparr>) = factory_next s"
  "factory_index (s\<lparr>ledger := w\<rparr>) = factory_index s" "factory_typed (s\<lparr>ledger := w\<rparr>) = factory_typed s"
  "factory_rec (s\<lparr>ev_log := l\<rparr>) = factory_rec s" "factory_next (s\<lparr>ev_log := l\<rparr>) = factory_next s"
  "factory_index (s\<lparr>ev_log := l\<rparr>) = factory_index s" "factory_typed (s\<lparr>ev_log := l\<rparr>) = factory_typed s"
  "factory_rec (s\<lparr>inst_ttl := x\<rparr>) = factory_rec s" "factory_next (s\<lparr>inst_ttl := x\<rparr>) = factory_next s"
  "factory_index (s\<lparr>inst_ttl := x\<rparr>) = factory_index s" "factory_typed (s\<lparr>inst_ttl := x\<rparr>) = factory_typed s"
  by (simp_all add: factory_rec_def factory_next_def factory_index_def factory_typed_def fun_eq_iff)

lemma factory_typed_put [simp]:
  "factory_typed s \<Longrightarrow> factory_typed (store_put (factory_key_raw (EscrowId i)) (FVRecord r) s)"
  "factory_typed s \<Longrightarrow> factory_typed (store_put (factory_key_raw NextId) (FVId n) s)"
  "factory_typed s \<Longrightarrow> is_index k \<Longrightarrow> factory_typed (store_put (factory_key_raw k) (FVIds ids) s)"
  by (cases k; auto simp: factory_typed_def)+

section \<open>What the functions do\<close>

lemma factory_load_Done [act_simps]:
  "factory_load_escrow i s = (Done r, s') \<longleftrightarrow> s' = s \<and> factory_rec s i = Some r"
  by (auto simp: factory_load_escrow_def factory_rec_def act_simps split: option.splits)

lemma factory_load_Err [act_simps]:
  "factory_load_escrow i s = (Err e, s') \<longleftrightarrow>
     s' = s \<and> e = NotFound \<and> inst_store s (factory_key_raw (EscrowId i)) = None"
  by (auto simp: factory_load_escrow_def act_simps split: option.splits)

lemma factory_save_eq [act_simps]:
  "factory_save_escrow r s = (x, s') \<longleftrightarrow>
     x = Done () \<and> s' = store_put (factory_key_raw (EscrowId (fr_id r))) (FVRecord r) s"
  by (simp add: factory_save_escrow_def act_simps)

lemma next_id_Done:
  assumes "factory_typed s"
  shows "next_id s = (Done i, s') \<longleftrightarrow> i = factory_next s \<and> uint i + 1 < 2 ^ 64 \<and>
    s' = store_put (factory_key_raw NextId) (FVId (i + 1)) s"
  using assms
  by (cases "inst_store s (factory_key_raw NextId)")
    (auto simp: next_id_def factory_next_def factory_typed_def Let_def act_simps)

lemma append_to_index_eq:
  assumes "factory_typed s" and "is_index k"
  shows "append_to_index k i s =
    (Done (), store_put (factory_key_raw k) (FVIds (factory_index s k @ [i])) s)"
  using assms
  by (cases "inst_store s (factory_key_raw k)")
    (auto simp: append_to_index_def factory_index_def factory_typed_def Let_def act_simps)

lemma get_index_eq:
  assumes "factory_typed s" and "is_index k"
  shows "get_index k s = (Done (factory_index s k), s)"
  using assms
  by (cases "inst_store s (factory_key_raw k)")
    (auto simp: get_index_def factory_index_def factory_typed_def act_simps)

text \<open>The record \<open>create_escrow\<close> stores, and the state it leaves.\<close>

definition new_record ::
  "u64 \<Rightarrow> address \<Rightarrow> address \<Rightarrow> address \<Rightarrow> i128 \<Rightarrow> string \<Rightarrow> factory_record" where
  "new_record i p f t n m = \<lparr>fr_id = i, fr_payer = p, fr_freelancer = f, fr_token = t,
     fr_amount = n, fr_milestone = m, fr_status = FActive\<rparr>"

lemma create_escrow_Done:
  assumes "factory_typed s" and "create_escrow h env p f t n m s = (Done i, s')"
  shows "0 < n" and "p \<in> ctx_auth env" and "i = factory_next s" and "uint i + 1 < 2 ^ 64"
    and "h_transfer h env t p (ctx_self env) n (ledger s) = Some (ledger s')"
    and "factory_rec s' = (factory_rec s)(i \<mapsto> new_record i p f t n m)"
    and "factory_next s' = i + 1"
    and "is_index k \<Longrightarrow> factory_index s' k =
      factory_index s k @ (if k = PayerIndex p \<or> k = FreelancerIndex f then [i] else [])"
    and "factory_typed s'" and "ev_log s' = ev_log s @ [FEscrowCreated i p f n]"
proof -
  from assms(2) obtain w where n: "0 < n" "p \<in> ctx_auth env"
    and w: "h_transfer h env t p (ctx_self env) n (ledger s) = Some w"
    and i: "i = factory_next s" "uint i + 1 < 2 ^ 64"
    and s': "s' = (store_put (factory_key_raw (FreelancerIndex f)) (FVIds (factory_index s (FreelancerIndex f) @ [i]))
       (store_put (factory_key_raw (PayerIndex p)) (FVIds (factory_index s (PayerIndex p) @ [i]))
       (store_put (factory_key_raw (EscrowId i)) (FVRecord (new_record i p f t n m))
       (store_put (factory_key_raw NextId) (FVId (i + 1)) (s\<lparr>ledger := w\<rparr>)))))
       \<lparr>ev_log := ev_log s @ [FEscrowCreated i p f n]\<rparr>"
    using assms(1)
    by (auto simp: create_escrow_def op_defs Let_def act_simps next_id_Done append_to_index_eq
        new_record_def)
  show "0 < n" "p \<in> ctx_auth env" "i = factory_next s" "uint i + 1 < 2 ^ 64" by (fact n i)+
  show "h_transfer h env t p (ctx_self env) n (ledger s) = Some (ledger s')" using w by (simp add: s')
  show "factory_rec s' = (factory_rec s)(i \<mapsto> new_record i p f t n m)" "factory_next s' = i + 1"
    "factory_typed s'" "ev_log s' = ev_log s @ [FEscrowCreated i p f n]"
    using assms(1) by (simp_all add: s')
  show "is_index k \<Longrightarrow> factory_index s' k =
      factory_index s k @ (if k = PayerIndex p \<or> k = FreelancerIndex f then [i] else [])"
    by (auto simp: s')
qed

lemma factory_submit_Done:
  "factory_submit_work env i s = (Done u, s') \<longleftrightarrow> (\<exists>r. factory_rec s i = Some r \<and>
     fr_status r = FActive \<and> fr_freelancer r \<in> ctx_auth env \<and>
     s' = store_put (factory_key_raw (EscrowId (fr_id r))) (FVRecord (r\<lparr>fr_status := FWorkSubmitted\<rparr>)) s)"
  by (auto simp: factory_submit_work_def act_simps)

lemma factory_approve_Done:
  "factory_approve h env i s = (Done u, s') \<longleftrightarrow> (\<exists>r w. factory_rec s i = Some r \<and>
     fr_status r = FWorkSubmitted \<and> fr_payer r \<in> ctx_auth env \<and>
     h_transfer h env (fr_token r) (ctx_self env) (fr_freelancer r) (fr_amount r) (ledger s) = Some w \<and>
     s' = store_put (factory_key_raw (EscrowId (fr_id r))) (FVRecord (r\<lparr>fr_status := FCompleted\<rparr>))
            (s\<lparr>ledger := w, ev_log := ev_log s @ [FPaymentReleased i (fr_freelancer r) (fr_amount r)]\<rparr>))"
  by (auto simp: factory_approve_def op_defs act_simps)

lemma factory_cancel_Done:
  "factory_cancel h env i s = (Done u, s') \<longleftrightarrow> (\<exists>r w. factory_rec s i = Some r \<and>
     fr_status r = FActive \<and> fr_payer r \<in> ctx_auth env \<and>
     h_transfer h env (fr_token r) (ctx_self env) (fr_payer r) (fr_amount r) (ledger s) = Some w \<and>
     s' = store_put (factory_key_raw (EscrowId (fr_id r))) (FVRecord (r\<lparr>fr_status := FCancelled\<rparr>))
            (s\<lparr>ledger := w, ev_log := ev_log s @ [FEscrowCancelled i (fr_payer r) (fr_amount r)]\<rparr>))"
  by (auto simp: factory_cancel_def op_defs act_simps)

text \<open>The errors of the calls on an id, with the state unchanged.\<close>

lemma factory_submit_Err:
  "factory_submit_work env i s = (Err e, s') \<longleftrightarrow> s' = s \<and>
    (inst_store s (factory_key_raw (EscrowId i)) = None \<and> e = NotFound \<or>
     (\<exists>r. factory_rec s i = Some r \<and> fr_status r \<noteq> FActive \<and> e = FNotActive))"
  by (auto simp: factory_submit_work_def act_simps)

lemma factory_approve_Err:
  "factory_approve h env i s = (Err e, s') \<longleftrightarrow> s' = s \<and>
    (inst_store s (factory_key_raw (EscrowId i)) = None \<and> e = NotFound \<or>
     (\<exists>r. factory_rec s i = Some r \<and> fr_status r \<noteq> FWorkSubmitted \<and> e = FWorkNotSubmitted))"
  by (auto simp: factory_approve_def op_defs act_simps)

lemma factory_cancel_Err:
  "factory_cancel h env i s = (Err e, s') \<longleftrightarrow> s' = s \<and>
    (inst_store s (factory_key_raw (EscrowId i)) = None \<and> e = NotFound \<or>
     (\<exists>r. factory_rec s i = Some r \<and> fr_status r \<noteq> FActive \<and> e = FNotActive))"
  by (auto simp: factory_cancel_def op_defs act_simps)

end
