(* ===== verification/Factory_System.thy ===== *)
theory Factory_System
  imports Factory
begin

text \<open>
  The factory as a reactive system, like the escrow contract. Its invariant says that exactly the
  ids below the counter have a record, each under its own id with a positive amount, and that
  the two indexes list, in ascending order, the ids of the payer and of the freelancer
  (\<open>factory_inv\<close>). The contract holds, for every token, what its open escrows are owed
  (\<open>factory_solvent\<close>); a record only changes its status, forward (\<open>factory_progress\<close>).
\<close>

section \<open>Steps\<close>

datatype factory_label = FInvoke ctx factory_call | FOutside

inductive factory_step ::
  "'w host \<Rightarrow> 'w balances \<Rightarrow> address \<Rightarrow> 'w factory_chain \<Rightarrow> factory_label \<Rightarrow> 'w factory_chain \<Rightarrow> bool"
  for h bal self where
  fstep_invoke: "factory_step h bal self s (FInvoke env c) s'"
    if "ctx_self env = self" and "self \<notin> ctx_auth env"
      and "transact (exec_factory h env c) s = (r, s')"
| fstep_outside: "factory_step h bal self s FOutside (s\<lparr>ledger := w, inst_ttl := x\<rparr>)"
    if "\<forall>t. bal (ledger s) t self \<le> bal w t self"

lemma factory_step_cases [consumes 1, case_names stay call outside]:
  assumes "factory_step h bal self s l s'"
    and "s' = s \<Longrightarrow> P"
    and "\<And>env c v. l = FInvoke env c \<Longrightarrow> ctx_self env = self \<Longrightarrow> self \<notin> ctx_auth env \<Longrightarrow>
           exec_factory h env c s = (Done v, s') \<Longrightarrow> P"
    and "\<And>w x. l = FOutside \<Longrightarrow> s' = s\<lparr>ledger := w, inst_ttl := x\<rparr> \<Longrightarrow>
           \<forall>t. bal (ledger s) t self \<le> bal w t self \<Longrightarrow> P"
  shows P
  using assms(1)
proof cases
  case (fstep_invoke env c r)
  show P
  proof (cases r)
    case (Done v)
    then show P using fstep_invoke assms(3) [of env c v] by (simp add: act_simps)
  qed (use fstep_invoke transact_failed assms(2) in fastforce)+
next
  case (fstep_outside w x)
  then show P using assms(4) by blast
qed

section \<open>Ids, records and indexes\<close>

text \<open>The ids handed out so far.\<close>

definition issued :: "u64 \<Rightarrow> u64 list" where
  "issued n = map of_nat [0..<unat n]"

lemma set_issued [simp]: "i \<in> set (issued n) \<longleftrightarrow> i < n"
proof
  assume "i \<in> set (issued n)"
  then obtain k where k: "i = of_nat k" "k < unat n" by (auto simp: issued_def)
  have "unat (of_nat k :: u64) \<le> k" by (simp add: unsigned_of_nat take_bit_nat_less_eq_self)
  then show "i < n" using k by (simp add: word_less_nat_alt)
next
  assume "i < n"
  then have "unat i < unat n" by (simp add: word_less_nat_alt)
  then show "i \<in> set (issued n)" unfolding issued_def by (force intro: image_eqI [of _ _ "unat i"])
qed

lemma issued_unat: "map unat (issued n) = [0..<unat n]"
proof -
  have "unat (of_nat k :: u64) = k" if "k < unat n" for k
  proof -
    have "unat n < 2 ^ 64" by (rule order.strict_trans2 [OF unsigned_less]) simp
    then have "k < 2 ^ 64" using that by simp
    then show ?thesis by (simp add: unsigned_of_nat take_bit_nat_eq_self)
  qed
  then show ?thesis by (auto simp: issued_def intro: map_idI)
qed

lemma distinct_issued [simp]: "distinct (issued n)"
  using issued_unat distinct_map by (metis distinct_upt)

lemma issued_step:
  assumes "uint n + 1 < 2 ^ 64"
  shows "issued (n + 1) = issued n @ [n]" and "n < n + 1" and "j < n + 1 \<longleftrightarrow> j < n \<or> j = n"
proof -
  have "uint (n + 1) = uint n + 1" using assms by (simp add: uint_add_exact)
  then have "int (unat (n + 1)) = int (unat n + 1)" by simp
  then have u: "unat (n + 1) = unat n + 1" by (simp only: of_nat_eq_iff)
  then show "issued (n + 1) = issued n @ [n]" by (simp add: issued_def)
  show "n < n + 1" using u by (simp add: word_less_nat_alt)
  show "j < n + 1 \<longleftrightarrow> j < n \<or> j = n"
    using u by (auto simp: word_less_nat_alt less_Suc_eq dest: word_unat_eq_iff [THEN iffD2])
qed

lemma issued_0 [simp]: "issued 0 = []"
  by (simp add: issued_def)

text \<open>The issued ids whose record satisfies \<open>P\<close>, in ascending order.\<close>

definition ids_where :: "(factory_record \<Rightarrow> bool) \<Rightarrow> (u64 \<Rightarrow> factory_record option) \<Rightarrow> u64 \<Rightarrow> u64 list" where
  "ids_where P recs n = filter (\<lambda>i. case recs i of None \<Rightarrow> False | Some r \<Rightarrow> P r) (issued n)"

definition factory_inv :: "'w factory_chain \<Rightarrow> bool" where
  "factory_inv s \<longleftrightarrow> factory_typed s \<and>
     (\<forall>i. factory_rec s i \<noteq> None \<longleftrightarrow> i < factory_next s) \<and>
     (\<forall>i r. factory_rec s i = Some r \<longrightarrow> fr_id r = i \<and> 0 < fr_amount r) \<and>
     (\<forall>p. factory_index s (PayerIndex p) =
        ids_where (\<lambda>r. fr_payer r = p) (factory_rec s) (factory_next s)) \<and>
     (\<forall>f. factory_index s (FreelancerIndex f) =
        ids_where (\<lambda>r. fr_freelancer r = f) (factory_rec s) (factory_next s))"

definition factory_fresh :: "'w factory_chain \<Rightarrow> bool" where
  "factory_fresh s \<longleftrightarrow> inst_store s = Map.empty"

lemma factory_fresh_views:
  assumes "factory_fresh s"
  shows "factory_rec s = Map.empty" and "factory_next s = 0" and "factory_index s k = []"
    and "factory_typed s"
  using assms
  by (simp_all add: factory_fresh_def factory_rec_def factory_next_def factory_index_def
      factory_typed_def fun_eq_iff)

lemma factory_fresh_inv: "factory_fresh s \<Longrightarrow> factory_inv s"
  by (simp add: factory_inv_def factory_fresh_views ids_where_def)

text \<open>Every call on an id changes one record, in its status only.\<close>

lemma ids_where_status:
  assumes "recs i = Some r" and "\<And>x. P (x\<lparr>fr_status := st\<rparr>) = P x"
  shows "ids_where P (recs(i \<mapsto> r\<lparr>fr_status := st\<rparr>)) n = ids_where P recs n"
  unfolding ids_where_def using assms by (intro filter_cong) auto

lemma ids_where_new:
  assumes "uint n + 1 < 2 ^ 64"
  shows "ids_where P (recs(n \<mapsto> r)) (n + 1) = ids_where P recs n @ (if P r then [n] else [])"
proof -
  have "filter (\<lambda>i. case (recs(n \<mapsto> r)) i of None \<Rightarrow> False | Some r \<Rightarrow> P r) (issued n) = ids_where P recs n"
    unfolding ids_where_def by (rule filter_cong) auto
  then show ?thesis by (simp add: ids_where_def issued_step [OF assms])
qed

definition status_change :: "'w factory_chain \<Rightarrow> u64 \<Rightarrow> factory_status \<Rightarrow> 'w factory_chain \<Rightarrow> bool" where
  "status_change s i st s' \<longleftrightarrow> (\<exists>r. factory_rec s i = Some r \<and>
     factory_rec s' = (factory_rec s)(i \<mapsto> r\<lparr>fr_status := st\<rparr>) \<and>
     factory_next s' = factory_next s \<and> (\<forall>k. is_index k \<longrightarrow> factory_index s' k = factory_index s k) \<and>
     (factory_typed s \<longrightarrow> factory_typed s'))"

lemma status_change_inv:
  assumes "factory_inv s" and "status_change s i st s'"
  shows "factory_inv s'"
proof -
  from assms(2) obtain r where r: "factory_rec s i = Some r"
    and recs: "factory_rec s' = (factory_rec s)(i \<mapsto> r\<lparr>fr_status := st\<rparr>)"
    and rest: "factory_next s' = factory_next s" "\<And>k. is_index k \<Longrightarrow> factory_index s' k = factory_index s k"
      "factory_typed s \<longrightarrow> factory_typed s'"
    by (auto simp: status_change_def)
  have "ids_where (\<lambda>r. fr_payer r = p) (factory_rec s') n = ids_where (\<lambda>r. fr_payer r = p) (factory_rec s) n"
    "ids_where (\<lambda>r. fr_freelancer r = p) (factory_rec s') n = ids_where (\<lambda>r. fr_freelancer r = p) (factory_rec s) n"
    for p n
    unfolding recs by (rule ids_where_status [where recs = "factory_rec s", OF r], simp)+
  then show ?thesis
    using assms(1) r rest by (auto simp: factory_inv_def recs)
qed

lemma factory_status_change:
  assumes "factory_inv s"
  shows "factory_submit_work env i s = (Done u, s') \<Longrightarrow> status_change s i FWorkSubmitted s'"
    and "factory_approve h env i s = (Done u, s') \<Longrightarrow> status_change s i FCompleted s'"
    and "factory_cancel h env i s = (Done u, s') \<Longrightarrow> status_change s i FCancelled s'"
  using assms
  by (auto simp: status_change_def factory_inv_def factory_submit_Done factory_approve_Done
      factory_cancel_Done)

lemma create_escrow_inv:
  assumes "factory_inv s" and "create_escrow h env p f t n m s = (Done i, s')"
  shows "factory_inv s'"
proof -
  have typed: "factory_typed s" using assms(1) by (simp add: factory_inv_def)
  note c = create_escrow_Done [OF typed assms(2)]
  have idx: "factory_index s' (PayerIndex q) = factory_index s (PayerIndex q) @ (if q = p then [i] else [])"
    "factory_index s' (FreelancerIndex q) =
       factory_index s (FreelancerIndex q) @ (if q = f then [i] else [])" for q
    using c(8) [of "PayerIndex q"] c(8) [of "FreelancerIndex q"] by auto
  note ids = ids_where_new [OF c(4) [unfolded c(3)]]
  have "j < factory_next s + 1 \<longleftrightarrow> j < factory_next s \<or> j = factory_next s" for j
    using issued_step(3) [OF c(4), of j] c(3) by simp
  then show ?thesis
    using assms(1) c(1,3,6,7,9)
    by (auto simp: factory_inv_def idx ids new_record_def)
qed

section \<open>History of the records\<close>

fun may_become :: "factory_status \<Rightarrow> factory_status \<Rightarrow> bool" where
  "may_become FActive _ = True"
| "may_become FWorkSubmitted st = (st = FWorkSubmitted \<or> st = FCompleted)"
| "may_become FCompleted st = (st = FCompleted)"
| "may_become FCancelled st = (st = FCancelled)"

lemma may_become_refl [simp]: "may_become a a"
  by (cases a) auto

lemma may_become_trans: "may_become a b \<Longrightarrow> may_become b c \<Longrightarrow> may_become a c"
  by (cases a; cases b; cases c) auto

definition factory_progress :: "'w factory_chain \<Rightarrow> 'w factory_chain \<Rightarrow> bool" where
  "factory_progress s s' \<longleftrightarrow> factory_next s \<le> factory_next s' \<and>
     (\<forall>i r. factory_rec s i = Some r \<longrightarrow> (\<exists>st. factory_rec s' i = Some (r\<lparr>fr_status := st\<rparr>) \<and>
        may_become (fr_status r) st))"

lemma factory_progress_refl: "factory_progress s s"
proof -
  have "\<exists>st. r = r\<lparr>fr_status := st\<rparr> \<and> may_become (fr_status r) st" for r :: factory_record
    by (rule exI [of _ "fr_status r"]) simp
  then show ?thesis by (auto simp: factory_progress_def)
qed

lemma factory_progress_trans:
  assumes "factory_progress a b" and "factory_progress b c"
  shows "factory_progress a c"
proof -
  have "\<exists>st. factory_rec c i = Some (r\<lparr>fr_status := st\<rparr>) \<and> may_become (fr_status r) st"
    if r: "factory_rec a i = Some r" for i r
  proof -
    from assms(1) r obtain st where b: "factory_rec b i = Some (r\<lparr>fr_status := st\<rparr>)"
      and st: "may_become (fr_status r) st"
      unfolding factory_progress_def by blast
    from assms(2) b obtain st' where "factory_rec c i = Some (r\<lparr>fr_status := st, fr_status := st'\<rparr>)"
      and "may_become (fr_status (r\<lparr>fr_status := st\<rparr>)) st'"
      unfolding factory_progress_def by blast
    then show ?thesis using may_become_trans [OF st] by auto
  qed
  then show ?thesis using assms by (auto simp: factory_progress_def)
qed

lemma status_change_progress:
  assumes "status_change s i st s'"
    and "\<And>r. factory_rec s i = Some r \<Longrightarrow> may_become (fr_status r) st"
  shows "factory_progress s s'"
proof -
  have "\<exists>st. factory_rec s' j = Some (x\<lparr>fr_status := st\<rparr>) \<and> may_become (fr_status x) st"
    if x: "factory_rec s j = Some x" for j x
  proof (cases "j = i")
    case True
    then show ?thesis using assms x by (auto simp: status_change_def)
  next
    case False
    then show ?thesis using assms(1) x
      by (auto simp: status_change_def intro: exI [of _ "fr_status x"])
  qed
  then show ?thesis using assms(1) by (auto simp: factory_progress_def status_change_def)
qed

lemma create_escrow_progress:
  assumes "factory_inv s" and "create_escrow h env p f t n m s = (Done i, s')"
  shows "factory_progress s s'"
proof -
  have typed: "factory_typed s" using assms(1) by (simp add: factory_inv_def)
  note c = create_escrow_Done [OF typed assms(2)]
  have "factory_rec s i = None" using assms(1) c(3) by (auto simp: factory_inv_def)
  then have "factory_rec s' j = Some r" if "factory_rec s j = Some r" for j r
    using c(6) that by auto
  moreover have "factory_next s \<le> factory_next s'" using issued_step(2) [OF c(4)] c(3,7) by simp
  ultimately show ?thesis
    using factory_progress_refl [of s] by (auto simp: factory_progress_def)
qed

lemma exec_factory_inv:
  assumes "factory_inv s" and "exec_factory h env c s = (Done v, s')"
  shows "factory_inv s'" and "factory_progress s s'"
proof -
  show "factory_inv s'"
  proof (cases c)
    case (FCreate p f t n m)
    then show ?thesis using assms create_escrow_inv by (auto simp: act_simps)
  qed (use assms(2) in \<open>auto simp: act_simps intro: status_change_inv [OF assms(1)]
        dest: factory_status_change [OF assms(1)]\<close>)
  note change = factory_status_change [OF assms(1)]
  show "factory_progress s s'"
  proof (cases c)
    case (FCreate p f t n m)
    then show ?thesis using assms create_escrow_progress by (auto simp: act_simps)
  next
    case (FSubmit i)
    then have call: "factory_submit_work env i s = (Done (), s')" using assms(2) by (auto simp: act_simps)
    then show ?thesis
      by (intro status_change_progress [OF change(1) [OF call]]) (auto simp: factory_submit_Done)
  next
    case (FApprove i)
    then have call: "factory_approve h env i s = (Done (), s')" using assms(2) by (auto simp: act_simps)
    then show ?thesis
      by (intro status_change_progress [OF change(2) [OF call]]) (auto simp: factory_approve_Done)
  next
    case (FCancel i)
    then have call: "factory_cancel h env i s = (Done (), s')" using assms(2) by (auto simp: act_simps)
    then show ?thesis
      by (intro status_change_progress [OF change(3) [OF call]]) (auto simp: factory_cancel_Done)
  qed
qed

lemma factory_inv_frame [simp]:
  "factory_inv (s\<lparr>ledger := w, inst_ttl := x\<rparr>) = factory_inv s"
  by (simp add: factory_inv_def)

lemma factory_step_inv:
  assumes "factory_step h bal self s l s'" and "factory_inv s"
  shows "factory_inv s'" and "factory_progress s s'"
proof -
  from assms(1) show "factory_inv s'"
    by (cases rule: factory_step_cases) (use assms(2) exec_factory_inv in auto)
  from assms(1) show "factory_progress s s'"
  proof (cases rule: factory_step_cases)
    case (outside w x)
    then show ?thesis using factory_progress_refl [of s] by (simp add: factory_progress_def)
  qed (use assms(2) exec_factory_inv factory_progress_refl in auto)
qed

interpretation factory_system: monotone_machine
    "factory_step h bal self" factory_inv factory_progress for h bal self
  by unfold_locales
    (blast intro: factory_step_inv factory_progress_refl factory_progress_trans)+

section \<open>Solvency\<close>

text \<open>What an escrow is owed in the token \<open>t\<close>, and the sum over all escrows.\<close>

definition owed :: "address \<Rightarrow> factory_record option \<Rightarrow> int" where
  "owed t x = (case x of None \<Rightarrow> 0 | Some r \<Rightarrow>
     if fr_token r = t \<and> (fr_status r = FActive \<or> fr_status r = FWorkSubmitted) then fr_amount r else 0)"

definition live_total :: "'w factory_chain \<Rightarrow> address \<Rightarrow> int" where
  "live_total s t = sum_list (map (\<lambda>i. owed t (factory_rec s i)) (issued (factory_next s)))"

text \<open>
  A call of another token contract cannot take tokens \<open>t\<close> from the account of the calling
  contract, which has authorised nothing there.
\<close>

definition token_kept :: "'w host \<Rightarrow> 'w balances \<Rightarrow> address \<Rightarrow> bool" where
  "token_kept h bal t \<longleftrightarrow> (\<forall>env t' src dst n w w'. t' \<noteq> t \<longrightarrow>
     h_transfer h env t' src dst n w = Some w' \<longrightarrow> bal w t (ctx_self env) \<le> bal w' t (ctx_self env))"

definition factory_solvent :: "'w host \<Rightarrow> 'w balances \<Rightarrow> address \<Rightarrow> 'w factory_chain \<Rightarrow> bool" where
  "factory_solvent h bal self s \<longleftrightarrow> (\<forall>t. token_laws h bal t \<longrightarrow> token_kept h bal t \<longrightarrow>
     live_total s t \<le> bal (ledger s) t self)"

lemma sum_list_map_change:
  fixes f g :: "'a \<Rightarrow> int"
  assumes "distinct xs" and "i \<in> set xs" and "\<And>j. j \<noteq> i \<Longrightarrow> g j = f j"
  shows "sum_list (map g xs) = sum_list (map f xs) - f i + g i"
proof -
  show ?thesis using assms(1,2)
  proof (induction xs)
    case (Cons x xs)
    show ?case
    proof (cases "x = i")
      case True
      then have "sum_list (map g xs) = sum_list (map f xs)"
        using Cons.prems True
        by (intro arg_cong [where f = sum_list] map_cong) (auto intro!: assms(3))
      then show ?thesis using True by simp
    next
      case False
      then show ?thesis using Cons assms(3) [of x] by simp
    qed
  qed simp
qed

lemma live_total_status:
  assumes "factory_inv s" and "factory_rec s i = Some r"
    and "factory_rec s' = (factory_rec s)(i \<mapsto> r\<lparr>fr_status := st\<rparr>)"
    and "factory_next s' = factory_next s"
  shows "live_total s' t = live_total s t - owed t (Some r) + owed t (Some (r\<lparr>fr_status := st\<rparr>))"
proof -
  have "i \<in> set (issued (factory_next s))" using assms(1,2) by (auto simp: factory_inv_def)
  from sum_list_map_change [OF distinct_issued this, of "\<lambda>j. owed t (factory_rec s' j)"
      "\<lambda>j. owed t (factory_rec s j)"]
  show ?thesis using assms(2-4) by (simp add: live_total_def)
qed

lemma live_total_new:
  assumes "factory_rec s' = (factory_rec s)(n \<mapsto> r)" and "n = factory_next s"
    and "factory_next s' = n + 1" and "uint n + 1 < 2 ^ 64"
  shows "live_total s' t = live_total s t + owed t (Some r)"
proof -
  have "sum_list (map (\<lambda>i. owed t (factory_rec s' i)) (issued n)) =
      sum_list (map (\<lambda>i. owed t (factory_rec s i)) (issued n))"
    using assms(1) by (intro arg_cong [where f = sum_list] map_cong) auto
  moreover have "factory_rec s' n = Some r" using assms(1) by simp
  moreover have "issued (factory_next s') = issued n @ [n]"
    using assms(3) issued_step(1) [OF assms(4)] by simp
  ultimately show ?thesis using assms(2) by (simp add: live_total_def)
qed

lemma owed_simps:
  "owed t (Some (r\<lparr>fr_status := FCompleted\<rparr>)) = 0" "owed t (Some (r\<lparr>fr_status := FCancelled\<rparr>)) = 0"
  "fr_status r = FActive \<Longrightarrow> owed t (Some (r\<lparr>fr_status := FWorkSubmitted\<rparr>)) = owed t (Some r)"
  "fr_status r = FActive \<or> fr_status r = FWorkSubmitted \<Longrightarrow>
     owed t (Some r) = (if fr_token r = t then fr_amount r else 0)"
  by (auto simp: owed_def)

text \<open>Paying an open escrow out costs the contract what the escrow was owed.\<close>

lemma payout_covered:
  assumes "token_laws h bal t" and "token_kept h bal t"
    and "fr_status r = FActive \<or> fr_status r = FWorkSubmitted"
    and "h_transfer h env (fr_token r) (ctx_self env) dst (fr_amount r) w = Some w'"
    and "tot \<le> bal w t (ctx_self env)"
  shows "tot - owed t (Some r) \<le> bal w' t (ctx_self env)"
proof (cases "fr_token r = t")
  case True
  then show ?thesis
    using token_laws_transfer(1,3) [OF assms(1), of env "ctx_self env" dst "fr_amount r" w w']
      moved_lower [of "fr_amount r" "bal w t" "ctx_self env" "ctx_self env" dst] assms(3-5)
    by (simp add: owed_simps)
next
  case False
  then have "bal w t (ctx_self env) \<le> bal w' t (ctx_self env)"
    using assms(2,4) unfolding token_kept_def by blast
  then show ?thesis using False assms(3,5) by (simp add: owed_simps)
qed

lemma create_escrow_solvent:
  assumes "factory_inv s" and "factory_solvent h bal (ctx_self env) s"
    and "create_escrow h env p f t n m s = (Done i, s')" and "ctx_self env \<notin> ctx_auth env"
  shows "factory_solvent h bal (ctx_self env) s'"
proof -
  have typed: "factory_typed s" using assms(1) by (simp add: factory_inv_def)
  note c = create_escrow_Done [OF typed assms(3)]
  have p: "p \<noteq> ctx_self env" using c(2) assms(4) by blast
  show ?thesis
    unfolding factory_solvent_def
  proof (intro allI impI)
    fix u assume u: "token_laws h bal u" "token_kept h bal u"
    have le: "live_total s u \<le> bal (ledger s) u (ctx_self env)"
      using assms(2) u by (simp add: factory_solvent_def)
    have "live_total s' u = live_total s u + (if t = u then n else 0)"
      using live_total_new [OF c(6,3,7,4)] by (simp add: owed_def new_record_def)
    moreover have "bal (ledger s) u (ctx_self env) + (if t = u then n else 0)
        \<le> bal (ledger s') u (ctx_self env)"
    proof (cases "t = u")
      case True
      then show ?thesis using token_laws_transfer(3) [OF u(1)] c(5) p by auto
    next
      case False
      then show ?thesis using u(2) c(5) unfolding token_kept_def by fastforce
    qed
    ultimately show "live_total s' u \<le> bal (ledger s') u (ctx_self env)" using le by linarith
  qed
qed

lemma exec_factory_solvent:
  assumes "factory_inv s" and "factory_solvent h bal (ctx_self env) s"
    and "exec_factory h env c s = (Done v, s')" and "ctx_self env \<notin> ctx_auth env"
  shows "factory_solvent h bal (ctx_self env) s'"
proof (cases c)
  case (FCreate p f t n m)
  then show ?thesis using assms create_escrow_solvent by (auto simp: act_simps)
next
  case (FSubmit i)
  then obtain r where r: "factory_rec s i = Some r" "fr_status r = FActive"
    and s': "factory_rec s' = (factory_rec s)(i \<mapsto> r\<lparr>fr_status := FWorkSubmitted\<rparr>)"
      "factory_next s' = factory_next s" "ledger s' = ledger s"
    using assms(1,3) by (auto simp: act_simps factory_submit_Done factory_inv_def)
  show ?thesis
    using live_total_status [OF assms(1) r(1) s'(1,2)] assms(2) r(2) s'(3)
    by (simp add: factory_solvent_def owed_simps(3))
next
  case (FApprove i)
  then obtain r where r: "factory_rec s i = Some r" "fr_status r = FWorkSubmitted"
    and w: "h_transfer h env (fr_token r) (ctx_self env) (fr_freelancer r) (fr_amount r) (ledger s)
        = Some (ledger s')"
    and s': "factory_rec s' = (factory_rec s)(i \<mapsto> r\<lparr>fr_status := FCompleted\<rparr>)"
      "factory_next s' = factory_next s"
    using assms(1,3) by (auto simp: act_simps factory_approve_Done factory_inv_def)
  show ?thesis
    using live_total_status [OF assms(1) r(1) s'(1,2)] assms(2) payout_covered [OF _ _ _ w] r(2)
    by (simp add: factory_solvent_def owed_simps(1))
next
  case (FCancel i)
  then obtain r where r: "factory_rec s i = Some r" "fr_status r = FActive"
    and w: "h_transfer h env (fr_token r) (ctx_self env) (fr_payer r) (fr_amount r) (ledger s)
        = Some (ledger s')"
    and s': "factory_rec s' = (factory_rec s)(i \<mapsto> r\<lparr>fr_status := FCancelled\<rparr>)"
      "factory_next s' = factory_next s"
    using assms(1,3) by (auto simp: act_simps factory_cancel_Done factory_inv_def)
  show ?thesis
    using live_total_status [OF assms(1) r(1) s'(1,2)] assms(2) payout_covered [OF _ _ _ w] r(2)
    by (simp add: factory_solvent_def owed_simps(2))
qed

lemma factory_step_solvent:
  assumes "factory_step h bal self s l s'" and "factory_inv s" and "factory_solvent h bal self s"
  shows "factory_solvent h bal self s'"
  using assms(1)
proof (cases rule: factory_step_cases)
  case (call env c v)
  then show ?thesis using assms(2,3) exec_factory_solvent by blast
next
  case (outside w x)
  then show ?thesis using assms(3)
    by (auto simp: factory_solvent_def live_total_def intro: order_trans)
qed (use assms(3) in simp)

interpretation factory_funds: machine
    "factory_step h bal self" "\<lambda>s. factory_inv s \<and> factory_solvent h bal self s" for h bal self
  by unfold_locales (blast intro: factory_step_inv factory_step_solvent)

lemma factory_fresh_solvent: "factory_fresh s \<Longrightarrow> factory_solvent h bal self s"
  using token_laws_nonneg
  by (auto simp: factory_solvent_def live_total_def factory_fresh_views)

lemma factory_reachable:
  assumes "factory_fresh s0" and "run (factory_step h bal self) s0 ls s"
  shows "factory_inv s" and "factory_solvent h bal self s"
  using factory_funds.run_inv [OF assms(2)] factory_fresh_inv factory_fresh_solvent assms(1)
  by blast+

text \<open>The amount of an open escrow is part of what the contract holds.\<close>

lemma owed_nonneg:
  "factory_inv s \<Longrightarrow> 0 \<le> owed t (factory_rec s i)"
  by (auto simp: owed_def factory_inv_def less_imp_le split: option.splits)

lemma open_escrow_covered:
  assumes "factory_inv s" and "factory_solvent h bal self s" and "factory_rec s i = Some r"
    and "fr_status r = FActive \<or> fr_status r = FWorkSubmitted"
    and "token_laws h bal (fr_token r)" and "token_kept h bal (fr_token r)"
  shows "fr_amount r \<le> bal (ledger s) (fr_token r) self" and "0 < fr_amount r"
proof -
  have "i \<in> set (issued (factory_next s))" using assms(1,3) by (auto simp: factory_inv_def)
  then have "owed (fr_token r) (factory_rec s i) \<le> live_total s (fr_token r)"
    unfolding live_total_def using owed_nonneg [OF assms(1)]
    by (intro sum_list_nonneg_member [where f = "\<lambda>i. owed (fr_token r) (factory_rec s i)"]) auto
  then show "fr_amount r \<le> bal (ledger s) (fr_token r) self"
    using assms(2-6) by (force simp: factory_solvent_def owed_simps(4))
  show "0 < fr_amount r" using assms(1,3) by (simp add: factory_inv_def)
qed

lemma standard_token_kept: "standard_tokens h bal \<Longrightarrow> token_kept h bal t"
  unfolding standard_tokens_def token_kept_def by (metis order_refl)

lemma table_host_kept: "token_kept table_host table_balance t"
  by (auto simp: token_kept_def table_host_def table_transfer_def table_balance_def split: if_splits)

section \<open>The ledger of the others\<close>

lemma next_id_ledger: "next_id s = (Done i, s') \<Longrightarrow> ledger s' = ledger s"
  by (auto simp: next_id_def Let_def act_simps)

lemma append_ledger: "append_to_index k i s = (Done u, s') \<Longrightarrow> ledger s' = ledger s"
  by (auto simp: append_to_index_def Let_def act_simps)

lemma exec_factory_debits:
  assumes "standard_tokens h bal" and "exec_factory h env c s = (Done r, s')"
    and "x \<notin> insert (ctx_self env) (ctx_auth env)"
  shows "bal (ledger s) u x \<le> bal (ledger s') u x"
proof (cases c)
  case (FCreate p f t n m)
  then show ?thesis
    using assms(2) standard_tokens_debit [OF assms(1) _ assms(3)]
    by (auto simp: create_escrow_def op_defs Let_def act_simps dest!: next_id_ledger append_ledger)
qed (use assms(2) standard_tokens_debit [OF assms(1) _ assms(3)] in
  \<open>auto simp: act_simps factory_submit_Done factory_approve_Done factory_cancel_Done\<close>)

interpretation factory_code: contract_code exec_factory
  by unfold_locales (rule exec_factory_debits)

end
