(* ===== verification/Network.thy ===== *)
theory Network
  imports Escrow_System Factory_System
begin

text \<open>
  Many contracts on one ledger. A network has escrow contracts at the addresses \<open>es\<close> and factories at
  the addresses \<open>fs\<close>, each with its own storage, over one ledger that every call changes for all. Any
  contract may be called by anyone in any order. The contracts are composed with nothing in between: the
  lemmas show that a network, seen from one contract, is a run of the machine of this contract,
  in which the calls of the other contracts are activity of the rest of the ledger.
\<close>

section \<open>Networks\<close>

record 'w deployment =
  nw_escrows :: "address \<Rightarrow> 'w escrow_chain"
  nw_factories :: "address \<Rightarrow> 'w factory_chain"
  nw_ledger :: 'w

text \<open>A contract as the host runs it: its own storage and the common ledger.\<close>

definition escrow_view :: "'w deployment \<Rightarrow> address \<Rightarrow> 'w escrow_chain" where
  "escrow_view N a = (nw_escrows N a)\<lparr>ledger := nw_ledger N\<rparr>"

definition factory_view :: "'w deployment \<Rightarrow> address \<Rightarrow> 'w factory_chain" where
  "factory_view N a = (nw_factories N a)\<lparr>ledger := nw_ledger N\<rparr>"

datatype network_label = NEscrow ctx escrow_call | NFactory ctx factory_call | NOutside

inductive network_step ::
  "'w host \<Rightarrow> (escrow_data \<Rightarrow> i128) \<Rightarrow> 'w balances \<Rightarrow> address set \<Rightarrow> address set \<Rightarrow>
   'w deployment \<Rightarrow> network_label \<Rightarrow> 'w deployment \<Rightarrow> bool"
  for h amt bal es fs where
  net_escrow: "network_step h amt bal es fs N (NEscrow env c)
      (N\<lparr>nw_escrows := (nw_escrows N)(ctx_self env := s'), nw_ledger := ledger s'\<rparr>)"
    if "ctx_self env \<in> es" and "ctx_auth env \<inter> (es \<union> fs) = {}"
      and "transact (exec_call h amt env c) (escrow_view N (ctx_self env)) = (r, s')"
| net_factory: "network_step h amt bal es fs N (NFactory env c)
      (N\<lparr>nw_factories := (nw_factories N)(ctx_self env := s'), nw_ledger := ledger s'\<rparr>)"
    if "ctx_self env \<in> fs" and "ctx_auth env \<inter> (es \<union> fs) = {}"
      and "transact (exec_factory h env c) (factory_view N (ctx_self env)) = (r, s')"
| net_outside: "network_step h amt bal es fs N NOutside (N\<lparr>nw_ledger := w\<rparr>)"
    if "\<forall>t. \<forall>a \<in> es \<union> fs. bal (nw_ledger N) t a \<le> bal w t a"

definition network_fresh :: "'w deployment \<Rightarrow> bool" where
  "network_fresh N \<longleftrightarrow> (\<forall>a. fresh (escrow_view N a) \<and> factory_fresh (factory_view N a))"

section \<open>One contract of a network\<close>

lemma view_sel [simp]:
  "ledger (escrow_view N a) = nw_ledger N" "ledger (factory_view N a) = nw_ledger N"
  by (simp_all add: escrow_view_def factory_view_def)

lemma view_update [simp]:
  "escrow_view (N\<lparr>nw_ledger := w\<rparr>) a = (escrow_view N a)\<lparr>ledger := w\<rparr>"
  "factory_view (N\<lparr>nw_ledger := w\<rparr>) a = (factory_view N a)\<lparr>ledger := w\<rparr>"
  "escrow_view (N\<lparr>nw_factories := F\<rparr>) a = escrow_view N a"
  "factory_view (N\<lparr>nw_escrows := E\<rparr>) a = factory_view N a"
  "escrow_view (N\<lparr>nw_escrows := (nw_escrows N)(b := s)\<rparr>) a =
     (if a = b then s\<lparr>ledger := nw_ledger N\<rparr> else escrow_view N a)"
  "factory_view (N\<lparr>nw_factories := (nw_factories N)(b := s')\<rparr>) a =
     (if a = b then s'\<lparr>ledger := nw_ledger N\<rparr> else factory_view N a)"
  by (simp_all add: escrow_view_def factory_view_def)

lemma outside_view:
  assumes "\<forall>t. bal (nw_ledger N) t a \<le> bal w t a"
  shows "\<exists>l. escrow_step h amt bal a (escrow_view N a) l ((escrow_view N a)\<lparr>ledger := w\<rparr>)"
    and "\<exists>l. factory_step h bal a (factory_view N a) l ((factory_view N a)\<lparr>ledger := w\<rparr>)"
  using step_outside [of bal "escrow_view N a" a w h amt "inst_ttl (escrow_view N a)"]
    fstep_outside [of bal "factory_view N a" a w h "inst_ttl (factory_view N a)"] assms
  by auto

lemma network_escrow_step:
  assumes "network_step h amt bal es fs N l N'" and "standard_tokens h bal"
    and "deposits_confined h bal (es \<union> fs)" and "es \<inter> fs = {}"
    and "a \<in> es"
  shows "\<exists>l'. escrow_step h amt bal a (escrow_view N a) l' (escrow_view N' a)"
  using assms(1)
proof cases
  case (net_escrow env c r s')
  show ?thesis
  proof (cases "a = ctx_self env")
    case True
    then have "escrow_step h amt bal a (escrow_view N a) (Invoke env c) s'"
      using net_escrow assms(5) by (intro step_invoke) auto
    then show ?thesis using net_escrow True by auto
  next
    case False
    have "\<forall>t. bal (nw_ledger N) t a \<le> bal (ledger s') t a"
      using escrow_code.others_unharmed [OF assms(2,3) net_escrow(5,4)] assms(5) False by simp
    then show ?thesis using net_escrow False by (simp add: outside_view(1))
  qed
next
  case (net_factory env c r s')
  then have "a \<noteq> ctx_self env" using assms(4,5) by blast
  then have "\<forall>t. bal (nw_ledger N) t a \<le> bal (ledger s') t a"
    using factory_code.others_unharmed [OF assms(2,3) net_factory(5,4)] assms(5) by simp
  then show ?thesis using net_factory by (simp add: outside_view(1))
next
  case (net_outside w)
  then show ?thesis using assms(5) by (simp add: outside_view(1))
qed

lemma network_factory_step:
  assumes "network_step h amt bal es fs N l N'" and "standard_tokens h bal"
    and "deposits_confined h bal (es \<union> fs)" and "es \<inter> fs = {}"
    and "a \<in> fs"
  shows "\<exists>l'. factory_step h bal a (factory_view N a) l' (factory_view N' a)"
  using assms(1)
proof cases
  case (net_factory env c r s')
  show ?thesis
  proof (cases "a = ctx_self env")
    case True
    then have "factory_step h bal a (factory_view N a) (FInvoke env c) s'"
      using net_factory assms(5) by (intro fstep_invoke) auto
    then show ?thesis using net_factory True by auto
  next
    case False
    have "\<forall>t. bal (nw_ledger N) t a \<le> bal (ledger s') t a"
      using factory_code.others_unharmed [OF assms(2,3) net_factory(5,4)] assms(5) False by simp
    then show ?thesis using net_factory False by (simp add: outside_view(2))
  qed
next
  case (net_escrow env c r s')
  then have "a \<noteq> ctx_self env" using assms(4,5) by blast
  then have "\<forall>t. bal (nw_ledger N) t a \<le> bal (ledger s') t a"
    using escrow_code.others_unharmed [OF assms(2,3) net_escrow(5,4)] assms(5) by simp
  then show ?thesis using net_escrow by (simp add: outside_view(2))
next
  case (net_outside w)
  then show ?thesis using assms(5) by (simp add: outside_view(2))
qed

text \<open>A run of a machine whose steps a view turns into steps of another is a run of the other.\<close>

lemma run_view:
  assumes "run step s ls s'"
    and "\<And>s l s'. step s l s' \<Longrightarrow> \<exists>l'. step' (view s) l' (view s')"
  shows "\<exists>ls'. run step' (view s) ls' (view s')"
  using assms(1)
proof (induction rule: run.induct)
  case (run_cons s l s' ls s'')
  then show ?case using assms(2) run.run_cons by metis
qed (auto intro: run.run_nil)

lemma network_escrow_run:
  assumes "run (network_step h amt bal es fs) N ls N'" and "standard_tokens h bal"
    and "deposits_confined h bal (es \<union> fs)" and "es \<inter> fs = {}" and "a \<in> es"
  shows "\<exists>ls'. run (escrow_step h amt bal a) (escrow_view N a) ls' (escrow_view N' a)"
  by (rule run_view [OF assms(1)]) (rule network_escrow_step [OF _ assms(2-5)])

lemma network_factory_run:
  assumes "run (network_step h amt bal es fs) N ls N'" and "standard_tokens h bal"
    and "deposits_confined h bal (es \<union> fs)" and "es \<inter> fs = {}" and "a \<in> fs"
  shows "\<exists>ls'. run (factory_step h bal a) (factory_view N a) ls' (factory_view N' a)"
  by (rule run_view [OF assms(1)]) (rule network_factory_step [OF _ assms(2-5)])

end
