(* ===== verification/Factory_Life.thy ===== *)
theory Factory_Life
  imports Factory_System
begin

text \<open>
  The life of one escrow of the factory, as a specification: \<open>flife\<close> says how a call may change the
  record of the escrow it is about, \<open>factory_refusal\<close> which error a call returns. The factory
  implements this for every id, and a call touches no other escrow (\<open>exec_factory_Done\<close>).
\<close>

inductive flife ::
  "u64 \<Rightarrow> factory_record option \<Rightarrow> ctx \<times> factory_call \<Rightarrow> factory_record option \<Rightarrow> bool" for i where
  flife_create: "flife i None (env, FCreate p f t n m) (Some (new_record i p f t n m))"
    if "0 < n" and "p \<in> ctx_auth env"
| flife_submit: "flife i (Some r) (env, FSubmit i) (Some (r\<lparr>fr_status := FWorkSubmitted\<rparr>))"
    if "fr_status r = FActive" and "fr_freelancer r \<in> ctx_auth env"
| flife_approve: "flife i (Some r) (env, FApprove i) (Some (r\<lparr>fr_status := FCompleted\<rparr>))"
    if "fr_status r = FWorkSubmitted" and "fr_payer r \<in> ctx_auth env"
| flife_cancel: "flife i (Some r) (env, FCancel i) (Some (r\<lparr>fr_status := FCancelled\<rparr>))"
    if "fr_status r = FActive" and "fr_payer r \<in> ctx_auth env"

inductive_cases flife_createE: "flife i x (env, FCreate p f t n m) y"
inductive_cases flife_submitE: "flife i x (env, FSubmit j) y"

text \<open>The escrow a call is about: the new one for \<open>create_escrow\<close>, else the one it names.\<close>

fun factory_target :: "factory_call \<Rightarrow> u64 option \<Rightarrow> u64 option" where
  "factory_target (FCreate _ _ _ _ _) v = v"
| "factory_target (FSubmit i) v = Some i"
| "factory_target (FApprove i) v = Some i"
| "factory_target (FCancel i) v = Some i"

fun factory_refusal :: "(u64 \<Rightarrow> factory_record option) \<Rightarrow> factory_call \<Rightarrow> factory_error option" where
  "factory_refusal recs (FCreate _ _ _ n _) = (if n \<le> 0 then Some FInvalidAmount else None)"
| "factory_refusal recs (FSubmit i) = (case recs i of None \<Rightarrow> Some NotFound
     | Some r \<Rightarrow> if fr_status r \<noteq> FActive then Some FNotActive else None)"
| "factory_refusal recs (FApprove i) = (case recs i of None \<Rightarrow> Some NotFound
     | Some r \<Rightarrow> if fr_status r \<noteq> FWorkSubmitted then Some FWorkNotSubmitted else None)"
| "factory_refusal recs (FCancel i) = (case recs i of None \<Rightarrow> Some NotFound
     | Some r \<Rightarrow> if fr_status r \<noteq> FActive then Some FNotActive else None)"

lemma factory_absent:
  assumes "factory_typed s"
  shows "inst_store s (factory_key_raw (EscrowId i)) = None \<longleftrightarrow> factory_rec s i = None"
  using assms
  by (cases "inst_store s (factory_key_raw (EscrowId i))") (auto simp: factory_typed_def factory_rec_def)

lemma next_id_not_Err: "next_id s \<noteq> (Err e, s')"
  by (auto simp: next_id_def Let_def act_simps)

lemma append_not_Err: "append_to_index k i s \<noteq> (Err e, s')"
  by (auto simp: append_to_index_def Let_def act_simps)

lemma create_escrow_Err:
  "create_escrow h env p f t n m s = (Err e, s') \<longleftrightarrow> s' = s \<and> n \<le> 0 \<and> e = FInvalidAmount"
  by (auto simp: create_escrow_def op_defs Let_def act_simps next_id_not_Err append_not_Err)

lemma exec_factory_Err:
  assumes "factory_typed s"
  shows "exec_factory h env c s = (Err e, s') \<longleftrightarrow> s' = s \<and> factory_refusal (factory_rec s) c = Some e"
  by (cases c) (auto simp: act_simps create_escrow_Err factory_submit_Err factory_approve_Err
      factory_cancel_Err factory_absent [OF assms] split: option.splits if_splits)

text \<open>A call that succeeds is a step of the life of its target and leaves the others alone.\<close>

lemma exec_factory_Done:
  assumes "factory_inv s" and "exec_factory h env c s = (Done v, s')"
  obtains i where "factory_target c v = Some i" and "flife i (factory_rec s i) (env, c) (factory_rec s' i)"
    and "\<And>j. j \<noteq> i \<Longrightarrow> factory_rec s' j = factory_rec s j"
proof (cases c)
  case (FCreate p f t n m)
  then obtain i where v: "v = Some i" and call: "create_escrow h env p f t n m s = (Done i, s')"
    using assms(2) by (auto simp: act_simps)
  have typed: "factory_typed s" using assms(1) by (simp add: factory_inv_def)
  note cr = create_escrow_Done [OF typed call]
  have "factory_rec s i = None" using assms(1) cr(3) by (auto simp: factory_inv_def)
  then show thesis using that [of i] v FCreate cr(1,2,6) by (simp add: flife_create)
next
  case (FSubmit i)
  then show thesis using that [of i] assms
    by (auto simp: act_simps factory_submit_Done factory_inv_def flife_submit)
next
  case (FApprove i)
  then show thesis using that [of i] assms
    by (auto simp: act_simps factory_approve_Done factory_inv_def flife_approve)
next
  case (FCancel i)
  then show thesis using that [of i] assms
    by (auto simp: act_simps factory_cancel_Done factory_inv_def flife_cancel)
qed

section \<open>Panics\<close>

lemma next_id_Trap: "factory_typed s \<Longrightarrow> next_id s = (Trap x, s') \<Longrightarrow> x = Overflow"
  by (auto simp: next_id_def Let_def act_simps factory_typed_def)

lemma append_not_Trap: "factory_typed s \<Longrightarrow> is_index k \<Longrightarrow> append_to_index k i s \<noteq> (Trap x, s')"
  by (simp add: append_to_index_eq)

lemma load_not_Trap: "factory_typed s \<Longrightarrow> factory_load_escrow i s \<noteq> (Trap x, s')"
  by (auto simp: factory_load_escrow_def act_simps factory_typed_def)

lemma next_id_typed: "factory_typed s \<Longrightarrow> next_id s = (Done i, s') \<Longrightarrow> factory_typed s'"
  by (simp add: next_id_Done)

lemma exec_factory_Trap:
  assumes "factory_typed s" and "exec_factory h env c s = (Trap x, s')"
  shows "x = Overflow \<or> x = AuthMissing \<or> x = HostCallFailed"
proof (cases c)
  case (FCreate p f t n m)
  then show ?thesis
    using assms
    by (auto simp: act_simps create_escrow_def op_defs Let_def next_id_Done append_to_index_eq
        dest: next_id_Trap [rotated])
qed (use assms load_not_Trap [OF assms(1)] in
  \<open>auto simp: act_simps factory_submit_work_def factory_approve_def factory_cancel_def op_defs\<close>)

end
