(* ===== verification/Factory_Props.thy ===== *)
theory Factory_Props
  imports Factory_Life
begin

text \<open>
  The properties of the factory contract: what all open escrows are owed is covered, ids are
  unique and lead back to their record, the indexes are exact, records only move forward, each escrow
  lives as its specification says, and an open escrow can always be settled for exactly its amount. An
  example contract with one escrow serves the instances.
\<close>

section \<open>An example\<close>

definition fx_env :: "address set \<Rightarrow> ctx" where
  "fx_env auth = \<lparr>ctx_self = ''factory'', ctx_now = 0, ctx_auth = auth\<rparr>"

lemma fx_env_sel [simp]: "ctx_self (fx_env auth) = ''factory''" "ctx_auth (fx_env auth) = auth"
  by (simp_all add: fx_env_def)

definition fx_start :: "table factory_chain" where
  "fx_start = \<lparr>inst_store = Map.empty, inst_ttl = 0, ev_log = [],
     ledger = (\<lambda>t a. if a = ''payer'' then 1000 else 0)\<rparr>"

abbreviation fx_create :: factory_call where
  "fx_create \<equiv> FCreate ''payer'' ''free'' ''tok'' 500 ''design''"

definition fx_created :: "table factory_chain" where
  "fx_created = snd (exec_factory table_host (fx_env {''payer''}) fx_create fx_start)"

definition fx_submitted :: "table factory_chain" where
  "fx_submitted = snd (exec_factory table_host (fx_env {''free''}) (FSubmit 0) fx_created)"

lemma fx_create_eq:
  "exec_factory table_host (fx_env {''payer''}) fx_create fx_start = (Done (Some 0), fx_created)"
  by (simp add: fx_created_def fx_start_def create_escrow_def next_id_def append_to_index_def
      factory_save_escrow_def op_defs run_simps Let_def table_host_def table_transfer_def)

lemma fx_fresh: "factory_fresh fx_start"
  by (simp add: factory_fresh_def fx_start_def)

abbreviation fx_machine :: "table factory_chain \<Rightarrow> factory_label \<Rightarrow> table factory_chain \<Rightarrow> bool" where
  "fx_machine \<equiv> factory_step table_host table_balance ''factory''"

lemma fx_call_run:
  assumes "exec_factory table_host (fx_env auth) c s = (Done v, s')" and "''factory'' \<notin> auth"
  shows "run fx_machine s [FInvoke (fx_env auth) c] s'"
  using assms by (intro run_single fstep_invoke [where r = "Done v"]) (simp_all add: act_simps)

lemma fx_run_created: "run fx_machine fx_start [FInvoke (fx_env {''payer''}) fx_create] fx_created"
  by (rule fx_call_run [OF fx_create_eq]) simp

lemma fx_created_views:
  "factory_rec fx_created = [0 \<mapsto> new_record 0 ''payer'' ''free'' ''tok'' 500 ''design'']"
  "factory_next fx_created = 1" "factory_inv fx_created"
  "inst_store fx_created (factory_key_raw (EscrowId 0)) =
     Some (FVRecord (new_record 0 ''payer'' ''free'' ''tok'' 500 ''design''))"
  "table_balance (ledger fx_created) ''tok'' ''factory'' = 500"
  "table_balance (ledger fx_created) ''tok'' ''payer'' = 500"
proof -
  have c: "create_escrow table_host (fx_env {''payer''}) ''payer'' ''free'' ''tok'' 500 ''design'' fx_start
      = (Done 0, fx_created)"
    using fx_create_eq by (auto simp: act_simps)
  note v = create_escrow_Done [OF factory_fresh_views(4) [OF fx_fresh] c]
  show r: "factory_rec fx_created = [0 \<mapsto> new_record 0 ''payer'' ''free'' ''tok'' 500 ''design'']"
    "factory_next fx_created = 1"
    using v(6,7) by (simp_all add: factory_fresh_views [OF fx_fresh])
  show "factory_inv fx_created" by (rule create_escrow_inv [OF factory_fresh_inv [OF fx_fresh] c])
  show "inst_store fx_created (factory_key_raw (EscrowId 0)) =
     Some (FVRecord (new_record 0 ''payer'' ''free'' ''tok'' 500 ''design''))"
    using r(1) by (auto simp: factory_rec_def fun_eq_iff bind_eq_Some_conv
        elim!: as_record.elims dest!: spec [of _ 0])
  show "table_balance (ledger fx_created) ''tok'' ''factory'' = 500"
    "table_balance (ledger fx_created) ''tok'' ''payer'' = 500"
    using token_laws_transfer(3) [OF table_host_laws v(5)]
    by (simp_all add: fx_start_def table_balance_def)
qed

lemma fx_submit_eq:
  "exec_factory table_host (fx_env {''free''}) (FSubmit 0) fx_created = (Done None, fx_submitted)"
proof -
  have "\<exists>s'. factory_submit_work (fx_env {''free''}) 0 fx_created = (Done (), s')"
    by (simp add: factory_submit_Done fx_created_views(1) new_record_def)
  then show ?thesis by (auto simp: fx_submitted_def run_simps)
qed

lemma fx_run_submitted: "run fx_machine fx_created [FInvoke (fx_env {''free''}) (FSubmit 0)] fx_submitted"
  by (rule fx_call_run [OF fx_submit_eq]) simp

lemma fx_submitted_views:
  "factory_rec fx_submitted =
     [0 \<mapsto> (new_record 0 ''payer'' ''free'' ''tok'' 500 ''design'')\<lparr>fr_status := FWorkSubmitted\<rparr>]"
  "ledger fx_submitted = ledger fx_created"
proof -
  have e: "fx_submitted = store_put (factory_key_raw (EscrowId 0))
      (FVRecord ((new_record 0 ''payer'' ''free'' ''tok'' 500 ''design'')\<lparr>fr_status := FWorkSubmitted\<rparr>))
      fx_created"
    using fx_submit_eq
    by (auto simp: act_simps factory_submit_Done fx_created_views(1) new_record_def)
  show "factory_rec fx_submitted =
     [0 \<mapsto> (new_record 0 ''payer'' ''free'' ''tok'' 500 ''design'')\<lparr>fr_status := FWorkSubmitted\<rparr>]"
    "ledger fx_submitted = ledger fx_created"
    by (simp_all add: e fx_created_views(1))
qed

section \<open>Properties\<close>

text \<open>
  C6. Solvency of the factory. Over any history of the factory contract and of the rest of the
  ledger, for every token that keeps to its documented behaviour, the contract holds at least
  the sum of the amounts of all its open escrows in that token.
\<close>

theorem factory_solvency:
  assumes "factory_fresh s0" and "run (factory_step h bal self) s0 ls s"
    and "token_laws h bal t" and "token_kept h bal t"
  shows "live_total s t \<le> bal (ledger s) t self"
  using factory_reachable(2) [OF assms(1,2)] assms(3,4) by (simp add: factory_solvent_def)

theorem factory_solvency_witness:
  "live_total fx_created ''tok'' = 500 \<and>
   live_total fx_created ''tok'' \<le> table_balance (ledger fx_created) ''tok'' ''factory''"
proof
  have "issued 1 = [0]" using issued_step(1) [of 0] by simp
  then show "live_total fx_created ''tok'' = 500"
    by (simp add: live_total_def fx_created_views owed_def new_record_def)
  show "live_total fx_created ''tok'' \<le> table_balance (ledger fx_created) ''tok'' ''factory''"
    by (rule factory_solvency [OF fx_fresh fx_run_created table_host_laws table_host_kept])
qed

text \<open>
  C22. Fresh ids and the way back. In every reachable state a successful \<open>create_escrow\<close> returns
  an id no escrow has had before; \<open>get_escrow\<close> then returns under this id exactly the record of
  the call, active, and under every other id what it returned before.
\<close>

theorem create_then_get:
  assumes "factory_fresh s0" and "run (factory_step h bal self) s0 ls s"
    and "create_escrow h env p f t n m s = (Done i, s')"
  shows "factory_get_escrow i s = (Err NotFound, s) \<and>
    factory_get_escrow i s' = (Done (new_record i p f t n m), s') \<and>
    (j \<noteq> i \<longrightarrow> fst (factory_get_escrow j s') = fst (factory_get_escrow j s))"
proof (intro conjI)
  have inv: "factory_inv s" by (rule factory_reachable(1) [OF assms(1,2)])
  then have typed: "factory_typed s" by (simp add: factory_inv_def)
  note c = create_escrow_Done [OF typed assms(3)]
  have get: "factory_get_escrow k x =
      (case factory_rec x k of None \<Rightarrow> (Err NotFound, x) | Some r \<Rightarrow> (Done r, x))"
    if "factory_typed x" for k and x :: "'a factory_chain"
    using that
    by (cases "inst_store x (factory_key_raw (EscrowId k))")
      (auto simp: factory_get_escrow_def factory_load_escrow_def factory_rec_def run_simps
        factory_typed_def split: option.splits)
  have "factory_rec s i = None" using inv c(3) by (auto simp: factory_inv_def)
  then show "factory_get_escrow i s = (Err NotFound, s)" by (simp add: get [OF typed])
  show "factory_get_escrow i s' = (Done (new_record i p f t n m), s')"
    by (simp add: get [OF c(9)] c(6))
  show "j \<noteq> i \<longrightarrow> fst (factory_get_escrow j s') = fst (factory_get_escrow j s)"
    by (simp add: get [OF c(9)] get [OF typed] c(6) split: option.split)
qed

theorem create_then_get_witness:
  "factory_get_escrow 0 fx_created = (Done (new_record 0 ''payer'' ''free'' ''tok'' 500 ''design''), fx_created)"
proof -
  have c: "create_escrow table_host (fx_env {''payer''}) ''payer'' ''free'' ''tok'' 500 ''design'' fx_start
      = (Done 0, fx_created)"
    using fx_create_eq by (auto simp: act_simps)
  have "run fx_machine fx_start [] fx_start" by simp
  from create_then_get [THEN conjunct2, THEN conjunct1, OF fx_fresh this c] show ?thesis .
qed

text \<open>
  C21. The indexes are exact. In every reachable state \<open>list_by_payer\<close> returns the ids of exactly
  the escrows of that payer, each once and in the order of their creation, and
  \<open>list_by_freelancer\<close> those of the freelancer.
\<close>

theorem indexes_exact:
  assumes "factory_fresh s0" and "run (factory_step h bal self) s0 ls s"
  shows "(\<exists>ids. list_by_payer p s = (Done ids, s) \<and> sorted (map unat ids) \<and> distinct ids \<and>
      (\<forall>i. i \<in> set ids \<longleftrightarrow> (\<exists>r. factory_rec s i = Some r \<and> fr_payer r = p))) \<and>
    (\<exists>ids. list_by_freelancer f s = (Done ids, s) \<and> sorted (map unat ids) \<and> distinct ids \<and>
      (\<forall>i. i \<in> set ids \<longleftrightarrow> (\<exists>r. factory_rec s i = Some r \<and> fr_freelancer r = f)))"
proof (rule conjI)
  have inv: "factory_inv s" by (rule factory_reachable(1) [OF assms])
  then have typed: "factory_typed s" by (simp add: factory_inv_def)
  have ids: "sorted (map unat (ids_where P (factory_rec s) (factory_next s))) \<and>
      distinct (ids_where P (factory_rec s) (factory_next s)) \<and>
      (\<forall>i. i \<in> set (ids_where P (factory_rec s) (factory_next s)) \<longleftrightarrow>
        (\<exists>r. factory_rec s i = Some r \<and> P r))" for P
  proof (intro conjI allI)
    have "sorted (map unat (issued (factory_next s)))" by (simp add: issued_unat)
    then show "sorted (map unat (ids_where P (factory_rec s) (factory_next s)))"
      unfolding ids_where_def by (rule sorted_filter)
    show "distinct (ids_where P (factory_rec s) (factory_next s))" by (simp add: ids_where_def)
    show "i \<in> set (ids_where P (factory_rec s) (factory_next s)) \<longleftrightarrow>
        (\<exists>r. factory_rec s i = Some r \<and> P r)" for i
      using inv by (auto simp: ids_where_def factory_inv_def split: option.splits)
  qed
  have "list_by_payer p s = (Done (ids_where (\<lambda>r. fr_payer r = p) (factory_rec s) (factory_next s)), s)"
    and "list_by_freelancer f s =
      (Done (ids_where (\<lambda>r. fr_freelancer r = f) (factory_rec s) (factory_next s)), s)"
    using inv by (simp_all add: list_by_payer_def list_by_freelancer_def get_index_eq [OF typed]
        factory_inv_def)
  with ids show "\<exists>ids. list_by_payer p s = (Done ids, s) \<and> sorted (map unat ids) \<and> distinct ids \<and>
      (\<forall>i. i \<in> set ids \<longleftrightarrow> (\<exists>r. factory_rec s i = Some r \<and> fr_payer r = p))"
    and "\<exists>ids. list_by_freelancer f s = (Done ids, s) \<and> sorted (map unat ids) \<and> distinct ids \<and>
      (\<forall>i. i \<in> set ids \<longleftrightarrow> (\<exists>r. factory_rec s i = Some r \<and> fr_freelancer r = f))"
    by blast+
qed

theorem indexes_exact_witness:
  "\<exists>ids. list_by_payer ''payer'' fx_created = (Done ids, fx_created) \<and> (\<forall>i. i \<in> set ids \<longleftrightarrow> i = 0)"
  using indexes_exact [THEN conjunct1, OF fx_fresh fx_run_created, of "''payer''"]
  by (auto simp: fx_created_views new_record_def)

text \<open>
  C8. Records only move forward. Between any two points of a history every escrow keeps its id,
  parties, token, amount and description; its status goes from active to submitted or cancelled
  and from submitted to completed, and a completed or cancelled escrow never changes again.
\<close>

theorem factory_history:
  assumes "factory_fresh s0" and "run (factory_step h bal self) s0 ls s"
    and "run (factory_step h bal self) s ls' s'" and "factory_rec s i = Some r"
  shows "\<exists>st. factory_rec s' i = Some (r\<lparr>fr_status := st\<rparr>) \<and> may_become (fr_status r) st"
  using factory_system.run_le [OF assms(3)] factory_reachable(1) [OF assms(1,2)] assms(4)
  by (auto simp: factory_progress_def)

theorem factory_history_witness:
  "\<exists>st. factory_rec fx_submitted 0 =
     Some ((new_record 0 ''payer'' ''free'' ''tok'' 500 ''design'')\<lparr>fr_status := st\<rparr>) \<and>
   may_become (fr_status (new_record 0 ''payer'' ''free'' ''tok'' 500 ''design'')) st"
  by (rule factory_history [OF fx_fresh fx_run_created fx_run_submitted]) (simp add: fx_created_views(1))

text \<open>
  C23. Every escrow of the factory lives its own life. In every reachable state a transaction has
  one of three outcomes. When it succeeds, the record of the one escrow it is about takes a step of
  the specification \<open>flife\<close> and every other record is the same. When it returns an error, this is
  the one \<open>factory_refusal\<close> names, exactly, and nothing changed. When it panics, the cause is an
  overflow, a missing signature or the token, and nothing changed.
\<close>

theorem factory_refines_life:
  assumes "factory_fresh s0" and "run (factory_step h bal self) s0 ls s"
    and "transact (exec_factory h env c) s = (r, s')"
  shows "case r of
      Done v \<Rightarrow> \<exists>i. factory_target c v = Some i \<and> flife i (factory_rec s i) (env, c) (factory_rec s' i) \<and>
        (\<forall>j. j \<noteq> i \<longrightarrow> factory_rec s' j = factory_rec s j)
    | Err e \<Rightarrow> factory_refusal (factory_rec s) c = Some e \<and> s' = s
    | Trap x \<Rightarrow> (x = Overflow \<or> x = AuthMissing \<or> x = HostCallFailed) \<and> s' = s"
proof -
  have inv: "factory_inv s" by (rule factory_reachable(1) [OF assms(1,2)])
  then have typed: "factory_typed s" by (simp add: factory_inv_def)
  obtain r' s'' where call: "exec_factory h env c s = (r', s'')" by fastforce
  show ?thesis
  proof (cases r')
    case (Done v)
    then have r: "r = Done v" and c: "exec_factory h env c s = (Done v, s')"
      using call assms(3) by (simp_all add: transact_def)
    from exec_factory_Done [OF inv c] obtain i where "factory_target c v = Some i"
      and "flife i (factory_rec s i) (env, c) (factory_rec s' i)"
      and "\<And>j. j \<noteq> i \<Longrightarrow> factory_rec s' j = factory_rec s j" by blast
    then show ?thesis unfolding r outcome.case by blast
  next
    case (Err e)
    then have "r = Err e" "s' = s" using call assms(3) by (simp_all add: transact_def)
    then show ?thesis using exec_factory_Err [OF typed, of h env c e s''] call Err by simp
  next
    case (Trap x)
    then have "r = Trap x" "s' = s" using call assms(3) by (simp_all add: transact_def)
    then show ?thesis using exec_factory_Trap [OF typed] call Trap by auto
  qed
qed

theorem factory_refines_life_witness:
  "flife 0 (factory_rec fx_created 0) (fx_env {''free''}, FSubmit 0) (factory_rec fx_submitted 0)"
proof -
  have "transact (exec_factory table_host (fx_env {''free''}) (FSubmit 0)) fx_created = (Done None, fx_submitted)"
    using fx_submit_eq by (simp add: transact_def)
  from factory_refines_life [OF fx_fresh fx_run_created this] show ?thesis by simp
qed

text \<open>
  C24. An open escrow can be settled for exactly its amount. In every reachable state the payer of
  an escrow can approve it once the work is submitted, which pays the freelancer exactly its
  amount, and can cancel it while it is active, which pays exactly this back; either call closes
  the escrow.
\<close>

theorem factory_settles:
  assumes "factory_fresh s0" and "run (factory_step h bal self) s0 ls s"
    and "factory_rec s i = Some r" and "fr_payer r \<in> ctx_auth env" and "ctx_self env = self"
    and "token_laws h bal (fr_token r)" and "token_serves h bal (fr_token r)"
    and "token_kept h bal (fr_token r)"
    and "\<And>a. i128_range (bal (ledger s) (fr_token r) a + fr_amount r)"
  shows "(fr_status r = FWorkSubmitted \<longrightarrow> (\<exists>s'. factory_approve h env i s = (Done (), s') \<and>
      factory_rec s' i = Some (r\<lparr>fr_status := FCompleted\<rparr>) \<and>
      bal (ledger s') (fr_token r) =
        moved (bal (ledger s) (fr_token r)) self (fr_freelancer r) (fr_amount r))) \<and>
    (fr_status r = FActive \<longrightarrow> (\<exists>s'. factory_cancel h env i s = (Done (), s') \<and>
      factory_rec s' i = Some (r\<lparr>fr_status := FCancelled\<rparr>) \<and>
      bal (ledger s') (fr_token r) =
        moved (bal (ledger s) (fr_token r)) self (fr_payer r) (fr_amount r)))"
proof (rule conjI)
  note inv = factory_reachable [OF assms(1,2)]
  have id: "fr_id r = i" using inv(1) assms(3) by (simp add: factory_inv_def)
  have pay: "\<exists>w. h_transfer h env (fr_token r) self dst (fr_amount r) (ledger s) = Some w \<and>
      bal w (fr_token r) = moved (bal (ledger s) (fr_token r)) self dst (fr_amount r)"
    if "fr_status r = FActive \<or> fr_status r = FWorkSubmitted" for dst
  proof -
    note cover = open_escrow_covered [OF inv assms(3) that assms(6,8)]
    then obtain w where w: "h_transfer h env (fr_token r) self dst (fr_amount r) (ledger s) = Some w"
      using assms(5,7,9) unfolding token_serves_def by fastforce
    with token_laws_transfer(3) [OF assms(6) w] show ?thesis by blast
  qed
  show "fr_status r = FWorkSubmitted \<longrightarrow> (\<exists>s'. factory_approve h env i s = (Done (), s') \<and>
      factory_rec s' i = Some (r\<lparr>fr_status := FCompleted\<rparr>) \<and>
      bal (ledger s') (fr_token r) =
        moved (bal (ledger s) (fr_token r)) self (fr_freelancer r) (fr_amount r))"
    using pay [of "fr_freelancer r"] assms(3-5) id by (auto simp: factory_approve_Done)
  show "fr_status r = FActive \<longrightarrow> (\<exists>s'. factory_cancel h env i s = (Done (), s') \<and>
      factory_rec s' i = Some (r\<lparr>fr_status := FCancelled\<rparr>) \<and>
      bal (ledger s') (fr_token r) =
        moved (bal (ledger s) (fr_token r)) self (fr_payer r) (fr_amount r))"
    using pay [of "fr_payer r"] assms(3-5) id by (auto simp: factory_cancel_Done)
qed

theorem factory_settles_witness:
  "\<exists>s'. factory_approve table_host (fx_env {''payer''}) 0 fx_submitted = (Done (), s') \<and>
     table_balance (ledger s') ''tok'' ''free'' = 500"
proof -
  let ?r = "(new_record 0 ''payer'' ''free'' ''tok'' 500 ''design'')\<lparr>fr_status := FWorkSubmitted\<rparr>"
  have bal: "table_balance (ledger fx_submitted) ''tok'' a =
      (if a = ''payer'' \<or> a = ''factory'' then 500 else 0)" for a
  proof -
    have c: "create_escrow table_host (fx_env {''payer''}) ''payer'' ''free'' ''tok'' 500 ''design'' fx_start
        = (Done 0, fx_created)"
      using fx_create_eq by (auto simp: act_simps)
    note v = create_escrow_Done(5) [OF factory_fresh_views(4) [OF fx_fresh] c]
    show ?thesis
      using token_laws_transfer(3) [OF table_host_laws v]
      by (auto simp: fx_submitted_views fx_start_def table_balance_def moved_def fun_eq_iff)
  qed
  have "fr_status ?r = FWorkSubmitted \<longrightarrow>
      (\<exists>s'. factory_approve table_host (fx_env {''payer''}) 0 fx_submitted = (Done (), s') \<and>
      factory_rec s' 0 = Some (?r\<lparr>fr_status := FCompleted\<rparr>) \<and>
      table_balance (ledger s') (fr_token ?r) = moved (table_balance (ledger fx_submitted) (fr_token ?r))
        ''factory'' (fr_freelancer ?r) (fr_amount ?r))"
    by (rule factory_settles [THEN conjunct1, OF fx_fresh run_trans [OF fx_run_created fx_run_submitted]])
      (simp_all add: fx_submitted_views(1) table_host_laws table_host_serves table_host_kept,
       simp_all add: new_record_def bal i128_range_def)
  then show ?thesis by (auto simp: new_record_def bal)
qed

end
