(* ===== verification/Network_Props.thy ===== *)
theory Network_Props
  imports Network Escrow_Example Factory_Props
begin

text \<open>
  The solvency of many contracts on one ledger. The example is an escrow and a factory that are used by
  the same payer.
\<close>

section \<open>An example\<close>

definition nx_start :: "table deployment" where
  "nx_start = \<lparr>nw_escrows = (\<lambda>_. ex_start), nw_factories = (\<lambda>_. fx_start), nw_ledger = ex_balances 10000 0 0 0\<rparr>"

definition nx_factory :: "table factory_chain" where
  "nx_factory = snd (exec_factory table_host (fx_env {''payer''}) fx_create
     (fx_start\<lparr>ledger := ex_balances 9500 500 0 0\<rparr>))"

definition nx_end :: "table deployment" where
  "nx_end = \<lparr>nw_escrows = (\<lambda>_. ex_start)(''escrow'' := ex_active 0 0),
     nw_factories = (\<lambda>_. fx_start)(''factory'' := nx_factory), nw_ledger = ledger nx_factory\<rparr>"

abbreviation nx_machine :: "table deployment \<Rightarrow> network_label \<Rightarrow> table deployment \<Rightarrow> bool" where
  "nx_machine \<equiv> network_step table_host (\<lambda>_. 100) table_balance {''escrow''} {''factory''}"

lemma nx_factory_eq:
  "exec_factory table_host (fx_env {''payer''}) fx_create (fx_start\<lparr>ledger := ex_balances 9500 500 0 0\<rparr>)
     = (Done (Some 0), nx_factory)"
  by (simp add: nx_factory_def fx_start_def create_escrow_def next_id_def append_to_index_def
      factory_save_escrow_def op_defs run_simps Let_def table_host_def table_transfer_def ex_balances_def)

lemma nx_fresh: "network_fresh nx_start"
  by (simp add: network_fresh_def escrow_view_def factory_view_def nx_start_def fresh_def factory_fresh_def
      ex_start_def fx_start_def)

definition nx_labels :: "network_label list" where
  "nx_labels = [NEscrow (ex_env {''admin''} 90) (Init ''admin'' 100 ''fees''),
     NEscrow (ex_env {''payer''} 100) (ex_create 0 0), NFactory (fx_env {''payer''}) fx_create]"

lemma nx_views:
  "escrow_view nx_start ''escrow'' = ex_start" "escrow_view nx_end ''escrow'' =
     (ex_active 0 0)\<lparr>ledger := ledger nx_factory\<rparr>"
  "factory_view nx_end ''factory'' = nx_factory"
  by (simp_all add: nx_start_def nx_end_def escrow_view_def factory_view_def ex_start_def)

lemma nx_run: "run nx_machine nx_start nx_labels nx_end"
proof -
  define N1 where "N1 = nx_start\<lparr>nw_escrows := (nw_escrows nx_start)(''escrow'' := ex_configured),
    nw_ledger := ledger ex_configured\<rparr>"
  define N2 where "N2 = N1\<lparr>nw_escrows := (nw_escrows N1)(''escrow'' := ex_active 0 0),
    nw_ledger := ledger (ex_active 0 0)\<rparr>"
  have "nx_machine nx_start (NEscrow (ex_env {''admin''} 90) (Init ''admin'' 100 ''fees'')) N1"
    using net_escrow [where N = nx_start and env = "ex_env {''admin''} 90" and s' = ex_configured and r = "Done ()"
        and es = "{''escrow''}" and fs = "{''factory''}"] ex_configured_eq
    by (simp add: transact_Done nx_views(1) N1_def)
  moreover have "nx_machine N1 (NEscrow (ex_env {''payer''} 100) (ex_create 0 0)) N2"
  proof -
    have "escrow_view N1 ''escrow'' = ex_configured" by (simp add: N1_def ex_configured_def)
    then show ?thesis
      using net_escrow [where N = N1 and env = "ex_env {''payer''} 100" and s' = "ex_active 0 0" and r = "Done ()"
          and es = "{''escrow''}" and fs = "{''factory''}"] ex_active_eq [of 0 0]
      by (simp add: transact_Done N2_def)
  qed
  moreover have "nx_machine N2 (NFactory (fx_env {''payer''}) fx_create) nx_end"
  proof -
    have "factory_view N2 ''factory'' = fx_start\<lparr>ledger := ex_balances 9500 500 0 0\<rparr>"
      by (simp add: N2_def N1_def nx_start_def factory_view_def ex_active_def)
    moreover have "nx_end = N2\<lparr>nw_factories := (nw_factories N2)(''factory'' := nx_factory),
        nw_ledger := ledger nx_factory\<rparr>"
      by (simp add: N2_def N1_def nx_start_def nx_end_def)
    ultimately show ?thesis
      using net_factory [where N = N2 and env = "fx_env {''payer''}" and s' = nx_factory and r = "Done (Some 0)"
          and es = "{''escrow''}" and fs = "{''factory''}"] nx_factory_eq
      by (simp add: transact_Done)
  qed
  ultimately show ?thesis unfolding nx_labels_def by (simp add: run_Cons_iff) blast
qed

section \<open>Properties\<close>

text \<open>
  C7. Escrows and factories are solvent side by side. In every reachable state of a network of any number
  of escrow contracts and factories on one ledger of standard tokens, the balance of each escrow
  contract covers the milestones not marked as approved of its escrow, if this is active, one-off and
  without a yield protocol, and each factory holds the amounts of all its open escrows. No call of one
  contract, whoever makes it, takes out of what another owes.
\<close>

theorem network_solvency:
  assumes "network_fresh N0" and "standard_tokens h bal" and "deposits_confined h bal (es \<union> fs)"
    and "es \<inter> fs = {}" and "run (network_step h amt bal es fs) N0 ls N" and "token_laws h bal t"
  shows "(\<forall>a \<in> es. \<forall>d. escrow_rec (escrow_view N a) = Some d \<longrightarrow> ed_token d = t \<longrightarrow> plain_escrow d \<longrightarrow>
      ed_status d = Active \<longrightarrow> outstanding d \<le> bal (nw_ledger N) t a) \<and>
    (\<forall>a \<in> fs. live_total (factory_view N a) t \<le> bal (nw_ledger N) t a)"
proof (intro conjI ballI allI impI)
  fix a d
  assume a: "a \<in> es" and d: "escrow_rec (escrow_view N a) = Some d" "ed_token d = t" "plain_escrow d"
    "ed_status d = Active"
  obtain ls' where run: "run (escrow_step h amt bal a) (escrow_view N0 a) ls' (escrow_view N a)"
    using network_escrow_run [OF assms(5,2,3,4) a] by blast
  have "fresh (escrow_view N0 a)" using assms(1) by (simp add: network_fresh_def)
  from escrow_funds.run_inv [OF run] fresh_inv [OF this] fresh_solvent [OF this]
  have "solvent h bal a (escrow_view N a)" by blast
  then show "outstanding d \<le> bal (nw_ledger N) t a"
    using d assms(6) by (auto simp: solvent_def)
next
  fix a
  assume a: "a \<in> fs"
  obtain ls' where run: "run (factory_step h bal a) (factory_view N0 a) ls' (factory_view N a)"
    using network_factory_run [OF assms(5,2,3,4) a] by blast
  have "factory_fresh (factory_view N0 a)" using assms(1) by (simp add: network_fresh_def)
  from factory_reachable(2) [OF this run]
  show "live_total (factory_view N a) t \<le> bal (nw_ledger N) t a"
    using standard_token_kept [OF assms(2), of t] assms(6) by (simp add: factory_solvent_def)
qed

theorem network_solvency_witness:
  "500 \<le> table_balance (nw_ledger nx_end) ''tok'' ''escrow'' \<and>
   live_total nx_factory ''tok'' \<le> table_balance (nw_ledger nx_end) ''tok'' ''factory''"
proof -
  have "{''escrow''} \<inter> {''factory''} = {}" by simp
  note sol = network_solvency [OF nx_fresh table_host_standard table_host_confined this nx_run table_host_laws,
      of "''tok''"]
  show ?thesis
    using sol [THEN conjunct1] sol [THEN conjunct2]
    by (simp add: nx_views ex_active_def ex_record_def plain_escrow_def outstanding_def ex_milestones_def)
qed

end
