(* ===== verification/Reputation.thy ===== *)
theory Reputation
  imports Soroban
begin

text \<open>
  \<^verbatim>\<open>contracts/reputation/src/lib.rs\<close>: the reputation contract. Its state is the administrator, the
  registered callers and, per address, how many escrows were completed and cancelled. The score
  is ten points per completed and minus five per cancelled escrow, at least zero. Lemmas: what a
  call that succeeds has changed, the counters as counts over a transcript of calls.
\<close>

section \<open>Data\<close>

record reputation_stats =
  rs_completed :: u32
  rs_cancelled :: u32

datatype reputation_key = RepStats address | RepCaller address | RepAdmin

datatype reputation_error = RepUnauthorized | AlreadyInitialized

fun reputation_error_code :: "reputation_error \<Rightarrow> u32" where
  "reputation_error_code RepUnauthorized = 1"
| "reputation_error_code AlreadyInitialized = 2"

fun reputation_key_raw :: "reputation_key \<Rightarrow> raw_key" where
  "reputation_key_raw (RepStats a) = RawKey ''Stats'' [ArgAddress a]"
| "reputation_key_raw (RepCaller a) = RawKey ''Caller'' [ArgAddress a]"
| "reputation_key_raw RepAdmin = RawKey ''Admin'' []"

datatype reputation_val = RVStats reputation_stats | RVFlag bool | RVAddress address

fun as_rep_stats :: "reputation_val \<Rightarrow> reputation_stats option" where
  "as_rep_stats (RVStats st) = Some st"
| "as_rep_stats _ = None"

fun as_rep_address :: "reputation_val \<Rightarrow> address option" where
  "as_rep_address (RVAddress a) = Some a"
| "as_rep_address _ = None"

datatype reputation_event = ReputationUpdated address u32 u32

type_synonym 'w reputation_chain = "(reputation_val, reputation_event, 'w) chain"

section \<open>Code\<close>

definition emit_updated ::
  "address \<Rightarrow> u32 \<Rightarrow> u32 \<Rightarrow> ('w reputation_chain, reputation_error, unit) act" where
  [op_defs]: "emit_updated a completed cancelled = publish (ReputationUpdated a completed cancelled)"

definition load_stats :: "address \<Rightarrow> ('w reputation_chain, reputation_error, reputation_stats) act" where
  "load_stats a =
     bindS (store_get (reputation_key_raw (RepStats a)) as_rep_stats)
       (\<lambda>found. ret (case found of None \<Rightarrow> \<lparr>rs_completed = 0, rs_cancelled = 0\<rparr> | Some st \<Rightarrow> st))"

definition save_stats ::
  "address \<Rightarrow> reputation_stats \<Rightarrow> ('w reputation_chain, reputation_error, unit) act" where
  "save_stats a st = store_set (reputation_key_raw (RepStats a)) (RVStats st)"

definition reputation_init ::
  "ctx \<Rightarrow> address \<Rightarrow> ('w reputation_chain, reputation_error, unit) act" where
  "reputation_init env admin =
     bindS (store_has (reputation_key_raw RepAdmin)) (\<lambda>present.
     thenS (fail_if present AlreadyInitialized)
     (thenS (require_auth env admin)
     (store_set (reputation_key_raw RepAdmin) (RVAddress admin))))"

definition register_caller ::
  "ctx \<Rightarrow> address \<Rightarrow> ('w reputation_chain, reputation_error, unit) act" where
  "register_caller env caller =
     bindS (store_get (reputation_key_raw RepAdmin) as_rep_address) (\<lambda>found.
     bindS (expect NotInitialised found) (\<lambda>admin.
     thenS (require_auth env admin)
     (store_set (reputation_key_raw (RepCaller caller)) (RVFlag True))))"

definition record_completion ::
  "ctx \<Rightarrow> address \<Rightarrow> address \<Rightarrow> ('w reputation_chain, reputation_error, unit) act" where
  "record_completion env caller a =
     thenS (require_auth env caller)
     (bindS (store_has (reputation_key_raw (RepCaller caller))) (\<lambda>registered.
     thenS (fail_if (\<not> registered) RepUnauthorized)
     (bindS (load_stats a) (\<lambda>stats.
     bindS (word_add (rs_completed stats) 1) (\<lambda>completed.
     let stats = stats\<lparr>rs_completed := completed\<rparr> in
     thenS (save_stats a stats)
     (emit_updated a (rs_completed stats) (rs_cancelled stats)))))))"

definition record_cancellation ::
  "ctx \<Rightarrow> address \<Rightarrow> address \<Rightarrow> ('w reputation_chain, reputation_error, unit) act" where
  "record_cancellation env caller a =
     thenS (require_auth env caller)
     (bindS (store_has (reputation_key_raw (RepCaller caller))) (\<lambda>registered.
     thenS (fail_if (\<not> registered) RepUnauthorized)
     (bindS (load_stats a) (\<lambda>stats.
     bindS (word_add (rs_cancelled stats) 1) (\<lambda>cancelled.
     let stats = stats\<lparr>rs_cancelled := cancelled\<rparr> in
     thenS (save_stats a stats)
     (emit_updated a (rs_completed stats) (rs_cancelled stats)))))))"

definition get_stats :: "address \<Rightarrow> ('w reputation_chain, reputation_error, reputation_stats) act" where
  "get_stats a = load_stats a"

definition get_reputation :: "address \<Rightarrow> ('w reputation_chain, reputation_error, u32) act" where
  "get_reputation a =
     bindS (load_stats a) (\<lambda>stats.
     bindS (word_mul (rs_completed stats) 10) (\<lambda>positive.
     bindS (word_mul (rs_cancelled stats) 5) (\<lambda>negative.
     ret (saturating_sub positive negative))))"

datatype reputation_call =
    RepInit address
  | RegisterCaller address
  | RecordCompletion address address
  | RecordCancellation address address

fun exec_reputation ::
  "ctx \<Rightarrow> reputation_call \<Rightarrow> ('w reputation_chain, reputation_error, unit) act" where
  "exec_reputation env (RepInit a) = reputation_init env a"
| "exec_reputation env (RegisterCaller a) = register_caller env a"
| "exec_reputation env (RecordCompletion c a) = record_completion env c a"
| "exec_reputation env (RecordCancellation c a) = record_cancellation env c a"

section \<open>Views\<close>

definition rep_stats :: "'w reputation_chain \<Rightarrow> address \<Rightarrow> reputation_stats" where
  "rep_stats s a = (case Option.bind (inst_store s (reputation_key_raw (RepStats a))) as_rep_stats of
     None \<Rightarrow> \<lparr>rs_completed = 0, rs_cancelled = 0\<rparr> | Some st \<Rightarrow> st)"

definition rep_registered :: "'w reputation_chain \<Rightarrow> address \<Rightarrow> bool" where
  "rep_registered s a \<longleftrightarrow> inst_store s (reputation_key_raw (RepCaller a)) \<noteq> None"

definition rep_admin :: "'w reputation_chain \<Rightarrow> address option" where
  "rep_admin s = Option.bind (inst_store s (reputation_key_raw RepAdmin)) as_rep_address"

definition rep_typed :: "'w reputation_chain \<Rightarrow> bool" where
  "rep_typed s \<longleftrightarrow>
     (\<forall>a v. inst_store s (reputation_key_raw (RepStats a)) = Some v \<longrightarrow> as_rep_stats v \<noteq> None) \<and>
     (\<forall>v. inst_store s (reputation_key_raw RepAdmin) = Some v \<longrightarrow> as_rep_address v \<noteq> None)"

declare reputation_key_raw.simps [simp del]

lemma reputation_key_raw_eq [simp]: "reputation_key_raw a = reputation_key_raw b \<longleftrightarrow> a = b"
  by (cases a; cases b) (simp_all add: reputation_key_raw.simps)

interpretation reputation_records: keyed_store
    "\<lambda>s a. Option.bind (inst_store s (reputation_key_raw (RepStats a))) as_rep_stats"
    "\<lambda>a st. store_put (reputation_key_raw (RepStats a)) (RVStats st)"
  by unfold_locales simp_all

lemma rep_views_put [simp]:
  "rep_stats (store_put (reputation_key_raw (RepStats a)) (RVStats st) s) = (rep_stats s)(a := st)"
  "rep_registered (store_put (reputation_key_raw (RepStats a)) v s) = rep_registered s"
  "rep_admin (store_put (reputation_key_raw (RepStats a)) v s) = rep_admin s"
  "rep_stats (store_put (reputation_key_raw (RepCaller c)) v s) = rep_stats s"
  "rep_registered (store_put (reputation_key_raw (RepCaller c)) v s) = (rep_registered s)(c := True)"
  "rep_admin (store_put (reputation_key_raw (RepCaller c)) v s) = rep_admin s"
  "rep_stats (store_put (reputation_key_raw RepAdmin) v s) = rep_stats s"
  "rep_registered (store_put (reputation_key_raw RepAdmin) v s) = rep_registered s"
  "rep_admin (store_put (reputation_key_raw RepAdmin) (RVAddress a) s) = Some a"
  by (simp_all add: rep_stats_def rep_registered_def rep_admin_def fun_eq_iff)

lemma rep_views_frame [simp]:
  "rep_stats (s\<lparr>ev_log := l\<rparr>) = rep_stats s" "rep_registered (s\<lparr>ev_log := l\<rparr>) = rep_registered s"
  "rep_admin (s\<lparr>ev_log := l\<rparr>) = rep_admin s" "rep_typed (s\<lparr>ev_log := l\<rparr>) = rep_typed s"
  by (simp_all add: rep_stats_def rep_registered_def rep_admin_def rep_typed_def fun_eq_iff)

lemma rep_typed_put [simp]:
  "rep_typed s \<Longrightarrow> rep_typed (store_put (reputation_key_raw (RepStats a)) (RVStats st) s)"
  "rep_typed s \<Longrightarrow> rep_typed (store_put (reputation_key_raw (RepCaller c)) v s)"
  "rep_typed s \<Longrightarrow> rep_typed (store_put (reputation_key_raw RepAdmin) (RVAddress a) s)"
  by (auto simp: rep_typed_def)

section \<open>What the functions do\<close>

lemma load_stats_typed: "rep_typed s \<Longrightarrow> load_stats a s = (Done (rep_stats s a), s)"
  by (cases "inst_store s (reputation_key_raw (RepStats a))")
    (auto simp: load_stats_def rep_stats_def rep_typed_def run_simps split: option.splits)

lemma save_stats_eq [act_simps]:
  "save_stats a st s = (r, s') \<longleftrightarrow>
     r = Done () \<and> s' = store_put (reputation_key_raw (RepStats a)) (RVStats st) s"
  by (simp add: save_stats_def act_simps)

definition bump_completed :: "reputation_stats \<Rightarrow> reputation_stats" where
  "bump_completed st = st\<lparr>rs_completed := rs_completed st + 1\<rparr>"

definition bump_cancelled :: "reputation_stats \<Rightarrow> reputation_stats" where
  "bump_cancelled st = st\<lparr>rs_cancelled := rs_cancelled st + 1\<rparr>"

lemma record_completion_Done:
  assumes "rep_typed s"
  shows "record_completion env c a s = (Done u, s') \<longleftrightarrow> c \<in> ctx_auth env \<and> rep_registered s c \<and>
    uint (rs_completed (rep_stats s a)) + 1 < 2 ^ 32 \<and>
    s' = (store_put (reputation_key_raw (RepStats a)) (RVStats (bump_completed (rep_stats s a))) s)
      \<lparr>ev_log := ev_log s @ [ReputationUpdated a (rs_completed (rep_stats s a) + 1)
         (rs_cancelled (rep_stats s a))]\<rparr>"
  using load_stats_typed [OF assms, of a]
  by (auto simp: record_completion_def op_defs Let_def act_simps rep_registered_def bump_completed_def)

lemma record_cancellation_Done:
  assumes "rep_typed s"
  shows "record_cancellation env c a s = (Done u, s') \<longleftrightarrow> c \<in> ctx_auth env \<and> rep_registered s c \<and>
    uint (rs_cancelled (rep_stats s a)) + 1 < 2 ^ 32 \<and>
    s' = (store_put (reputation_key_raw (RepStats a)) (RVStats (bump_cancelled (rep_stats s a))) s)
      \<lparr>ev_log := ev_log s @ [ReputationUpdated a (rs_completed (rep_stats s a))
         (rs_cancelled (rep_stats s a) + 1)]\<rparr>"
  using load_stats_typed [OF assms, of a]
  by (auto simp: record_cancellation_def op_defs Let_def act_simps rep_registered_def bump_cancelled_def)

lemma register_caller_Done:
  "register_caller env c s = (Done u, s') \<longleftrightarrow> (\<exists>admin. rep_admin s = Some admin \<and>
     admin \<in> ctx_auth env \<and> s' = store_put (reputation_key_raw (RepCaller c)) (RVFlag True) s)"
  by (auto simp: register_caller_def rep_admin_def act_simps split: option.splits)

lemma reputation_init_Done:
  "reputation_init env a s = (Done u, s') \<longleftrightarrow> inst_store s (reputation_key_raw RepAdmin) = None \<and>
     a \<in> ctx_auth env \<and> s' = store_put (reputation_key_raw RepAdmin) (RVAddress a) s"
  by (auto simp: reputation_init_def act_simps)

lemmas reputation_Done =
  record_completion_Done record_cancellation_Done register_caller_Done reputation_init_Done

section \<open>Transcripts of calls\<close>

text \<open>A transcript records every call with its context and its outcome.\<close>

type_synonym reputation_label = "(ctx \<times> reputation_call) \<times> (reputation_error, unit) outcome"

inductive reputation_step ::
  "'w reputation_chain \<Rightarrow> reputation_label \<Rightarrow> 'w reputation_chain \<Rightarrow> bool" where
  rstep: "reputation_step s ((env, c), r) s'" if "transact (exec_reputation env c) s = (r, s')"

inductive_cases reputation_stepE: "reputation_step s ((env, c), r) s'"

lemma exec_reputation_typed:
  "exec_reputation env c s = (Done u, s') \<Longrightarrow> rep_typed s \<Longrightarrow> rep_typed s'"
  by (cases c) (auto simp: reputation_Done)

lemma reputation_step_typed:
  "reputation_step s l s' \<Longrightarrow> rep_typed s \<Longrightarrow> rep_typed s'"
proof (induction rule: reputation_step.induct)
  case (rstep env c s r s')
  then show ?case
    by (cases r) (auto simp: transact_Done intro: exec_reputation_typed dest: transact_failed)
qed

interpretation reputation_system: machine reputation_step rep_typed
  by unfold_locales (blast intro: reputation_step_typed)

text \<open>The successful records of a transcript for an address, and the registrations.\<close>

fun completes :: "address \<Rightarrow> reputation_label \<Rightarrow> bool" where
  "completes a ((env, RecordCompletion c b), r) = (b = a \<and> r = Done ())"
| "completes a _ = False"

fun cancels :: "address \<Rightarrow> reputation_label \<Rightarrow> bool" where
  "cancels a ((env, RecordCancellation c b), r) = (b = a \<and> r = Done ())"
| "cancels a _ = False"

lemma reputation_step_stats:
  assumes "reputation_step s l s'" and "rep_typed s"
  shows "uint (rs_completed (rep_stats s' a)) =
      uint (rs_completed (rep_stats s a)) + (if completes a l then 1 else 0)"
    and "uint (rs_cancelled (rep_stats s' a)) =
      uint (rs_cancelled (rep_stats s a)) + (if cancels a l then 1 else 0)"
proof -
  from assms(1) obtain env c r where l: "l = ((env, c), r)"
    and t: "transact (exec_reputation env c) s = (r, s')" by cases
  have "uint (rs_completed (rep_stats s' a)) =
      uint (rs_completed (rep_stats s a)) + (if completes a l then 1 else 0) \<and>
     uint (rs_cancelled (rep_stats s' a)) =
      uint (rs_cancelled (rep_stats s a)) + (if cancels a l then 1 else 0)"
  proof (cases "r = Done ()")
    case True
    then have "exec_reputation env c s = (Done (), s')" using t by (simp add: transact_Done)
    then show ?thesis using assms(2) True l
      by (cases c) (auto simp: reputation_Done bump_completed_def bump_cancelled_def uint_add_exact)
  next
    case False
    then have "s' = s" using transact_failed [OF t] by (cases r) auto
    then show ?thesis using False l by (cases c) auto
  qed
  then show "uint (rs_completed (rep_stats s' a)) =
      uint (rs_completed (rep_stats s a)) + (if completes a l then 1 else 0)"
    and "uint (rs_cancelled (rep_stats s' a)) =
      uint (rs_cancelled (rep_stats s a)) + (if cancels a l then 1 else 0)" by blast+
qed

lemma reputation_step_registered:
  assumes "reputation_step s l s'" and "rep_typed s" and "rep_registered s' c"
  shows "rep_registered s c \<or> (\<exists>env admin. l = ((env, RegisterCaller c), Done ()) \<and>
    rep_admin s = Some admin \<and> admin \<in> ctx_auth env)"
proof -
  from assms(1) obtain env k r where l: "l = ((env, k), r)"
    and t: "transact (exec_reputation env k) s = (r, s')" by cases
  show ?thesis
  proof (cases "r = Done ()")
    case True
    then have "exec_reputation env k s = (Done (), s')" using t by (simp add: transact_Done)
    then show ?thesis using assms(2,3) True l
      by (cases k) (auto simp: reputation_Done split: if_splits)
  next
    case False
    then have "s' = s" using transact_failed [OF t] by (cases r) auto
    then show ?thesis using assms(3) by simp
  qed
qed

definition rep_fresh :: "'w reputation_chain \<Rightarrow> bool" where
  "rep_fresh s \<longleftrightarrow> inst_store s = Map.empty"

lemma rep_fresh_views:
  assumes "rep_fresh s"
  shows "rep_typed s" and "rep_stats s a = \<lparr>rs_completed = 0, rs_cancelled = 0\<rparr>"
    and "\<not> rep_registered s c" and "rep_admin s = None"
  using assms by (simp_all add: rep_fresh_def rep_typed_def rep_stats_def rep_registered_def rep_admin_def)

lemma run_stats:
  assumes "run reputation_step s ls s'" and "rep_typed s"
  shows "uint (rs_completed (rep_stats s' a)) =
      uint (rs_completed (rep_stats s a)) + int (length (filter (completes a) ls)) \<and>
    uint (rs_cancelled (rep_stats s' a)) =
      uint (rs_cancelled (rep_stats s a)) + int (length (filter (cancels a) ls))"
  using assms
proof (induction rule: run.induct)
  case (run_cons s l s' ls s'')
  have "rep_typed s'" using reputation_step_typed run_cons.hyps(1) run_cons.prems by blast
  with run_cons.IH reputation_step_stats [OF run_cons.hyps(1) run_cons.prems, of a]
  show ?case by simp
qed simp

section \<open>The administrator\<close>

text \<open>Only one \<open>init\<close> ever succeeds; what it has named stays, and what was counted stays counted.\<close>

lemma rep_admin_None: "rep_typed s \<Longrightarrow> inst_store s (reputation_key_raw RepAdmin) = None \<longleftrightarrow> rep_admin s = None"
  by (cases "inst_store s (reputation_key_raw RepAdmin)") (auto simp: rep_admin_def rep_typed_def)

lemma reputation_step_admin:
  assumes "reputation_step s l s'" and "rep_typed s" and "rep_admin s' = Some admin"
  shows "rep_admin s = Some admin \<or>
    (\<exists>env. l = ((env, RepInit admin), Done ()) \<and> admin \<in> ctx_auth env)"
proof -
  from assms(1) obtain env k r where l: "l = ((env, k), r)"
    and t: "transact (exec_reputation env k) s = (r, s')" by cases
  show ?thesis
  proof (cases "r = Done ()")
    case True
    then have "exec_reputation env k s = (Done (), s')" using t by (simp add: transact_Done)
    then show ?thesis using assms(2,3) True l by (cases k) (auto simp: reputation_Done)
  next
    case False
    then have "s' = s" using transact_failed [OF t] by (cases r) auto
    then show ?thesis using assms(3) by simp
  qed
qed

definition rep_progress :: "'w reputation_chain \<Rightarrow> 'w reputation_chain \<Rightarrow> bool" where
  "rep_progress s s' \<longleftrightarrow> (\<forall>a. rep_admin s = Some a \<longrightarrow> rep_admin s' = Some a) \<and>
     (\<forall>c. rep_registered s c \<longrightarrow> rep_registered s' c) \<and>
     (\<forall>a. rs_completed (rep_stats s a) \<le> rs_completed (rep_stats s' a) \<and>
       rs_cancelled (rep_stats s a) \<le> rs_cancelled (rep_stats s' a)) \<and>
     (\<exists>evs. ev_log s' = ev_log s @ evs)"

lemma rep_progress_refl: "rep_progress s s"
  by (simp add: rep_progress_def)

lemma rep_progress_trans: "rep_progress s t \<Longrightarrow> rep_progress t u \<Longrightarrow> rep_progress s u"
  unfolding rep_progress_def by (auto intro: order_trans)

lemma exec_reputation_progress:
  assumes "exec_reputation env c s = (Done u, s')" and "rep_typed s"
  shows "rep_progress s s'"
  using assms rep_admin_None [OF assms(2)] inc_le
  by (cases c) (auto simp: reputation_Done rep_progress_def bump_completed_def bump_cancelled_def
      word_le_def uint_add_exact)

lemma reputation_step_progress:
  assumes "reputation_step s l s'" and "rep_typed s"
  shows "rep_progress s s'"
  using assms
proof (induction rule: reputation_step.induct)
  case (rstep env c s r s')
  then show ?case
    by (cases r) (auto simp: transact_Done rep_progress_refl intro: exec_reputation_progress
        dest: transact_failed)
qed

interpretation reputation_history: monotone_machine reputation_step rep_typed rep_progress
  by unfold_locales
    (auto intro: reputation_step_typed reputation_step_progress rep_progress_refl rep_progress_trans)

text \<open>Tracing back: what the state shows was granted by a call of the transcript.\<close>

lemma run_admin:
  assumes "run reputation_step s ls s'" and "rep_typed s" and "rep_admin s' = Some a" and "rep_admin s = None"
  shows "\<exists>env. ((env, RepInit a), Done ()) \<in> set ls \<and> a \<in> ctx_auth env"
  using assms
proof (induction rule: run.induct)
  case (run_cons s l s' ls s'')
  have typed: "rep_typed s'" using reputation_step_typed run_cons.hyps(1) run_cons.prems(1) by blast
  show ?case
  proof (cases "rep_admin s'")
    case None
    then show ?thesis using run_cons.IH [OF typed run_cons.prems(2)] by auto
  next
    case (Some b)
    note granted = reputation_step_admin [OF run_cons.hyps(1) run_cons.prems(1) Some]
    have "rep_admin s'' = Some b"
      using reputation_history.run_le [OF run_cons.hyps(2) typed] Some by (simp add: rep_progress_def)
    then show ?thesis using granted run_cons.prems(2,3) by auto
  qed
qed simp

lemma run_registered:
  assumes "run reputation_step s ls s'" and "rep_typed s" and "rep_registered s' c"
    and "\<not> rep_registered s c"
  shows "\<exists>ls1 s1 env ls2 admin. ls = ls1 @ ((env, RegisterCaller c), Done ()) # ls2 \<and>
    run reputation_step s ls1 s1 \<and> rep_admin s1 = Some admin \<and> admin \<in> ctx_auth env"
  using assms
proof (induction rule: run.induct)
  case (run_cons s l s' ls s'')
  have typed: "rep_typed s'" using reputation_step_typed run_cons.hyps(1) run_cons.prems(1) by blast
  show ?case
  proof (cases "rep_registered s' c")
    case True
    then obtain env admin where "l = ((env, RegisterCaller c), Done ())" "rep_admin s = Some admin"
      "admin \<in> ctx_auth env"
      using reputation_step_registered [OF run_cons.hyps(1) run_cons.prems(1)] run_cons.prems(3) by blast
    then show ?thesis by (intro exI [of _ "[]"] exI [of _ s]) (auto intro: run.run_nil)
  next
    case False
    then obtain ls1 s1 env ls2 admin where "ls = ls1 @ ((env, RegisterCaller c), Done ()) # ls2"
      "run reputation_step s' ls1 s1" "rep_admin s1 = Some admin" "admin \<in> ctx_auth env"
      using run_cons.IH [OF typed run_cons.prems(2)] by blast
    then show ?thesis
      using run.run_cons [where step = reputation_step, OF run_cons.hyps(1)] by (intro exI [of _ "l # ls1"] exI [of _ s1]) auto
  qed
qed simp

lemma init_refused:
  assumes "reputation_step s ((env, RepInit b), r) s'" and "rep_typed s" and "rep_admin s = Some a"
  shows "r \<noteq> Done ()"
  using assms rep_admin_None [OF assms(2)]
  by (auto elim!: reputation_stepE simp: transact_Done reputation_init_Done)

text \<open>The contract moves no tokens.\<close>

lemma exec_reputation_ledger: "exec_reputation env c s = (Done u, s') \<Longrightarrow> ledger s' = ledger s"
  by (cases c) (auto simp: record_completion_def record_cancellation_def register_caller_def
      reputation_init_def load_stats_def op_defs Let_def act_simps)

interpretation reputation_code: contract_code "\<lambda>h. exec_reputation"
  by unfold_locales (simp add: exec_reputation_ledger)

end
