(* ===== verification/Reputation_Props.thy ===== *)
theory Reputation_Props
  imports Reputation
begin

text \<open>
  The properties of the reputation contract: the counters are exactly the records made by callers
  the administrator has registered, and the score is the documented formula, up to the numbers
  at which its computation overflows.
\<close>

section \<open>An example\<close>

definition rx_env :: "address set \<Rightarrow> ctx" where
  "rx_env auth = \<lparr>ctx_self = ''reputation'', ctx_now = 0, ctx_auth = auth\<rparr>"

definition rx_start :: "unit reputation_chain" where
  "rx_start = \<lparr>inst_store = Map.empty, inst_ttl = 0, ev_log = [], ledger = ()\<rparr>"

definition rx_calls :: "(ctx \<times> reputation_call) list" where
  "rx_calls = [(rx_env {''admin''}, RepInit ''admin''),
     (rx_env {''admin''}, RegisterCaller ''escrow''),
     (rx_env {''escrow''}, RecordCompletion ''escrow'' ''bob''),
     (rx_env {''eve''}, RecordCompletion ''eve'' ''bob'')]"

text \<open>Run the calls, collecting the transcript.\<close>

fun transcript ::
  "(ctx \<times> reputation_call) list \<Rightarrow> 'w reputation_chain \<Rightarrow> reputation_label list \<times> 'w reputation_chain"
where
  "transcript [] s = ([], s)"
| "transcript ((env, c) # cs) s =
     (case transact (exec_reputation env c) s of (r, s') \<Rightarrow>
        (case transcript cs s' of (ls, s'') \<Rightarrow> (((env, c), r) # ls, s'')))"

lemma run_transcript: "transcript cs s = (ls, s') \<Longrightarrow> run reputation_step s ls s'"
  by (induction cs s arbitrary: ls rule: transcript.induct)
    (auto intro: run.run_cons rstep split: prod.splits)

lemma rx_transcript:
  "fst (transcript rx_calls rx_start) = zip rx_calls [Done (), Done (), Done (), Err RepUnauthorized]"
  by (simp add: rx_calls_def rx_start_def rx_env_def transact_def reputation_init_def register_caller_def
      record_completion_def load_stats_def save_stats_def op_defs run_simps Let_def)

definition rx_end :: "unit reputation_chain" where
  "rx_end = snd (transcript rx_calls rx_start)"

lemma rx_run:
  "run reputation_step rx_start (zip rx_calls [Done (), Done (), Done (), Err RepUnauthorized]) rx_end"
  by (rule run_transcript [of rx_calls]) (simp add: prod_eq_iff rx_transcript rx_end_def)

lemma rx_fresh: "rep_fresh rx_start"
  by (simp add: rep_fresh_def rx_start_def)

lemma rx_counts:
  "uint (rs_completed (rep_stats rx_end ''bob'')) = 1" "uint (rs_cancelled (rep_stats rx_end ''bob'')) = 0"
  using run_stats [OF rx_run rep_fresh_views(1) [OF rx_fresh], of "''bob''"] rep_fresh_views(2) [OF rx_fresh]
  by (simp_all add: rx_calls_def)

text \<open>The contract before anything is recorded.\<close>

definition rx_mid :: "unit reputation_chain" where
  "rx_mid = snd (transcript (take 2 rx_calls) rx_start)"

lemma rx_mid_views: "rep_admin rx_mid = Some ''admin''" "rep_registered rx_mid ''escrow''"
  by (simp_all add: rx_mid_def rx_calls_def rx_start_def rx_env_def transact_def reputation_init_def
      register_caller_def op_defs run_simps Let_def rep_registered_def rep_admin_def)

lemma rx_run_mid: "run reputation_step rx_start (zip (take 2 rx_calls) [Done (), Done ()]) rx_mid"
  by (rule run_transcript [of "take 2 rx_calls"])
    (simp add: prod_eq_iff rx_mid_def rx_calls_def rx_start_def rx_env_def transact_def reputation_init_def
      register_caller_def op_defs run_simps Let_def)

lemma rx_run_rest:
  "run reputation_step rx_mid (zip (drop 2 rx_calls) [Done (), Err RepUnauthorized]) rx_end"
  by (rule run_transcript [of "drop 2 rx_calls"])
    (simp add: prod_eq_iff rx_mid_def rx_end_def rx_calls_def rx_start_def rx_env_def transact_def
      reputation_init_def register_caller_def record_completion_def load_stats_def save_stats_def
      op_defs run_simps Let_def)

section \<open>Properties\<close>

text \<open>
  C25. The counters count. Over any transcript of calls from an empty contract, \<open>get_stats\<close> returns
  for an address exactly the number of completions and cancellations that were recorded for it.
  Every recorded one was signed by its caller, whom an earlier call has registered; that
  registration was signed by the administrator, who had been named, with a signature, by a
  successful \<open>init\<close> before it.
\<close>

theorem reputation_counts:
  assumes "rep_fresh s0" and "run reputation_step s0 ls s"
  shows "(\<exists>st. get_stats a s = (Done st, s) \<and>
      uint (rs_completed st) = int (length (filter (completes a) ls)) \<and>
      uint (rs_cancelled st) = int (length (filter (cancels a) ls))) \<and>
    (ls = ls1 @ ((env, c), Done ()) # ls2 \<longrightarrow>
      c = RecordCompletion caller b \<or> c = RecordCancellation caller b \<longrightarrow>
      caller \<in> ctx_auth env \<and> (\<exists>ls3 env1 ls4 admin env0.
        ls1 = ls3 @ ((env1, RegisterCaller caller), Done ()) # ls4 \<and> admin \<in> ctx_auth env1 \<and>
        ((env0, RepInit admin), Done ()) \<in> set ls3 \<and> admin \<in> ctx_auth env0))"
proof (intro conjI impI)
  note fresh = rep_fresh_views [OF assms(1)]
  have typed: "rep_typed s"
    using reputation_system.run_inv [OF assms(2)] fresh(1) by blast
  show "\<exists>st. get_stats a s = (Done st, s) \<and>
      uint (rs_completed st) = int (length (filter (completes a) ls)) \<and>
      uint (rs_cancelled st) = int (length (filter (cancels a) ls))"
    using run_stats [OF assms(2) fresh(1), of a] load_stats_typed [OF typed, of a]
    by (simp add: get_stats_def fresh(2))
  assume ls: "ls = ls1 @ ((env, c), Done ()) # ls2"
    and c: "c = RecordCompletion caller b \<or> c = RecordCancellation caller b"
  from assms(2) obtain s1 s2 where r1: "run reputation_step s0 ls1 s1"
    and st: "reputation_step s1 ((env, c), Done ()) s2"
    by (auto simp: ls run_append run_Cons_iff)
  have typed1: "rep_typed s1" using reputation_system.run_inv [OF r1] fresh(1) by blast
  from st have "exec_reputation env c s1 = (Done (), s2)"
    by (auto elim: reputation_stepE simp: transact_Done)
  then have auth: "caller \<in> ctx_auth env" and reg: "rep_registered s1 caller"
    using c typed1 by (auto simp: reputation_Done)
  from run_registered [OF r1 fresh(1) reg fresh(3)] obtain ls3 s3 env1 ls4 admin where
    "ls1 = ls3 @ ((env1, RegisterCaller caller), Done ()) # ls4" "admin \<in> ctx_auth env1"
    "run reputation_step s0 ls3 s3" "rep_admin s3 = Some admin" by blast
  moreover then obtain env0 where "((env0, RepInit admin), Done ()) \<in> set ls3" "admin \<in> ctx_auth env0"
    using run_admin [OF _ fresh(1) _ fresh(4)] by blast
  ultimately show "\<exists>ls3 env1 ls4 admin env0.
      ls1 = ls3 @ ((env1, RegisterCaller caller), Done ()) # ls4 \<and> admin \<in> ctx_auth env1 \<and>
      ((env0, RepInit admin), Done ()) \<in> set ls3 \<and> admin \<in> ctx_auth env0" by blast
  show "caller \<in> ctx_auth env" by (fact auth)
qed

theorem reputation_counts_witness:
  "(\<exists>st. get_stats ''bob'' rx_end = (Done st, rx_end) \<and> uint (rs_completed st) = 1 \<and>
     uint (rs_cancelled st) = 0) \<and>
   (\<exists>ls3 env1 ls4 admin. take 2 (zip rx_calls [Done (), Done (), Done (), Err RepUnauthorized]) =
     ls3 @ ((env1, RegisterCaller ''escrow''), Done ()) # ls4 \<and> admin \<in> ctx_auth env1)"
proof
  show "\<exists>st. get_stats ''bob'' rx_end = (Done st, rx_end) \<and> uint (rs_completed st) = 1 \<and>
     uint (rs_cancelled st) = 0"
    using reputation_counts [THEN conjunct1, OF rx_fresh rx_run, of "''bob''"] by (simp add: rx_calls_def)
  have "zip rx_calls [Done (), Done (), Done (), Err RepUnauthorized] =
      take 2 (zip rx_calls [Done (), Done (), Done (), Err RepUnauthorized]) @
      ((rx_env {''escrow''}, RecordCompletion ''escrow'' ''bob''), Done ()) #
      drop 3 (zip rx_calls [Done (), Done (), Done (), Err RepUnauthorized])"
    by (simp add: rx_calls_def)
  from reputation_counts [THEN conjunct2, OF rx_fresh rx_run, rule_format, OF this, of "''escrow''" "''bob''"]
  show "\<exists>ls3 env1 ls4 admin. take 2 (zip rx_calls [Done (), Done (), Done (), Err RepUnauthorized]) =
     ls3 @ ((env1, RegisterCaller ''escrow''), Done ()) # ls4 \<and> admin \<in> ctx_auth env1" by blast
qed

text \<open>
  C40. What is recorded stays. Between any two points of a transcript the administrator stays the same
  once it is set, and no further \<open>init\<close> succeeds; registered callers stay registered; no count
  ever falls, and no event is lost.
\<close>

theorem reputation_monotone:
  assumes "rep_fresh s0" and "run reputation_step s0 ls s" and "run reputation_step s ls' s'"
  shows "(\<forall>admin. rep_admin s = Some admin \<longrightarrow> rep_admin s' = Some admin \<and>
      (\<forall>env b. ((env, RepInit b), Done ()) \<notin> set ls')) \<and>
    (\<forall>c. rep_registered s c \<longrightarrow> rep_registered s' c) \<and>
    (\<forall>a. rs_completed (rep_stats s a) \<le> rs_completed (rep_stats s' a) \<and>
      rs_cancelled (rep_stats s a) \<le> rs_cancelled (rep_stats s' a)) \<and>
    (\<exists>evs. ev_log s' = ev_log s @ evs)"
proof -
  have typed: "rep_typed s"
    using reputation_system.run_inv [OF assms(2)] rep_fresh_views(1) [OF assms(1)] by blast
  have "((env, RepInit b), Done ()) \<notin> set ls'" if "rep_admin s = Some admin" for admin env b
  proof
    assume "((env, RepInit b), Done ()) \<in> set ls'"
    then obtain ls1 ls2 where ls': "ls' = ls1 @ ((env, RepInit b), Done ()) # ls2"
      by (meson split_list)
    with assms(3) obtain s1 s2 where r: "run reputation_step s ls1 s1"
      and st: "reputation_step s1 ((env, RepInit b), Done ()) s2" by (auto simp: run_append run_Cons_iff)
    have "rep_typed s1" "rep_admin s1 = Some admin"
      using reputation_system.run_inv [OF r typed] reputation_history.run_le [OF r typed] that
      by (auto simp: rep_progress_def)
    with init_refused [OF st] show False by blast
  qed
  with reputation_history.run_le [OF assms(3) typed] show ?thesis unfolding rep_progress_def by blast
qed

theorem reputation_monotone_witness:
  "rep_admin rx_end = Some ''admin'' \<and> rep_registered rx_end ''escrow''"
  using reputation_monotone [OF rx_fresh rx_run_mid rx_run_rest] rx_mid_views by blast

text \<open>
  C26. The score. \<open>get_reputation\<close> returns ten times the completed minus five times the cancelled
  escrows, or zero if that is negative, as long as both products fit 32 bits; beyond
  429496729 completed or 858993459 cancelled escrows it panics. It changes nothing.
\<close>

theorem reputation_score:
  assumes "rep_typed s"
  shows "get_reputation a s =
    (if rs_completed (rep_stats s a) \<le> 429496729 \<and> rs_cancelled (rep_stats s a) \<le> 858993459
     then Done (word_of_int (max 0 (10 * uint (rs_completed (rep_stats s a))
            - 5 * uint (rs_cancelled (rep_stats s a)))))
     else Trap Overflow, s)"
proof -
  let ?c = "rs_completed (rep_stats s a)" and ?x = "rs_cancelled (rep_stats s a)"
  have fits: "?c \<le> 429496729 \<longleftrightarrow> uint ?c * 10 < 2 ^ 32" "?x \<le> 858993459 \<longleftrightarrow> uint ?x * 5 < 2 ^ 32"
    by (auto simp: word_le_def)
  have "saturating_sub (?c * 10) (?x * 5) = word_of_int (max 0 (10 * uint ?c - 5 * uint ?x))"
    if "uint ?c * 10 < 2 ^ 32" "uint ?x * 5 < 2 ^ 32"
  proof -
    have "uint (?c * 10) = uint ?c * 10" "uint (?x * 5) = uint ?x * 5"
      using uint_mul_exact [of ?c 10] uint_mul_exact [of ?x 5] that by simp_all
    then have "uint (saturating_sub (?c * 10) (?x * 5)) = max 0 (10 * uint ?c - 5 * uint ?x)"
      by (simp add: uint_saturating_sub)
    then show ?thesis by (metis word_of_int_uint)
  qed
  with fits show ?thesis
    by (auto simp: get_reputation_def load_stats_typed [OF assms] run_simps)
qed

theorem reputation_score_witness: "fst (get_reputation ''bob'' rx_end) = Done 10"
proof -
  have typed: "rep_typed rx_end"
    using reputation_system.run_inv [OF rx_run] rep_fresh_views(1) [OF rx_fresh] by blast
  show ?thesis using reputation_score [OF typed, of "''bob''"] rx_counts by (simp add: word_le_def)
qed

end
