(* ===== verification/Reputation_Client.thy ===== *)
theory Reputation_Client
  imports Reputation_Props
begin

text \<open>
  \<^verbatim>\<open>contracts/escrow/src/reputation.rs\<close>: the client through which an escrow contract reports to a
  reputation contract. The caller's state sees the reputation contract as the rest of its ledger. The
  host runs the call as one invocation of that contract, in which the calling contract
  has authorised itself; \<open>granted\<close> are the other addresses whose signature covers the inner call. The
  functions of the trait return nothing, so a returned error ends the caller like a panic.
\<close>

section \<open>Code\<close>

definition invoked :: "ctx \<Rightarrow> address \<Rightarrow> address set \<Rightarrow> ctx" where
  "invoked env contract granted =
     \<lparr>ctx_self = contract, ctx_now = ctx_now env, ctx_auth = insert (ctx_self env) granted\<rparr>"

definition invoke_reputation ::
  "('w reputation_chain, reputation_error, unit) act \<Rightarrow>
   (('v, 'ev, 'w reputation_chain) chain, 'e, unit) act" where
  "invoke_reputation call s = (case transact call (ledger s) of
      (Done u, w) \<Rightarrow> (Done u, s\<lparr>ledger := w\<rparr>)
    | (Err e, w) \<Rightarrow> (Trap HostCallFailed, s)
    | (Trap t, w) \<Rightarrow> (Trap HostCallFailed, s))"

definition client_record_completion ::
  "ctx \<Rightarrow> address set \<Rightarrow> address \<Rightarrow> address \<Rightarrow> address \<Rightarrow>
   (('v, 'ev, 'w reputation_chain) chain, 'e, unit) act" where
  "client_record_completion env granted contract caller a =
     invoke_reputation (record_completion (invoked env contract granted) caller a)"

definition client_record_cancellation ::
  "ctx \<Rightarrow> address set \<Rightarrow> address \<Rightarrow> address \<Rightarrow> address \<Rightarrow>
   (('v, 'ev, 'w reputation_chain) chain, 'e, unit) act" where
  "client_record_cancellation env granted contract caller a =
     invoke_reputation (record_cancellation (invoked env contract granted) caller a)"

section \<open>What a call does\<close>

lemma invoke_reputation_Done:
  "invoke_reputation call s = (Done u, s') \<longleftrightarrow> (\<exists>w. call (ledger s) = (Done u, w) \<and> s' = s\<lparr>ledger := w\<rparr>)"
  by (auto simp: invoke_reputation_def transact_def split: prod.splits outcome.splits)

lemma invoke_reputation_failed:
  assumes "\<nexists>u w. call (ledger s) = (Done u, w)"
  shows "invoke_reputation call s = (Trap HostCallFailed, s)"
  using assms by (auto simp: invoke_reputation_def transact_def split: prod.splits outcome.splits)

lemma transcript_typed:
  "rep_fresh w0 \<Longrightarrow> run reputation_step w0 ls w \<Longrightarrow> rep_typed w"
  using reputation_system.run_inv rep_fresh_views(1) by blast

text \<open>The condition under which a count of \<open>n\<close> rises for a caller.\<close>

definition counts :: "'w reputation_chain \<Rightarrow> address \<Rightarrow> u32 \<Rightarrow> bool" where
  "counts w caller n \<longleftrightarrow> rep_registered w caller \<and> uint n + 1 < 2 ^ 32"

text \<open>The one entry a successful report adds to the log and the count it stores.\<close>

definition reported :: "address \<Rightarrow> reputation_stats \<Rightarrow> 'w reputation_chain \<Rightarrow> 'w reputation_chain" where
  "reported a st w = (store_put (reputation_key_raw (RepStats a)) (RVStats st) w)
     \<lparr>ev_log := ev_log w @ [ReputationUpdated a (rs_completed st) (rs_cancelled st)]\<rparr>"

lemma reported_stats [simp]: "rep_stats (reported a st w) = (rep_stats w)(a := st)"
  by (simp add: reported_def)

text \<open>
  C27. Reporting to the reputation contract. Whatever the reputation contract has been through, a report
  of the escrow contract under its own address succeeds exactly when the administrator has registered
  this address and the count can still grow; it then raises this one count by one, publishes it, and
  leaves the escrow's own state alone. In every other case the report panics, which ends the call
  of the escrow contract, and nothing has changed. Nobody can report under the address of another
  contract without its authorisation.
\<close>

theorem client_reports:
  assumes "rep_fresh w0" and "run reputation_step w0 ls (ledger s)"
  shows "client_record_completion env granted contract (ctx_self env) a s =
      (if counts (ledger s) (ctx_self env) (rs_completed (rep_stats (ledger s) a))
       then (Done (), s\<lparr>ledger := reported a (bump_completed (rep_stats (ledger s) a)) (ledger s)\<rparr>)
       else (Trap HostCallFailed, s)) \<and>
    client_record_cancellation env granted contract (ctx_self env) a s =
      (if counts (ledger s) (ctx_self env) (rs_cancelled (rep_stats (ledger s) a))
       then (Done (), s\<lparr>ledger := reported a (bump_cancelled (rep_stats (ledger s) a)) (ledger s)\<rparr>)
       else (Trap HostCallFailed, s)) \<and>
    (caller \<notin> insert (ctx_self env) granted \<longrightarrow>
      client_record_completion env granted contract caller a s = (Trap HostCallFailed, s) \<and>
      client_record_cancellation env granted contract caller a s = (Trap HostCallFailed, s))"
proof (intro conjI impI)
  have typed: "rep_typed (ledger s)" using transcript_typed [OF assms(1,2)] .
  note D = record_completion_Done [OF typed] record_cancellation_Done [OF typed]
  show "client_record_completion env granted contract (ctx_self env) a s =
      (if counts (ledger s) (ctx_self env) (rs_completed (rep_stats (ledger s) a))
       then (Done (), s\<lparr>ledger := reported a (bump_completed (rep_stats (ledger s) a)) (ledger s)\<rparr>)
       else (Trap HostCallFailed, s))"
    unfolding client_record_completion_def counts_def
    by (auto simp: invoke_reputation_Done D invoked_def reported_def bump_completed_def
        intro!: invoke_reputation_failed)
  show "client_record_cancellation env granted contract (ctx_self env) a s =
      (if counts (ledger s) (ctx_self env) (rs_cancelled (rep_stats (ledger s) a))
       then (Done (), s\<lparr>ledger := reported a (bump_cancelled (rep_stats (ledger s) a)) (ledger s)\<rparr>)
       else (Trap HostCallFailed, s))"
    unfolding client_record_cancellation_def counts_def
    by (auto simp: invoke_reputation_Done D invoked_def reported_def bump_cancelled_def
        intro!: invoke_reputation_failed)
  assume "caller \<notin> insert (ctx_self env) granted"
  then show "client_record_completion env granted contract caller a s = (Trap HostCallFailed, s)"
    and "client_record_cancellation env granted contract caller a s = (Trap HostCallFailed, s)"
    unfolding client_record_completion_def client_record_cancellation_def
    by (auto simp: D invoked_def intro!: invoke_reputation_failed)
qed

text \<open>The escrow contract of the example, whose ledger is the reputation contract of the transcript.\<close>

definition rx_escrow :: "(unit, unit, unit reputation_chain) chain" where
  "rx_escrow = \<lparr>inst_store = Map.empty, inst_ttl = 0, ev_log = [], ledger = rx_end\<rparr>"

lemma rx_registered: "rep_registered rx_end ''escrow''"
  by (simp add: rx_end_def rx_calls_def rx_start_def rx_env_def transact_def reputation_init_def
      register_caller_def record_completion_def load_stats_def save_stats_def op_defs run_simps Let_def
      rep_registered_def)

theorem client_reports_witness:
  "\<exists>s'. (client_record_completion ((rx_env {})\<lparr>ctx_self := ''escrow''\<rparr>) {} ''reputation'' ''escrow'' ''bob''
       rx_escrow :: (unit, unit) outcome \<times> _) = (Done (), s') \<and>
     rs_completed (rep_stats (ledger s') ''bob'') = 2"
proof -
  have n: "rs_completed (rep_stats rx_end ''bob'') = 1"
    using rx_counts(1) by (simp add: word_uint_eq_iff)
  have "run reputation_step rx_start (zip rx_calls [Done (), Done (), Done (), Err RepUnauthorized])
      (ledger rx_escrow)"
    using rx_run by (simp add: rx_escrow_def)
  note e = client_reports [where env = "(rx_env {})\<lparr>ctx_self := ''escrow''\<rparr>" and granted = "{}"
      and contract = "''reputation''" and a = "''bob''", OF rx_fresh this, THEN conjunct1]
  have self: "ctx_self ((rx_env {})\<lparr>ctx_self := ''escrow''\<rparr>) = ''escrow''" by simp
  show ?thesis
    unfolding e [unfolded self] by (simp add: rx_env_def rx_escrow_def rx_registered n bump_completed_def counts_def)
qed

end
