(* ===== verification/Cli_Text.thy ===== *)
theory Cli_Text
  imports Prelude
begin

text \<open>
  The text processing of \<^verbatim>\<open>clients/cli/src/main.rs\<close>: the functions of Rust's strings it uses, on
  lists of characters (ASCII text), the update of a variable in a \<^verbatim>\<open>.env\<close> file and the
  search for a fee in the output of a simulation. The lemmas relate the lines of a file before
  and after an update and show that a printed number is read back.
\<close>

section \<open>Strings\<close>

abbreviation newline :: char where
  "newline \<equiv> CHR 0x0A"

abbreviation return :: char where
  "return \<equiv> CHR 0x0D"

text \<open>\<^verbatim>\<open>str::lines\<close>: a newline ends a line, together with a carriage return before it.\<close>

definition chop_return :: "string \<Rightarrow> string" where
  "chop_return l = (if l \<noteq> [] \<and> last l = return then butlast l else l)"

fun lines_from :: "string \<Rightarrow> string \<Rightarrow> string list" where
  "lines_from cur [] = (if cur = [] then [] else [cur])"
| "lines_from cur (c # cs) =
     (if c = newline then chop_return cur # lines_from [] cs else lines_from (cur @ [c]) cs)"

definition rust_lines :: "string \<Rightarrow> string list" where
  "rust_lines s = lines_from [] s"

fun starts_with :: "string \<Rightarrow> string \<Rightarrow> bool" where
  "starts_with s [] = True"
| "starts_with [] (p # ps) = False"
| "starts_with (c # cs) (p # ps) = (c = p \<and> starts_with cs ps)"

definition ends_with_newline :: "string \<Rightarrow> bool" where
  "ends_with_newline s \<longleftrightarrow> s \<noteq> [] \<and> last s = newline"

fun join_lines :: "string list \<Rightarrow> string" where
  "join_lines [] = []"
| "join_lines [l] = l"
| "join_lines (l # m # ls) = l @ newline # join_lines (m # ls)"

definition is_space :: "char \<Rightarrow> bool" where
  "is_space c \<longleftrightarrow> c \<in> {CHR 0x09, CHR 0x0A, CHR 0x0B, CHR 0x0C, CHR 0x0D, CHR '' ''}"

definition trim_where :: "(char \<Rightarrow> bool) \<Rightarrow> string \<Rightarrow> string" where
  "trim_where P s = rev (dropWhile P (rev (dropWhile P s)))"

text \<open>\<^verbatim>\<open>str::trim\<close> and \<^verbatim>\<open>str::split_whitespace\<close>.\<close>

definition trim :: "string \<Rightarrow> string" where
  "trim s = trim_where is_space s"

fun words_from :: "string \<Rightarrow> string \<Rightarrow> string list" where
  "words_from cur [] = (if cur = [] then [] else [cur])"
| "words_from cur (c # cs) =
     (if is_space c then (if cur = [] then words_from [] cs else cur # words_from [] cs)
      else words_from (cur @ [c]) cs)"

definition split_whitespace :: "string \<Rightarrow> string list" where
  "split_whitespace s = words_from [] s"

definition lower_char :: "char \<Rightarrow> char" where
  "lower_char c = (if 65 \<le> (of_char c :: nat) \<and> (of_char c :: nat) \<le> 90
     then char_of ((of_char c :: nat) + 32) else c)"

definition to_lowercase :: "string \<Rightarrow> string" where
  "to_lowercase s = map lower_char s"

fun contains :: "string \<Rightarrow> string \<Rightarrow> bool" where
  "contains [] p = (p = [])"
| "contains (c # cs) p = (starts_with (c # cs) p \<or> contains cs p)"

text \<open>Decimal digits, \<^verbatim>\<open>to_string\<close> of an integer and \<^verbatim>\<open>parse::<u64>()\<close>.\<close>

definition is_digit :: "char \<Rightarrow> bool" where
  "is_digit c \<longleftrightarrow> 48 \<le> (of_char c :: nat) \<and> (of_char c :: nat) \<le> 57"

definition digit_char :: "nat \<Rightarrow> char" where
  "digit_char d = char_of (48 + d)"

definition digit_value :: "char \<Rightarrow> nat" where
  "digit_value c = of_char c - 48"

fun show_nat :: "nat \<Rightarrow> string" where
  "show_nat n = (if n < 10 then [digit_char n] else show_nat (n div 10) @ [digit_char (n mod 10)])"

definition show_int :: "int \<Rightarrow> string" where
  "show_int i = (if i < 0 then CHR ''-'' # show_nat (nat (- i)) else show_nat (nat i))"

definition digits_value :: "string \<Rightarrow> nat" where
  "digits_value s = foldl (\<lambda>n c. 10 * n + digit_value c) 0 s"

definition parse_digits :: "string \<Rightarrow> u64 option" where
  "parse_digits s = (if s \<noteq> [] \<and> list_all is_digit s \<and> digits_value s < 2 ^ 64
     then Some (of_nat (digits_value s)) else None)"

definition parse_u64 :: "string \<Rightarrow> u64 option" where
  "parse_u64 s = (case s of [] \<Rightarrow> None
     | c # cs \<Rightarrow> if c = CHR ''+'' \<and> cs \<noteq> [] then parse_digits cs else parse_digits s)"

section \<open>The .env file\<close>

text \<open>The closure of the \<^verbatim>\<open>map\<close> over the lines, with the flag it sets.\<close>

fun replace_lines :: "string \<Rightarrow> string \<Rightarrow> string list \<Rightarrow> bool \<Rightarrow> string list \<times> bool" where
  "replace_lines pre new_line [] found = ([], found)"
| "replace_lines pre new_line (l # ls) found =
     (if starts_with l pre
      then (case replace_lines pre new_line ls True of (out, f) \<Rightarrow> (new_line # out, f))
      else (case replace_lines pre new_line ls found of (out, f) \<Rightarrow> (l # out, f)))"

definition upsert_content :: "string \<Rightarrow> string \<Rightarrow> string \<Rightarrow> string" where
  "upsert_content key value existing =
     (let pre = key @ ''=''; new_line = key @ ''='' @ value;
          (replaced, found) = replace_lines pre new_line (rust_lines existing) False;
          updated = join_lines replaced;
          content = (if found then updated else existing @ newline # new_line) in
      if ends_with_newline content then content else content @ [newline])"

text \<open>Reading it back: the value of the first line for the key.\<close>

definition env_lookup :: "string \<Rightarrow> string \<Rightarrow> string option" where
  "env_lookup key content = map_option (drop (length key + 1))
     (find (\<lambda>l. starts_with l (key @ ''='')) (rust_lines content))"

section \<open>The fee of a simulation\<close>

fun find_map :: "('a \<Rightarrow> 'b option) \<Rightarrow> 'a list \<Rightarrow> 'b option" where
  "find_map f [] = None"
| "find_map f (x # xs) = (case f x of Some y \<Rightarrow> Some y | None \<Rightarrow> find_map f xs)"

text \<open>The fallback of \<^verbatim>\<open>run_estimate_fee\<close>: the first number on a line that speaks of a fee.\<close>

definition fee_from_text :: "string \<Rightarrow> u64" where
  "fee_from_text combined = (case
     find_map (\<lambda>l. let l = to_lowercase l in
       if contains l ''fee''
       then find_map (\<lambda>w. parse_u64 (trim_where (\<lambda>c. \<not> is_digit c) w)) (split_whitespace l)
       else None) (rust_lines combined)
     of None \<Rightarrow> 0 | Some n \<Rightarrow> n)"

section \<open>Lemmas on lines\<close>

lemma starts_with_iff: "starts_with s p \<longleftrightarrow> (\<exists>t. s = p @ t)"
  by (induction s p rule: starts_with.induct) auto

lemma replace_lines_eq:
  "replace_lines pre new_line ls found =
    (map (\<lambda>l. if starts_with l pre then new_line else l) ls, found \<or> (\<exists>l \<in> set ls. starts_with l pre))"
  by (induction ls arbitrary: found) (auto split: prod.splits)

lemma chop_return_id [simp]: "return \<notin> set l \<Longrightarrow> chop_return l = l"
  by (auto simp: chop_return_def dest: last_in_set)

text \<open>A file without carriage returns: appending a line, and reading joined lines back.\<close>

lemma lines_from_append:
  "lines_from cur (a @ newline # b) = lines_from cur (a @ [newline]) @ lines_from [] b"
  by (induction a arbitrary: cur) auto

lemma lines_from_line:
  "newline \<notin> set l \<Longrightarrow> lines_from cur (l @ newline # b) = chop_return (cur @ l) # lines_from [] b"
  by (induction l arbitrary: cur) auto

lemma lines_from_last:
  "newline \<notin> set l \<Longrightarrow> lines_from cur l = (if cur @ l = [] then [] else [cur @ l])"
  by (induction l arbitrary: cur) auto

text \<open>A final newline adds at most an empty line.\<close>

lemma lines_from_newline:
  assumes "return \<notin> set cur" and "return \<notin> set a"
  shows "\<exists>e. lines_from cur (a @ [newline]) = lines_from cur a @ e \<and> set e \<subseteq> {[]}"
  using assms
proof (induction a arbitrary: cur)
  case Nil
  then show ?case by (cases "cur = []") (auto intro: exI [of _ "[[]]"])
next
  case (Cons c a)
  then show ?case by (cases "c = newline") auto
qed

lemma find_append: "find P (xs @ ys) = (case find P xs of None \<Rightarrow> find P ys | Some x \<Rightarrow> Some x)"
  by (induction xs) auto

lemma find_newline:
  assumes "return \<notin> set a" and "\<not> P []"
  shows "find P (rust_lines (a @ [newline])) = find P (rust_lines a)"
proof -
  obtain e where "rust_lines (a @ [newline]) = rust_lines a @ e" and e: "set e \<subseteq> {[]}"
    using lines_from_newline [of "[]" a] assms(1) by (auto simp: rust_lines_def)
  moreover have "find P e = None" using e assms(2) by (auto simp: find_None_iff)
  ultimately show ?thesis by (simp add: find_append split: option.split)
qed

definition clean_line :: "string \<Rightarrow> bool" where
  "clean_line l \<longleftrightarrow> newline \<notin> set l \<and> return \<notin> set l"

lemma clean_line_simps [simp]:
  "clean_line []" "clean_line (l @ [c]) \<longleftrightarrow> clean_line l \<and> c \<noteq> newline \<and> c \<noteq> return"
  "clean_line l \<Longrightarrow> chop_return l = l"
  by (auto simp: clean_line_def)

lemma lines_clean:
  assumes "clean_line cur" and "return \<notin> set a"
  shows "list_all clean_line (lines_from cur a)"
  using assms
proof (induction a arbitrary: cur)
  case Nil
  then show ?case by simp
next
  case (Cons c a)
  have "c \<noteq> return" "return \<notin> set a" using Cons.prems(2) by auto
  then have "list_all clean_line (lines_from [] a)"
    and "c \<noteq> newline \<Longrightarrow> list_all clean_line (lines_from (cur @ [c]) a)"
    using Cons.IH [of "[]"] Cons.IH [of "cur @ [c]"] Cons.prems(1) by simp_all
  then show ?case using Cons.prems(1) by simp
qed

lemma lines_join:
  assumes "list_all clean_line ls" and "ls \<noteq> []"
  shows "rust_lines (join_lines ls @ [newline]) = ls"
  using assms
proof (induction ls rule: join_lines.induct)
  case (2 l)
  then show ?case using lines_from_line [of l "[]" "[]"]
    by (simp add: rust_lines_def clean_line_def)
next
  case (3 l m ls)
  then have l: "newline \<notin> set l" "chop_return l = l" by (simp_all add: clean_line_def)
  have "rust_lines (join_lines (l # m # ls) @ [newline]) = l # rust_lines (join_lines (m # ls) @ [newline])"
    using lines_from_line [OF l(1), of "[]" "join_lines (m # ls) @ [newline]"] l(2)
    by (simp add: rust_lines_def)
  then show ?case using 3 by simp
qed simp

lemma return_join: "list_all clean_line ls \<Longrightarrow> return \<notin> set (join_lines ls)"
  by (induction ls rule: join_lines.induct) (simp_all add: clean_line_def)

lemma find_normalised:
  assumes "return \<notin> set c" and "\<not> P []"
  shows "find P (rust_lines (if ends_with_newline c then c else c @ [newline])) =
    find P (rust_lines c)"
  using find_newline [where a = c and P = P] assms by simp

lemma upsert_content_eq:
  "upsert_content key value existing =
    (let content = (if \<exists>l \<in> set (rust_lines existing). starts_with l (key @ ''='')
       then join_lines (map (\<lambda>l. if starts_with l (key @ ''='') then key @ ''='' @ value else l)
              (rust_lines existing))
       else existing @ newline # key @ ''='' @ value) in
     if ends_with_newline content then content else content @ [newline])"
  unfolding upsert_content_def by (simp only: replace_lines_eq prod.case Let_def simp_thms)

lemma find_upsert:
  assumes "return \<notin> set existing" and "newline \<notin> set (key @ value)" and "return \<notin> set (key @ value)"
    and "\<not> P []"
  shows "find P (rust_lines (upsert_content key value existing)) =
    find P (let pre = key @ ''=''; new_line = key @ ''='' @ value; ls = rust_lines existing in
      if \<exists>l \<in> set ls. starts_with l pre then map (\<lambda>l. if starts_with l pre then new_line else l) ls
      else ls @ [new_line])"
proof -
  define new where "new = key @ ''='' @ value"
  define ls where "ls = rust_lines existing"
  define hit where "hit = (\<lambda>l. starts_with l (key @ ''=''))"
  let ?map = "map (\<lambda>l. if hit l then new else l) ls"
  define content where
    "content = (if \<exists>l \<in> set ls. hit l then join_lines ?map else existing @ newline # new)"
  have new: "clean_line new" using assms(2,3) by (simp add: new_def clean_line_def)
  have "list_all clean_line ls" unfolding ls_def rust_lines_def using assms(1) by (intro lines_clean) simp
  then have clean: "list_all clean_line ?map" using new by (auto simp: list_all_iff)
  have "return \<notin> set content"
    using return_join [OF clean] assms(1) new
    by (cases "\<exists>l \<in> set ls. hit l") (simp_all add: content_def clean_line_def)
  moreover have upsert: "upsert_content key value existing =
      (if ends_with_newline content then content else content @ [newline])"
    by (simp only: upsert_content_eq content_def new_def ls_def hit_def Let_def)
  ultimately have "find P (rust_lines (upsert_content key value existing)) = find P (rust_lines content)"
    unfolding upsert using assms(4) by (intro find_normalised)
  also have "\<dots> = find P (if \<exists>l \<in> set ls. hit l then ?map else ls @ [new])"
  proof (cases "\<exists>l \<in> set ls. hit l")
    case True
    then have ne: "?map \<noteq> []" by auto
    have "find P (rust_lines (join_lines ?map)) = find P (rust_lines (join_lines ?map @ [newline]))"
      using return_join [OF clean] assms(4) by (intro find_newline [symmetric])
    then show ?thesis using True lines_join [OF clean ne] by (simp only: content_def if_True)
  next
    case False
    have "lines_from [] new = [new]"
      using new lines_from_last [of new "[]"] by (simp add: clean_line_def new_def)
    moreover have "content = existing @ newline # new"
      unfolding content_def using False by (rule if_not_P)
    ultimately have "rust_lines content = rust_lines (existing @ [newline]) @ [new]"
      using lines_from_append [of "[]" existing new] by (simp only: rust_lines_def)
    then have "find P (rust_lines content) = find P (ls @ [new])"
      using find_newline [OF assms(1), where P = P, OF assms(4)] by (simp only: find_append ls_def)
    then show ?thesis using False by (simp only: if_False)
  qed
  finally show ?thesis by (simp only: new_def ls_def hit_def Let_def)
qed

section \<open>Lemmas on numbers\<close>

lemma digit_char_props:
  assumes "d < 10"
  shows "is_digit (digit_char d)" and "digit_value (digit_char d) = d"
  using assms by (simp_all add: is_digit_def digit_char_def digit_value_def)

lemma digits_value_snoc: "digits_value (s @ [c]) = 10 * digits_value s + digit_value c"
  by (simp add: digits_value_def)

declare show_nat.simps [simp del]

lemma show_nat_props:
  "list_all is_digit (show_nat n) \<and> digits_value (show_nat n) = n \<and> show_nat n \<noteq> []"
proof (induction n rule: show_nat.induct)
  case (1 n)
  show ?case
  proof (cases "n < 10")
    case True
    then show ?thesis
      by (simp add: show_nat.simps [of n] digit_char_props digits_value_def)
  next
    case False
    then show ?thesis using 1
      by (simp add: show_nat.simps [of n] digit_char_props digits_value_snoc)
  qed
qed

lemma parse_show: "parse_u64 (show_nat (unat n)) = Some n"
proof -
  have "unat n < 2 ^ 64" by (rule order.strict_trans2 [OF unsigned_less]) simp
  moreover have "hd (show_nat (unat n)) \<noteq> CHR ''+''"
    using show_nat_props [of "unat n"]
    by (cases "show_nat (unat n)") (auto simp: is_digit_def)
  ultimately show ?thesis
    using show_nat_props [of "unat n"]
    by (auto simp: parse_u64_def parse_digits_def split: list.split)
qed

end
