(* ===== verification/Cli.thy ===== *)
theory Cli
  imports Cli_Text
begin

text \<open>
  \<^verbatim>\<open>clients/cli/src/main.rs\<close>: the commands of the command line client. What lives outside the
  repository is the record \<open>outside\<close>: starting a process, the file system, the JSON library.
  The state keeps, besides the outside world, the processes started, what has happened to the files
  and the lines printed. Writing a file is two operations: it is created, which empties it if it is
  there, and then written.
  An error is the outermost message of the \<^verbatim>\<open>anyhow\<close> error. The arguments come parsed, as the
  record \<open>cli_args\<close> that clap fills; dashes, dots and stars outside ASCII in messages are written
  in ASCII.
\<close>

section \<open>The outside\<close>

datatype json =
    JNull
  | JBool bool
  | JInt int
  | JFloat string
  | JString string
  | JArray "json list"
  | JObject "(string \<times> json) list"

record process =
  pr_ok :: bool
  pr_status :: string
  pr_stdout :: string
  pr_stderr :: string

record 'w outside =
  os_spawn :: "string \<Rightarrow> string list \<Rightarrow> 'w \<Rightarrow> process option \<times> 'w"
  os_exists :: "string \<Rightarrow> 'w \<Rightarrow> bool"
  os_read :: "string \<Rightarrow> 'w \<Rightarrow> string option"
  os_create :: "string \<Rightarrow> 'w \<Rightarrow> bool \<times> 'w"
  os_write_all :: "string \<Rightarrow> string \<Rightarrow> 'w \<Rightarrow> bool \<times> 'w"
  js_pretty :: "json \<Rightarrow> string"
  js_compact :: "json \<Rightarrow> string"
  js_parse :: "string \<Rightarrow> json option"
  show_xlm :: "u64 \<Rightarrow> string"

datatype file_op = Created string | Wrote string string

record 'w cli_state =
  cli_world :: 'w
  cli_calls :: "(string \<times> string list) list"
  cli_files :: "file_op list"
  cli_out :: "string list"
  cli_err :: "string list"

type_synonym ('w, 'a) cli = "('w cli_state, string, 'a) act"

definition spawn :: "'w outside \<Rightarrow> string \<Rightarrow> string list \<Rightarrow> string \<Rightarrow> ('w, process) cli" where
  "spawn os program args message st = (case os_spawn os program args (cli_world st) of
     (found, w) \<Rightarrow>
       let st = st\<lparr>cli_world := w, cli_calls := cli_calls st @ [(program, args)]\<rparr> in
       (case found of None \<Rightarrow> (Err message, st) | Some p \<Rightarrow> (Done p, st)))"

definition println :: "string \<Rightarrow> ('w, unit) cli" where
  "println l = modify (\<lambda>st. st\<lparr>cli_out := cli_out st @ [l]\<rparr>)"

definition eprintln :: "string \<Rightarrow> ('w, unit) cli" where
  "eprintln l = modify (\<lambda>st. st\<lparr>cli_err := cli_err st @ [l]\<rparr>)"

text \<open>\<^verbatim>\<open>File::create\<close> and \<^verbatim>\<open>write_all\<close>; \<^verbatim>\<open>fs::write\<close> is the one after the other.\<close>

definition create_file :: "'w outside \<Rightarrow> string \<Rightarrow> string \<Rightarrow> ('w, unit) cli" where
  "create_file os path message st = (case os_create os path (cli_world st) of
     (created, w) \<Rightarrow>
       if created then (Done (), st\<lparr>cli_world := w, cli_files := cli_files st @ [Created path]\<rparr>)
       else (Err message, st\<lparr>cli_world := w\<rparr>))"

definition write_all :: "'w outside \<Rightarrow> string \<Rightarrow> string \<Rightarrow> string \<Rightarrow> ('w, unit) cli" where
  "write_all os path content message st = (case os_write_all os path content (cli_world st) of
     (written, w) \<Rightarrow>
       if written then (Done (), st\<lparr>cli_world := w, cli_files := cli_files st @ [Wrote path content]\<rparr>)
       else (Err message, st\<lparr>cli_world := w\<rparr>))"

definition write_file :: "'w outside \<Rightarrow> string \<Rightarrow> string \<Rightarrow> string \<Rightarrow> ('w, unit) cli" where
  "write_file os path content message =
     thenS (create_file os path message) (write_all os path content message)"

text \<open>Indexing a \<^verbatim>\<open>serde_json::Value\<close> gives null where there is nothing.\<close>

fun json_key :: "json \<Rightarrow> string \<Rightarrow> json" where
  "json_key (JObject kvs) k = (case map_of kvs k of None \<Rightarrow> JNull | Some v \<Rightarrow> v)"
| "json_key _ k = JNull"

fun json_index :: "json \<Rightarrow> nat \<Rightarrow> json" where
  "json_index (JArray vs) i = (if i < length vs then vs ! i else JNull)"
| "json_index _ i = JNull"

fun as_str :: "json \<Rightarrow> string option" where
  "as_str (JString s) = Some s"
| "as_str _ = None"

fun as_u64 :: "json \<Rightarrow> u64 option" where
  "as_u64 (JInt i) = (if 0 \<le> i \<and> i < 2 ^ 64 then Some (word_of_int i) else None)"
| "as_u64 _ = None"

definition unwrap_or :: "'a \<Rightarrow> 'a option \<Rightarrow> 'a" where
  "unwrap_or d x = (case x of None \<Rightarrow> d | Some v \<Rightarrow> v)"

section \<open>Networks\<close>

datatype network = Testnet | Mainnet | Futurenet

fun network_rpc_url :: "network \<Rightarrow> string" where
  "network_rpc_url Testnet = ''https://soroban-testnet.stellar.org''"
| "network_rpc_url Mainnet = ''https://soroban-mainnet.stellar.org''"
| "network_rpc_url Futurenet = ''https://rpc-futurenet.stellar.org''"

fun network_passphrase :: "network \<Rightarrow> string" where
  "network_passphrase Testnet = ''Test SDF Network ; September 2015''"
| "network_passphrase Mainnet = ''Public Global Stellar Network ; September 2015''"
| "network_passphrase Futurenet = ''Test SDF Future Network ; October 2022''"

definition resolve_network ::
  "network option \<Rightarrow> string option \<Rightarrow> string option \<Rightarrow> string \<times> string" where
  "resolve_network net rpc_url passphrase = (case net of
      Some n \<Rightarrow> (network_rpc_url n, network_passphrase n)
    | None \<Rightarrow> (unwrap_or ''https://soroban-testnet.stellar.org'' rpc_url,
               unwrap_or ''Test SDF Network ; September 2015'' passphrase))"

section \<open>Helpers\<close>

definition missing_cli :: string where
  "missing_cli = ''stellar CLI not found - install from https://developers.stellar.org/docs/tools/developer-tools/cli/install-cli''"

definition output_result :: "'w outside \<Rightarrow> bool \<Rightarrow> json \<Rightarrow> string \<Rightarrow> ('w, unit) cli" where
  "output_result os as_json data human = println (if as_json then js_pretty os data else human)"

definition invoke_args ::
  "string \<Rightarrow> string \<Rightarrow> string \<Rightarrow> string \<Rightarrow> string \<Rightarrow> string list \<Rightarrow> string list" where
  "invoke_args rpc_url passphrase contract_id secret fn extra_args =
     [''contract'', ''invoke'', ''--id'', contract_id, ''--rpc-url'', rpc_url,
      ''--network-passphrase'', passphrase, ''--source'', secret, ''--'', fn] @ extra_args"

definition invoke_stellar_cli ::
  "'w outside \<Rightarrow> string \<Rightarrow> string \<Rightarrow> string \<Rightarrow> string \<Rightarrow> string \<Rightarrow> string list \<Rightarrow> ('w, unit) cli" where
  "invoke_stellar_cli os rpc_url passphrase contract_id secret fn extra_args =
     bindS (spawn os ''stellar'' (invoke_args rpc_url passphrase contract_id secret fn extra_args)
              missing_cli) (\<lambda>p.
     fail_if (\<not> pr_ok p) (''stellar CLI exited with status '' @ pr_status p))"

definition stellar_address_from_secret :: "'w outside \<Rightarrow> string \<Rightarrow> ('w, string) cli" where
  "stellar_address_from_secret os secret =
     bindS (spawn os ''stellar'' [''keys'', ''address'', secret] ''stellar CLI not found'') (\<lambda>p.
     ret (trim (pr_stdout p)))"

definition query_contract ::
  "'w outside \<Rightarrow> string \<Rightarrow> string \<Rightarrow> string \<Rightarrow> string \<Rightarrow> ('w, string) cli" where
  "query_contract os rpc_url passphrase contract_id fn =
     bindS (spawn os ''stellar''
       [''contract'', ''invoke'', ''--id'', contract_id, ''--rpc-url'', rpc_url,
        ''--network-passphrase'', passphrase, ''--'', fn] missing_cli) (\<lambda>p.
     ret (pr_stdout p))"

definition fetch_events ::
  "'w outside \<Rightarrow> string \<Rightarrow> string \<Rightarrow> string \<Rightarrow> ('w, json list) cli" where
  "fetch_events os rpc_url passphrase contract_id =
     bindS (spawn os ''stellar''
       [''contract'', ''events'', ''--id'', contract_id, ''--rpc-url'', rpc_url,
        ''--network-passphrase'', passphrase, ''--output'', ''json''] missing_cli) (\<lambda>p.
     ret (case js_parse os (pr_stdout p) of Some (JArray vs) \<Rightarrow> vs | _ \<Rightarrow> []))"

section \<open>Listing\<close>

definition created_by :: "string \<Rightarrow> json \<Rightarrow> bool" where
  "created_by payer e \<longleftrightarrow>
     unwrap_or [] (as_str (json_index (json_key e ''topic'') 0)) = ''escrow_created'' \<and>
     unwrap_or [] (as_str (json_index (json_key e ''value'') 0)) = payer"

definition listed_escrow :: "string \<Rightarrow> json \<Rightarrow> json" where
  "listed_escrow contract_id e = JObject
     [(''contract_id'', JString contract_id), (''payer'', json_index (json_key e ''value'') 0),
      (''freelancer'', json_index (json_key e ''value'') 1),
      (''amount'', json_index (json_key e ''value'') 2),
      (''milestone'', json_index (json_key e ''value'') 3)]"

fun println_escrows :: "'w outside \<Rightarrow> nat \<Rightarrow> json list \<Rightarrow> ('w, unit) cli" where
  "println_escrows os i [] = ret ()"
| "println_escrows os i (e # es) = thenS (println
     (''  ['' @ show_nat (i + 1) @ ''] contract='' @ unwrap_or ''-'' (as_str (json_key e ''contract_id'')) @
      '' milestone='' @ unwrap_or ''-'' (as_str (json_key e ''milestone'')) @
      '' amount='' @ js_compact os (json_key e ''amount'') @
      '' freelancer='' @ unwrap_or ''-'' (as_str (json_key e ''freelancer''))))
     (println_escrows os (i + 1) es)"

definition list_escrows ::
  "'w outside \<Rightarrow> string \<Rightarrow> string \<Rightarrow> string \<Rightarrow> string \<Rightarrow> bool \<Rightarrow> ('w, unit) cli" where
  "list_escrows os rpc_url passphrase contract_id payer as_json =
     bindS (fetch_events os rpc_url passphrase contract_id) (\<lambda>events.
     let escrows = map (listed_escrow contract_id) (filter (created_by payer) events) in
     if as_json then println (js_pretty os (JObject [(''escrows'', JArray escrows)]))
     else if escrows = [] then println (''No escrows found for payer '' @ payer)
     else thenS (println (''Escrows for payer '' @ payer @ '':'')) (println_escrows os 0 escrows))"

section \<open>Deployment\<close>

definition upsert_env_var :: "'w outside \<Rightarrow> string \<Rightarrow> string \<Rightarrow> string \<Rightarrow> ('w, unit) cli" where
  "upsert_env_var os path key value =
     bindS (gets cli_world) (\<lambda>w.
     bindS (if os_exists os path w then ok_or ''reading .env file'' (os_read os path w) else ret []) (\<lambda>existing.
     thenS (create_file os path ''writing .env file'')
       (write_all os path (upsert_content key value existing) ''writing .env file'')))"

definition deploy_args :: "string \<Rightarrow> string \<Rightarrow> string \<Rightarrow> string \<Rightarrow> string list" where
  "deploy_args wasm_path deployer_secret rpc_url passphrase =
     [''contract'', ''deploy'', ''--wasm'', wasm_path, ''--source'', deployer_secret,
      ''--rpc-url'', rpc_url, ''--network-passphrase'', passphrase]"

text \<open>Step 1 finds or builds the code, step 2 deploys it, step 3 stores the id of the contract.\<close>

definition resolve_wasm :: "'w outside \<Rightarrow> string option \<Rightarrow> ('w, string) cli" where
  "resolve_wasm os wasm = (case wasm of
       Some p \<Rightarrow> ret p
     | None \<Rightarrow>
         thenS (eprintln ''No --wasm provided; running `stellar contract build`...'')
         (bindS (spawn os ''stellar'' [''contract'', ''build''] missing_cli) (\<lambda>p.
          thenS (fail_if (\<not> pr_ok p) ''`stellar contract build` failed'')
            (ret ''target/wasm32-unknown-unknown/release/escrow.wasm''))))"

definition deploy_wasm ::
  "'w outside \<Rightarrow> string \<Rightarrow> string \<Rightarrow> string \<Rightarrow> string \<Rightarrow> ('w, string) cli" where
  "deploy_wasm os rpc_url passphrase deployer_secret wasm_path =
     bindS (gets cli_world) (\<lambda>w.
     thenS (fail_if (\<not> os_exists os wasm_path w) (''WASM file not found: '' @ wasm_path))
     (bindS (spawn os ''stellar'' (deploy_args wasm_path deployer_secret rpc_url passphrase)
        ''stellar CLI not found'') (\<lambda>p.
      thenS (fail_if (\<not> pr_ok p) (''Deployment failed: '' @ pr_stderr p))
     (let contract_id = trim (pr_stdout p) in
      thenS (fail_if (contract_id = []) ''Deployment succeeded but no contract ID was returned'')
        (ret contract_id)))))"

definition deploy_contract ::
  "'w outside \<Rightarrow> string \<Rightarrow> string \<Rightarrow> string option \<Rightarrow> string \<Rightarrow> string \<Rightarrow> bool \<Rightarrow> ('w, unit) cli" where
  "deploy_contract os rpc_url passphrase wasm deployer_secret env_file as_json =
     bindS (resolve_wasm os wasm) (\<lambda>wasm_path.
     bindS (deploy_wasm os rpc_url passphrase deployer_secret wasm_path) (\<lambda>contract_id.
     thenS (upsert_env_var os env_file ''ESCROW_CONTRACT_ID'' contract_id)
     (output_result os as_json
        (JObject [(''status'', JString ''ok''), (''contract_id'', JString contract_id),
           (''env_file'', JString env_file)])
        (''Deployed! Contract ID: '' @ contract_id @ newline # ''Written to '' @ env_file))))"

section \<open>Fee estimate and export\<close>

definition estimate_function :: "string \<Rightarrow> string option" where
  "estimate_function operation =
     (if operation = ''create'' then Some ''create''
      else if operation = ''submit-work'' then Some ''submit_work''
      else if operation = ''approve'' then Some ''approve''
      else if operation = ''cancel'' then Some ''cancel''
      else if operation = ''expire'' then Some ''expire'' else None)"

definition fee_stroops :: "'w outside \<Rightarrow> string \<Rightarrow> string \<Rightarrow> u64" where
  "fee_stroops os out err = (case js_parse os (trim out) of
      Some v \<Rightarrow> (case as_u64 (json_key v ''fee'') of
          Some n \<Rightarrow> n
        | None \<Rightarrow> unwrap_or 0 (as_u64 (json_key v ''min_resource_fee'')))
    | None \<Rightarrow> fee_from_text (out @ err))"

definition run_estimate_fee ::
  "'w outside \<Rightarrow> string \<Rightarrow> string \<Rightarrow> string \<Rightarrow> string \<Rightarrow> string \<Rightarrow> ('w, unit) cli" where
  "run_estimate_fee os rpc_url passphrase contract_id operation source_secret =
     bindS (ok_or (''Unknown operation '' @ CHR 0x27 # operation @
         CHR 0x27 # ''. Valid: create, submit-work, approve, cancel, expire'')
       (estimate_function operation)) (\<lambda>fn.
     bindS (spawn os ''stellar''
       [''contract'', ''invoke'', ''--id'', contract_id, ''--rpc-url'', rpc_url,
        ''--network-passphrase'', passphrase, ''--source'', source_secret, ''--sim-only'', ''--'', fn]
       ''stellar CLI not found'') (\<lambda>p.
     let fee = fee_stroops os (pr_stdout p) (pr_stderr p) in
     thenS (println (''Estimated fee for '' @ CHR 0x27 # operation @ CHR 0x27 # '':''))
     (println (''  '' @ show_nat (unat fee) @ '' stroops  ('' @ show_xlm os fee @ '' XLM)''))))"

definition run_export ::
  "'w outside \<Rightarrow> string \<Rightarrow> string \<Rightarrow> string \<Rightarrow> string \<Rightarrow> ('w, unit) cli" where
  "run_export os rpc_url passphrase contract_id out_path =
     bindS (query_contract os rpc_url passphrase contract_id ''get_escrow'') (\<lambda>raw.
     thenS (fail_if (trim raw = []) (''No escrow data found for contract '' @ contract_id))
     (let escrow = unwrap_or (JString (trim raw)) (js_parse os (trim raw));
          doc = JObject [(''contract_id'', JString contract_id), (''network'', JString passphrase),
            (''rpc_url'', JString rpc_url), (''escrow'', escrow)] in
      thenS (write_file os out_path (js_pretty os doc) (''Failed to write '' @ out_path))
        (println (''Escrow data written to '' @ out_path))))"

section \<open>Commands\<close>

datatype command =
    CmdInit string string u32 string
  | CmdPause string string
  | CmdUnpause string string
  | CmdCreate string string string string i128 string "u64 option"
  | CmdSubmitWork string string
  | CmdTransferFreelancer string string string
  | CmdApprove string string
  | CmdCancel string string
  | CmdExpire string string
  | CmdStatus string
  | CmdList string string
  | CmdDeploy "string option" string string

definition ok_action :: "string \<Rightarrow> json" where
  "ok_action action = JObject [(''status'', JString ''ok''), (''action'', JString action)]"

text \<open>
  \<^verbatim>\<open>json!\<close> of an \<^verbatim>\<open>i128\<close>: serde_json holds the values of \<^verbatim>\<open>u64\<close> and \<^verbatim>\<open>i64\<close>, and the macro panics on
  others.
\<close>

definition json_fits :: "i128 \<Rightarrow> bool" where
  "json_fits n \<longleftrightarrow> - (2 ^ 63) \<le> n \<and> n < 2 ^ 64"

definition json_i128 :: "i128 \<Rightarrow> ('w, json) cli" where
  "json_i128 n = (if json_fits n then ret (JInt n) else panic BadConversion)"

text \<open>The argument vectors of the two commands that compute theirs.\<close>

definition init_args :: "string \<Rightarrow> u32 \<Rightarrow> string \<Rightarrow> string list" where
  "init_args admin_addr fee_bps fee_collector =
     [''--admin'', admin_addr, ''--fee-bps'', show_nat (unat fee_bps), ''--fee-collector'', fee_collector]"

definition create_args ::
  "string \<Rightarrow> string \<Rightarrow> string \<Rightarrow> i128 \<Rightarrow> string \<Rightarrow> u64 option \<Rightarrow> string list" where
  "create_args payer_addr freelancer token amount milestone deadline =
     (let deadline_str = (case deadline of Some d \<Rightarrow> show_nat (unat d) | None \<Rightarrow> ''null'') in
      [''--payer'', payer_addr, ''--freelancer'', freelancer, ''--token'', token,
       ''--amount'', show_int amount, ''--milestone'', milestone, ''--deadline'', deadline_str])"

fun run_command ::
  "'w outside \<Rightarrow> string \<Rightarrow> string \<Rightarrow> bool \<Rightarrow> command \<Rightarrow> ('w, unit) cli" where
  "run_command os rpc_url passphrase as_json (CmdInit contract_id admin_secret fee_bps fee_collector) =
     bindS (stellar_address_from_secret os admin_secret) (\<lambda>admin_addr.
     thenS (invoke_stellar_cli os rpc_url passphrase contract_id admin_secret ''init''
       (init_args admin_addr fee_bps fee_collector))
     (output_result os as_json (ok_action ''init'') ''Protocol initialised.''))"
| "run_command os rpc_url passphrase as_json (CmdPause contract_id admin_secret) =
     thenS (invoke_stellar_cli os rpc_url passphrase contract_id admin_secret ''pause'' [])
     (output_result os as_json (ok_action ''pause'') ''Contract paused.'')"
| "run_command os rpc_url passphrase as_json (CmdUnpause contract_id admin_secret) =
     thenS (invoke_stellar_cli os rpc_url passphrase contract_id admin_secret ''unpause'' [])
     (output_result os as_json (ok_action ''unpause'') ''Contract unpaused.'')"
| "run_command os rpc_url passphrase as_json
     (CmdCreate contract_id payer_secret freelancer token amount milestone deadline) =
     bindS (stellar_address_from_secret os payer_secret) (\<lambda>payer_addr.
     thenS (invoke_stellar_cli os rpc_url passphrase contract_id payer_secret ''create''
       (create_args payer_addr freelancer token amount milestone deadline))
     (bindS (json_i128 amount) (\<lambda>amount_json.
      output_result os as_json
       (JObject [(''status'', JString ''ok''), (''action'', JString ''create''),
          (''contract_id'', JString contract_id), (''payer'', JString payer_addr),
          (''freelancer'', JString freelancer), (''amount'', amount_json),
          (''milestone'', JString milestone),
          (''deadline'', case deadline of None \<Rightarrow> JNull | Some d \<Rightarrow> JInt (uint d))])
       ''Escrow created. Funds locked.'')))"
| "run_command os rpc_url passphrase as_json (CmdSubmitWork contract_id freelancer_secret) =
     thenS (invoke_stellar_cli os rpc_url passphrase contract_id freelancer_secret ''submit_work'' [])
     (output_result os as_json (ok_action ''submit_work'') ''Work submitted. Waiting for payer approval.'')"
| "run_command os rpc_url passphrase as_json
     (CmdTransferFreelancer contract_id freelancer_secret new_freelancer) =
     thenS (invoke_stellar_cli os rpc_url passphrase contract_id freelancer_secret
       ''transfer_freelancer'' [''--new-freelancer'', new_freelancer])
     (output_result os as_json
       (JObject [(''status'', JString ''ok''), (''action'', JString ''transfer_freelancer''),
          (''new_freelancer'', JString new_freelancer)])
       (''Freelancer role transferred to '' @ new_freelancer @ ''.''))"
| "run_command os rpc_url passphrase as_json (CmdApprove contract_id payer_secret) =
     thenS (invoke_stellar_cli os rpc_url passphrase contract_id payer_secret ''approve'' [])
     (output_result os as_json (ok_action ''approve'') ''Payment released to freelancer.'')"
| "run_command os rpc_url passphrase as_json (CmdCancel contract_id payer_secret) =
     thenS (invoke_stellar_cli os rpc_url passphrase contract_id payer_secret ''cancel'' [])
     (output_result os as_json (ok_action ''cancel'') ''Escrow cancelled. Funds refunded to payer.'')"
| "run_command os rpc_url passphrase as_json (CmdExpire contract_id payer_secret) =
     thenS (invoke_stellar_cli os rpc_url passphrase contract_id payer_secret ''expire'' [])
     (output_result os as_json (ok_action ''expire'') ''Escrow expired. Funds returned to payer.'')"
| "run_command os rpc_url passphrase as_json (CmdStatus contract_id) =
     bindS (query_contract os rpc_url passphrase contract_id ''get_escrow'') (\<lambda>raw.
     if as_json then
       let parsed = unwrap_or (JString (trim raw)) (js_parse os (trim raw)) in
       println (js_pretty os (JObject [(''status'', JString ''ok''), (''escrow'', parsed)]))
     else println (trim raw))"
| "run_command os rpc_url passphrase as_json (CmdList contract_id payer) =
     list_escrows os rpc_url passphrase contract_id payer as_json"
| "run_command os rpc_url passphrase as_json (CmdDeploy wasm deployer_secret env_file) =
     deploy_contract os rpc_url passphrase wasm deployer_secret env_file as_json"

record cli_args =
  arg_network :: "network option"
  arg_rpc_url :: "string option"
  arg_network_passphrase :: "string option"
  arg_json :: bool
  arg_command :: command

definition main_cli :: "'w outside \<Rightarrow> cli_args \<Rightarrow> ('w, unit) cli" where
  "main_cli os args =
     (case resolve_network (arg_network args) (arg_rpc_url args) (arg_network_passphrase args) of
        (rpc_url, passphrase) \<Rightarrow>
          run_command os rpc_url passphrase (arg_json args) (arg_command args))"

section \<open>What the commands do\<close>

lemma spawn_eq [act_simps]:
  "spawn os prog args m st = (Done p, st') \<longleftrightarrow> (\<exists>w. os_spawn os prog args (cli_world st) = (Some p, w) \<and>
     st' = st\<lparr>cli_world := w, cli_calls := cli_calls st @ [(prog, args)]\<rparr>)"
  "spawn os prog args m st = (Err e, st') \<longleftrightarrow> (\<exists>w. os_spawn os prog args (cli_world st) = (None, w) \<and>
     e = m \<and> st' = st\<lparr>cli_world := w, cli_calls := cli_calls st @ [(prog, args)]\<rparr>)"
  "spawn os prog args m st \<noteq> (Trap t, st')"
  by (auto simp: spawn_def Let_def split: prod.splits option.splits)

lemma create_file_eq [act_simps]:
  "create_file os f m st = (Done u, st') \<longleftrightarrow> (\<exists>w. os_create os f (cli_world st) = (True, w) \<and>
     st' = st\<lparr>cli_world := w, cli_files := cli_files st @ [Created f]\<rparr>)"
  "create_file os f m st = (Err e, st') \<longleftrightarrow> (\<exists>w. os_create os f (cli_world st) = (False, w) \<and>
     e = m \<and> st' = st\<lparr>cli_world := w\<rparr>)"
  "create_file os f m st \<noteq> (Trap t, st')"
  by (auto simp: create_file_def split: prod.splits if_splits)

lemma write_all_eq [act_simps]:
  "write_all os f c m st = (Done u, st') \<longleftrightarrow> (\<exists>w. os_write_all os f c (cli_world st) = (True, w) \<and>
     st' = st\<lparr>cli_world := w, cli_files := cli_files st @ [Wrote f c]\<rparr>)"
  "write_all os f c m st = (Err e, st') \<longleftrightarrow> (\<exists>w. os_write_all os f c (cli_world st) = (False, w) \<and>
     e = m \<and> st' = st\<lparr>cli_world := w\<rparr>)"
  "write_all os f c m st \<noteq> (Trap t, st')"
  by (auto simp: write_all_def split: prod.splits if_splits)

text \<open>Writing a file: what was done to it, when it succeeds and when it fails.\<close>

lemma write_file_eq [act_simps]:
  "write_file os f c m st = (Done u, st') \<longleftrightarrow> (\<exists>w w'. os_create os f (cli_world st) = (True, w) \<and>
     os_write_all os f c w = (True, w') \<and>
     st' = st\<lparr>cli_world := w', cli_files := cli_files st @ [Created f, Wrote f c]\<rparr>)"
  "write_file os f c m st = (Err e, st') \<longleftrightarrow> e = m \<and>
     ((\<exists>w. os_create os f (cli_world st) = (False, w) \<and> st' = st\<lparr>cli_world := w\<rparr>) \<or>
      (\<exists>w w'. os_create os f (cli_world st) = (True, w) \<and> os_write_all os f c w = (False, w') \<and>
         st' = st\<lparr>cli_world := w', cli_files := cli_files st @ [Created f]\<rparr>))"
  "write_file os f c m st \<noteq> (Trap t, st')"
  by (auto simp: write_file_def act_simps)

lemma println_eq [act_simps]:
  "println l st = (r, st') \<longleftrightarrow> r = Done () \<and> st' = st\<lparr>cli_out := cli_out st @ [l]\<rparr>"
  by (simp add: println_def modify_eq)

lemma eprintln_eq [act_simps]:
  "eprintln l st = (r, st') \<longleftrightarrow> r = Done () \<and> st' = st\<lparr>cli_err := cli_err st @ [l]\<rparr>"
  by (simp add: eprintln_def modify_eq)

lemma output_result_eq [act_simps]:
  "output_result os as_json data human st = (r, st') \<longleftrightarrow>
     r = Done () \<and> st' = st\<lparr>cli_out := cli_out st @ [if as_json then js_pretty os data else human]\<rparr>"
  by (simp add: output_result_def println_eq)

text \<open>
  The contract function a command stands for, the key that signs for it, its contract and the
  argument vector, given the address of the signer.
\<close>

fun command_call :: "string \<Rightarrow> command \<Rightarrow> (string \<times> string \<times> string \<times> string list) option" where
  "command_call addr (CmdInit c k bps f) = Some (''init'', c, k, init_args addr bps f)"
| "command_call addr (CmdPause c k) = Some (''pause'', c, k, [])"
| "command_call addr (CmdUnpause c k) = Some (''unpause'', c, k, [])"
| "command_call addr (CmdCreate c k f t n m d) = Some (''create'', c, k, create_args addr f t n m d)"
| "command_call addr (CmdSubmitWork c k) = Some (''submit_work'', c, k, [])"
| "command_call addr (CmdTransferFreelancer c k f) =
     Some (''transfer_freelancer'', c, k, [''--new-freelancer'', f])"
| "command_call addr (CmdApprove c k) = Some (''approve'', c, k, [])"
| "command_call addr (CmdCancel c k) = Some (''cancel'', c, k, [])"
| "command_call addr (CmdExpire c k) = Some (''expire'', c, k, [])"
| "command_call addr _ = None"

fun needs_address :: "command \<Rightarrow> string option" where
  "needs_address (CmdInit _ k _ _) = Some k"
| "needs_address (CmdCreate _ k _ _ _ _ _) = Some k"
| "needs_address _ = None"

text \<open>Whether the report of a command can be built: a created amount has to fit a JSON number.\<close>

fun reportable :: "command \<Rightarrow> bool" where
  "reportable (CmdCreate _ _ _ _ n _ _) = json_fits n"
| "reportable _ = True"

lemma json_i128_then: "bindS (json_i128 n) f = (if json_fits n then f (JInt n) else panic BadConversion)"
  by (simp add: json_i128_def)

lemma run_command_shape:
  assumes "command_call [] cmd \<noteq> None"
  obtains human data fn c k extra where
    "\<And>addr. command_call addr cmd = Some (fn, c, k, extra addr)"
    and "run_command os rpc pass as_json cmd =
      bindS (case needs_address cmd of None \<Rightarrow> ret [] | Some k \<Rightarrow> stellar_address_from_secret os k) (\<lambda>addr.
      thenS (invoke_stellar_cli os rpc pass c k fn (extra addr))
        (if reportable cmd then output_result os as_json (data addr) human else panic BadConversion))"
proof (cases cmd)
  case (CmdInit c k bps f)
  then show thesis using that [of "''init''" c k "\<lambda>addr. init_args addr bps f"] by simp
next
  case (CmdCreate c k f t n m d)
  then show thesis
    using that [of "''create''" c k "\<lambda>addr. create_args addr f t n m d"] by (simp add: json_i128_then)
next
  case (CmdPause c k)
  then show thesis using that [of "''pause''" c k "\<lambda>_. []" "\<lambda>_. ok_action ''pause''"] by simp
next
  case (CmdUnpause c k)
  then show thesis using that [of "''unpause''" c k "\<lambda>_. []" "\<lambda>_. ok_action ''unpause''"] by simp
next
  case (CmdSubmitWork c k)
  then show thesis using that [of "''submit_work''" c k "\<lambda>_. []" "\<lambda>_. ok_action ''submit_work''"] by simp
next
  case (CmdTransferFreelancer c k f)
  then show thesis
    using that [of "''transfer_freelancer''" c k "\<lambda>_. [''--new-freelancer'', f]"
      "\<lambda>_. JObject [(''status'', JString ''ok''), (''action'', JString ''transfer_freelancer''),
          (''new_freelancer'', JString f)]"] by simp
next
  case (CmdApprove c k)
  then show thesis using that [of "''approve''" c k "\<lambda>_. []" "\<lambda>_. ok_action ''approve''"] by simp
next
  case (CmdCancel c k)
  then show thesis using that [of "''cancel''" c k "\<lambda>_. []" "\<lambda>_. ok_action ''cancel''"] by simp
next
  case (CmdExpire c k)
  then show thesis using that [of "''expire''" c k "\<lambda>_. []" "\<lambda>_. ok_action ''expire''"] by simp
qed (use assms in simp_all)

lemma address_eq [act_simps]:
  "stellar_address_from_secret os k st = (Done a, st') \<longleftrightarrow>
     (\<exists>p w. os_spawn os ''stellar'' [''keys'', ''address'', k] (cli_world st) = (Some p, w) \<and>
       a = trim (pr_stdout p) \<and>
       st' = st\<lparr>cli_world := w, cli_calls := cli_calls st @ [(''stellar'', [''keys'', ''address'', k])]\<rparr>)"
  by (auto simp: stellar_address_from_secret_def act_simps)

lemma invoke_eq [act_simps]:
  "invoke_stellar_cli os rpc pass c k fn extra st = (Done u, st') \<longleftrightarrow>
     (\<exists>p w. os_spawn os ''stellar'' (invoke_args rpc pass c k fn extra) (cli_world st) = (Some p, w) \<and>
       pr_ok p \<and> st' = st\<lparr>cli_world := w,
         cli_calls := cli_calls st @ [(''stellar'', invoke_args rpc pass c k fn extra)]\<rparr>)"
  by (auto simp: invoke_stellar_cli_def act_simps)

end
