(* ===== verification/Cli_Setup.thy ===== *)
theory Cli_Setup
  imports Cli
begin

text \<open>
  The parts of \<^verbatim>\<open>clients/cli/src/main.rs\<close> that no command reaches yet: the setup wizard, which asks
  for a network and a key, deploys a contract and writes a \<^verbatim>\<open>.env\<close> file, and the hash of the code
  of a deployed contract. The prompts (dialoguer) and the hash (sha2, hex) are libraries: they are
  parameters.
\<close>

section \<open>The wizard\<close>

text \<open>A prompt gives the answer of the user, or the message of its error.\<close>

record 'w prompts =
  ask_select :: "string \<Rightarrow> string list \<Rightarrow> nat \<Rightarrow> 'w \<Rightarrow> (string + nat) \<times> 'w"
  ask_text :: "string \<Rightarrow> 'w \<Rightarrow> (string + string) \<times> 'w"

definition answer_of :: "('w \<Rightarrow> (string + 'a) \<times> 'w) \<Rightarrow> ('w, 'a) cli" where
  "answer_of prompt st = (case prompt (cli_world st) of (answer, w) \<Rightarrow>
     (case answer of
        Inl e \<Rightarrow> (Err e, st\<lparr>cli_world := w\<rparr>)
      | Inr a \<Rightarrow> (Done a, st\<lparr>cli_world := w\<rparr>)))"

definition setup_network :: "'w prompts \<Rightarrow> nat \<Rightarrow> ('w, string \<times> string) cli" where
  "setup_network pm net_idx =
     (if net_idx = 0 then
        ret (''https://soroban-testnet.stellar.org'', ''Test SDF Network ; September 2015'')
      else if net_idx = 1 then
        ret (''https://soroban-mainnet.stellar.org'', ''Public Global Stellar Network ; September 2015'')
      else
        bindS (answer_of (ask_text pm ''RPC URL'')) (\<lambda>rpc.
        bindS (answer_of (ask_text pm ''Network passphrase'')) (\<lambda>pass.
        ret (rpc, pass))))"

definition setup_secret :: "'w outside \<Rightarrow> 'w prompts \<Rightarrow> ('w, string) cli" where
  "setup_secret os pm =
     bindS (answer_of (ask_select pm ''Keypair''
       [''Generate new keypair'', ''Enter existing secret key''] 0)) (\<lambda>choice.
     if choice = 1 then answer_of (ask_text pm ''Secret key (S...)'')
     else bindS (spawn os ''stellar'' [''keys'', ''generate'', ''--no-fund'', ''setup-key'']
         ''stellar CLI not found'') (\<lambda>p.
       let secret = trim (pr_stdout p) in
       thenS (println (''Generated secret key: '' @ secret)) (ret secret)))"

definition fund_account :: "'w outside \<Rightarrow> nat \<Rightarrow> string \<Rightarrow> ('w, unit) cli" where
  "fund_account os net_idx address =
     (if net_idx = 0 then
        thenS (println ''Funding account via Friendbot...'')
        (bindS (spawn os ''curl''
            [''-s'', ''-o'', ''/dev/null'', ''-w'', ''%{http_code}'',
             ''https://friendbot.stellar.org?addr='' @ address] ''curl not found'') (\<lambda>p.
         if pr_ok p then println ''Account funded.''
         else eprintln ''Warning: Friendbot request may have failed.''))
      else ret ())"

definition setup_env :: "string \<Rightarrow> string \<Rightarrow> string \<Rightarrow> string \<Rightarrow> string" where
  "setup_env contract_id secret_key rpc_url passphrase =
     ''ESCROW_CONTRACT_ID='' @ contract_id @ newline #
     ''ADMIN_SECRET='' @ secret_key @ newline #
     ''PAYER_SECRET='' @ secret_key @ newline #
     ''FREELANCER_SECRET='' @ newline #
     ''RPC_URL='' @ rpc_url @ newline #
     ''NETWORK_PASSPHRASE='' @ passphrase @ [newline]"

definition setup_deploy :: "'w outside \<Rightarrow> string \<Rightarrow> string \<Rightarrow> string \<Rightarrow> ('w, string) cli" where
  "setup_deploy os secret_key rpc_url passphrase =
     bindS (spawn os ''stellar''
         (deploy_args ''target/wasm32-unknown-unknown/release/escrow.wasm'' secret_key rpc_url passphrase)
         ''stellar CLI not found'') (\<lambda>p.
     let contract_id = trim (pr_stdout p) in
     thenS (fail_if (contract_id = []) (''Contract deployment failed:'' @ newline # pr_stderr p))
       (ret contract_id))"

definition run_setup_wizard :: "'w outside \<Rightarrow> 'w prompts \<Rightarrow> ('w, unit) cli" where
  "run_setup_wizard os pm =
     thenS (println (newline # ''* StarEscrow Setup Wizard'' @ [newline]))
     (bindS (answer_of (ask_select pm ''Select network'' [''testnet'', ''mainnet'', ''custom''] 0)) (\<lambda>net_idx.
      bindS (setup_network pm net_idx) (\<lambda>(rpc_url, passphrase).
      bindS (setup_secret os pm) (\<lambda>secret_key.
      bindS (stellar_address_from_secret os secret_key) (\<lambda>address.
      thenS (println (''Account address: '' @ address))
     (thenS (fund_account os net_idx address)
     (thenS (println ''Deploying StarEscrow contract...'')
     (bindS (setup_deploy os secret_key rpc_url passphrase) (\<lambda>contract_id.
      thenS (println (''Contract deployed: '' @ contract_id))
     (thenS (write_file os ''.env'' (setup_env contract_id secret_key rpc_url passphrase)
         ''Failed to write .env'')
     (thenS (println (newline # ''.env written. Review and update FREELANCER_SECRET before use.'' @ [newline]))
     (println ''Setup complete!''))))))))))))"

section \<open>The hash of the remote code\<close>

definition fetch_remote_wasm_hash ::
  "'w outside \<Rightarrow> (string \<Rightarrow> 'd) \<Rightarrow> ('d \<Rightarrow> string) \<Rightarrow> string \<Rightarrow> string \<Rightarrow> string \<Rightarrow> ('w, string) cli" where
  "fetch_remote_wasm_hash os sha256 hex_encode rpc_url passphrase contract_id =
     bindS (spawn os ''stellar''
       [''contract'', ''fetch'', ''--id'', contract_id, ''--rpc-url'', rpc_url,
        ''--network-passphrase'', passphrase, ''--output'', ''wasm'']
       ''Failed to fetch contract WASM from network'') (\<lambda>p.
     thenS (fail_if (\<not> pr_ok p) (''stellar contract fetch failed: '' @ pr_stderr p))
     (ret (hex_encode (sha256 (pr_stdout p)))))"

section \<open>What they do\<close>

lemma answer_of_eq [act_simps]:
  "answer_of q st = (Done a, st') \<longleftrightarrow> (\<exists>w. q (cli_world st) = (Inr a, w) \<and> st' = st\<lparr>cli_world := w\<rparr>)"
  "answer_of q st = (Err e, st') \<longleftrightarrow> (\<exists>w. q (cli_world st) = (Inl e, w) \<and> st' = st\<lparr>cli_world := w\<rparr>)"
  "answer_of q st \<noteq> (Trap t, st')"
  by (auto simp: answer_of_def split: prod.splits sum.splits)

text \<open>The networks offered are those of the option \<^verbatim>\<open>--network\<close>.\<close>

lemma setup_network_known:
  "setup_network pm 0 = ret (network_rpc_url Testnet, network_passphrase Testnet)"
  "setup_network pm 1 = ret (network_rpc_url Mainnet, network_passphrase Mainnet)"
  by (simp_all add: setup_network_def)

lemma fetch_remote_wasm_hash_Done:
  "fetch_remote_wasm_hash os sha hex rpc pass c st = (Done d, st') \<longleftrightarrow>
     (\<exists>p. spawn os ''stellar'' [''contract'', ''fetch'', ''--id'', c, ''--rpc-url'', rpc,
          ''--network-passphrase'', pass, ''--output'', ''wasm'']
        ''Failed to fetch contract WASM from network'' st = (Done p, st') \<and>
      pr_ok p \<and> d = hex (sha (pr_stdout p)))"
  by (auto simp: fetch_remote_wasm_hash_def act_simps)

end
