(* ===== verification/Cli_Files.thy ===== *)
theory Cli_Files
  imports Cli_Setup
begin

text \<open>
  The files the command line client writes. Deploying a contract stores its id in a \<^verbatim>\<open>.env\<close> file
  and keeps the other variables, the wizard writes a file that reads back what was entered, and
  neither touches a file before the deployment has returned an id; a write that fails after the
  file was created leaves it empty (\<open>leaves_files\<close>).
\<close>

section \<open>Reading a variable\<close>

lemma starts_with_self [simp]: "starts_with (p @ t) p"
  by (simp add: starts_with_iff)

lemma find_map_hit:
  assumes "\<exists>l \<in> set ls. P l" and "P x"
  shows "find P (map (\<lambda>l. if P l then x else l) ls) = Some x"
  using assms by (induction ls) auto

lemma find_map_miss:
  assumes "\<And>l. H l \<Longrightarrow> \<not> P l" and "\<not> P x"
  shows "find P (map (\<lambda>l. if H l then x else l) ls) = find P ls"
  using assms by (induction ls) auto

lemma starts_with_two_keys:
  assumes "CHR ''='' \<notin> set k" and "CHR ''='' \<notin> set k'" and "starts_with l (k @ ''='')"
    and "starts_with l (k' @ ''='')"
  shows "k = k'"
proof -
  from assms(3,4) obtain t t' where e: "k @ CHR ''='' # t = k' @ CHR ''='' # t'"
    by (auto simp: starts_with_iff)
  have cut: "takeWhile (\<lambda>c. c \<noteq> CHR ''='') (x @ CHR ''='' # y) = x" if "CHR ''='' \<notin> set x" for x y
    using that by (induction x) auto
  show ?thesis using arg_cong [OF e, of "takeWhile (\<lambda>c. c \<noteq> CHR ''='')"] cut assms(1,2) by simp
qed

lemma find_none_miss: "\<not> (\<exists>l \<in> set ls. P l) \<Longrightarrow> find P ls = None"
  by (induction ls) auto

text \<open>
  Updating a variable sets it, whether the key was there once, several times or not at all, and
  keeps every other one (for files without carriage returns and values without line breaks).
\<close>

lemma upsert_sets_variable:
  assumes "return \<notin> set existing" and "newline \<notin> set (key @ value)" and "return \<notin> set (key @ value)"
    and "CHR ''='' \<notin> set key"
  shows "env_lookup key (upsert_content key value existing) = Some value \<and>
    (CHR ''='' \<notin> set other \<longrightarrow> other \<noteq> key \<longrightarrow>
      env_lookup other (upsert_content key value existing) = env_lookup other existing)"
proof (intro conjI impI)
  let ?P = "\<lambda>k l. starts_with l (k @ ''='')" and ?new = "key @ ''='' @ value"
  let ?ls = "rust_lines existing"
  have find: "find (?P k) (rust_lines (upsert_content key value existing)) =
      find (?P k) (if \<exists>l \<in> set ?ls. ?P key l then map (\<lambda>l. if ?P key l then ?new else l) ?ls
        else ?ls @ [?new])" for k
  proof -
    have "\<not> ?P k []" by (simp add: starts_with_iff)
    from find_upsert [where P = "?P k", OF assms(1-3) this] show ?thesis by (simp only: Let_def)
  qed
  have hit: "?P key ?new" using starts_with_self [of "key @ ''=''" "value"] by simp
  have "find (?P key) (rust_lines (upsert_content key value existing)) = Some ?new"
  proof (cases "\<exists>l \<in> set ?ls. ?P key l")
    case True
    then show ?thesis unfolding find using find_map_hit [of ?ls "?P key" ?new] hit by simp
  next
    case False
    then show ?thesis
      unfolding find using find_none_miss [of ?ls "?P key"] hit by (simp add: find_append)
  qed
  then show "env_lookup key (upsert_content key value existing) = Some value"
    by (simp add: env_lookup_def)
  assume other: "CHR ''='' \<notin> set other" "other \<noteq> key"
  have miss: "\<not> ?P other l" if "?P key l" for l
    using starts_with_two_keys [OF other(1) assms(4) _ that] other(2) by blast
  have "find (?P other) (rust_lines (upsert_content key value existing)) = find (?P other) ?ls"
  proof (cases "\<exists>l \<in> set ?ls. ?P key l")
    case True
    then show ?thesis
      unfolding find using find_map_miss [of "?P key" "?P other" ?new ?ls] miss hit by simp
  next
    case False
    then show ?thesis
      unfolding find using miss [OF hit] by (simp add: find_append split: option.split)
  qed
  then show "env_lookup other (upsert_content key value existing) = env_lookup other existing"
    by (simp add: env_lookup_def)
qed


lemma clean_append [simp]: "clean_line (a @ b) \<longleftrightarrow> clean_line a \<and> clean_line b"
  by (auto simp: clean_line_def)

lemma clean_Cons [simp]: "clean_line (c # b) \<longleftrightarrow> c \<noteq> newline \<and> c \<noteq> return \<and> clean_line b"
  by (auto simp: clean_line_def)



section \<open>Writes\<close>

text \<open>What a file holds for \<open>upsert_env_var\<close>: nothing when it does not exist.\<close>

definition env_text :: "'w outside \<Rightarrow> string \<Rightarrow> 'w \<Rightarrow> string option" where
  "env_text os file w = (if os_exists os file w then os_read os file w else Some [])"

lemma upsert_env_var_eq [act_simps]:
  "upsert_env_var os file k v st = (Done u, st') \<longleftrightarrow> (\<exists>text. env_text os file (cli_world st) = Some text \<and>
     write_file os file (upsert_content k v text) ''writing .env file'' st = (Done (), st'))"
  "upsert_env_var os file k v st = (Err e, st') \<longleftrightarrow>
     env_text os file (cli_world st) = None \<and> e = ''reading .env file'' \<and> st' = st \<or>
     (\<exists>text. env_text os file (cli_world st) = Some text \<and>
       write_file os file (upsert_content k v text) ''writing .env file'' st = (Err e, st'))"
  "upsert_env_var os file k v st \<noteq> (Trap t, st')"
  unfolding upsert_env_var_def write_file_def [symmetric] by (auto simp: env_text_def act_simps)

text \<open>An action that leaves a part of the state as it is and does not panic.\<close>

definition calm :: "('w cli_state \<Rightarrow> 'b) \<Rightarrow> ('w, 'a) cli \<Rightarrow> bool" where
  "calm f m \<longleftrightarrow> (\<forall>st r st'. m st = (r, st') \<longrightarrow> f st' = f st \<and> (\<forall>t. r \<noteq> Trap t))"

lemma calmD: "calm f m \<Longrightarrow> m st = (r, st') \<Longrightarrow> f st' = f st"
  by (simp add: calm_def)

lemma calm_bind: "calm f m \<Longrightarrow> (\<And>a. calm f (k a)) \<Longrightarrow> calm f (bindS m k)"
  unfolding calm_def bindS_def by (fastforce split: prod.splits outcome.splits)

lemma calm_thenS: "calm f m \<Longrightarrow> calm f n \<Longrightarrow> calm f (thenS m n)"
  unfolding thenS_def by (rule calm_bind)

lemma calm_basic:
  "calm f (ret a)" "calm f (fail_if b e)" "calm f (gets g)"
  "calm cli_out (eprintln l)" "calm cli_files (eprintln l)" "calm cli_files (println l)"
  "calm cli_out (spawn os prog args e)" "calm cli_files (spawn os prog args e)"
  "calm cli_files (answer_of q)"
  by (auto simp: calm_def run_simps eprintln_def println_def spawn_def answer_of_def Let_def
      split: prod.splits option.splits sum.splits if_splits)

lemmas calm_rules = calm_bind calm_thenS calm_basic

lemma calm_resolve: "calm cli_out (resolve_wasm os wasm)" "calm cli_files (resolve_wasm os wasm)"
  by (cases wasm; simp add: resolve_wasm_def calm_rules)+

lemma calm_deploy:
  "calm cli_out (deploy_wasm os rpc pass key path)" "calm cli_files (deploy_wasm os rpc pass key path)"
  unfolding deploy_wasm_def Let_def by (intro calm_rules; fail)+


text \<open>
  How an action can fail as far as the files are concerned: it has touched none, or only emptied
  the given one, whose content it then could not write.
\<close>

definition leaves_files :: "string \<Rightarrow> string \<Rightarrow> (string, 'a) outcome \<Rightarrow> 'w cli_state \<Rightarrow> 'w cli_state \<Rightarrow> bool" where
  "leaves_files path msg r st st' \<longleftrightarrow> (\<exists>e. r = Err e) \<and>
     (cli_files st' = cli_files st \<or> r = Err msg \<and> cli_files st' = cli_files st @ [Created path])"

definition fails_clean :: "string \<Rightarrow> string \<Rightarrow> ('w, 'a) cli \<Rightarrow> bool" where
  "fails_clean path msg m \<longleftrightarrow> (\<forall>st r st'. m st = (r, st') \<longrightarrow> (\<exists>a. r = Done a) \<or> leaves_files path msg r st st')"

lemma fails_cleanD:
  "fails_clean path msg m \<Longrightarrow> m st = (r, st') \<Longrightarrow> \<nexists>a. r = Done a \<Longrightarrow> leaves_files path msg r st st'"
  unfolding fails_clean_def by blast

lemma fails_clean_bind:
  assumes m: "calm cli_files m" and k: "\<And>a. fails_clean path msg (k a)"
  shows "fails_clean path msg (bindS m k)"
  unfolding fails_clean_def
proof (intro allI impI)
  fix st r st'
  assume run: "bindS m k st = (r, st')"
  obtain x st1 where x: "m st = (x, st1)" by fastforce
  with m have same: "cli_files st1 = cli_files st" "\<And>t. x \<noteq> Trap t" by (simp_all add: calm_def)
  show "(\<exists>a. r = Done a) \<or> leaves_files path msg r st st'"
  proof (cases x)
    case (Done a)
    then have "k a st1 = (r, st')" using run x by (simp add: bindS_def)
    then have "(\<exists>a. r = Done a) \<or> leaves_files path msg r st1 st'" using fails_cleanD [OF k] by metis
    then show ?thesis using same(1) by (simp add: leaves_files_def)
  qed (use run x same in \<open>auto simp: bindS_def leaves_files_def\<close>)
qed


lemma resolve_wasm_Done:
  "resolve_wasm os wasm st = (Done path, st') \<Longrightarrow>
     path = unwrap_or ''target/wasm32-unknown-unknown/release/escrow.wasm'' wasm \<and>
     (wasm \<noteq> None \<longrightarrow> st' = st)"
  by (auto simp: resolve_wasm_def act_simps unwrap_or_def split: option.splits)

lemma deploy_wasm_Done:
  assumes "deploy_wasm os rpc pass key path st = (Done i, st')"
  obtains p where
    "os_spawn os ''stellar'' (deploy_args path key rpc pass) (cli_world st) = (Some p, cli_world st')"
    and "pr_ok p" and "i = trim (pr_stdout p)" and "i \<noteq> []"
    and "last (cli_calls st') = (''stellar'', deploy_args path key rpc pass)"
  using assms unfolding deploy_wasm_def Let_def
  by (simp only: act_simps) auto


lemma upsert_fails_clean:
  assumes "\<And>st. \<exists>st'. n st = (Done (), st')"
  shows "fails_clean file ''writing .env file'' (thenS (upsert_env_var os file k v) n)"
  unfolding fails_clean_def
proof (intro allI impI)
  fix st r st'
  assume run: "thenS (upsert_env_var os file k v) n st = (r, st')"
  obtain x st1 where x: "upsert_env_var os file k v st = (x, st1)" by fastforce
  show "(\<exists>a. r = Done a) \<or> leaves_files file ''writing .env file'' r st st'"
    using run x assms [of st1]
    by (cases x) (auto simp: run_simps upsert_env_var_eq write_file_eq leaves_files_def)
qed

lemma output_done: "\<exists>st'. output_result os as_json data human st = (Done (), st')"
  by (simp add: output_result_eq)

lemma deploy_fails_clean:
  "fails_clean file ''writing .env file'' (deploy_contract os rpc pass wasm key file as_json)"
  unfolding deploy_contract_def
  by (intro fails_clean_bind upsert_fails_clean calm_resolve calm_deploy output_done)


text \<open>A deployment whose id cannot be stored does not report the id either.\<close>

lemma deploy_id_lost:
  assumes "resolve_wasm os wasm st = (Done path, st1)"
    and "deploy_wasm os rpc pass key path st1 = (Done i, st2)"
    and "env_text os file (cli_world st2) = None"
  shows "deploy_contract os rpc pass wasm key file as_json st = (Err ''reading .env file'', st2) \<and>
    cli_out st2 = cli_out st"
  using assms calmD [OF calm_resolve(1) assms(1)] calmD [OF calm_deploy(1) assms(2)]
  by (simp add: deploy_contract_def act_simps)

lemma write_file_written:
  assumes "write_file os file text msg st = (Done (), st'\<lparr>cli_out := x\<rparr>)"
  shows "\<exists>w. os_create os file (cli_world st) = (True, w) \<and> os_write_all os file text w = (True, cli_world st') \<and>
    cli_files st' = cli_files st @ [Created file, Wrote file text] \<and> cli_calls st' = cli_calls st"
proof -
  from assms obtain w w' where ops: "os_create os file (cli_world st) = (True, w)"
    "os_write_all os file text w = (True, w')"
    and eq: "st'\<lparr>cli_out := x\<rparr> = st\<lparr>cli_world := w', cli_files := cli_files st @ [Created file, Wrote file text]\<rparr>"
    by (auto simp: write_file_eq)
  show ?thesis
    using ops arg_cong [OF eq, of cli_world] arg_cong [OF eq, of cli_files] arg_cong [OF eq, of cli_calls] by simp
qed

text \<open>One variable of a file gets a value and the others keep theirs.\<close>

definition sets_only :: "string \<Rightarrow> string \<Rightarrow> string \<Rightarrow> string \<Rightarrow> bool" where
  "sets_only key v old new \<longleftrightarrow> env_lookup key new = Some v \<and>
     (\<forall>k. CHR ''='' \<notin> set k \<longrightarrow> k \<noteq> key \<longrightarrow> env_lookup k new = env_lookup k old)"

text \<open>
  C37. Deployment stores the id. When the deployment of a contract ends without an error, the last
  process was the deployment of the given code (or of the code the build step makes), it succeeded
  and printed an id that is not empty, and exactly one file was created and
  written: the given one, with its old text updated. If that text has no carriage return and the id
  is one line, \<^verbatim>\<open>ESCROW_CONTRACT_ID\<close> then reads as this id and every other variable as before. When it
  ends with an error, no file was touched, except that a failing write of the given file may have
  emptied it: \<^verbatim>\<open>File::create\<close> truncates before the new text is written.
\<close>

theorem deploy_stores_id:
  assumes "deploy_contract os rpc pass wasm key file as_json st = (r, st')"
  shows "(r = Done () \<longrightarrow> (\<exists>args p w w1 w2 old new.
      args = deploy_args (unwrap_or ''target/wasm32-unknown-unknown/release/escrow.wasm'' wasm) key rpc pass \<and>
      (wasm \<noteq> None \<longrightarrow> w = cli_world st) \<and>
      os_spawn os ''stellar'' args w = (Some p, w1) \<and> last (cli_calls st') = (''stellar'', args) \<and>
      pr_ok p \<and> trim (pr_stdout p) \<noteq> [] \<and> env_text os file w1 = Some old \<and>
      os_create os file w1 = (True, w2) \<and> os_write_all os file new w2 = (True, cli_world st') \<and>
      cli_files st' = cli_files st @ [Created file, Wrote file new] \<and>
      (return \<notin> set old \<longrightarrow> clean_line (trim (pr_stdout p)) \<longrightarrow>
        sets_only ''ESCROW_CONTRACT_ID'' (trim (pr_stdout p)) old new))) \<and>
    (r \<noteq> Done () \<longrightarrow> leaves_files file ''writing .env file'' r st st')"
    (is "(_ \<longrightarrow> ?Q) \<and> _")
proof (intro conjI impI)
  assume "r = Done ()"
  with assms obtain path i st1 st2 where a: "resolve_wasm os wasm st = (Done path, st1)"
    and b: "deploy_wasm os rpc pass key path st1 = (Done i, st2)"
    and c: "upsert_env_var os file ''ESCROW_CONTRACT_ID'' i st2 = (Done (), st'\<lparr>cli_out := cli_out st2\<rparr>)"
    by (auto simp: deploy_contract_def act_simps)
  let ?args = "deploy_args path key rpc pass"
  from b obtain p where p: "os_spawn os ''stellar'' ?args (cli_world st1) = (Some p, cli_world st2)"
    "pr_ok p" "i = trim (pr_stdout p)" "i \<noteq> []" "last (cli_calls st2) = (''stellar'', ?args)"
    by (rule deploy_wasm_Done)
  from c obtain old where old: "env_text os file (cli_world st2) = Some old"
    and w: "write_file os file (upsert_content ''ESCROW_CONTRACT_ID'' i old) ''writing .env file'' st2
      = (Done (), st'\<lparr>cli_out := cli_out st2\<rparr>)"
    by (auto simp: upsert_env_var_eq)
  have files: "cli_files st2 = cli_files st"
    using calmD [OF calm_resolve(2) a] calmD [OF calm_deploy(2) b] by simp
  let ?new = "upsert_content ''ESCROW_CONTRACT_ID'' i old"
  obtain w2 where written: "os_create os file (cli_world st2) = (True, w2)"
    "os_write_all os file ?new w2 = (True, cli_world st')"
    "cli_files st' = cli_files st @ [Created file, Wrote file ?new]" "cli_calls st' = cli_calls st2"
    using write_file_written [OF w] files by auto
  have "sets_only ''ESCROW_CONTRACT_ID'' i old ?new" if "return \<notin> set old" "clean_line i"
  proof -
    have "newline \<notin> set (''ESCROW_CONTRACT_ID'' @ i)" "return \<notin> set (''ESCROW_CONTRACT_ID'' @ i)"
      using that(2) by (simp_all add: clean_line_def)
    from upsert_sets_variable [OF that(1) this] show ?thesis by (simp add: sets_only_def)
  qed
  then have stored: "return \<notin> set old \<longrightarrow> clean_line i \<longrightarrow> sets_only ''ESCROW_CONTRACT_ID'' i old ?new" by blast
  note path = resolve_wasm_Done [OF a]
  have args: "?args = deploy_args (unwrap_or ''target/wasm32-unknown-unknown/release/escrow.wasm'' wasm) key rpc pass"
    and start: "wasm \<noteq> None \<longrightarrow> cli_world st1 = cli_world st"
    and last: "last (cli_calls st') = (''stellar'', ?args)" "trim (pr_stdout p) \<noteq> []"
    using path p(3-5) written(4) by simp_all
  show ?Q
    by (intro exI conjI) (rule args start p(1,2) last old written(1-3) [unfolded p(3)] stored [unfolded p(3)])+
next
  assume "r \<noteq> Done ()"
  then show "leaves_files file ''writing .env file'' r st st'"
    using fails_cleanD [OF deploy_fails_clean assms] by auto
qed

text \<open>A disk, as a map from paths to contents, on which every process succeeds.\<close>

definition ex_disk :: "(string \<Rightarrow> string option) outside" where
  "ex_disk = \<lparr>os_spawn = (\<lambda>prog args w. (Some \<lparr>pr_ok = True, pr_status = ''0'', pr_stdout = ''CNEW'' @ [newline],
       pr_stderr = []\<rparr>, w)),
     os_exists = (\<lambda>p w. w p \<noteq> None), os_read = (\<lambda>p w. w p), os_create = (\<lambda>p w. (True, w(p \<mapsto> []))),
     os_write_all = (\<lambda>p c w. (True, w(p \<mapsto> c))),
     js_pretty = (\<lambda>v. ''json''), js_compact = (\<lambda>v. ''json''), js_parse = (\<lambda>s. None),
     show_xlm = (\<lambda>n. [])\<rparr>"

definition ex_env_file :: string where
  "ex_env_file = ''RPC_URL=r'' @ [newline] @ ''ESCROW_CONTRACT_ID=old'' @ [newline]"

definition ex_start :: "(string \<Rightarrow> string option) cli_state" where
  "ex_start = \<lparr>cli_world = [''escrow.wasm'' \<mapsto> ''code'', ''.env'' \<mapsto> ex_env_file],
     cli_calls = [], cli_files = [], cli_out = [], cli_err = []\<rparr>"

lemma ex_trim: "trim (''CNEW'' @ [newline]) = ''CNEW''"
  by (simp add: trim_def trim_where_def is_space_def)

theorem deploy_stores_id_witness:
  "\<exists>st' new. deploy_contract ex_disk ''r'' ''p'' (Some ''escrow.wasm'') ''S1'' ''.env'' False ex_start = (Done (), st') \<and>
     cli_files st' = [Created ''.env'', Wrote ''.env'' new] \<and> env_lookup ''ESCROW_CONTRACT_ID'' new = Some ''CNEW'' \<and>
     env_lookup ''RPC_URL'' new = env_lookup ''RPC_URL'' ex_env_file"
proof -
  obtain st' where e: "deploy_contract ex_disk ''r'' ''p'' (Some ''escrow.wasm'') ''S1'' ''.env'' False ex_start
      = (Done (), st')"
    by (simp add: deploy_contract_def resolve_wasm_def deploy_wasm_def upsert_env_var_def
        spawn_def create_file_def write_all_def output_result_def println_def run_simps Let_def ex_disk_def
        ex_start_def ex_trim [simplified])
  from deploy_stores_id [OF e, THEN conjunct1, rule_format, OF refl] obtain new
    where "cli_files st' = [Created ''.env'', Wrote ''.env'' new]"
    and "return \<notin> set ex_env_file \<longrightarrow> clean_line ''CNEW'' \<longrightarrow>
      sets_only ''ESCROW_CONTRACT_ID'' ''CNEW'' ex_env_file new"
    by (auto simp: ex_disk_def ex_start_def env_text_def ex_trim [simplified])
  with e show ?thesis by (auto simp: ex_env_file_def sets_only_def clean_line_def)
qed












end
