(* ===== verification/Spec2Isabelle.thy ===== *)
theory Spec2Isabelle
  imports Escrow_Custody Escrow_History Escrow_Gaps Network_Props Reputation_Client Cli_Files Cli_Props
begin

text \<open>
  A verification of StarEscrow, a programmable escrow on Stellar: Rust contracts for the Soroban
  host and a command line client.

  \<^bold>\<open>The program.\<close> Three contracts and a client. The escrow contract
  (\<^verbatim>\<open>contracts/escrow/src\<close>) keeps one escrow per instance: a payer locks the sum of a list of
  milestones, the freelancer submits them one by one, the payer approves each, which pays it less a
  protocol fee; the payer can cancel or, after a deadline, expire the escrow and get the rest back. A
  recurring mode releases payments at an interval. An administrator can pause it. The factory
  (\<^verbatim>\<open>contracts/factory/src/lib.rs\<close>) keeps many single-payment escrows under numeric ids with an index
  per payer and per freelancer. The reputation contract (\<^verbatim>\<open>contracts/reputation/src/lib.rs\<close>) counts
  completed and cancelled escrows per address, as reported by registered callers. The client
  (\<^verbatim>\<open>clients/cli/src/main.rs\<close>) turns its commands into calls of the \<^verbatim>\<open>stellar\<close> program and keeps the
  address of a deployed contract in a \<^verbatim>\<open>.env\<close> file. The contracts meet in the token contract and in the
  ledger they share; the escrow crate declares a client for the reputation contract, but no entry point
  uses it yet.

  \<^bold>\<open>The theories.\<close>
  \<^item> \<open>Prelude\<close>: machine integers, Rust's checked and saturating arithmetic, state-passing actions with
    three outcomes (a value, a returned error, a panic), runs of a step relation, and the interfaces:
    \<open>keyed_store\<close> (storage under a key), \<open>machine\<close> (a step relation with an invariant),
    \<open>monotone_machine\<close> (with an order every step respects). Each interface is interpreted on the
    storage or on the step relation of every component that provides it. \<open>Soroban\<close> adds
    \<open>contract_code\<close>, what a contract may do to the accounts of others, interpreted on all three contracts.
  \<^item> \<open>Soroban\<close>: the host as a contract sees it: context, instance storage with its time-to-live, events,
    authorisation, token transfers, the rollback of a failed call (\<open>transact\<close>), the documented
    behaviour of a token (\<open>token_laws\<close>, \<open>token_serves\<close>) and a concrete ledger that has it.
  \<^item> \<open>Escrow_Storage\<close> (\<^verbatim>\<open>storage.rs\<close>, \<^verbatim>\<open>errors.rs\<close>): data types, storage keys, accessors.
    \<open>Escrow_Events\<close> (\<^verbatim>\<open>events.rs\<close>, \<^verbatim>\<open>yield.rs\<close>): the events and the calls of the yield protocol.
    \<open>Escrow_Contract\<close> (\<^verbatim>\<open>lib.rs\<close>): every function of the contract, and \<open>exec_call\<close>, the entry points
    that change the state as one function (the queries \<open>get_status\<close> and \<open>get_escrow\<close> stand by themselves). \<open>Escrow_Limits\<close>: the rate limiter and the allow-list functions of \<^verbatim>\<open>storage.rs\<close>.
  \<^item> \<open>Escrow_Facts\<close> and \<open>Escrow_Errors\<close>: for every function the exact condition and effect of its
    success, and of each error. \<open>Escrow_Life\<close>: an abstract specification of the life of the record,
    which the contract refines, with the properties of its history. \<open>Escrow_System\<close>: the
    contract as a reactive system between arbitrary activity of the rest of the ledger, its invariant
    and its solvency. \<open>Escrow_Payments\<close>, \<open>Escrow_Completion\<close>, \<open>Escrow_Recurring\<close>: payments over whole
    runs, that an active one-off escrow can be completed, and that a recurring one pays and completes by
    its releases alone. \<open>Escrow_Pacing\<close>: the schedule of the releases, read off a history. \<open>Escrow_Typing\<close>: a specification of the errors of all entry points, and what can make
    them panic. \<open>Escrow_Example\<close>: the concrete escrow of the witnesses.
  \<^item> \<open>Escrow_Custody\<close> (the money), \<open>Escrow_History\<close> (terms, authority, pause, errors) and
    \<open>Escrow_Gaps\<close> (where the code departs from its documentation): the properties of the escrow.
  \<^item> \<open>Factory\<close>, \<open>Factory_System\<close>, \<open>Factory_Life\<close>, \<open>Factory_Props\<close>: the factory, its invariant, the
    specification of the life of one of its escrows, and its properties. \<open>Reputation\<close>,
    \<open>Reputation_Props\<close>: the reputation contract. \<open>Reputation_Client\<close> (\<^verbatim>\<open>reputation.rs\<close> of the escrow
    crate): a report as a call of one contract in another.
  \<^item> \<open>Network\<close>, \<open>Network_Props\<close>: any number of escrow contracts and factories on one ledger.
  \<^item> \<open>Cli_Text\<close> (strings, the \<^verbatim>\<open>.env\<close> file, the fee of a simulation), \<open>Cli\<close> (the commands), \<open>Cli_Setup\<close>
    (the setup wizard and the hash of remote code), \<open>Cli_Files\<close> (what is written, and when) and
    \<open>Cli_Props\<close> (reports): the client. Writing a file is modelled as \<^verbatim>\<open>File::create\<close>, which empties it, and
    \<^verbatim>\<open>write_all\<close>, each of which can fail.

  \<^bold>\<open>How the model corresponds to the code.\<close> A Rust \<^verbatim>\<open>fn\<close> is one definition of the same name (with a
  prefix where two crates use the same name), a \<^verbatim>\<open>struct\<close> is a record, an \<^verbatim>\<open>enum\<close> a datatype. The
  statements of a function appear in their order, each call that changes state included; \<^verbatim>\<open>?\<close> and early
  returns are the error outcome, \<^verbatim>\<open>expect\<close>, \<^verbatim>\<open>unwrap\<close>, a missing signature, a failed call of another
  contract and an arithmetic overflow (the release profile sets \<^verbatim>\<open>overflow-checks\<close>) are panics.
  \<^verbatim>\<open>u32\<close> and \<^verbatim>\<open>u64\<close> are words, \<^verbatim>\<open>i128\<close> is an integer whose every operation checks the 128-bit range,
  and its division rounds towards zero. A storage key is the tuple the host sees, the name of the
  variant and its payload, without the name of the Rust enum; two enums that share a variant share
  the key. All loops are over finite vectors and are structural recursions, so no fuel is needed.

  \<^bold>\<open>How code that does not type-check is read.\<close> \<^verbatim>\<open>release_recurring\<close>, \<^verbatim>\<open>cancel\<close> and \<^verbatim>\<open>expire\<close> read
  \<^verbatim>\<open>data.amount\<close>, a field \<^verbatim>\<open>EscrowData\<close> does not have: the model takes this value as the argument
  \<open>amt\<close>, a function of the record, and no theorem assumes more of it than it says. \<^verbatim>\<open>approve\<close> passes the pair
  \<^verbatim>\<open>(amount - fee, fee)\<close> as an amount: its first component is meant, as in \<^verbatim>\<open>release_recurring\<close>.
  \<^verbatim>\<open>&mut data.milestones[i]\<close> is read as an update of that element in place.

  \<^bold>\<open>What is assumed.\<close> Code outside the repository is a parameter: the token and yield protocol contracts
  (\<open>host\<close>), the \<^verbatim>\<open>stellar\<close> program, the file system and the JSON library (\<open>outside\<close>). Theorems about
  balances assume \<open>token_laws\<close> (a transfer that succeeds moves a non-negative, covered amount and nothing
  else), theorems that a call succeeds also \<open>token_serves\<close> (a covered, authorised transfer is
  served), those about several tokens \<open>token_kept\<close> (a call on one token does not take out of another).
  The rest of the ledger may do anything but take tokens out of the contract's own account; the network
  theorem derives this for the other contracts from \<open>standard_tokens\<close> (a transfer needs the
  authorisation of the sender, moves a non-negative amount and touches no other token) and
  \<open>deposits_confined\<close> (a deposit of one contract in a yield protocol takes nothing from the others). A
  plain ledger satisfies all of these, and every theorem with a hypothesis is applied to a concrete run on
  it.

  \<^bold>\<open>What is shown.\<close> C1 to C5 are about the custody of the money in a one-off escrow without a yield
  protocol: solvency, exact refunds and payments, no double payment, no active escrow is stuck. C6 to C8: the
  solvency of the factory, then of any number of escrow contracts and factories on one ledger, and the
  history of the records of the factory. C9 to C13: the terms are final, every call needs its signature,
  the contract refines the life cycle, its errors are exactly those of a specification, and no call
  panics over what is stored. C14 to C20: releases keep their distance and complete the escrow, expiry, fee,
  creation, pause and authority over whole runs. C21 to C24: indexes and ids of the factory, the refinement
  of one life cycle per id, and settlement. C25 to C27 and C40: the reputation counters, traced back to the
  administrator, the score, reports from another contract, and that nothing recorded is lost. C28 to C35:
  limits of the code, each as a theorem about what it does: the rate limiter, refunds of recurring escrows,
  payments after an escrow has ended, milestones created as approved, fees above one hundred percent, the
  shared storage key, unused yield withdrawal, the allow-list. C36: the configuration is fixed.
  C37 to C39: the files the client writes and its reports. Smaller facts that
  the findings cite are lemmas: \<open>work_submitted_unreachable\<close>, \<open>calls_extend_ttl\<close> and
  \<open>token_never_refused\<close> in \<open>Escrow_Gaps\<close>, \<open>deploy_id_lost\<close> in \<open>Cli_Files\<close>.

  \<^bold>\<open>What is not modelled.\<close> The library clap, which fills the record \<open>cli_args\<close> from the command line and
  the environment; the tests and their recorded snapshots; the budget of the host (CPU, memory, size of
  an entry) and the expiry of storage entries: the model keeps the time-to-live a call sets but never lets it
  run out. The client trait for the reputation contract has no body to translate; \<open>Reputation_Client\<close>
  composes a call of it with the model of that contract. Planned next: the export, estimate and list commands of the client as properties, the entry
  points that should report to the reputation contract composed with \<open>Reputation_Client\<close>, and the
  reputation contract as a part of the network.
\<close>

end
